(* ===== verification/SR_Prelude.thy ===== *)
theory SR_Prelude
  imports Main "HOL-Library.Word" "HOL-Library.AList" "HOL-Library.Char_ord"
    "HOL-Library.List_Lexorder"
begin

text \<open>
  The shared base of the development: the names of Go's machine types, the lemma
  collections that the component theories extend, and generic lemmas on lists and on
  association lists. A Go map that the code iterates over is an association list with
  distinct keys (Go leaves the iteration order open, and the list fixes one); a Go map that
  is only looked up is a HOL map.
\<close>

section \<open>Go's machine types\<close>

type_synonym u8 = "8 word"
type_synonym u16 = "16 word"
type_synonym u32 = "32 word"
type_synonym u64 = "64 word"

section \<open>Lemma collections\<close>

named_theorems sr_defs \<open>definitions that component proofs unfold\<close>
named_theorems sr_frame \<open>what an operation leaves unchanged\<close>
named_theorems sr_eval \<open>evaluation of closed terms of the model\<close>

section \<open>Association lists as Go maps\<close>

definition go_map_wf :: "('k \<times> 'v) list \<Rightarrow> bool" where
  "go_map_wf m \<longleftrightarrow> distinct (map fst m)"

lemma go_map_wf_Nil [simp, intro]: "go_map_wf []"
  by (simp add: go_map_wf_def)

lemma go_map_wf_update [simp, intro]: "go_map_wf m \<Longrightarrow> go_map_wf (AList.update k v m)"
  by (simp add: go_map_wf_def distinct_update)

lemma go_map_wf_delete [simp, intro]: "go_map_wf m \<Longrightarrow> go_map_wf (AList.delete k m)"
  by (simp add: go_map_wf_def distinct_delete)

lemma go_map_wf_filter [simp, intro]: "go_map_wf m \<Longrightarrow> go_map_wf (filter P m)"
  by (simp add: go_map_wf_def distinct_map_filter)

lemma map_of_filter_key:
  "map_of (filter (\<lambda>(k, v). P k) m) = (\<lambda>k. if P k then map_of m k else None)"
  by (induction m) (auto simp: fun_eq_iff)

lemma map_of_SomeI: "go_map_wf m \<Longrightarrow> (k, v) \<in> set m \<Longrightarrow> map_of m k = Some v"
  by (simp add: go_map_wf_def)

lemma map_of_Some_iff: "go_map_wf m \<Longrightarrow> map_of m k = Some v \<longleftrightarrow> (k, v) \<in> set m"
  by (simp add: go_map_wf_def)

lemma map_of_set_eq:
  assumes "go_map_wf m" "go_map_wf m'" "set m = set m'"
  shows "map_of m = map_of m'"
proof
  fix k
  show "map_of m k = map_of m' k"
  proof (cases "map_of m k")
    case None
    then have "k \<notin> fst ` set m'" using assms(3) by (simp add: map_of_eq_None_iff)
    then have "map_of m' k = None" by (simp add: map_of_eq_None_iff)
    with None show ?thesis by simp
  next
    case (Some v)
    then have "(k, v) \<in> set m'" using assms(3) by (auto dest: map_of_SomeD)
    with Some assms(2) show ?thesis by (simp add: map_of_SomeI)
  qed
qed

lemma length_update_fresh:
  "k \<notin> fst ` set m \<Longrightarrow> length (AList.update k v m) = Suc (length m)"
  by (induction m) auto

lemma length_update_present:
  "k \<in> fst ` set m \<Longrightarrow> length (AList.update k v m) = length m"
  by (induction m) auto

section \<open>Lists\<close>

lemma find_Some_set: "find P xs = Some x \<Longrightarrow> x \<in> set xs \<and> P x"
  by (induction xs) (auto split: if_splits)

lemma find_None_set: "find P xs = None \<longleftrightarrow> (\<forall>x \<in> set xs. \<not> P x)"
  by (induction xs) auto

text \<open>
  A search that at most one element can satisfy does not depend on the order of the list:
  the fact behind every loop over a Go map that returns at its first hit.
\<close>

lemma find_unique_order:
  assumes "set xs = set ys"
    and "\<And>x y. x \<in> set xs \<Longrightarrow> y \<in> set xs \<Longrightarrow> P x \<Longrightarrow> P y \<Longrightarrow> x = y"
  shows "find P xs = find P ys"
proof (cases "find P xs")
  case None
  then have "find P ys = None" using assms(1) by (simp add: find_None_set)
  with None show ?thesis by simp
next
  case (Some x)
  then have x: "x \<in> set ys" "P x" using assms(1) by (auto dest: find_Some_set)
  then obtain y where y: "find P ys = Some y" by (cases "find P ys") (auto simp: find_None_set)
  then have "y \<in> set xs" "P y" using assms(1) by (auto dest: find_Some_set)
  with x assms have "x = y" by blast
  with Some y show ?thesis by simp
qed

end
