(* ===== verification/Go_Lib.thy ===== *)
theory Go_Lib
  imports SR_Prelude
begin

text \<open>
  What the source uses of Go's standard packages \<open>strings\<close>, \<open>bytes\<close> and \<open>utf8\<close>. A Go
  string is a sequence of bytes, here a list of characters (a HOL character is a byte). The
  functions with a separator are used with a non-empty separator only.
\<close>

section \<open>Searching, cutting and splitting\<close>

definition HasPrefix :: "string \<Rightarrow> string \<Rightarrow> bool" where
  "HasPrefix s p \<longleftrightarrow> take (length p) s = p"

definition TrimPrefix :: "string \<Rightarrow> string \<Rightarrow> string" where
  "TrimPrefix s p = (if HasPrefix s p then drop (length p) s else s)"

fun IndexOf :: "string \<Rightarrow> string \<Rightarrow> nat option" where
  "IndexOf [] sub = (if sub = [] then Some 0 else None)"
| "IndexOf (c # s) sub =
     (if HasPrefix (c # s) sub then Some 0 else map_option Suc (IndexOf s sub))"

definition Contains :: "string \<Rightarrow> string \<Rightarrow> bool" where
  "Contains s sub \<longleftrightarrow> IndexOf s sub \<noteq> None"

text \<open>\<open>strings.Cut\<close>: the text before and after the first separator, and whether there is one.\<close>

definition Cut :: "string \<Rightarrow> string \<Rightarrow> string \<times> string \<times> bool" where
  "Cut s sep =
     (case IndexOf s sep of
        None \<Rightarrow> (s, [], False)
      | Some i \<Rightarrow> (take i s, drop (i + length sep) s, True))"

function Split :: "string \<Rightarrow> string \<Rightarrow> string list" where
  "Split s sep =
     (if sep = [] then map (\<lambda>c. [c]) s
      else case IndexOf s sep of
        None \<Rightarrow> [s]
      | Some i \<Rightarrow> take i s # Split (drop (i + length sep) s) sep)"
  by pat_completeness auto

lemma IndexOf_bound: "IndexOf s sub = Some i \<Longrightarrow> i + length sub \<le> length s"
proof (induction s sub arbitrary: i rule: IndexOf.induct)
  case (1 sub)
  then show ?case by (auto split: if_splits)
next
  case (2 c s sub)
  show ?case
  proof (cases "HasPrefix (c # s) sub")
    case True
    then have "length (take (length sub) (c # s)) = length sub" by (simp add: HasPrefix_def)
    then have "length sub \<le> length (c # s)" by simp
    with True "2.prems" show ?thesis by simp
  next
    case False
    with "2.prems" obtain j where "IndexOf s sub = Some j" "i = Suc j" by auto
    with "2.IH"[OF False] show ?thesis by simp
  qed
qed

termination Split
proof (relation "measure (\<lambda>(s, sep). length s)", simp)
  fix s sep :: string and i
  assume "sep \<noteq> []" and i: "IndexOf s sep = Some i"
  then have "0 < length sep" by simp
  with IndexOf_bound[OF i] have "length s - (i + length sep) < length s" by linarith
  then show "((drop (i + length sep) s, sep), (s, sep)) \<in> measure (\<lambda>(s, sep). length s)"
    by simp
qed

declare Split.simps [simp del]

definition SplitN2 :: "string \<Rightarrow> string \<Rightarrow> string list" where
  "SplitN2 s sep = (case Cut s sep of (a, b, ok) \<Rightarrow> if ok then [a, b] else [s])"

fun Join :: "string list \<Rightarrow> string \<Rightarrow> string" where
  "Join [] sep = []"
| "Join [x] sep = x"
| "Join (x # y # ys) sep = x @ sep @ Join (y # ys) sep"

definition ReplaceAll :: "string \<Rightarrow> string \<Rightarrow> string \<Rightarrow> string" where
  "ReplaceAll s old new = Join (Split s old) new"

definition Trim :: "string \<Rightarrow> string \<Rightarrow> string" where
  "Trim s cutset =
     rev (dropWhile (\<lambda>c. c \<in> set cutset) (rev (dropWhile (\<lambda>c. c \<in> set cutset) s)))"

lemma HasPrefix_append [simp]: "HasPrefix (p @ s) p"
  by (simp add: HasPrefix_def)

lemma HasPrefix_iff: "HasPrefix s p \<longleftrightarrow> (\<exists>t. s = p @ t)"
  unfolding HasPrefix_def by (metis append_eq_conv_conj append_take_drop_id)

lemma TrimPrefix_append [simp]: "TrimPrefix (p @ s) p = s"
  by (simp add: TrimPrefix_def)

lemma Split_nonempty: "sep \<noteq> [] \<Longrightarrow> Split s sep \<noteq> []"
  by (subst Split.simps) (simp split: option.splits)

lemma Join_Split: "sep \<noteq> [] \<Longrightarrow> Join (Split s sep) sep = s"
proof (induction s sep rule: Split.induct)
  case (1 s sep)
  show ?case
  proof (cases "IndexOf s sep")
    case None
    with "1.prems" show ?thesis by (subst Split.simps) simp
  next
    case (Some i)
    have hd: "HasPrefix (drop i s) sep" using Some
      by (induction s sep arbitrary: i rule: IndexOf.induct) (auto simp: HasPrefix_def split: if_splits)
    then have eq: "s = take i s @ sep @ drop (i + length sep) s"
      by (metis HasPrefix_iff HasPrefix_def append_take_drop_id drop_drop add.commute)
    from "1" Some have IH: "Join (Split (drop (i + length sep) s) sep) sep = drop (i + length sep) s"
      by simp
    obtain y ys where "Split (drop (i + length sep) s) sep = y # ys"
      using Split_nonempty[OF "1.prems"] by (meson neq_Nil_conv)
    then have "Join (Split s sep) sep = take i s @ sep @ drop (i + length sep) s"
      using Some "1.prems" IH by (subst Split.simps) simp
    with eq show ?thesis by simp
  qed
qed

section \<open>Runes: UTF-8 as Go's \<open>range\<close> over a string decodes it\<close>

definition byte_of :: "char \<Rightarrow> nat" where
  "byte_of c = of_char c"

definition in_range :: "nat \<Rightarrow> nat \<Rightarrow> nat \<Rightarrow> bool" where
  "in_range lo hi b \<longleftrightarrow> lo \<le> b \<and> b \<le> hi"

text \<open>
  One decoding step on a non-empty string: the rune and the number of bytes it takes. An
  ill-formed sequence is the replacement rune \<open>U+FFFD\<close> of width one.
\<close>

definition DecodeRune :: "string \<Rightarrow> nat \<times> nat" where
  "DecodeRune s =
     (let at = (\<lambda>i. if i < length s then byte_of (s ! i) else 0);
          b0 = at 0; b1 = at 1; b2 = at 2; b3 = at 3; cont = in_range 128 191
      in if b0 < 128 then (b0, 1)
         else if in_range 194 223 b0 \<and> cont b1 then ((b0 - 192) * 64 + (b1 - 128), 2)
         else if in_range 224 239 b0 \<and> cont b2
              \<and> in_range (if b0 = 224 then 160 else 128) (if b0 = 237 then 159 else 191) b1
           then ((b0 - 224) * 4096 + (b1 - 128) * 64 + (b2 - 128), 3)
         else if in_range 240 244 b0 \<and> cont b2 \<and> cont b3
              \<and> in_range (if b0 = 240 then 144 else 128) (if b0 = 244 then 143 else 191) b1
           then ((b0 - 240) * 262144 + (b1 - 128) * 4096 + (b2 - 128) * 64 + (b3 - 128), 4)
         else (65533, 1))"

definition EncodeRune :: "nat \<Rightarrow> string" where
  "EncodeRune r =
     (if r < 128 then [char_of r]
      else if r < 2048 then [char_of (192 + r div 64), char_of (128 + r mod 64)]
      else if in_range 55296 57343 r \<or> 1114111 < r then map char_of [239, 191, 189 :: nat]
      else if r < 65536
        then [char_of (224 + r div 4096), char_of (128 + r div 64 mod 64), char_of (128 + r mod 64)]
      else [char_of (240 + r div 262144), char_of (128 + r div 4096 mod 64),
            char_of (128 + r div 64 mod 64), char_of (128 + r mod 64)])"

text \<open>The runes of a string, each with the bytes it was read from.\<close>

fun Runes :: "string \<Rightarrow> (nat \<times> string) list" where
  "Runes [] = []"
| "Runes (c # s) =
     (case DecodeRune (c # s) of
        (r, n) \<Rightarrow> (r, take n (c # s)) # Runes (drop (n - 1) s))"

definition IsSpace :: "nat \<Rightarrow> bool" where
  "IsSpace r \<longleftrightarrow> in_range 9 13 r \<or> in_range 8192 8202 r
     \<or> r \<in> {32, 133, 160, 5760, 8232, 8233, 8239, 8287, 12288}"

definition TrimSpace :: "string \<Rightarrow> string" where
  "TrimSpace s =
     concat (map snd (rev (dropWhile (\<lambda>x. IsSpace (fst x))
       (rev (dropWhile (\<lambda>x. IsSpace (fst x)) (Runes s))))))"

definition is_ascii :: "string \<Rightarrow> bool" where
  "is_ascii s \<longleftrightarrow> (\<forall>c \<in> set s. byte_of c < 128)"

lemma DecodeRune_ascii [simp]: "byte_of c < 128 \<Longrightarrow> DecodeRune (c # s) = (byte_of c, 1)"
  by (simp add: DecodeRune_def Let_def)

lemma Runes_ascii: "is_ascii s \<Longrightarrow> Runes s = map (\<lambda>c. (byte_of c, [c])) s"
  by (induction s) (auto simp: is_ascii_def)

lemma EncodeRune_ascii: "byte_of c < 128 \<Longrightarrow> EncodeRune (byte_of c) = [c]"
  by (simp add: EncodeRune_def byte_of_def)

lemma TrimSpace_empty [simp]: "TrimSpace [] = []"
  by (simp add: TrimSpace_def)

end
