(* ===== verification/Enums.thy ===== *)
theory Enums
  imports Go_Lib
begin

text \<open>
  The enumerations and constant tables of the code: \<open>global/enums.go\<close>,
  \<open>global/variables.go\<close>, \<open>sip/status\<close>, \<open>q850\<close>, \<open>numtype\<close> and \<open>sip/mode\<close>. A Go enumeration is a
  datatype with the constructors in the order of the source. The 131 header names
  (\<open>HeaderEnum\<close>) are numbered constants, as Go's \<open>iota\<close> numbers them, under one constructor.
  A Go table indexed by an enumeration is a list with the source's order; reading it out of
  range is \<open>None\<close>, Go's panic.
\<close>

section \<open>Sizes and limits\<close>

abbreviation (input) MediaStartPort :: int where "MediaStartPort \<equiv> 7000"
abbreviation (input) MediaEndPort :: int where "MediaEndPort \<equiv> 57000"
abbreviation (input) T1Timer :: int where "T1Timer \<equiv> 500"
abbreviation (input) CancelTimeOut :: int where "CancelTimeOut \<equiv> 10"
abbreviation (input) ReTXCount_max :: int where "ReTXCount_max \<equiv> 5"
abbreviation (input) SipPort :: int where "SipPort \<equiv> 5060"
abbreviation (input) MaxPort :: int where "MaxPort \<equiv> 65535"
abbreviation (input) EchoAnswerDelaySec :: int where "EchoAnswerDelaySec \<equiv> 2"
abbreviation (input) SessionDropDelaySec :: int where "SessionDropDelaySec \<equiv> 4"
abbreviation (input) MinMaxFwds :: int where "MinMaxFwds \<equiv> 1"
abbreviation (input) OodProbingSec :: int where "OodProbingSec \<equiv> 60"
abbreviation (input) IdProbingSec :: int where "IdProbingSec \<equiv> 60"
abbreviation (input) MultipartBoundary :: string where "MultipartBoundary \<equiv> ''unique-boundary-1''"
abbreviation (input) SipVersion :: string where "SipVersion \<equiv> ''SIP/2.0''"
abbreviation (input) MagicCookie :: string where "MagicCookie \<equiv> ''z9hG4bK''"
abbreviation (input) B2BUAName :: string where "B2BUAName \<equiv> ''SRGo''"
abbreviation (input) B2BUANameVersion :: string where "B2BUANameVersion \<equiv> ''SRGo/1.7.2''"

section \<open>Methods\<close>

datatype Method =
     UNKNOWN | INVITE | ReINVITE | REFER | ACK | CANCEL | BYE | OPTIONS | NOTIFY |
     UPDATE | PRACK | INFO | REGISTER | SUBSCRIBE | MESSAGE | PUBLISH | NEGOTIATE

text \<open>The enumeration value, as Go's \<open>iota\<close> numbers it.\<close>

definition Method_all :: "Method list" where
  "Method_all = [UNKNOWN, INVITE, ReINVITE, REFER, ACK, CANCEL, BYE, OPTIONS, NOTIFY, UPDATE, PRACK, INFO, REGISTER, SUBSCRIBE, MESSAGE, PUBLISH, NEGOTIATE]"

definition methods :: "string list" where
  "methods =
    [''UNKNOWN'', ''INVITE'', ''INVITE'', ''REFER'', ''ACK'', ''CANCEL'', ''BYE'',
     ''OPTIONS'', ''NOTIFY'', ''UPDATE'', ''PRACK'', ''INFO'', ''REGISTER'', ''SUBSCRIBE'',
     ''MESSAGE'', ''PUBLISH'', ''NEGOTIATE'']"

primrec Method_idx :: "Method \<Rightarrow> nat" where
  "Method_idx UNKNOWN = 0"
| "Method_idx INVITE = 1"
| "Method_idx ReINVITE = 2"
| "Method_idx REFER = 3"
| "Method_idx ACK = 4"
| "Method_idx CANCEL = 5"
| "Method_idx BYE = 6"
| "Method_idx OPTIONS = 7"
| "Method_idx NOTIFY = 8"
| "Method_idx UPDATE = 9"
| "Method_idx PRACK = 10"
| "Method_idx INFO = 11"
| "Method_idx REGISTER = 12"
| "Method_idx SUBSCRIBE = 13"
| "Method_idx MESSAGE = 14"
| "Method_idx PUBLISH = 15"
| "Method_idx NEGOTIATE = 16"

definition Method_String :: "Method \<Rightarrow> string" where
  "Method_String m = methods ! Method_idx m"

text \<open>\<open>slices.IndexFunc\<close> finds the first index with the name; \<open>UNKNOWN\<close> when there is none.\<close>

fun IndexFunc :: "('a \<Rightarrow> bool) \<Rightarrow> 'a list \<Rightarrow> nat option" where
  "IndexFunc p [] = None"
| "IndexFunc p (x # xs) = (if p x then Some 0 else map_option Suc (IndexFunc p xs))"

definition MethodFromName :: "string \<Rightarrow> Method" where
  "MethodFromName nm =
     (case IndexFunc (\<lambda>m. m = nm) methods of
        None \<Rightarrow> UNKNOWN
      | Some idx \<Rightarrow> Method_all ! idx)"

section \<open>Body types\<close>

datatype BodyType =
     None_body | SDP | DTMF | DTMFRelay | SIPFragment | SimpleMsgSummary |
     PlainText | AppJson | MultipartAlternative | MultipartFormData | MultipartMixed |
     MultipartRelated | ISUP | QSIG | PIDFXML | MSCPXML | MSCXML | VndEtsiPstnXML |
     VndOrangeInData | ResourceListXML | AnyXML | Unknown

primrec BodyType_idx :: "BodyType \<Rightarrow> nat" where
  "BodyType_idx None_body = 0"
| "BodyType_idx SDP = 1"
| "BodyType_idx DTMF = 2"
| "BodyType_idx DTMFRelay = 3"
| "BodyType_idx SIPFragment = 4"
| "BodyType_idx SimpleMsgSummary = 5"
| "BodyType_idx PlainText = 6"
| "BodyType_idx AppJson = 7"
| "BodyType_idx MultipartAlternative = 8"
| "BodyType_idx MultipartFormData = 9"
| "BodyType_idx MultipartMixed = 10"
| "BodyType_idx MultipartRelated = 11"
| "BodyType_idx ISUP = 12"
| "BodyType_idx QSIG = 13"
| "BodyType_idx PIDFXML = 14"
| "BodyType_idx MSCPXML = 15"
| "BodyType_idx MSCXML = 16"
| "BodyType_idx VndEtsiPstnXML = 17"
| "BodyType_idx VndOrangeInData = 18"
| "BodyType_idx ResourceListXML = 19"
| "BodyType_idx AnyXML = 20"
| "BodyType_idx Unknown = 21"

definition DicBodyContentType :: "(BodyType \<times> string) list" where
  "DicBodyContentType =
    [(SDP, ''application/sdp''), (DTMF, ''application/dtmf''),
     (DTMFRelay, ''application/dtmf-relay''), (MultipartMixed, ''multipart/mixed''),
     (MultipartAlternative, ''multipart/alternative''),
     (MultipartRelated, ''multipart/related''), (ISUP, ''application/isup''),
     (QSIG, ''application/qsig''), (SIPFragment, ''message/sipfrag''),
     (SimpleMsgSummary, ''application/simple-message-summary''),
     (PlainText, ''text/plain''), (PIDFXML, ''application/pidf+xml''),
     (MSCPXML, ''application/mscp+xml''), (MSCXML, ''application/mediaservercontrol+xml''),
     (ResourceListXML, ''application/resource-lists+xml''),
     (VndEtsiPstnXML, ''application/vnd.etsi.pstn+xml''),
     (VndOrangeInData, ''application/vnd.orange.indata''), (AppJson, ''application/json''),
     (AnyXML, ''+xml'')]"

section \<open>Timers, directions, message types\<close>

datatype TimerType = NoAnswer | No18x

primrec Details :: "TimerType \<Rightarrow> string" where
  "Details NoAnswer = ''No-answer timer expired''"
| "Details No18x = ''No-18x timer expired''"

datatype Direction = INBOUND | OUTBOUND

definition directions :: "string list" where
  "directions = [''INBOUND'', ''OUTBOUND'']"

primrec Direction_idx :: "Direction \<Rightarrow> nat" where
  "Direction_idx INBOUND = 0"
| "Direction_idx OUTBOUND = 1"

definition Direction_String :: "Direction \<Rightarrow> string" where
  "Direction_String d = directions ! Direction_idx d"

datatype MessageType = REQUEST | RESPONSE | INVALID

definition messageTypes :: "string list" where
  "messageTypes = [''INVALID'', ''REQUEST'', ''RESPONSE'']"

primrec MessageType_idx :: "MessageType \<Rightarrow> nat" where
  "MessageType_idx REQUEST = 0"
| "MessageType_idx RESPONSE = 1"
| "MessageType_idx INVALID = 2"

definition MessageType_String :: "MessageType \<Rightarrow> string" where
  "MessageType_String mt = messageTypes ! MessageType_idx mt"

datatype PRACKStatus = PRACKExpected | PRACKUnexpected | PRACKMissingBadRAck

section \<open>Outcome of looking a message's session up\<close>

datatype NewSessionType =
     Unset | ValidRequest | DuplicateRequest | InvalidRequest | UnsupportedURIScheme |
     UnsupportedBody | ForbiddenRequest | WithRequireHeader | Response |
     UnExpectedMessage | NoAllowedAudioCodecs | TooLowMaxForwards | RegistrarOff |
     ServerOff | EndpointNotRegistered | ExceededRouteCAC | DisposedSession |
     CallLegTransactionNotExist | RouteBlocked | UCLimitReached | DuplicateMessage |
     RouteOutboundOnly | RouteBlackhole | ExceededCallRate | UnknownEndPoint

section \<open>Time formats\<close>

text \<open>The table of names is shorter than the enumeration: the last value has no name.\<close>

datatype timeFormat =
     Signaling_tf | Tracing_tf | Version_tf | DateOnly_tf | TimeOnly_tf |
     DateTimeOnly_tf | Session_tf | HTML_tf | DateTimeLocal_tf | JsonDateTime_tf |
     JsonDateTimeMS_tf | HTMLDateOnly_tf | SimpleDT_tf | CDRTimestamp_tf

primrec timeFormat_idx :: "timeFormat \<Rightarrow> nat" where
  "timeFormat_idx Signaling_tf = 0"
| "timeFormat_idx Tracing_tf = 1"
| "timeFormat_idx Version_tf = 2"
| "timeFormat_idx DateOnly_tf = 3"
| "timeFormat_idx TimeOnly_tf = 4"
| "timeFormat_idx DateTimeOnly_tf = 5"
| "timeFormat_idx Session_tf = 6"
| "timeFormat_idx HTML_tf = 7"
| "timeFormat_idx DateTimeLocal_tf = 8"
| "timeFormat_idx JsonDateTime_tf = 9"
| "timeFormat_idx JsonDateTimeMS_tf = 10"
| "timeFormat_idx HTMLDateOnly_tf = 11"
| "timeFormat_idx SimpleDT_tf = 12"
| "timeFormat_idx CDRTimestamp_tf = 13"

definition timeFormats :: "string list" where
  "timeFormats =
    [''Signaling'', ''Tracing'', ''version'', ''DateOnly'', ''TimeOnly'', ''DateTimeOnly'',
     ''Session'', ''HTML'', ''DateTimeLocal'', ''JsonDateTime'', ''HTMLDateOnly'',
     ''yyyy_MM_dd'', ''SimpleDT'']"

definition timeFormat_String :: "timeFormat \<Rightarrow> string option" where
  "timeFormat_String tf =
     (if timeFormat_idx tf < length timeFormats then Some (timeFormats ! timeFormat_idx tf) else None)"

section \<open>Header names\<close>

datatype HeaderEnum = HeaderEnum nat

abbreviation (input) Accept_hdr :: HeaderEnum where "Accept_hdr \<equiv> HeaderEnum 0"
abbreviation (input) Accept_Contact_hdr :: HeaderEnum where "Accept_Contact_hdr \<equiv> HeaderEnum 1"
abbreviation (input) Accept_Encoding_hdr :: HeaderEnum where "Accept_Encoding_hdr \<equiv> HeaderEnum 2"
abbreviation (input) Accept_Language_hdr :: HeaderEnum where "Accept_Language_hdr \<equiv> HeaderEnum 3"
abbreviation (input) Accept_Resource_Priority_hdr :: HeaderEnum where "Accept_Resource_Priority_hdr \<equiv> HeaderEnum 4"
abbreviation (input) Alert_Info_hdr :: HeaderEnum where "Alert_Info_hdr \<equiv> HeaderEnum 5"
abbreviation (input) Allow_hdr :: HeaderEnum where "Allow_hdr \<equiv> HeaderEnum 6"
abbreviation (input) Allow_Events_hdr :: HeaderEnum where "Allow_Events_hdr \<equiv> HeaderEnum 7"
abbreviation (input) Answer_Mode_hdr :: HeaderEnum where "Answer_Mode_hdr \<equiv> HeaderEnum 8"
abbreviation (input) Authentication_Info_hdr :: HeaderEnum where "Authentication_Info_hdr \<equiv> HeaderEnum 9"
abbreviation (input) Authorization_hdr :: HeaderEnum where "Authorization_hdr \<equiv> HeaderEnum 10"
abbreviation (input) Call_ID_hdr :: HeaderEnum where "Call_ID_hdr \<equiv> HeaderEnum 11"
abbreviation (input) Call_Info_hdr :: HeaderEnum where "Call_Info_hdr \<equiv> HeaderEnum 12"
abbreviation (input) Compression_hdr :: HeaderEnum where "Compression_hdr \<equiv> HeaderEnum 13"
abbreviation (input) Contact_hdr :: HeaderEnum where "Contact_hdr \<equiv> HeaderEnum 14"
abbreviation (input) Content_Disposition_hdr :: HeaderEnum where "Content_Disposition_hdr \<equiv> HeaderEnum 15"
abbreviation (input) Content_Encoding_hdr :: HeaderEnum where "Content_Encoding_hdr \<equiv> HeaderEnum 16"
abbreviation (input) Content_Language_hdr :: HeaderEnum where "Content_Language_hdr \<equiv> HeaderEnum 17"
abbreviation (input) Content_Length_hdr :: HeaderEnum where "Content_Length_hdr \<equiv> HeaderEnum 18"
abbreviation (input) Content_Transfer_Encoding_hdr :: HeaderEnum where "Content_Transfer_Encoding_hdr \<equiv> HeaderEnum 19"
abbreviation (input) Content_Type_hdr :: HeaderEnum where "Content_Type_hdr \<equiv> HeaderEnum 20"
abbreviation (input) Cisco_Guid_hdr :: HeaderEnum where "Cisco_Guid_hdr \<equiv> HeaderEnum 21"
abbreviation (input) CSeq_hdr :: HeaderEnum where "CSeq_hdr \<equiv> HeaderEnum 22"
abbreviation (input) Custom_CLI_hdr :: HeaderEnum where "Custom_CLI_hdr \<equiv> HeaderEnum 23"
abbreviation (input) Date_hdr :: HeaderEnum where "Date_hdr \<equiv> HeaderEnum 24"
abbreviation (input) Diversion_hdr :: HeaderEnum where "Diversion_hdr \<equiv> HeaderEnum 25"
abbreviation (input) Error_Info_hdr :: HeaderEnum where "Error_Info_hdr \<equiv> HeaderEnum 26"
abbreviation (input) Event_hdr :: HeaderEnum where "Event_hdr \<equiv> HeaderEnum 27"
abbreviation (input) Expires_hdr :: HeaderEnum where "Expires_hdr \<equiv> HeaderEnum 28"
abbreviation (input) Feature_Caps_hdr :: HeaderEnum where "Feature_Caps_hdr \<equiv> HeaderEnum 29"
abbreviation (input) Flow_Timer_hdr :: HeaderEnum where "Flow_Timer_hdr \<equiv> HeaderEnum 30"
abbreviation (input) From_hdr :: HeaderEnum where "From_hdr \<equiv> HeaderEnum 31"
abbreviation (input) Geolocation_hdr :: HeaderEnum where "Geolocation_hdr \<equiv> HeaderEnum 32"
abbreviation (input) Geolocation_Error_hdr :: HeaderEnum where "Geolocation_Error_hdr \<equiv> HeaderEnum 33"
abbreviation (input) Geolocation_Routing_hdr :: HeaderEnum where "Geolocation_Routing_hdr \<equiv> HeaderEnum 34"
abbreviation (input) History_Info_hdr :: HeaderEnum where "History_Info_hdr \<equiv> HeaderEnum 35"
abbreviation (input) Identity_hdr :: HeaderEnum where "Identity_hdr \<equiv> HeaderEnum 36"
abbreviation (input) Identity_Info_hdr :: HeaderEnum where "Identity_Info_hdr \<equiv> HeaderEnum 37"
abbreviation (input) In_Reply_To_hdr :: HeaderEnum where "In_Reply_To_hdr \<equiv> HeaderEnum 38"
abbreviation (input) Info_Package_hdr :: HeaderEnum where "Info_Package_hdr \<equiv> HeaderEnum 39"
abbreviation (input) Join_hdr :: HeaderEnum where "Join_hdr \<equiv> HeaderEnum 40"
abbreviation (input) Max_Breadth_hdr :: HeaderEnum where "Max_Breadth_hdr \<equiv> HeaderEnum 41"
abbreviation (input) Max_Expires_hdr :: HeaderEnum where "Max_Expires_hdr \<equiv> HeaderEnum 42"
abbreviation (input) Max_Forwards_hdr :: HeaderEnum where "Max_Forwards_hdr \<equiv> HeaderEnum 43"
abbreviation (input) MIME_Version_hdr :: HeaderEnum where "MIME_Version_hdr \<equiv> HeaderEnum 44"
abbreviation (input) Min_Expires_hdr :: HeaderEnum where "Min_Expires_hdr \<equiv> HeaderEnum 45"
abbreviation (input) Min_SE_hdr :: HeaderEnum where "Min_SE_hdr \<equiv> HeaderEnum 46"
abbreviation (input) Organization_hdr :: HeaderEnum where "Organization_hdr \<equiv> HeaderEnum 47"
abbreviation (input) P_Add_BodyPart_hdr :: HeaderEnum where "P_Add_BodyPart_hdr \<equiv> HeaderEnum 48"
abbreviation (input) P_Access_Network_Info_hdr :: HeaderEnum where "P_Access_Network_Info_hdr \<equiv> HeaderEnum 49"
abbreviation (input) P_Answer_State_hdr :: HeaderEnum where "P_Answer_State_hdr \<equiv> HeaderEnum 50"
abbreviation (input) P_Asserted_Identity_hdr :: HeaderEnum where "P_Asserted_Identity_hdr \<equiv> HeaderEnum 51"
abbreviation (input) P_Asserted_Service_hdr :: HeaderEnum where "P_Asserted_Service_hdr \<equiv> HeaderEnum 52"
abbreviation (input) P_Associated_URI_hdr :: HeaderEnum where "P_Associated_URI_hdr \<equiv> HeaderEnum 53"
abbreviation (input) P_BusLayHeader_hdr :: HeaderEnum where "P_BusLayHeader_hdr \<equiv> HeaderEnum 54"
abbreviation (input) P_BusLayPayload_hdr :: HeaderEnum where "P_BusLayPayload_hdr \<equiv> HeaderEnum 55"
abbreviation (input) P_BusLayRefSIPA_hdr :: HeaderEnum where "P_BusLayRefSIPA_hdr \<equiv> HeaderEnum 56"
abbreviation (input) P_BusLayTimers_hdr :: HeaderEnum where "P_BusLayTimers_hdr \<equiv> HeaderEnum 57"
abbreviation (input) P_Called_Party_ID_hdr :: HeaderEnum where "P_Called_Party_ID_hdr \<equiv> HeaderEnum 58"
abbreviation (input) P_Charging_Function_Addresses_hdr :: HeaderEnum where "P_Charging_Function_Addresses_hdr \<equiv> HeaderEnum 59"
abbreviation (input) P_Charging_Vector_hdr :: HeaderEnum where "P_Charging_Vector_hdr \<equiv> HeaderEnum 60"
abbreviation (input) P_DCS_Billing_Info_hdr :: HeaderEnum where "P_DCS_Billing_Info_hdr \<equiv> HeaderEnum 61"
abbreviation (input) P_DCS_LAES_hdr :: HeaderEnum where "P_DCS_LAES_hdr \<equiv> HeaderEnum 62"
abbreviation (input) P_DCS_OSPS_hdr :: HeaderEnum where "P_DCS_OSPS_hdr \<equiv> HeaderEnum 63"
abbreviation (input) P_DCS_Redirect_hdr :: HeaderEnum where "P_DCS_Redirect_hdr \<equiv> HeaderEnum 64"
abbreviation (input) P_DCS_Trace_Party_ID_hdr :: HeaderEnum where "P_DCS_Trace_Party_ID_hdr \<equiv> HeaderEnum 65"
abbreviation (input) P_Early_Media_hdr :: HeaderEnum where "P_Early_Media_hdr \<equiv> HeaderEnum 66"
abbreviation (input) P_Media_Authorization_hdr :: HeaderEnum where "P_Media_Authorization_hdr \<equiv> HeaderEnum 67"
abbreviation (input) P_Orig_hdr :: HeaderEnum where "P_Orig_hdr \<equiv> HeaderEnum 68"
abbreviation (input) P_OrigHeader_hdr :: HeaderEnum where "P_OrigHeader_hdr \<equiv> HeaderEnum 69"
abbreviation (input) P_Preferred_Identity_hdr :: HeaderEnum where "P_Preferred_Identity_hdr \<equiv> HeaderEnum 70"
abbreviation (input) P_Preferred_Service_hdr :: HeaderEnum where "P_Preferred_Service_hdr \<equiv> HeaderEnum 71"
abbreviation (input) P_Private_Network_Indication_hdr :: HeaderEnum where "P_Private_Network_Indication_hdr \<equiv> HeaderEnum 72"
abbreviation (input) P_Profile_Key_hdr :: HeaderEnum where "P_Profile_Key_hdr \<equiv> HeaderEnum 73"
abbreviation (input) P_Refused_URI_List_hdr :: HeaderEnum where "P_Refused_URI_List_hdr \<equiv> HeaderEnum 74"
abbreviation (input) P_Served_User_hdr :: HeaderEnum where "P_Served_User_hdr \<equiv> HeaderEnum 75"
abbreviation (input) P_User_Database_hdr :: HeaderEnum where "P_User_Database_hdr \<equiv> HeaderEnum 76"
abbreviation (input) P_Visited_Network_ID_hdr :: HeaderEnum where "P_Visited_Network_ID_hdr \<equiv> HeaderEnum 77"
abbreviation (input) Path_hdr :: HeaderEnum where "Path_hdr \<equiv> HeaderEnum 78"
abbreviation (input) Permission_Missing_hdr :: HeaderEnum where "Permission_Missing_hdr \<equiv> HeaderEnum 79"
abbreviation (input) Policy_Contact_hdr :: HeaderEnum where "Policy_Contact_hdr \<equiv> HeaderEnum 80"
abbreviation (input) Policy_ID_hdr :: HeaderEnum where "Policy_ID_hdr \<equiv> HeaderEnum 81"
abbreviation (input) Priority_hdr :: HeaderEnum where "Priority_hdr \<equiv> HeaderEnum 82"
abbreviation (input) Priv_Answer_Mode_hdr :: HeaderEnum where "Priv_Answer_Mode_hdr \<equiv> HeaderEnum 83"
abbreviation (input) Privacy_hdr :: HeaderEnum where "Privacy_hdr \<equiv> HeaderEnum 84"
abbreviation (input) Proxy_Authenticate_hdr :: HeaderEnum where "Proxy_Authenticate_hdr \<equiv> HeaderEnum 85"
abbreviation (input) Proxy_Authorization_hdr :: HeaderEnum where "Proxy_Authorization_hdr \<equiv> HeaderEnum 86"
abbreviation (input) Proxy_Require_hdr :: HeaderEnum where "Proxy_Require_hdr \<equiv> HeaderEnum 87"
abbreviation (input) RAck_hdr :: HeaderEnum where "RAck_hdr \<equiv> HeaderEnum 88"
abbreviation (input) Reason_hdr :: HeaderEnum where "Reason_hdr \<equiv> HeaderEnum 89"
abbreviation (input) Reason_Phrase_hdr :: HeaderEnum where "Reason_Phrase_hdr \<equiv> HeaderEnum 90"
abbreviation (input) Record_Route_hdr :: HeaderEnum where "Record_Route_hdr \<equiv> HeaderEnum 91"
abbreviation (input) Recv_Info_hdr :: HeaderEnum where "Recv_Info_hdr \<equiv> HeaderEnum 92"
abbreviation (input) Refer_Events_At_hdr :: HeaderEnum where "Refer_Events_At_hdr \<equiv> HeaderEnum 93"
abbreviation (input) Refer_Sub_hdr :: HeaderEnum where "Refer_Sub_hdr \<equiv> HeaderEnum 94"
abbreviation (input) Refer_To_hdr :: HeaderEnum where "Refer_To_hdr \<equiv> HeaderEnum 95"
abbreviation (input) Referred_By_hdr :: HeaderEnum where "Referred_By_hdr \<equiv> HeaderEnum 96"
abbreviation (input) Reject_Contact_hdr :: HeaderEnum where "Reject_Contact_hdr \<equiv> HeaderEnum 97"
abbreviation (input) Replaces_hdr :: HeaderEnum where "Replaces_hdr \<equiv> HeaderEnum 98"
abbreviation (input) Reply_To_hdr :: HeaderEnum where "Reply_To_hdr \<equiv> HeaderEnum 99"
abbreviation (input) Request_Disposition_hdr :: HeaderEnum where "Request_Disposition_hdr \<equiv> HeaderEnum 100"
abbreviation (input) Require_hdr :: HeaderEnum where "Require_hdr \<equiv> HeaderEnum 101"
abbreviation (input) Resource_Priority_hdr :: HeaderEnum where "Resource_Priority_hdr \<equiv> HeaderEnum 102"
abbreviation (input) Retry_After_hdr :: HeaderEnum where "Retry_After_hdr \<equiv> HeaderEnum 103"
abbreviation (input) Route_hdr :: HeaderEnum where "Route_hdr \<equiv> HeaderEnum 104"
abbreviation (input) RSeq_hdr :: HeaderEnum where "RSeq_hdr \<equiv> HeaderEnum 105"
abbreviation (input) Security_Client_hdr :: HeaderEnum where "Security_Client_hdr \<equiv> HeaderEnum 106"
abbreviation (input) Security_Server_hdr :: HeaderEnum where "Security_Server_hdr \<equiv> HeaderEnum 107"
abbreviation (input) Security_Verify_hdr :: HeaderEnum where "Security_Verify_hdr \<equiv> HeaderEnum 108"
abbreviation (input) Server_hdr :: HeaderEnum where "Server_hdr \<equiv> HeaderEnum 109"
abbreviation (input) Service_Route_hdr :: HeaderEnum where "Service_Route_hdr \<equiv> HeaderEnum 110"
abbreviation (input) Session_Expires_hdr :: HeaderEnum where "Session_Expires_hdr \<equiv> HeaderEnum 111"
abbreviation (input) Session_ID_hdr :: HeaderEnum where "Session_ID_hdr \<equiv> HeaderEnum 112"
abbreviation (input) SIP_ETag_hdr :: HeaderEnum where "SIP_ETag_hdr \<equiv> HeaderEnum 113"
abbreviation (input) SIP_If_Match_hdr :: HeaderEnum where "SIP_If_Match_hdr \<equiv> HeaderEnum 114"
abbreviation (input) Subject_hdr :: HeaderEnum where "Subject_hdr \<equiv> HeaderEnum 115"
abbreviation (input) Subscription_State_hdr :: HeaderEnum where "Subscription_State_hdr \<equiv> HeaderEnum 116"
abbreviation (input) Subscription_Expires_hdr :: HeaderEnum where "Subscription_Expires_hdr \<equiv> HeaderEnum 117"
abbreviation (input) Supported_hdr :: HeaderEnum where "Supported_hdr \<equiv> HeaderEnum 118"
abbreviation (input) Suppress_If_Match_hdr :: HeaderEnum where "Suppress_If_Match_hdr \<equiv> HeaderEnum 119"
abbreviation (input) Target_Dialog_hdr :: HeaderEnum where "Target_Dialog_hdr \<equiv> HeaderEnum 120"
abbreviation (input) Timestamp_hdr :: HeaderEnum where "Timestamp_hdr \<equiv> HeaderEnum 121"
abbreviation (input) To_hdr :: HeaderEnum where "To_hdr \<equiv> HeaderEnum 122"
abbreviation (input) Trigger_Consent_hdr :: HeaderEnum where "Trigger_Consent_hdr \<equiv> HeaderEnum 123"
abbreviation (input) Unsupported_hdr :: HeaderEnum where "Unsupported_hdr \<equiv> HeaderEnum 124"
abbreviation (input) User_Agent_hdr :: HeaderEnum where "User_Agent_hdr \<equiv> HeaderEnum 125"
abbreviation (input) User_to_User_hdr :: HeaderEnum where "User_to_User_hdr \<equiv> HeaderEnum 126"
abbreviation (input) Via_hdr :: HeaderEnum where "Via_hdr \<equiv> HeaderEnum 127"
abbreviation (input) Warning_hdr :: HeaderEnum where "Warning_hdr \<equiv> HeaderEnum 128"
abbreviation (input) WWW_Authenticate_hdr :: HeaderEnum where "WWW_Authenticate_hdr \<equiv> HeaderEnum 129"
abbreviation (input) X_BusLayBehavior_hdr :: HeaderEnum where "X_BusLayBehavior_hdr \<equiv> HeaderEnum 130"

definition HeaderEnumToString :: "(HeaderEnum \<times> string) list" where
  "HeaderEnumToString =
    [(Accept_hdr, ''Accept''), (Accept_Contact_hdr, ''Accept-Contact''),
     (Accept_Encoding_hdr, ''Accept-Encoding''),
     (Accept_Language_hdr, ''Accept-Language''),
     (Accept_Resource_Priority_hdr, ''Accept-Resource-Priority''),
     (Alert_Info_hdr, ''Alert-Info''), (Allow_hdr, ''Allow''),
     (Allow_Events_hdr, ''Allow-Events''), (Answer_Mode_hdr, ''Answer-Mode''),
     (Authentication_Info_hdr, ''Authentication-Info''),
     (Authorization_hdr, ''Authorization''), (Call_ID_hdr, ''Call-ID''),
     (Call_Info_hdr, ''Call-Info''), (Compression_hdr, ''Compression''),
     (Contact_hdr, ''Contact''), (Content_Disposition_hdr, ''Content-Disposition''),
     (Content_Encoding_hdr, ''Content-Encoding''),
     (Content_Language_hdr, ''Content-Language''),
     (Content_Length_hdr, ''Content-Length''),
     (Content_Transfer_Encoding_hdr, ''Content-Transfer-Encoding''),
     (Content_Type_hdr, ''Content-Type''), (Cisco_Guid_hdr, ''Cisco-Guid''),
     (CSeq_hdr, ''CSeq''), (Custom_CLI_hdr, ''Custom-CLI''), (Date_hdr, ''Date''),
     (Diversion_hdr, ''Diversion''), (Error_Info_hdr, ''Error-Info''),
     (Event_hdr, ''Event''), (Expires_hdr, ''Expires''),
     (Feature_Caps_hdr, ''Feature-Caps''), (Flow_Timer_hdr, ''Flow-Timer''),
     (From_hdr, ''From''), (Geolocation_hdr, ''Geolocation''),
     (Geolocation_Error_hdr, ''Geolocation-Error''),
     (Geolocation_Routing_hdr, ''Geolocation-Routing''),
     (History_Info_hdr, ''History-Info''), (Identity_hdr, ''Identity''),
     (Identity_Info_hdr, ''Identity-Info''), (In_Reply_To_hdr, ''In-Reply-To''),
     (Info_Package_hdr, ''Info-Package''), (Join_hdr, ''Join''),
     (Max_Breadth_hdr, ''Max-Breadth''), (Max_Expires_hdr, ''Max-Expires''),
     (Max_Forwards_hdr, ''Max-Forwards''), (MIME_Version_hdr, ''MIME-Version''),
     (Min_Expires_hdr, ''Min-Expires''), (Min_SE_hdr, ''Min-SE''),
     (Organization_hdr, ''Organization''), (P_Add_BodyPart_hdr, ''P-Add-BodyPart''),
     (P_Access_Network_Info_hdr, ''P-Access-Network-Info''),
     (P_Answer_State_hdr, ''P-Answer-State''),
     (P_Asserted_Identity_hdr, ''P-Asserted-Identity''),
     (P_Asserted_Service_hdr, ''P-Asserted-Service''),
     (P_Associated_URI_hdr, ''P-Associated-URI''),
     (P_BusLayHeader_hdr, ''P-BusLayHeader''), (P_BusLayPayload_hdr, ''P-BusLayPayload''),
     (P_BusLayRefSIPA_hdr, ''P-BusLayRefSIPA''), (P_BusLayTimers_hdr, ''P-BusLayTimers''),
     (P_Called_Party_ID_hdr, ''P-Called-Party-ID''),
     (P_Charging_Function_Addresses_hdr, ''P-Charging-Function-Addresses''),
     (P_Charging_Vector_hdr, ''P-Charging-Vector''),
     (P_DCS_Billing_Info_hdr, ''P-DCS-Billing-Info''), (P_DCS_LAES_hdr, ''P-DCS-LAES''),
     (P_DCS_OSPS_hdr, ''P-DCS-OSPS''), (P_DCS_Redirect_hdr, ''P-DCS-Redirect''),
     (P_DCS_Trace_Party_ID_hdr, ''P-DCS-Trace-Party-ID''),
     (P_Early_Media_hdr, ''P-Early-Media''),
     (P_Media_Authorization_hdr, ''P-Media-Authorization''), (P_Orig_hdr, ''P-Orig''),
     (P_OrigHeader_hdr, ''P-OrigHeader''),
     (P_Preferred_Identity_hdr, ''P-Preferred-Identity''),
     (P_Preferred_Service_hdr, ''P-Preferred-Service''),
     (P_Private_Network_Indication_hdr, ''P-Private-Network-Indication''),
     (P_Profile_Key_hdr, ''P-Profile-Key''),
     (P_Refused_URI_List_hdr, ''P-Refused-URI-List''),
     (P_Served_User_hdr, ''P-Served-User''), (P_User_Database_hdr, ''P-User-Database''),
     (P_Visited_Network_ID_hdr, ''P-Visited-Network-ID''), (Path_hdr, ''Path''),
     (Permission_Missing_hdr, ''Permission-Missing''),
     (Policy_Contact_hdr, ''Policy-Contact''), (Policy_ID_hdr, ''Policy-ID''),
     (Priority_hdr, ''Priority''), (Priv_Answer_Mode_hdr, ''Priv-Answer-Mode''),
     (Privacy_hdr, ''Privacy''), (Proxy_Authenticate_hdr, ''Proxy-Authenticate''),
     (Proxy_Authorization_hdr, ''Proxy-Authorization''),
     (Proxy_Require_hdr, ''Proxy-Require''), (RAck_hdr, ''RAck''),
     (Reason_hdr, ''Reason''), (Reason_Phrase_hdr, ''Reason-Phrase''),
     (Record_Route_hdr, ''Record-Route''), (Recv_Info_hdr, ''Recv-Info''),
     (Refer_Events_At_hdr, ''Refer-Events-At''), (Refer_Sub_hdr, ''Refer-Sub''),
     (Refer_To_hdr, ''Refer-To''), (Referred_By_hdr, ''Referred-By''),
     (Reject_Contact_hdr, ''Reject-Contact''), (Replaces_hdr, ''Replaces''),
     (Reply_To_hdr, ''Reply-To''), (Request_Disposition_hdr, ''Request-Disposition''),
     (Require_hdr, ''Require''), (Resource_Priority_hdr, ''Resource-Priority''),
     (Retry_After_hdr, ''Retry-After''), (Route_hdr, ''Route''), (RSeq_hdr, ''RSeq''),
     (Security_Client_hdr, ''Security-Client''),
     (Security_Server_hdr, ''Security-Server''),
     (Security_Verify_hdr, ''Security-Verify''), (Server_hdr, ''Server''),
     (Service_Route_hdr, ''Service-Route''), (Session_Expires_hdr, ''Session-Expires''),
     (Session_ID_hdr, ''Session-ID''), (SIP_ETag_hdr, ''SIP-ETag''),
     (SIP_If_Match_hdr, ''SIP-If-Match''), (Subject_hdr, ''Subject''),
     (Subscription_State_hdr, ''Subscription-State''),
     (Subscription_Expires_hdr, ''Subscription-Expires''), (Supported_hdr, ''Supported''),
     (Suppress_If_Match_hdr, ''Suppress-If-Match''),
     (Target_Dialog_hdr, ''Target-Dialog''), (Timestamp_hdr, ''Timestamp''),
     (To_hdr, ''To''), (Trigger_Consent_hdr, ''Trigger-Consent''),
     (Unsupported_hdr, ''Unsupported''), (User_Agent_hdr, ''User-Agent''),
     (User_to_User_hdr, ''User-to-User''), (Via_hdr, ''Via''), (Warning_hdr, ''Warning''),
     (WWW_Authenticate_hdr, ''WWW-Authenticate''),
     (X_BusLayBehavior_hdr, ''X-BusLayBehavior'')]"

definition HeaderStringtoEnum :: "(string \<times> HeaderEnum) list" where
  "HeaderStringtoEnum =
    [(''Accept'', Accept_hdr), (''Accept-Contact'', Accept_Contact_hdr),
     (''Accept-Encoding'', Accept_Encoding_hdr),
     (''Accept-Language'', Accept_Language_hdr),
     (''Accept-Resource-Priority'', Accept_Resource_Priority_hdr),
     (''Alert-Info'', Alert_Info_hdr), (''Allow'', Allow_hdr),
     (''Allow-Events'', Allow_Events_hdr), (''Answer-Mode'', Answer_Mode_hdr),
     (''Authentication-Info'', Authentication_Info_hdr),
     (''Authorization'', Authorization_hdr), (''Call-ID'', Call_ID_hdr),
     (''Call-Info'', Call_Info_hdr), (''Compression'', Compression_hdr),
     (''Contact'', Contact_hdr), (''Content-Disposition'', Content_Disposition_hdr),
     (''Content-Encoding'', Content_Encoding_hdr),
     (''Content-Language'', Content_Language_hdr),
     (''Content-Length'', Content_Length_hdr),
     (''Content-Transfer-Encoding'', Content_Transfer_Encoding_hdr),
     (''Content-Type'', Content_Type_hdr), (''Cisco-Guid'', Cisco_Guid_hdr),
     (''CSeq'', CSeq_hdr), (''Custom-CLI'', Custom_CLI_hdr), (''Date'', Date_hdr),
     (''Diversion'', Diversion_hdr), (''Error-Info'', Error_Info_hdr),
     (''Event'', Event_hdr), (''Expires'', Expires_hdr),
     (''Feature-Caps'', Feature_Caps_hdr), (''Flow-Timer'', Flow_Timer_hdr),
     (''From'', From_hdr), (''Geolocation'', Geolocation_hdr),
     (''Geolocation-Error'', Geolocation_Error_hdr),
     (''Geolocation-Routing'', Geolocation_Routing_hdr),
     (''History-Info'', History_Info_hdr), (''Identity'', Identity_hdr),
     (''Identity-Info'', Identity_Info_hdr), (''In-Reply-To'', In_Reply_To_hdr),
     (''Info-Package'', Info_Package_hdr), (''Join'', Join_hdr),
     (''Max-Breadth'', Max_Breadth_hdr), (''Max-Expires'', Max_Expires_hdr),
     (''Max-Forwards'', Max_Forwards_hdr), (''MIME-Version'', MIME_Version_hdr),
     (''Min-Expires'', Min_Expires_hdr), (''Min-SE'', Min_SE_hdr),
     (''Organization'', Organization_hdr), (''P-Add-BodyPart'', P_Add_BodyPart_hdr),
     (''P-Access-Network-Info'', P_Access_Network_Info_hdr),
     (''P-Answer-State'', P_Answer_State_hdr),
     (''P-Asserted-Identity'', P_Asserted_Identity_hdr),
     (''P-Asserted-Service'', P_Asserted_Service_hdr),
     (''P-Associated-URI'', P_Associated_URI_hdr),
     (''P-BusLayHeader'', P_BusLayHeader_hdr), (''P-BusLayPayload'', P_BusLayPayload_hdr),
     (''P-BusLayRefSIPA'', P_BusLayRefSIPA_hdr), (''P-BusLayTimers'', P_BusLayTimers_hdr),
     (''P-Called-Party-ID'', P_Called_Party_ID_hdr),
     (''P-Charging-Function-Addresses'', P_Charging_Function_Addresses_hdr),
     (''P-Charging-Vector'', P_Charging_Vector_hdr),
     (''P-DCS-Billing-Info'', P_DCS_Billing_Info_hdr), (''P-DCS-LAES'', P_DCS_LAES_hdr),
     (''P-DCS-OSPS'', P_DCS_OSPS_hdr), (''P-DCS-Redirect'', P_DCS_Redirect_hdr),
     (''P-DCS-Trace-Party-ID'', P_DCS_Trace_Party_ID_hdr),
     (''P-Early-Media'', P_Early_Media_hdr),
     (''P-Media-Authorization'', P_Media_Authorization_hdr), (''P-Orig'', P_Orig_hdr),
     (''P-OrigHeader'', P_OrigHeader_hdr),
     (''P-Preferred-Identity'', P_Preferred_Identity_hdr),
     (''P-Preferred-Service'', P_Preferred_Service_hdr),
     (''P-Private-Network-Indication'', P_Private_Network_Indication_hdr),
     (''P-Profile-Key'', P_Profile_Key_hdr),
     (''P-Refused-URI-List'', P_Refused_URI_List_hdr),
     (''P-Served-User'', P_Served_User_hdr), (''P-User-Database'', P_User_Database_hdr),
     (''P-Visited-Network-ID'', P_Visited_Network_ID_hdr), (''Path'', Path_hdr),
     (''Permission-Missing'', Permission_Missing_hdr),
     (''Policy-Contact'', Policy_Contact_hdr), (''Policy-ID'', Policy_ID_hdr),
     (''Priority'', Priority_hdr), (''Priv-Answer-Mode'', Priv_Answer_Mode_hdr),
     (''Privacy'', Privacy_hdr), (''Proxy-Authenticate'', Proxy_Authenticate_hdr),
     (''Proxy-Authorization'', Proxy_Authorization_hdr),
     (''Proxy-Require'', Proxy_Require_hdr), (''RAck'', RAck_hdr),
     (''Reason'', Reason_hdr), (''Reason-Phrase'', Reason_Phrase_hdr),
     (''Record-Route'', Record_Route_hdr), (''Recv-Info'', Recv_Info_hdr),
     (''Refer-Events-At'', Refer_Events_At_hdr), (''Refer-Sub'', Refer_Sub_hdr),
     (''Refer-To'', Refer_To_hdr), (''Referred-By'', Referred_By_hdr),
     (''Reject-Contact'', Reject_Contact_hdr), (''Replaces'', Replaces_hdr),
     (''Reply-To'', Reply_To_hdr), (''Request-Disposition'', Request_Disposition_hdr),
     (''Require'', Require_hdr), (''Resource-Priority'', Resource_Priority_hdr),
     (''Retry-After'', Retry_After_hdr), (''Route'', Route_hdr), (''RSeq'', RSeq_hdr),
     (''Security-Client'', Security_Client_hdr),
     (''Security-Server'', Security_Server_hdr),
     (''Security-Verify'', Security_Verify_hdr), (''Server'', Server_hdr),
     (''Service-Route'', Service_Route_hdr), (''Session-Expires'', Session_Expires_hdr),
     (''Session-ID'', Session_ID_hdr), (''SIP-ETag'', SIP_ETag_hdr),
     (''SIP-If-Match'', SIP_If_Match_hdr), (''Subject'', Subject_hdr),
     (''Subscription-State'', Subscription_State_hdr),
     (''Subscription-Expires'', Subscription_Expires_hdr), (''Supported'', Supported_hdr),
     (''Suppress-If-Match'', Suppress_If_Match_hdr),
     (''Target-Dialog'', Target_Dialog_hdr), (''Timestamp'', Timestamp_hdr),
     (''To'', To_hdr), (''Trigger-Consent'', Trigger_Consent_hdr),
     (''Unsupported'', Unsupported_hdr), (''User-Agent'', User_Agent_hdr),
     (''User-to-User'', User_to_User_hdr), (''Via'', Via_hdr), (''Warning'', Warning_hdr),
     (''WWW-Authenticate'', WWW_Authenticate_hdr),
     (''X-BusLayBehavior'', X_BusLayBehavior_hdr)]"

text \<open>\<open>HeaderEnum.String\<close>: a key that is not in the table reads as the empty string.\<close>

definition HeaderName :: "HeaderEnum \<Rightarrow> string" where
  "HeaderName he = (case map_of HeaderEnumToString he of None \<Rightarrow> [] | Some s \<Rightarrow> s)"

section \<open>Tables of the message writer\<close>

definition MandatoryHeaders :: "string list" where
  "MandatoryHeaders =
    [''From'', ''To'', ''Call-ID'', ''CSeq'', ''Via'']"

definition UriSchemes :: "string list" where
  "UriSchemes =
    [''sip'', ''sips'', ''tel'']"

definition RequestHeaderCHs :: "string list" where
  "RequestHeaderCHs =
    [''Record-Route'', ''Route'', ''Via'', ''From'', ''To'', ''Call-ID'', ''CSeq'',
     ''Contact'', ''Supported'', ''Allow'', ''Max-Forwards'', ''Date'', ''User-Agent'',
     ''User-to-User'', ''Content-Type'', ''Content-Length'', ''Content-Disposition'']"

definition OtherCHs :: "string list" where
  "OtherCHs =
    [''Referred-By'', ''Diversion'', ''History-Info'', ''X-FromHeader'', ''X-ToHeader'',
     ''Privacy'', ''Geolocation'', ''Require'', ''Authorization'', ''Identity'',
     ''Proxy-Authorization'', ''Expires'', ''Session-Expires'', ''Min-SE'', ''Subject'',
     ''Allow-Events'', ''Accept'', ''MIME-Version'']"

definition ResponseHeaderCHs :: "string list" where
  "ResponseHeaderCHs =
    [''Record-Route'', ''Via'', ''From'', ''To'', ''Call-ID'', ''CSeq'', ''Contact'',
     ''Date'', ''Server'', ''Content-Length'', ''Accept'']"

text \<open>The headers a request of each method is written with; an absent method has none.\<close>

definition DicRequestHeaders :: "(Method \<times> string list) list" where
  "DicRequestHeaders =
    [(INVITE, RequestHeaderCHs @ OtherCHs),
     (ReINVITE, RequestHeaderCHs @ OtherCHs),
     (ACK, RequestHeaderCHs @ [''MIME-Version'']),
     (OPTIONS, RequestHeaderCHs @ [''Subject'', ''Accept'', ''MIME-Version'']),
     (BYE, RequestHeaderCHs @ [''Reason'', ''Warning'']),
     (CANCEL, RequestHeaderCHs @ [''Reason'', ''Warning'']),
     (REFER, RequestHeaderCHs @ [''Refer-Sub'', ''Refer-To'']),
     (PRACK, RequestHeaderCHs @ [''RAck'']),
     (NOTIFY, RequestHeaderCHs @ [''Event'', ''Subscription-State'', ''Subscription-Expires'']),
     (UPDATE, RequestHeaderCHs @ [''Require'', ''Session-Expires'', ''Min-SE'']),
     (INFO, RequestHeaderCHs),
     (REGISTER, RequestHeaderCHs @ OtherCHs),
     (SUBSCRIBE, RequestHeaderCHs),
     (MESSAGE, RequestHeaderCHs)]"

text \<open>\<open>responsesHeadersInit\<close>: the headers of a response, by its status code.\<close>

definition ResponseHeaderTail :: "int \<Rightarrow> string list" where
  "ResponseHeaderTail sc =
     (if sc \<ge> 100 \<and> sc \<le> 199 then
          [''Require'', ''RSeq'', ''Allow'', ''Content-Type'']
      else if sc = 200 then
          [''Supported'', ''Allow'', ''Require'', ''Session-Expires'',
            ''Min-SE'', ''Compression'', ''Refer-Sub'', ''Expires'',
            ''Content-Type'', ''MIME-Version'']
      else if sc \<ge> 201 \<and> sc \<le> 399 then
          [''Expires'', ''Content-Type'']
      else if sc = 401 then
          [''WWW-Authenticate'']
      else if sc = 407 then
          [''Proxy-Authenticate'']
      else if sc = 415 then
          [''Expires'']
      else if sc = 422 then
          [''Min-SE'']
      else if sc = 423 then
          [''Min-Expires'']
      else if sc = 425 then
          [''Max-Expires'']
      else if sc = 489 then
          [''Allow-Events'']
      else
          [''Allow'', ''Min-Expires'', ''Unsupported'', ''Reason'',
            ''Warning'', ''Retry-After''])"

definition DicResponseHeaders :: "int \<Rightarrow> string list option" where
  "DicResponseHeaders sc =
     (if 100 \<le> sc \<and> sc \<le> 699 then Some (ResponseHeaderCHs @ ResponseHeaderTail sc) else None)"

section \<open>Reason phrases\<close>

definition DicResponse :: "(int \<times> string) list" where
  "DicResponse =
    [(100, ''Trying''), (180, ''Ringing''), (181, ''Call Is Being Forwarded''),
     (182, ''Queued''), (183, ''Session Progress''), (199, ''Early Dialog Terminated''),
     (200, ''OK''), (202, ''Accepted''), (204, ''No Notification''),
     (206, ''Partial Content''), (300, ''Multiple Choices''), (301, ''Moved Permanently''),
     (302, ''Moved Temporarily''), (303, ''See Other''), (304, ''Not Modified''),
     (305, ''Use Proxy''), (307, ''Temporary Redirect''), (308, ''Permanent Redirect''),
     (380, ''Alternative Service''), (400, ''Bad Request''), (401, ''Unauthorized''),
     (402, ''Payment Required''), (403, ''Forbidden''), (404, ''Not Found''),
     (405, ''Method Not Allowed''), (406, ''Not Acceptable''),
     (407, ''Proxy Authentication Required''), (408, ''Request Timeout''),
     (409, ''Conflict''), (410, ''Gone''), (411, ''Length Required''),
     (412, ''Conditional Request Failed''), (413, ''Request Entity Too Large''),
     (414, ''Request-URI Too Long''), (415, ''Unsupported Media Type''),
     (416, ''Unsupported URI Scheme''), (417, ''Unknown Resource-Priority''),
     (418, ''Duplicate Configuration''), (419, ''Missing Configuration''),
     (420, ''Bad Extension''), (421, ''Extension Required''),
     (422, ''Session Interval Too Small''), (423, ''Interval Too Brief''),
     (424, ''Bad Location Information''), (425, ''Interval Too Long''),
     (428, ''Use Identity Header''), (429, ''Provide Referrer Identity''),
     (430, ''Flow Failed''), (433, ''Anonymity Disallowed''), (436, ''Bad Identity-Info''),
     (437, ''Unsupported Certificate''), (438, ''Invalid Identity Header''),
     (439, ''First Hop Lacks Outbound Support''), (470, ''Consent Needed''),
     (480, ''Temporarily Unavailable''), (481, ''Call Leg/Transaction Does Not Exist''),
     (482, ''Loop Detected''), (483, ''Too Many Hops''), (484, ''Address Incomplete''),
     (485, ''Ambiguous''), (486, ''Busy Here''), (487, ''Request Terminated''),
     (488, ''Not Acceptable Here''), (489, ''Bad Event''), (491, ''Request Pending''),
     (493, ''Undecipherable''), (494, ''Security Agreement Required''),
     (500, ''Server Internal Error''), (501, ''Not Implemented''), (502, ''Bad Gateway''),
     (503, ''Service Unavailable''), (504, ''Server Time-out''),
     (505, ''Version Not Supported''), (513, ''Message Too Large''),
     (580, ''Precondition Failure''), (586, ''Server Media Pool Depleted''),
     (600, ''Busy Everywhere''), (603, ''Decline''), (604, ''Does Not Exist Anywhere''),
     (606, ''Not Acceptable'')]"

section \<open>Status codes and Q.850 causes\<close>

abbreviation (input) status_Trying :: int where "status_Trying \<equiv> 100"
abbreviation (input) status_Ringing :: int where "status_Ringing \<equiv> 180"
abbreviation (input) status_CallBeingForwarded :: int where "status_CallBeingForwarded \<equiv> 181"
abbreviation (input) status_Queued :: int where "status_Queued \<equiv> 182"
abbreviation (input) status_SessionProgress :: int where "status_SessionProgress \<equiv> 183"
abbreviation (input) status_OK :: int where "status_OK \<equiv> 200"
abbreviation (input) status_Accepted :: int where "status_Accepted \<equiv> 202"
abbreviation (input) status_NoNotification :: int where "status_NoNotification \<equiv> 204"
abbreviation (input) status_PartialNotification :: int where "status_PartialNotification \<equiv> 206"
abbreviation (input) status_MultipleChoices :: int where "status_MultipleChoices \<equiv> 300"
abbreviation (input) status_MovedPermanently :: int where "status_MovedPermanently \<equiv> 301"
abbreviation (input) status_MovedTemporarily :: int where "status_MovedTemporarily \<equiv> 302"
abbreviation (input) status_SeeOther :: int where "status_SeeOther \<equiv> 303"
abbreviation (input) status_NotModified :: int where "status_NotModified \<equiv> 304"
abbreviation (input) status_UseProxy :: int where "status_UseProxy \<equiv> 305"
abbreviation (input) status_AlternativeService :: int where "status_AlternativeService \<equiv> 380"
abbreviation (input) status_BadRequest :: int where "status_BadRequest \<equiv> 400"
abbreviation (input) status_Unauthorized :: int where "status_Unauthorized \<equiv> 401"
abbreviation (input) status_PaymentRequired :: int where "status_PaymentRequired \<equiv> 402"
abbreviation (input) status_Forbidden :: int where "status_Forbidden \<equiv> 403"
abbreviation (input) status_NotFound :: int where "status_NotFound \<equiv> 404"
abbreviation (input) status_MethodNotAllowed :: int where "status_MethodNotAllowed \<equiv> 405"
abbreviation (input) status_NotAcceptable :: int where "status_NotAcceptable \<equiv> 406"
abbreviation (input) status_ProxyAuthenticationRequired :: int where "status_ProxyAuthenticationRequired \<equiv> 407"
abbreviation (input) status_RequestTimeout :: int where "status_RequestTimeout \<equiv> 408"
abbreviation (input) status_Conflict :: int where "status_Conflict \<equiv> 409"
abbreviation (input) status_Gone :: int where "status_Gone \<equiv> 410"
abbreviation (input) status_LengthRequired :: int where "status_LengthRequired \<equiv> 411"
abbreviation (input) status_ConditionalRequestFailed :: int where "status_ConditionalRequestFailed \<equiv> 412"
abbreviation (input) status_RequestEntityTooLarge :: int where "status_RequestEntityTooLarge \<equiv> 413"
abbreviation (input) status_RequestURITooLong :: int where "status_RequestURITooLong \<equiv> 414"
abbreviation (input) status_UnsupportedMediaType :: int where "status_UnsupportedMediaType \<equiv> 415"
abbreviation (input) status_UnsupportedURIScheme :: int where "status_UnsupportedURIScheme \<equiv> 416"
abbreviation (input) status_UnknownResourcePriority :: int where "status_UnknownResourcePriority \<equiv> 417"
abbreviation (input) status_BadExtension :: int where "status_BadExtension \<equiv> 420"
abbreviation (input) status_ExtensionRequired :: int where "status_ExtensionRequired \<equiv> 421"
abbreviation (input) status_SessionIntervalTooSmall :: int where "status_SessionIntervalTooSmall \<equiv> 422"
abbreviation (input) status_IntervalTooBrief :: int where "status_IntervalTooBrief \<equiv> 423"
abbreviation (input) status_BadLocationInformation :: int where "status_BadLocationInformation \<equiv> 424"
abbreviation (input) status_UseIdentityHeader :: int where "status_UseIdentityHeader \<equiv> 428"
abbreviation (input) status_ProvideReferrerIdentity :: int where "status_ProvideReferrerIdentity \<equiv> 429"
abbreviation (input) status_FlowFailed :: int where "status_FlowFailed \<equiv> 430"
abbreviation (input) status_AnonymityDisallowed :: int where "status_AnonymityDisallowed \<equiv> 433"
abbreviation (input) status_BadIdentityInfo :: int where "status_BadIdentityInfo \<equiv> 436"
abbreviation (input) status_UnsupportedCertificate :: int where "status_UnsupportedCertificate \<equiv> 437"
abbreviation (input) status_InvalidIdentityHeader :: int where "status_InvalidIdentityHeader \<equiv> 438"
abbreviation (input) status_FirstHopLacksOutboundSupport :: int where "status_FirstHopLacksOutboundSupport \<equiv> 439"
abbreviation (input) status_MaxBreadthExceeded :: int where "status_MaxBreadthExceeded \<equiv> 440"
abbreviation (input) status_BadInfoPackage :: int where "status_BadInfoPackage \<equiv> 469"
abbreviation (input) status_ConsentNeeded :: int where "status_ConsentNeeded \<equiv> 470"
abbreviation (input) status_TemporarilyUnavailable :: int where "status_TemporarilyUnavailable \<equiv> 480"
abbreviation (input) status_CallTransactionDoesNotExist :: int where "status_CallTransactionDoesNotExist \<equiv> 481"
abbreviation (input) status_LoopDetected :: int where "status_LoopDetected \<equiv> 482"
abbreviation (input) status_TooManyHops :: int where "status_TooManyHops \<equiv> 483"
abbreviation (input) status_AddressIncomplete :: int where "status_AddressIncomplete \<equiv> 484"
abbreviation (input) status_Ambiguous :: int where "status_Ambiguous \<equiv> 485"
abbreviation (input) status_BusyHere :: int where "status_BusyHere \<equiv> 486"
abbreviation (input) status_RequestTerminated :: int where "status_RequestTerminated \<equiv> 487"
abbreviation (input) status_NotAcceptableHere :: int where "status_NotAcceptableHere \<equiv> 488"
abbreviation (input) status_BadEvent :: int where "status_BadEvent \<equiv> 489"
abbreviation (input) status_RequestPending :: int where "status_RequestPending \<equiv> 491"
abbreviation (input) status_Undecipherable :: int where "status_Undecipherable \<equiv> 493"
abbreviation (input) status_SecurityAgreementRequired :: int where "status_SecurityAgreementRequired \<equiv> 494"
abbreviation (input) status_ServerInternalError :: int where "status_ServerInternalError \<equiv> 500"
abbreviation (input) status_NotImplemented :: int where "status_NotImplemented \<equiv> 501"
abbreviation (input) status_BadGateway :: int where "status_BadGateway \<equiv> 502"
abbreviation (input) status_ServiceUnavailable :: int where "status_ServiceUnavailable \<equiv> 503"
abbreviation (input) status_ServerTimeout :: int where "status_ServerTimeout \<equiv> 504"
abbreviation (input) status_VersionNotSupported :: int where "status_VersionNotSupported \<equiv> 505"
abbreviation (input) status_MessageTooLarge :: int where "status_MessageTooLarge \<equiv> 513"
abbreviation (input) status_PreconditionFailure :: int where "status_PreconditionFailure \<equiv> 580"
abbreviation (input) status_BusyEverywhere :: int where "status_BusyEverywhere \<equiv> 600"
abbreviation (input) status_Decline :: int where "status_Decline \<equiv> 603"
abbreviation (input) status_DoesNotExistAnywhere :: int where "status_DoesNotExistAnywhere \<equiv> 604"

abbreviation (input) q850_NoRCProvided :: int where "q850_NoRCProvided \<equiv> 0"
abbreviation (input) q850_UnallocatedNumber :: int where "q850_UnallocatedNumber \<equiv> 1"
abbreviation (input) q850_NoRouteToTransitNetwork :: int where "q850_NoRouteToTransitNetwork \<equiv> 2"
abbreviation (input) q850_NoRouteToDestination :: int where "q850_NoRouteToDestination \<equiv> 3"
abbreviation (input) q850_SendSpecialInformationTone :: int where "q850_SendSpecialInformationTone \<equiv> 4"
abbreviation (input) q850_MisdialedTrunkPrefix :: int where "q850_MisdialedTrunkPrefix \<equiv> 5"
abbreviation (input) q850_ChannelUnacceptable :: int where "q850_ChannelUnacceptable \<equiv> 6"
abbreviation (input) q850_CallAwardedInEstablishedChannel :: int where "q850_CallAwardedInEstablishedChannel \<equiv> 7"
abbreviation (input) q850_Preemption :: int where "q850_Preemption \<equiv> 8"
abbreviation (input) q850_PreemptionCircuitReservedForReuse :: int where "q850_PreemptionCircuitReservedForReuse \<equiv> 9"
abbreviation (input) q850_NormalCallClearing :: int where "q850_NormalCallClearing \<equiv> 16"
abbreviation (input) q850_UserBusy :: int where "q850_UserBusy \<equiv> 17"
abbreviation (input) q850_NoUserResponding :: int where "q850_NoUserResponding \<equiv> 18"
abbreviation (input) q850_NoAnswerFromUser :: int where "q850_NoAnswerFromUser \<equiv> 19"
abbreviation (input) q850_SubscriberAbsent :: int where "q850_SubscriberAbsent \<equiv> 20"
abbreviation (input) q850_CallRejected :: int where "q850_CallRejected \<equiv> 21"
abbreviation (input) q850_NumberChanged :: int where "q850_NumberChanged \<equiv> 22"
abbreviation (input) q850_RedirectionToNewDestination :: int where "q850_RedirectionToNewDestination \<equiv> 23"
abbreviation (input) q850_ExchangeRoutingError :: int where "q850_ExchangeRoutingError \<equiv> 25"
abbreviation (input) q850_NonSelectedUserClearing :: int where "q850_NonSelectedUserClearing \<equiv> 26"
abbreviation (input) q850_DestinationOutOfOrder :: int where "q850_DestinationOutOfOrder \<equiv> 27"
abbreviation (input) q850_InvalidNumberFormat :: int where "q850_InvalidNumberFormat \<equiv> 28"
abbreviation (input) q850_FacilityRejected :: int where "q850_FacilityRejected \<equiv> 29"
abbreviation (input) q850_ResponseToSTATUSENQUIRY :: int where "q850_ResponseToSTATUSENQUIRY \<equiv> 30"
abbreviation (input) q850_NormalUnspecified :: int where "q850_NormalUnspecified \<equiv> 31"
abbreviation (input) q850_NoCircuitChannelAvailable :: int where "q850_NoCircuitChannelAvailable \<equiv> 34"
abbreviation (input) q850_NetworkOutOfOrder :: int where "q850_NetworkOutOfOrder \<equiv> 38"
abbreviation (input) q850_PermanentFrameModeConnectionOoS :: int where "q850_PermanentFrameModeConnectionOoS \<equiv> 39"
abbreviation (input) q850_PermanentFrameModeConnectionOper :: int where "q850_PermanentFrameModeConnectionOper \<equiv> 40"
abbreviation (input) q850_TemporaryFailure :: int where "q850_TemporaryFailure \<equiv> 41"
abbreviation (input) q850_SwitchingEquipmentCongestion :: int where "q850_SwitchingEquipmentCongestion \<equiv> 42"
abbreviation (input) q850_AccessInformationDiscarded :: int where "q850_AccessInformationDiscarded \<equiv> 43"
abbreviation (input) q850_RequestedCircuitChannelNA :: int where "q850_RequestedCircuitChannelNA \<equiv> 44"
abbreviation (input) q850_PrecedenceCallBlocked :: int where "q850_PrecedenceCallBlocked \<equiv> 46"
abbreviation (input) q850_ResourceUnavailableUnspecified :: int where "q850_ResourceUnavailableUnspecified \<equiv> 47"
abbreviation (input) q850_QualityOfServiceNotAvailable :: int where "q850_QualityOfServiceNotAvailable \<equiv> 49"
abbreviation (input) q850_RequestedFacilityNotSubscribed :: int where "q850_RequestedFacilityNotSubscribed \<equiv> 50"
abbreviation (input) q850_OutgoingCallsBarredWithinCUG :: int where "q850_OutgoingCallsBarredWithinCUG \<equiv> 53"
abbreviation (input) q850_IncomingCallsBarredWithinCUG :: int where "q850_IncomingCallsBarredWithinCUG \<equiv> 55"
abbreviation (input) q850_BearerCapabilityNotAuthorized :: int where "q850_BearerCapabilityNotAuthorized \<equiv> 57"
abbreviation (input) q850_BearerCapabilityNotAvailable :: int where "q850_BearerCapabilityNotAvailable \<equiv> 58"
abbreviation (input) q850_InconsistencyInOutgoingIE :: int where "q850_InconsistencyInOutgoingIE \<equiv> 62"
abbreviation (input) q850_ServiceOrOptionNAUnspecified :: int where "q850_ServiceOrOptionNAUnspecified \<equiv> 63"
abbreviation (input) q850_BearerCapabilityNotImplemented :: int where "q850_BearerCapabilityNotImplemented \<equiv> 65"
abbreviation (input) q850_ChannelTypeNotImplemented :: int where "q850_ChannelTypeNotImplemented \<equiv> 66"
abbreviation (input) q850_RequestedFacilityNotImplemented :: int where "q850_RequestedFacilityNotImplemented \<equiv> 69"
abbreviation (input) q850_OnlyRestrictedDigitalBearerCapSupported :: int where "q850_OnlyRestrictedDigitalBearerCapSupported \<equiv> 70"
abbreviation (input) q850_ServiceOrOptionNotImplementedUnspecified :: int where "q850_ServiceOrOptionNotImplementedUnspecified \<equiv> 79"
abbreviation (input) q850_InvalidCallReferenceValue :: int where "q850_InvalidCallReferenceValue \<equiv> 81"
abbreviation (input) q850_IdentifiedChannelDoesNotExist :: int where "q850_IdentifiedChannelDoesNotExist \<equiv> 82"
abbreviation (input) q850_CallExistsButCallIdentityDoesNot :: int where "q850_CallExistsButCallIdentityDoesNot \<equiv> 83"
abbreviation (input) q850_CallIdentityInUser :: int where "q850_CallIdentityInUser \<equiv> 84"
abbreviation (input) q850_NoCallSuspended :: int where "q850_NoCallSuspended \<equiv> 85"
abbreviation (input) q850_CallWithRequestedCallIdentityHasCleared :: int where "q850_CallWithRequestedCallIdentityHasCleared \<equiv> 86"
abbreviation (input) q850_UserNotMemberOfCUG :: int where "q850_UserNotMemberOfCUG \<equiv> 87"
abbreviation (input) q850_IncompatibleDestination :: int where "q850_IncompatibleDestination \<equiv> 88"
abbreviation (input) q850_NonExistentCUG :: int where "q850_NonExistentCUG \<equiv> 90"
abbreviation (input) q850_InvalidTransitNetworkSelection :: int where "q850_InvalidTransitNetworkSelection \<equiv> 91"
abbreviation (input) q850_InvalidMessageUnspecified :: int where "q850_InvalidMessageUnspecified \<equiv> 95"
abbreviation (input) q850_MandatoryInformationElementIsMissing :: int where "q850_MandatoryInformationElementIsMissing \<equiv> 96"
abbreviation (input) q850_MessageTypeNonExistentNotImplemented :: int where "q850_MessageTypeNonExistentNotImplemented \<equiv> 97"
abbreviation (input) q850_MessageIncompatibleWithCallStateOrMessageType :: int where "q850_MessageIncompatibleWithCallStateOrMessageType \<equiv> 98"
abbreviation (input) q850_IEParameterNonExistentOrNotImplemented :: int where "q850_IEParameterNonExistentOrNotImplemented \<equiv> 99"
abbreviation (input) q850_InvalidInformationElementContents :: int where "q850_InvalidInformationElementContents \<equiv> 100"
abbreviation (input) q850_MessageNotCompatibleWithCallState :: int where "q850_MessageNotCompatibleWithCallState \<equiv> 101"
abbreviation (input) q850_RecoveryOnTimerExpiry :: int where "q850_RecoveryOnTimerExpiry \<equiv> 102"
abbreviation (input) q850_ParameterNonExistentOrNotImplementedPassedOn :: int where "q850_ParameterNonExistentOrNotImplementedPassedOn \<equiv> 103"
abbreviation (input) q850_MessageWithUnrecognizedParameterDiscarded :: int where "q850_MessageWithUnrecognizedParameterDiscarded \<equiv> 110"
abbreviation (input) q850_ProtocolErrorUnspecified :: int where "q850_ProtocolErrorUnspecified \<equiv> 111"
abbreviation (input) q850_InterworkingUnspecified :: int where "q850_InterworkingUnspecified \<equiv> 127"

section \<open>Session modes and number types\<close>

datatype SessionMode =
  UnsetMode | None_mode | Multimedia | Registration | Subscription | KeepAlive | Messaging | AllTypes

text \<open>\<open>UnsetMode\<close> is Go's zero value, the empty string, of a session whose mode was never set.\<close>

primrec SessionMode_String :: "SessionMode \<Rightarrow> string" where
  "SessionMode_String UnsetMode = []"
| "SessionMode_String None_mode = ''None''"
| "SessionMode_String Multimedia = ''Multimedia''"
| "SessionMode_String Registration = ''Registration''"
| "SessionMode_String Subscription = ''Subscription''"
| "SessionMode_String KeepAlive = ''KeepAlive''"
| "SessionMode_String Messaging = ''Messaging''"
| "SessionMode_String AllTypes = ''AllTypes''"

datatype NumberType = CalledRURI | CalledTo | CalledBoth | CallingFrom | CallingPAI | CallingBoth


end
