(* ===== verification/Support.thy ===== *)
theory Support
  imports Enums
begin

text \<open>
  The string and number routines of \<open>global/support.go\<close>. Go's sized integers are words, so
  that the wrap-around of the digit loops is the code's; an index past a buffer is a panic,
  here \<open>None\<close>. A routine over a Go map goes through the entries in the order of the list;
  the lemmas show where that order cannot be seen.
\<close>

section \<open>Decimal numbers\<close>

definition is_digit :: "char \<Rightarrow> bool" where
  "is_digit c \<longleftrightarrow> in_range 48 57 (byte_of c)"

definition digit_of :: "char \<Rightarrow> 'a::len word" where
  "digit_of c = of_nat (byte_of c - 48)"

text \<open>
  The digit loop shared by the readers: the value so far, and whether the whole string was
  digits. It stops at the first other byte.
\<close>

fun digit_loop :: "'a::len word \<Rightarrow> string \<Rightarrow> 'a word \<times> bool" where
  "digit_loop out [] = (out, True)"
| "digit_loop out (c # s) =
     (if is_digit c then digit_loop (out * 10 + digit_of c) s else (out, False))"

definition Str2IntCheck :: "string \<Rightarrow> 'a::len word \<times> bool" where
  "Str2IntCheck s =
     (case s of
        [] \<Rightarrow> (0, False)
      | c # r \<Rightarrow>
          if c = CHR ''-'' then
            (if r = [] then (0, False)
             else case digit_loop 0 r of (out, ok) \<Rightarrow> if ok then (- out, True) else (out, False))
          else digit_loop 0 (if c = CHR ''+'' then r else s))"

definition Str2UintCheck :: "string \<Rightarrow> 'a::len word \<times> bool" where
  "Str2UintCheck s =
     (case s of
        [] \<Rightarrow> (0, False)
      | c # r \<Rightarrow>
          if c = CHR ''+'' then (if r = [] then (0, False) else digit_loop 0 r)
          else digit_loop 0 s)"

text \<open>The unchecked readers return what they have at the first byte that is no digit.\<close>

definition Str2Int :: "string \<Rightarrow> 'a::len word" where
  "Str2Int s =
     (case s of
        [] \<Rightarrow> 0
      | c # r \<Rightarrow>
          if c = CHR ''-'' then (case digit_loop 0 r of (out, ok) \<Rightarrow> if ok then - out else out)
          else fst (digit_loop 0 s))"

definition Str2Uint :: "string \<Rightarrow> 'a::len word" where
  "Str2Uint s = fst (digit_loop 0 s)"

definition Str2IntDefaultMinMax ::
    "string \<Rightarrow> 'a::len word \<Rightarrow> 'a word \<Rightarrow> 'a word \<Rightarrow> 'a word \<times> bool" where
  "Str2IntDefaultMinMax s d minlmt maxlmt =
     (case Str2IntCheck s of
        (out, ok) \<Rightarrow>
          if ok then
            (if sint out < sint minlmt \<or> sint out > sint maxlmt then (d, False) else (out, True))
          else (d, False))"

text \<open>
  The writers fill a buffer from its end. The first argument is the index \<open>i\<close>, the last the
  bytes \<open>buf[i:]\<close> written so far; writing below index 0 panics.
\<close>

definition digit_char :: "nat \<Rightarrow> char" where
  "digit_char d = char_of (48 + d)"

fun fill_digits :: "nat \<Rightarrow> nat \<Rightarrow> string \<Rightarrow> string option" where
  "fill_digits i val buf =
     (if 10 \<le> val then
        (if i = 0 then None else fill_digits (i - 1) (val div 10) (digit_char (val mod 10) # buf))
      else if i = 0 then None else Some (digit_char val # buf))"

declare fill_digits.simps [simp del]

definition uint2str :: "nat \<Rightarrow> 'a::len word \<Rightarrow> string option" where
  "uint2str buflen val = fill_digits buflen (unat val) []"

definition int2str :: "nat \<Rightarrow> 'a::len word \<Rightarrow> string option" where
  "int2str buflen val =
     (let isNeg = sint val < 0; v = (if isNeg then - val else val);
          digits = (if sint v < 0
                    then (if buflen = 0 then None else Some [digit_char (unat v)])
                    else fill_digits buflen (unat v) [])
      in map_option (\<lambda>s. if isNeg then CHR ''-'' # s else s) digits)"

definition Int2Str :: "u64 \<Rightarrow> string option" where
  "Int2Str val = (if val = 0 then Some ''0'' else int2str 10 val)"

definition Uint16ToStr :: "u16 \<Rightarrow> string option" where
  "Uint16ToStr val = (if val = 0 then Some ''0'' else uint2str 5 val)"

definition Uint32ToStr :: "u32 \<Rightarrow> string option" where
  "Uint32ToStr val = (if val = 0 then Some ''0'' else uint2str 10 val)"

definition Uint64ToStr :: "u64 \<Rightarrow> string option" where
  "Uint64ToStr val = (if val = 0 then Some ''0'' else uint2str 20 val)"

text \<open>\<open>rand.Uint32N\<close> is a parameter; Go documents a result below its argument.\<close>

definition RandomNum :: "(u32 \<Rightarrow> u32) \<Rightarrow> u32 \<Rightarrow> u32 \<Rightarrow> u32" where
  "RandomNum Uint32N minlmt maxlmt = Uint32N (maxlmt - minlmt + 1) + minlmt"

definition ntpEpochOffset :: u64 where
  "ntpEpochOffset = 2208988800"

definition GetNTPTimestamp :: "u64 \<Rightarrow> u64" where
  "GetNTPTimestamp unix_now = push_bit 32 (unix_now + ntpEpochOffset)"

section \<open>Case conversion\<close>

definition lower_byte :: "char \<Rightarrow> char" where
  "lower_byte c = (if in_range 65 90 (byte_of c) then char_of (byte_of c + 32) else c)"

definition upper_byte :: "char \<Rightarrow> char" where
  "upper_byte c = (if in_range 97 122 (byte_of c) then char_of (byte_of c - 32) else c)"

definition ASCIIToLower :: "string \<Rightarrow> string" where
  "ASCIIToLower s = map lower_byte s"

definition ASCIIToUpper :: "string \<Rightarrow> string" where
  "ASCIIToUpper s = map upper_byte s"

definition LowerDash :: "string \<Rightarrow> string" where
  "LowerDash s = ReplaceAll (ASCIIToLower s) '' '' ''-''"

definition ASCIIPascal :: "string \<Rightarrow> string" where
  "ASCIIPascal s =
     map (\<lambda>i. if i = 0 \<or> s ! (i - 1) = CHR ''-'' then upper_byte (s ! i) else s ! i)
       [0..<length s]"

definition HeaderCase :: "string \<Rightarrow> string" where
  "HeaderCase h =
     (case find (\<lambda>k. ASCIIToLower k = ASCIIToLower h) (map fst HeaderStringtoEnum) of
        Some k \<Rightarrow> k
      | None \<Rightarrow> ASCIIPascal (ASCIIToLower h))"

definition LowerCaseString :: "HeaderEnum \<Rightarrow> string" where
  "LowerCaseString he = ASCIIToLower (HeaderName he)"

definition HeaderEquals :: "HeaderEnum \<Rightarrow> string \<Rightarrow> bool" where
  "HeaderEquals he h \<longleftrightarrow> LowerCaseString he = ASCIIToLower h"

section \<open>Small string routines\<close>

definition TrimWithSuffix :: "string \<Rightarrow> string \<Rightarrow> string" where
  "TrimWithSuffix s sfx = (let t = Trim s '' '' in if t = [] then t else t @ sfx)"

definition GetUsedSize :: "string \<Rightarrow> nat" where
  "GetUsedSize pdu =
     (case IndexFunc (\<lambda>b. byte_of b = 0) pdu of None \<Rightarrow> length pdu | Some i \<Rightarrow> i)"

definition DropVisualSeparators :: "string \<Rightarrow> string" where
  "DropVisualSeparators s =
     concat (map (\<lambda>(r, _). if r \<in> {46, 45, 40, 41} then [] else EncodeRune r) (Runes s))"

definition KeepOnlyNumerics :: "string \<Rightarrow> string" where
  "KeepOnlyNumerics s =
     concat (map (\<lambda>(r, _). if r < 48 \<or> 57 < r then [] else EncodeRune r) (Runes s))"

definition DropConcatenationChars :: "string \<Rightarrow> bool \<Rightarrow> string" where
  "DropConcatenationChars s dropDQ =
     (if dropDQ then ReplaceAll (ReplaceAll s [CHR 39] []) [CHR 34] [] else s)"

definition Stringlen :: "string \<Rightarrow> nat" where
  "Stringlen s = length (Runes s)"

section \<open>Decimal readers and writers: the reference\<close>

text \<open>The value of a digit string and the digits of a number, without any width.\<close>

definition decimal :: "string \<Rightarrow> nat" where
  "decimal s = foldl (\<lambda>n c. 10 * n + (byte_of c - 48)) 0 s"

fun dec_string :: "nat \<Rightarrow> string" where
  "dec_string n = (if n < 10 then [digit_char n] else dec_string (n div 10) @ [digit_char (n mod 10)])"

declare dec_string.simps [simp del]

lemma byte_of_digit_char [simp]: "d < 10 \<Longrightarrow> byte_of (digit_char d) = 48 + d"
  by (simp add: byte_of_def digit_char_def)

lemma is_digit_digit_char [simp]: "d < 10 \<Longrightarrow> is_digit (digit_char d)"
  by (simp add: is_digit_def in_range_def)

lemma decimal_snoc: "decimal (s @ [c]) = 10 * decimal s + (byte_of c - 48)"
  by (simp add: decimal_def)

lemma dec_string_digits: "list_all is_digit (dec_string n)"
proof (induction n rule: dec_string.induct)
  case (1 n)
  then show ?case by (subst dec_string.simps) simp
qed

lemma dec_string_nonempty [simp]: "dec_string n \<noteq> []"
  by (subst dec_string.simps) simp

lemma decimal_dec_string [simp]: "decimal (dec_string n) = n"
proof (induction n rule: dec_string.induct)
  case (1 n)
  then show ?case
    by (subst dec_string.simps) (simp add: decimal_snoc decimal_def [of "[_]"])
qed

lemma digit_loop_ok: "snd (digit_loop out s) \<longleftrightarrow> list_all is_digit s"
  by (induction s arbitrary: out) auto

lemma digit_loop_of_nat:
  "list_all is_digit s \<Longrightarrow>
     digit_loop (of_nat n) s = (of_nat (foldl (\<lambda>n c. 10 * n + (byte_of c - 48)) n s), True)"
proof (induction s arbitrary: n)
  case (Cons c s)
  then have "digit_loop (of_nat n) (c # s)
      = digit_loop (of_nat (10 * n + (byte_of c - 48)) :: 'a word) s"
    by (simp add: digit_of_def algebra_simps)
  with Cons.prems Cons.IH [of "10 * n + (byte_of c - 48)"] show ?case by simp
qed simp

lemma digit_loop_digits: "list_all is_digit s \<Longrightarrow> digit_loop 0 s = (of_nat (decimal s), True)"
  using digit_loop_of_nat [of s 0] by (simp add: decimal_def)

lemma fill_digits_eq:
  "fill_digits i n buf = (if 0 < i \<and> n < 10 ^ i then Some (dec_string n @ buf) else None)"
proof (induction i n buf rule: fill_digits.induct)
  case (1 i n buf)
  show ?case
  proof (cases "10 \<le> n \<and> 0 < i")
    case True
    then obtain j where i: "i = Suc j" by (cases i) auto
    have pw: "n div 10 < 10 ^ j \<longleftrightarrow> n < 10 ^ Suc j" by (auto simp: div_less_iff_less_mult)
    have "0 < j" if "n < 10 ^ Suc j" using True that by (cases j) auto
    with True i pw "1" show ?thesis
      by (subst fill_digits.simps) (auto simp: dec_string.simps [of n])
  next
    case False
    then show ?thesis
    proof (cases i)
      case (Suc j)
      with False have "n < 10" by simp
      moreover have "(10::nat) \<le> 10 ^ Suc j" by simp
      ultimately have "n < 10 ^ Suc j" by (rule less_le_trans)
      with \<open>n < 10\<close> Suc show ?thesis
        by (subst fill_digits.simps) (simp add: dec_string.simps [of n])
    qed (subst fill_digits.simps, simp)
  qed
qed

lemma char_of_48: "char_of (48 :: nat) = CHR ''0''"
  by (simp add: char_of_eq_iff)

lemma digit_char_0 [simp]: "digit_char 0 = CHR ''0''"
  by (simp add: digit_char_def char_of_48)

lemma digit_char_mod: "digit_char n = char_of ((48 + n) mod 256)"
  by (simp add: digit_char_def)

lemma dec_string_0: "dec_string 0 = ''0''"
  by (simp add: dec_string.simps)

lemma uint2str_eq:
  "(if v = 0 then Some ''0'' else uint2str n v)
     = (if v = 0 \<or> 0 < n \<and> unat v < 10 ^ n then Some (dec_string (unat v)) else None)"
  by (auto simp: uint2str_def fill_digits_eq dec_string_0)

lemma unat_bound_10: "unat (v::u16) < 10 ^ 5" "unat (w::u32) < 10 ^ 10" "unat (x::u64) < 10 ^ 20"
  by (rule less_le_trans [OF unsigned_less], simp)+

lemma Uint16ToStr_eq: "Uint16ToStr v = Some (dec_string (unat v))"
  using unat_bound_10(1) [of v] by (simp add: Uint16ToStr_def uint2str_eq)

lemma Uint32ToStr_eq: "Uint32ToStr v = Some (dec_string (unat v))"
  using unat_bound_10(2) [of v] by (simp add: Uint32ToStr_def uint2str_eq)

lemma Uint64ToStr_eq: "Uint64ToStr v = Some (dec_string (unat v))"
  using unat_bound_10(3) [of v] by (simp add: Uint64ToStr_def uint2str_eq)

lemma sign_not_digit [simp]: "\<not> is_digit CHR ''-''" "\<not> is_digit CHR ''+''"
  by (simp_all add: is_digit_def in_range_def byte_of_def)

lemma dec_string_cases:
  obtains c r where "dec_string n = c # r" "is_digit c"
    "digit_loop 0 (c # r) = (of_nat n :: 'a::len word, True)"
proof -
  obtain c r where e: "dec_string n = c # r" by (cases "dec_string n") auto
  with dec_string_digits [of n] have "is_digit c" by simp
  moreover have "digit_loop 0 (dec_string n) = (of_nat n :: 'a word, True)"
    by (simp add: digit_loop_digits [OF dec_string_digits])
  ultimately show thesis using that e by simp
qed

lemma Str2UintCheck_dec_string: "Str2UintCheck (dec_string n) = (of_nat n, True)"
  by (rule dec_string_cases [of n]) (auto simp: Str2UintCheck_def simp del: digit_loop.simps)

lemma Str2IntCheck_dec_string: "Str2IntCheck (dec_string n) = (of_nat n, True)"
  by (rule dec_string_cases [of n]) (auto simp: Str2IntCheck_def simp del: digit_loop.simps)

lemma Str2IntCheck_minus: "Str2IntCheck (CHR ''-'' # dec_string n) = (- of_nat n, True)"
  by (simp add: Str2IntCheck_def digit_loop_digits [OF dec_string_digits])

lemma Str2Uint_dec_string: "Str2Uint (dec_string n) = of_nat n"
  by (simp add: Str2Uint_def digit_loop_digits [OF dec_string_digits])

lemma unat_sint_pos: "0 \<le> sint (v::u64) \<Longrightarrow> unat v = nat (sint v)"
proof -
  assume "0 \<le> sint v"
  moreover have "sint v < 2 ^ 64" using sint_lt [of v] by simp
  ultimately have "uint v = sint v" by (simp add: uint_sint take_bit_int_eq_self)
  then show ?thesis by (simp add: unat_eq_nat_uint)
qed

lemma sint_neg_unat:
  fixes v :: u64
  assumes "sint v < 0" "sint v \<noteq> - (2 ^ 63)"
  shows "unat (- v) = nat (- sint v)" and "0 \<le> sint (- v)"
proof -
  have r: "- (2 ^ 63) \<le> sint v" using sint_greater_eq [of v] by simp
  have e: "sint (- v) = - sint v"
    using assms r by (simp add: sint_word_ariths signed_take_bit_int_eq_self)
  with assms show "0 \<le> sint (- v)" by simp
  with e unat_sint_pos [of "- v"] show "unat (- v) = nat (- sint v)" by simp
qed


lemma Int2Str_eq:
  assumes "sint v \<noteq> - (2 ^ 63)"
  shows "Int2Str v =
    (if \<bar>sint v\<bar> < 10 ^ 10
     then Some ((if sint v < 0 then ''-'' else []) @ dec_string (nat \<bar>sint v\<bar>)) else None)"
proof (cases "sint v < 0")
  case True
  from sint_neg_unat [OF True assms] True show ?thesis
    by (auto simp: Int2Str_def int2str_def Let_def fill_digits_eq nat_less_iff)
next
  case False
  with unat_sint_pos [of v] show ?thesis
    by (auto simp: Int2Str_def int2str_def Let_def fill_digits_eq nat_less_iff dec_string_0)
qed

lemma Int2Str_min: "Int2Str (- (2 ^ 63)) = Some ''-0''"
  using digit_char_mod [of "9223372036854775808"]
  by (simp add: Int2Str_def int2str_def Let_def char_of_48)

lemma Str2IntCheck_Int2Str:
  assumes "\<bar>sint v\<bar> < 10 ^ 10"
  shows "\<exists>s. Int2Str v = Some s \<and> Str2IntCheck s = (v, True)"
proof -
  from assms have "sint v \<noteq> - (2 ^ 63)" by auto
  moreover have "- of_nat (nat (- sint v)) = v" if "sint v < 0"
    using that by simp
  moreover have "of_nat (nat (sint v)) = v" if "0 \<le> sint v"
    using that by simp
  ultimately show ?thesis using assms
    by (auto simp: Int2Str_eq Str2IntCheck_minus Str2IntCheck_dec_string)
qed

section \<open>Case conversion: the laws\<close>

lemma byte_of_less [simp]: "byte_of c < 256"
  unfolding byte_of_def by (rule nat_of_char_less_256)

lemma byte_of_char_of [simp]: "byte_of (char_of n) = n mod 256"
  by (simp add: byte_of_def)

lemma byte_of_inj: "byte_of c = byte_of d \<longleftrightarrow> c = d"
  by (simp add: byte_of_def)

lemma lower_lower [simp]: "lower_byte (lower_byte c) = lower_byte c"
  by (auto simp: lower_byte_def in_range_def)

lemma lower_upper [simp]: "lower_byte (upper_byte c) = lower_byte c"
  by (auto simp: lower_byte_def upper_byte_def in_range_def byte_of_inj [symmetric])

lemma ASCIIToLower_idem [simp]: "ASCIIToLower (ASCIIToLower s) = ASCIIToLower s"
  by (simp add: ASCIIToLower_def)

lemma ASCIIToLower_Upper [simp]: "ASCIIToLower (ASCIIToUpper s) = ASCIIToLower s"
  by (simp add: ASCIIToLower_def ASCIIToUpper_def)

lemma length_ASCIIToLower [simp]: "length (ASCIIToLower s) = length s"
  by (simp add: ASCIIToLower_def)

lemma ASCIIToLower_Pascal [simp]: "ASCIIToLower (ASCIIPascal s) = ASCIIToLower s"
proof (rule nth_equalityI)
  show "length (ASCIIToLower (ASCIIPascal s)) = length (ASCIIToLower s)"
    by (simp add: ASCIIPascal_def)
next
  fix i assume "i < length (ASCIIToLower (ASCIIPascal s))"
  then have "i < length s" by (simp add: ASCIIPascal_def)
  then show "ASCIIToLower (ASCIIPascal s) ! i = ASCIIToLower s ! i"
    by (simp add: ASCIIToLower_def ASCIIPascal_def)
qed

lemma lower_byte_eval [sr_eval, simp]:
  "lower_byte CHR ''a'' = CHR ''a''"
  "lower_byte CHR ''b'' = CHR ''b''"
  "lower_byte CHR ''c'' = CHR ''c''"
  "lower_byte CHR ''d'' = CHR ''d''"
  "lower_byte CHR ''e'' = CHR ''e''"
  "lower_byte CHR ''f'' = CHR ''f''"
  "lower_byte CHR ''g'' = CHR ''g''"
  "lower_byte CHR ''h'' = CHR ''h''"
  "lower_byte CHR ''i'' = CHR ''i''"
  "lower_byte CHR ''j'' = CHR ''j''"
  "lower_byte CHR ''k'' = CHR ''k''"
  "lower_byte CHR ''l'' = CHR ''l''"
  "lower_byte CHR ''m'' = CHR ''m''"
  "lower_byte CHR ''n'' = CHR ''n''"
  "lower_byte CHR ''o'' = CHR ''o''"
  "lower_byte CHR ''p'' = CHR ''p''"
  "lower_byte CHR ''q'' = CHR ''q''"
  "lower_byte CHR ''r'' = CHR ''r''"
  "lower_byte CHR ''s'' = CHR ''s''"
  "lower_byte CHR ''t'' = CHR ''t''"
  "lower_byte CHR ''u'' = CHR ''u''"
  "lower_byte CHR ''v'' = CHR ''v''"
  "lower_byte CHR ''w'' = CHR ''w''"
  "lower_byte CHR ''x'' = CHR ''x''"
  "lower_byte CHR ''y'' = CHR ''y''"
  "lower_byte CHR ''z'' = CHR ''z''"
  "lower_byte CHR ''A'' = CHR ''a''"
  "lower_byte CHR ''B'' = CHR ''b''"
  "lower_byte CHR ''C'' = CHR ''c''"
  "lower_byte CHR ''D'' = CHR ''d''"
  "lower_byte CHR ''E'' = CHR ''e''"
  "lower_byte CHR ''F'' = CHR ''f''"
  "lower_byte CHR ''G'' = CHR ''g''"
  "lower_byte CHR ''H'' = CHR ''h''"
  "lower_byte CHR ''I'' = CHR ''i''"
  "lower_byte CHR ''J'' = CHR ''j''"
  "lower_byte CHR ''K'' = CHR ''k''"
  "lower_byte CHR ''L'' = CHR ''l''"
  "lower_byte CHR ''M'' = CHR ''m''"
  "lower_byte CHR ''N'' = CHR ''n''"
  "lower_byte CHR ''O'' = CHR ''o''"
  "lower_byte CHR ''P'' = CHR ''p''"
  "lower_byte CHR ''Q'' = CHR ''q''"
  "lower_byte CHR ''R'' = CHR ''r''"
  "lower_byte CHR ''S'' = CHR ''s''"
  "lower_byte CHR ''T'' = CHR ''t''"
  "lower_byte CHR ''U'' = CHR ''u''"
  "lower_byte CHR ''V'' = CHR ''v''"
  "lower_byte CHR ''W'' = CHR ''w''"
  "lower_byte CHR ''X'' = CHR ''x''"
  "lower_byte CHR ''Y'' = CHR ''y''"
  "lower_byte CHR ''Z'' = CHR ''z''"
  "lower_byte CHR ''-'' = CHR ''-''"
  by (simp_all add: lower_byte_def in_range_def byte_of_def char_of_eq_iff)

lemma HeaderStringtoEnum_lower_distinct:
  "distinct (map (\<lambda>(k, e). ASCIIToLower k) HeaderStringtoEnum)"
  by (simp add: HeaderStringtoEnum_def ASCIIToLower_def)

lemma HeaderStringtoEnum_inverse:
  "HeaderStringtoEnum = map (\<lambda>(e, k). (k, e)) HeaderEnumToString"
  by (simp add: HeaderEnumToString_def HeaderStringtoEnum_def)

lemma HeaderStringtoEnum_lower_inj:
  assumes "k \<in> fst ` set HeaderStringtoEnum" "k' \<in> fst ` set HeaderStringtoEnum"
    and "ASCIIToLower k = ASCIIToLower k'"
  shows "k = k'"
proof -
  have "distinct (map ASCIIToLower (map fst HeaderStringtoEnum))"
    using HeaderStringtoEnum_lower_distinct by (simp add: case_prod_unfold comp_def)
  then have "inj_on ASCIIToLower (set (map fst HeaderStringtoEnum))"
    by (simp only: distinct_map)
  with assms show ?thesis by (auto dest: inj_onD)
qed

text \<open>
  \<open>HeaderCase\<close> loops over a Go map. \<open>HeaderCase_in ks\<close> is the loop with the keys in the order
  \<open>ks\<close>: every order gives the same header name.
\<close>

definition HeaderCase_in :: "string list \<Rightarrow> string \<Rightarrow> string" where
  "HeaderCase_in ks h =
     (case find (\<lambda>k. ASCIIToLower k = ASCIIToLower h) ks of
        Some k \<Rightarrow> k
      | None \<Rightarrow> ASCIIPascal (ASCIIToLower h))"

lemma HeaderCase_order:
  assumes "set ks = fst ` set HeaderStringtoEnum"
  shows "HeaderCase_in ks h = HeaderCase h"
proof -
  have "find (\<lambda>k. ASCIIToLower k = ASCIIToLower h) ks
      = find (\<lambda>k. ASCIIToLower k = ASCIIToLower h) (map fst HeaderStringtoEnum)"
    by (rule find_unique_order) (use assms HeaderStringtoEnum_lower_inj in auto)
  then show ?thesis by (simp add: HeaderCase_in_def HeaderCase_def)
qed

lemma HeaderCase_lower [simp]: "ASCIIToLower (HeaderCase h) = ASCIIToLower h"
  by (auto simp: HeaderCase_def split: option.splits dest: find_Some_set)

lemma HeaderCase_eq_iff:
  "HeaderCase h = HeaderCase h' \<longleftrightarrow> ASCIIToLower h = ASCIIToLower h'"
  by (metis HeaderCase_def HeaderCase_lower)

lemma HeaderCase_known:
  assumes "k \<in> fst ` set HeaderStringtoEnum"
  shows "HeaderCase k = k"
proof -
  have "find (\<lambda>x. ASCIIToLower x = ASCIIToLower k) (map fst HeaderStringtoEnum) \<noteq> None"
    using assms unfolding find_None_set by auto
  then obtain x where x: "find (\<lambda>x. ASCIIToLower x = ASCIIToLower k) (map fst HeaderStringtoEnum) = Some x"
    by auto
  then have "x = k" using assms HeaderStringtoEnum_lower_inj [of x k] by (auto dest!: find_Some_set)
  with x show ?thesis by (simp add: HeaderCase_def)
qed

text \<open>The header table read by position, and the names that the model uses, evaluated once.\<close>

lemma HeaderEnumToString_fst: "map fst HeaderEnumToString = map HeaderEnum [0..<131]"
  by (simp add: HeaderEnumToString_def upt_conv_Cons)

lemma HeaderEnumToString_distinct: "distinct (map fst HeaderEnumToString)"
  by (simp add: HeaderEnumToString_fst distinct_map inj_on_def)

lemma HeaderName_nth:
  assumes "i < 131"
  shows "HeaderName (HeaderEnum i) = map snd HeaderEnumToString ! i"
proof -
  have len: "length HeaderEnumToString = 131"
    using arg_cong [OF HeaderEnumToString_fst, of length] by simp
  have "fst (HeaderEnumToString ! i) = HeaderEnum i"
    using arg_cong [OF HeaderEnumToString_fst, of "\<lambda>l. l ! i"] assms len by simp
  then have "(HeaderEnum i, snd (HeaderEnumToString ! i)) \<in> set HeaderEnumToString"
    using assms len by (metis nth_mem prod.collapse)
  then have "map_of HeaderEnumToString (HeaderEnum i) = Some (snd (HeaderEnumToString ! i))"
    by (rule map_of_is_SomeI [OF HeaderEnumToString_distinct])
  with assms len show ?thesis by (simp add: HeaderName_def)
qed

lemma header_names_eq:
  "map snd HeaderEnumToString =
        [''Accept'', ''Accept-Contact'', ''Accept-Encoding'', ''Accept-Language'',
     ''Accept-Resource-Priority'', ''Alert-Info'', ''Allow'', ''Allow-Events'',
     ''Answer-Mode'', ''Authentication-Info'', ''Authorization'', ''Call-ID'',
     ''Call-Info'', ''Compression'', ''Contact'', ''Content-Disposition'',
     ''Content-Encoding'', ''Content-Language'', ''Content-Length'',
     ''Content-Transfer-Encoding'', ''Content-Type'', ''Cisco-Guid'', ''CSeq'',
     ''Custom-CLI'', ''Date'', ''Diversion'', ''Error-Info'', ''Event'', ''Expires'',
     ''Feature-Caps'', ''Flow-Timer'', ''From'', ''Geolocation'', ''Geolocation-Error'',
     ''Geolocation-Routing'', ''History-Info'', ''Identity'', ''Identity-Info'',
     ''In-Reply-To'', ''Info-Package'', ''Join'', ''Max-Breadth'', ''Max-Expires'',
     ''Max-Forwards'', ''MIME-Version'', ''Min-Expires'', ''Min-SE'', ''Organization'',
     ''P-Add-BodyPart'', ''P-Access-Network-Info'', ''P-Answer-State'',
     ''P-Asserted-Identity'', ''P-Asserted-Service'', ''P-Associated-URI'',
     ''P-BusLayHeader'', ''P-BusLayPayload'', ''P-BusLayRefSIPA'', ''P-BusLayTimers'',
     ''P-Called-Party-ID'', ''P-Charging-Function-Addresses'', ''P-Charging-Vector'',
     ''P-DCS-Billing-Info'', ''P-DCS-LAES'', ''P-DCS-OSPS'', ''P-DCS-Redirect'',
     ''P-DCS-Trace-Party-ID'', ''P-Early-Media'', ''P-Media-Authorization'', ''P-Orig'',
     ''P-OrigHeader'', ''P-Preferred-Identity'', ''P-Preferred-Service'',
     ''P-Private-Network-Indication'', ''P-Profile-Key'', ''P-Refused-URI-List'',
     ''P-Served-User'', ''P-User-Database'', ''P-Visited-Network-ID'', ''Path'',
     ''Permission-Missing'', ''Policy-Contact'', ''Policy-ID'', ''Priority'',
     ''Priv-Answer-Mode'', ''Privacy'', ''Proxy-Authenticate'', ''Proxy-Authorization'',
     ''Proxy-Require'', ''RAck'', ''Reason'', ''Reason-Phrase'', ''Record-Route'',
     ''Recv-Info'', ''Refer-Events-At'', ''Refer-Sub'', ''Refer-To'', ''Referred-By'',
     ''Reject-Contact'', ''Replaces'', ''Reply-To'', ''Request-Disposition'', ''Require'',
     ''Resource-Priority'', ''Retry-After'', ''Route'', ''RSeq'', ''Security-Client'',
     ''Security-Server'', ''Security-Verify'', ''Server'', ''Service-Route'',
     ''Session-Expires'', ''Session-ID'', ''SIP-ETag'', ''SIP-If-Match'', ''Subject'',
     ''Subscription-State'', ''Subscription-Expires'', ''Supported'', ''Suppress-If-Match'',
     ''Target-Dialog'', ''Timestamp'', ''To'', ''Trigger-Consent'', ''Unsupported'',
     ''User-Agent'', ''User-to-User'', ''Via'', ''Warning'', ''WWW-Authenticate'',
     ''X-BusLayBehavior'']"
  by (simp add: HeaderEnumToString_def)

lemma HeaderName_eval [sr_eval, simp]:
  "HeaderName Accept_hdr = ''Accept''"
  "HeaderName Allow_hdr = ''Allow''"
  "HeaderName Call_ID_hdr = ''Call-ID''"
  "HeaderName Contact_hdr = ''Contact''"
  "HeaderName Content_Disposition_hdr = ''Content-Disposition''"
  "HeaderName Content_Length_hdr = ''Content-Length''"
  "HeaderName Content_Transfer_Encoding_hdr = ''Content-Transfer-Encoding''"
  "HeaderName Content_Type_hdr = ''Content-Type''"
  "HeaderName CSeq_hdr = ''CSeq''"
  "HeaderName Date_hdr = ''Date''"
  "HeaderName Diversion_hdr = ''Diversion''"
  "HeaderName Expires_hdr = ''Expires''"
  "HeaderName From_hdr = ''From''"
  "HeaderName History_Info_hdr = ''History-Info''"
  "HeaderName Max_Forwards_hdr = ''Max-Forwards''"
  "HeaderName MIME_Version_hdr = ''MIME-Version''"
  "HeaderName P_Add_BodyPart_hdr = ''P-Add-BodyPart''"
  "HeaderName P_Asserted_Identity_hdr = ''P-Asserted-Identity''"
  "HeaderName Privacy_hdr = ''Privacy''"
  "HeaderName RAck_hdr = ''RAck''"
  "HeaderName Reason_hdr = ''Reason''"
  "HeaderName Record_Route_hdr = ''Record-Route''"
  "HeaderName Refer_Sub_hdr = ''Refer-Sub''"
  "HeaderName Refer_To_hdr = ''Refer-To''"
  "HeaderName Require_hdr = ''Require''"
  "HeaderName Retry_After_hdr = ''Retry-After''"
  "HeaderName Route_hdr = ''Route''"
  "HeaderName RSeq_hdr = ''RSeq''"
  "HeaderName Server_hdr = ''Server''"
  "HeaderName Subject_hdr = ''Subject''"
  "HeaderName Supported_hdr = ''Supported''"
  "HeaderName To_hdr = ''To''"
  "HeaderName User_Agent_hdr = ''User-Agent''"
  "HeaderName Via_hdr = ''Via''"
  "HeaderName Warning_hdr = ''Warning''"
  by (simp_all only: HeaderName_nth header_names_eq) simp_all

lemma LowerCaseString_eval [sr_eval, simp]:
  "LowerCaseString Accept_hdr = ''accept''"
  "LowerCaseString Allow_hdr = ''allow''"
  "LowerCaseString Call_ID_hdr = ''call-id''"
  "LowerCaseString Contact_hdr = ''contact''"
  "LowerCaseString Content_Disposition_hdr = ''content-disposition''"
  "LowerCaseString Content_Length_hdr = ''content-length''"
  "LowerCaseString Content_Transfer_Encoding_hdr = ''content-transfer-encoding''"
  "LowerCaseString Content_Type_hdr = ''content-type''"
  "LowerCaseString CSeq_hdr = ''cseq''"
  "LowerCaseString Date_hdr = ''date''"
  "LowerCaseString Diversion_hdr = ''diversion''"
  "LowerCaseString Expires_hdr = ''expires''"
  "LowerCaseString From_hdr = ''from''"
  "LowerCaseString History_Info_hdr = ''history-info''"
  "LowerCaseString Max_Forwards_hdr = ''max-forwards''"
  "LowerCaseString MIME_Version_hdr = ''mime-version''"
  "LowerCaseString P_Add_BodyPart_hdr = ''p-add-bodypart''"
  "LowerCaseString P_Asserted_Identity_hdr = ''p-asserted-identity''"
  "LowerCaseString Privacy_hdr = ''privacy''"
  "LowerCaseString RAck_hdr = ''rack''"
  "LowerCaseString Reason_hdr = ''reason''"
  "LowerCaseString Record_Route_hdr = ''record-route''"
  "LowerCaseString Refer_Sub_hdr = ''refer-sub''"
  "LowerCaseString Refer_To_hdr = ''refer-to''"
  "LowerCaseString Require_hdr = ''require''"
  "LowerCaseString Retry_After_hdr = ''retry-after''"
  "LowerCaseString Route_hdr = ''route''"
  "LowerCaseString RSeq_hdr = ''rseq''"
  "LowerCaseString Server_hdr = ''server''"
  "LowerCaseString Subject_hdr = ''subject''"
  "LowerCaseString Supported_hdr = ''supported''"
  "LowerCaseString To_hdr = ''to''"
  "LowerCaseString User_Agent_hdr = ''user-agent''"
  "LowerCaseString Via_hdr = ''via''"
  "LowerCaseString Warning_hdr = ''warning''"
  by (simp_all add: LowerCaseString_def ASCIIToLower_def)

section \<open>Properties\<close>

text \<open>C38: Every unsigned 16, 32 and 64 bit number is written without a panic in its buffer of 5,
  10 or 20 bytes, and the text read back, checked or unchecked, is the number.\<close>

theorem unsigned_print_read:
  "(\<exists>s. Uint16ToStr (a::u16) = Some s \<and> Str2UintCheck s = (a, True) \<and> Str2Uint s = a)
   \<and> (\<exists>s. Uint32ToStr (b::u32) = Some s \<and> Str2UintCheck s = (b, True) \<and> Str2Uint s = b)
   \<and> (\<exists>s. Uint64ToStr (c::u64) = Some s \<and> Str2UintCheck s = (c, True) \<and> Str2Uint s = c)"
  by (simp add: Uint16ToStr_eq Uint32ToStr_eq Uint64ToStr_eq Str2UintCheck_dec_string Str2Uint_dec_string)

text \<open>C39: \<open>Int2Str\<close> writes an \<open>int\<close> into ten bytes: it panics exactly for a magnitude of 10^10
  or more, the smallest integer apart, which is written \<open>-0\<close>; every text it does write
  otherwise is read back as the number.\<close>

theorem Int2Str_panics_or_reads_back:
  "case Int2Str v of
     None \<Rightarrow> sint v \<noteq> - (2 ^ 63) \<and> 10 ^ 10 \<le> \<bar>sint v\<bar>
   | Some s \<Rightarrow> (if sint v = - (2 ^ 63) then s = ''-0'' else \<bar>sint v\<bar> < 10 ^ 10 \<and> Str2IntCheck s = (v, True))"
proof (cases "sint v = - (2 ^ 63)")
  case True
  have "v = of_int (sint v)" by simp
  then have "v = - (2 ^ 63)" unfolding True by simp
  with True Int2Str_min show ?thesis by simp
next
  case False
  with Int2Str_eq [OF False] Str2IntCheck_Int2Str [of v] show ?thesis
    by (cases "\<bar>sint v\<bar> < 10 ^ 10") auto
qed

text \<open>C40: \<open>HeaderCase\<close> loops over a Go map, whose order is random. Whatever the order of the
  keys, the answer is the same: it depends on the name only up to case, is a fixed point, and
  keeps the name up to case.\<close>

theorem HeaderCase_any_order:
  assumes "set ks = fst ` set HeaderStringtoEnum"
  shows "HeaderCase_in ks h = HeaderCase h
    \<and> (HeaderCase_in ks h = HeaderCase_in ks h' \<longleftrightarrow> ASCIIToLower h = ASCIIToLower h')
    \<and> HeaderCase (HeaderCase_in ks h) = HeaderCase_in ks h
    \<and> ASCIIToLower (HeaderCase_in ks h) = ASCIIToLower h"
  using HeaderCase_eq_iff [of "HeaderCase h" h] by (simp add: HeaderCase_order [OF assms] HeaderCase_eq_iff)

theorem HeaderCase_any_order_witness:
  "set (rev (map fst HeaderStringtoEnum)) = fst ` set HeaderStringtoEnum
   \<and> HeaderCase_in (rev (map fst HeaderStringtoEnum)) ''cALL-iD'' = HeaderCase ''CALL-id''"
  using HeaderCase_any_order [of "rev (map fst HeaderStringtoEnum)" "''cALL-iD''" "''CALL-id''"]
    HeaderCase_eq_iff [of "''cALL-iD''" "''CALL-id''"]
  by (simp add: ASCIIToLower_def)

end
