(* ===== verification/Params.thy ===== *)
theory Params
  imports Support
begin

text \<open>
  The parameter lists of SIP headers and URIs, the number translation and the generic
  collection helpers of \<open>global/support.go\<close>. A parsed parameter map is an association list
  in the order in which the keys were first met.
\<close>

section \<open>Parameter lists\<close>

text \<open>A key that is already there is reported and skipped: the first value stays.\<close>

definition add_parameter :: "(string \<times> string) list \<Rightarrow> string \<Rightarrow> (string \<times> string) list" where
  "add_parameter parsMap tpl =
     (case SplitN2 tpl ''='' of
        [k] \<Rightarrow> if map_of parsMap k = None then AList.update k [] parsMap else parsMap
      | [k, v] \<Rightarrow> if map_of parsMap k = None then AList.update k v parsMap else parsMap
      | _ \<Rightarrow> parsMap)"

definition ParseParameters :: "string \<Rightarrow> (string \<times> string) list" where
  "ParseParameters parsline =
     (let line = Trim (Trim parsline '';'') '',''
      in if line = [] then [] else foldl add_parameter [] (Split line '';''))"

definition GenerateParameters :: "(string \<times> string) list \<Rightarrow> string" where
  "GenerateParameters pars =
     concat (map (\<lambda>(k, v). if v = [] then '';'' @ k else '';'' @ k @ ''='' @ v) pars)"

text \<open>
  \<open>CleanAndSplitHeader\<close> scans the runes after the first semicolon with a name \<open>fn\<close>, a
  buffer \<open>sb\<close> and a flag \<open>DQO\<close> (inside double quotes).
\<close>

record split_state =
  fn :: string
  sb :: string
  DQO :: bool
  NVC :: "(string \<times> string) list"

definition flush_value :: "bool \<Rightarrow> split_state \<Rightarrow> split_state" where
  "flush_value dropDQ st =
     st\<lparr>NVC := AList.update (fn st) (DropConcatenationChars (sb st) dropDQ) (NVC st),
        fn := [], sb := []\<rparr>"

definition split_step :: "bool \<Rightarrow> split_state \<Rightarrow> nat \<Rightarrow> split_state" where
  "split_step dropDQ st r =
     (if r = 32 then (if DQO st then st\<lparr>sb := sb st @ EncodeRune r\<rparr> else st)
      else if r = 61 then
        (if DQO st then st\<lparr>sb := sb st @ EncodeRune r\<rparr> else st\<lparr>fn := sb st, sb := []\<rparr>)
      else if r = 59 then
        (if DQO st then st\<lparr>sb := sb st @ EncodeRune r\<rparr>
         else if sb st = [] then st else flush_value dropDQ st)
      else if r = 34 then
        (if DQO st then (flush_value dropDQ st)\<lparr>DQO := False\<rparr> else st\<lparr>DQO := True\<rparr>)
      else st\<lparr>sb := sb st @ EncodeRune r\<rparr>)"

definition CleanAndSplitHeader :: "string \<Rightarrow> bool \<Rightarrow> (string \<times> string) list" where
  "CleanAndSplitHeader HeaderValue dropDQ =
     (if HeaderValue = [] then []
      else case IndexOf HeaderValue '';'' of
        None \<Rightarrow> [(''!headerValue'', HeaderValue)]
      | Some i \<Rightarrow>
          let st = foldl (split_step dropDQ)
                     \<lparr>fn = [], sb = [], DQO = False,
                      NVC = [(''!headerValue'', take i HeaderValue)]\<rparr>
                     (map fst (Runes (drop i HeaderValue)))
          in NVC (if fn st \<noteq> [] \<and> sb st \<noteq> [] then flush_value dropDQ st else st))"

section \<open>Body types by content type\<close>

definition GetBodyType :: "string \<Rightarrow> BodyType" where
  "GetBodyType contentType =
     (let ct = ASCIIToLower contentType
      in case find (\<lambda>(k, v). v = ct) DicBodyContentType of
           Some (k, v) \<Rightarrow> k
         | None \<Rightarrow> if Contains ct ''xml'' then AnyXML else Unknown)"

section \<open>Number translation\<close>

datatype translate_error =
  EmptyMatches | BracketUnclosed | ClosedWithoutIndex | InvalidInBracket

definition group_item :: "string list \<Rightarrow> string \<Rightarrow> bool \<Rightarrow> string" where
  "group_item matches grp dblbrkt =
     (let idx = Str2Uint grp :: u32; num = (case Uint32ToStr idx of None \<Rightarrow> [] | Some s \<Rightarrow> s)
      in if of_nat (length matches) \<le> idx
         then (if dblbrkt then ''${'' @ num @ ''}'' else num)
         else matches ! unat idx)"

text \<open>
  The three loops: plain text, the digits after a dollar sign, the digits inside braces.
  \<open>b\<close> is the output so far, \<open>g\<close> the digits of the group reference.
\<close>

fun ti_text :: "string list \<Rightarrow> string \<Rightarrow> string \<Rightarrow> translate_error + string"
  and ti_group :: "string list \<Rightarrow> string \<Rightarrow> string \<Rightarrow> string \<Rightarrow> translate_error + string"
  and ti_brace :: "string list \<Rightarrow> string \<Rightarrow> string \<Rightarrow> string \<Rightarrow> translate_error + string" where
  "ti_text m b [] = Inr b"
| "ti_text m b (c # s) =
     (if c \<noteq> CHR ''$'' then ti_text m (b @ [c]) s
      else case s of
        [] \<Rightarrow> Inr (b @ [c])
      | d # s' \<Rightarrow> if d = CHR ''$'' then ti_text m (b @ [d]) s' else ti_group m b [] s)"
| "ti_group m b g [] = Inr (b @ group_item m g False)"
| "ti_group m b g (c # s) =
     (if is_digit c then ti_group m b (g @ [c]) s
      else if c = CHR ''{'' then
        (if g = [] then ti_brace m b g s else ti_text m (b @ [c] @ group_item m g False) s)
      else if g = [] then ti_text m (b @ ''$'' @ [c]) s
      else ti_text m (b @ group_item m g False) s)"
| "ti_brace m b g [] = Inl BracketUnclosed"
| "ti_brace m b g (c # s) =
     (if is_digit c then ti_brace m b (g @ [c]) s
      else if c = CHR ''}'' then
        (if g = [] then Inl ClosedWithoutIndex else ti_text m (b @ group_item m g True) s)
      else if c = CHR ''{'' then ti_text m (b @ [c]) s
      else Inl InvalidInBracket)"

text \<open>\<open>matches\<close> is \<open>None\<close> for Go's nil slice.\<close>

definition TranslateInternal :: "string \<Rightarrow> string list option \<Rightarrow> translate_error + string" where
  "TranslateInternal input matches =
     (if input = [] then Inr []
      else case matches of None \<Rightarrow> Inl EmptyMatches | Some m \<Rightarrow> ti_text m [] input)"

section \<open>Collections\<close>

definition Find :: "('a \<Rightarrow> bool) \<Rightarrow> 'a list \<Rightarrow> 'a option" where
  "Find predicate items = find predicate items"

definition GetEnum :: "'k \<Rightarrow> ('k \<times> 'v) list \<Rightarrow> 'v \<Rightarrow> 'k" where
  "GetEnum zero m i = (case find (\<lambda>(k, v). v = i) m of Some (k, v) \<Rightarrow> k | None \<Rightarrow> zero)"

definition GetEnumString :: "'k \<Rightarrow> ('k \<times> string) list \<Rightarrow> string \<Rightarrow> bool \<Rightarrow> 'k" where
  "GetEnumString zero m s keepCase = GetEnum zero m (if keepCase then s else ASCIIToLower s)"

definition FirstKeyValue :: "'k \<Rightarrow> 'v \<Rightarrow> ('k \<times> 'v) list \<Rightarrow> 'k \<times> 'v" where
  "FirstKeyValue zk zv m = (case m of [] \<Rightarrow> (zk, zv) | kv # _ \<Rightarrow> kv)"

definition Keys :: "('k \<times> 'v) list \<Rightarrow> 'k list" where
  "Keys m = map fst m"

definition OnlyKey :: "'k \<Rightarrow> 'v \<Rightarrow> ('k \<times> 'v) list \<Rightarrow> 'k" where
  "OnlyKey zk zv m = fst (FirstKeyValue zk zv m)"

text \<open>\<open>RemoveAt\<close> moves the last element into the gap; an index out of range panics.\<close>

definition RemoveAt :: "'a list \<Rightarrow> nat \<Rightarrow> 'a list option" where
  "RemoveAt xs i =
     (if i < length xs then Some (take (length xs - 1) (xs[i := xs ! (length xs - 1)])) else None)"

text \<open>\<open>Reverse\<close> appends to a slice that was made with its full length of zero values.\<close>

definition Reverse :: "'a \<Rightarrow> 'a list \<Rightarrow> 'a list" where
  "Reverse zero s = replicate (length s) zero @ rev s"

section \<open>Methods and status codes\<close>

definition IsDialogueCreating :: "Method \<Rightarrow> bool" where
  "IsDialogueCreating m \<longleftrightarrow> m \<in> {OPTIONS, REGISTER, SUBSCRIBE, MESSAGE, INVITE}"

definition RequiresACK :: "Method \<Rightarrow> bool" where
  "RequiresACK m \<longleftrightarrow> m = INVITE \<or> m = ReINVITE"

definition IsProvisional :: "int \<Rightarrow> bool" where
  "IsProvisional sc \<longleftrightarrow> 100 \<le> sc \<and> sc \<le> 199"

definition IsProvisional18x :: "int \<Rightarrow> bool" where
  "IsProvisional18x sc \<longleftrightarrow> 180 \<le> sc \<and> sc \<le> 189"

definition Is18xOrPositive :: "int \<Rightarrow> bool" where
  "Is18xOrPositive sc \<longleftrightarrow> (180 \<le> sc \<and> sc \<le> 189) \<or> (200 \<le> sc \<and> sc \<le> 299)"

definition IsFinal :: "int \<Rightarrow> bool" where
  "IsFinal sc \<longleftrightarrow> 200 \<le> sc \<and> sc \<le> 699"

definition IsPositive :: "int \<Rightarrow> bool" where
  "IsPositive sc \<longleftrightarrow> 200 \<le> sc \<and> sc \<le> 299"

definition IsNegative :: "int \<Rightarrow> bool" where
  "IsNegative sc \<longleftrightarrow> 300 \<le> sc \<and> sc \<le> 699"

definition IsRedirection :: "int \<Rightarrow> bool" where
  "IsRedirection sc \<longleftrightarrow> 300 \<le> sc \<and> sc \<le> 399"

definition IsNegativeClient :: "int \<Rightarrow> bool" where
  "IsNegativeClient sc \<longleftrightarrow> 400 \<le> sc \<and> sc \<le> 499"

definition IsNegativeServer :: "int \<Rightarrow> bool" where
  "IsNegativeServer sc \<longleftrightarrow> 500 \<le> sc \<and> sc \<le> 599"

definition IsNegativeGlobal :: "int \<Rightarrow> bool" where
  "IsNegativeGlobal sc \<longleftrightarrow> 600 \<le> sc \<and> sc \<le> 699"

lemmas status_class_defs [sr_defs] =
  IsProvisional_def IsProvisional18x_def Is18xOrPositive_def IsFinal_def IsPositive_def
  IsNegative_def IsRedirection_def IsNegativeClient_def IsNegativeServer_def
  IsNegativeGlobal_def

section \<open>Laws of splitting at a single character\<close>

lemma IndexOf_char_None: "IndexOf s [c] = None \<longleftrightarrow> c \<notin> set s"
  by (induction s "[c]" rule: IndexOf.induct) (auto simp: HasPrefix_def)

lemmas IndexOf_char_miss = IndexOf_char_None [THEN iffD2]

lemma IndexOf_char_hit: "c \<notin> set x \<Longrightarrow> IndexOf (x @ c # y) [c] = Some (length x)"
  by (induction x) (auto simp: HasPrefix_def)

lemma Split_char_none: "c \<notin> set s \<Longrightarrow> Split s [c] = [s]"
  by (subst Split.simps) (simp add: IndexOf_char_miss)

lemma Split_char_hit: "c \<notin> set x \<Longrightarrow> Split (x @ c # y) [c] = x # Split y [c]"
  by (subst Split.simps) (simp add: IndexOf_char_hit)

lemma Split_Join:
  assumes "xs \<noteq> []" and "\<forall>x \<in> set xs. c \<notin> set x"
  shows "Split (Join xs [c]) [c] = xs"
  using assms
proof (induction xs "[c]" rule: Join.induct)
  case (3 x y ys)
  then show ?case using Split_char_hit [of c x "Join (y # ys) [c]"] by simp
qed (simp_all add: Split_char_none)

lemma Cut_char_none: "c \<notin> set s \<Longrightarrow> Cut s [c] = (s, [], False)"
  by (simp add: Cut_def IndexOf_char_miss)

lemma Cut_char_hit: "c \<notin> set x \<Longrightarrow> Cut (x @ c # y) [c] = (x, y, True)"
  by (simp add: Cut_def IndexOf_char_hit)

lemma Trim_id:
  assumes "s \<noteq> []" "hd s \<notin> set cs" "last s \<notin> set cs"
  shows "Trim s cs = s"
proof -
  have "dropWhile (\<lambda>c. c \<in> set cs) s = s"
    using assms(1,2) by (cases s) auto
  moreover have "dropWhile (\<lambda>c. c \<in> set cs) (rev s) = rev s"
    using assms(1,3) by (cases "rev s") (auto simp: hd_rev [symmetric])
  ultimately show ?thesis by (simp add: Trim_def)
qed

lemma Trim_Cons_drop: "c \<in> set cs \<Longrightarrow> Trim (c # s) cs = Trim s cs"
  by (simp add: Trim_def)

section \<open>Parameters: writing then reading\<close>

text \<open>
  A parameter map that survives the round trip: distinct keys, no key empty, no separator in
  a key or a value (an equals sign may stand in a value), no comma anywhere.
\<close>

definition clean_params :: "(string \<times> string) list \<Rightarrow> bool" where
  "clean_params m \<longleftrightarrow> go_map_wf m \<and>
     (\<forall>(k, v) \<in> set m. k \<noteq> [] \<and> CHR ''='' \<notin> set k
        \<and> CHR '';'' \<notin> set (k @ v) \<and> CHR '','' \<notin> set (k @ v))"

definition par_text :: "string \<times> string \<Rightarrow> string" where
  "par_text kv = (if snd kv = [] then fst kv else fst kv @ ''='' @ snd kv)"

lemma GenerateParameters_Join:
  "m \<noteq> [] \<Longrightarrow> GenerateParameters m = '';'' @ Join (map par_text m) '';''"
proof (induction m)
  case (Cons kv m)
  then show ?case
    by (cases m) (auto simp: GenerateParameters_def par_text_def split: prod.splits)
qed simp

lemma SplitN2_par_text:
  assumes "CHR ''='' \<notin> set k"
  shows "SplitN2 (par_text (k, v)) ''='' = (if v = [] then [k] else [k, v])"
  using assms by (simp add: SplitN2_def par_text_def Cut_char_none Cut_char_hit)

lemma add_parameter_par_text:
  assumes "CHR ''='' \<notin> set k" "k \<notin> fst ` set m"
  shows "add_parameter m (par_text (k, v)) = m @ [(k, v)]"
proof -
  have "map_of m k = None" using assms(2) by (simp add: map_of_eq_None_iff)
  moreover have "AList.update k v m = m @ [(k, v)]" for v
    using assms(2) by (simp add: update_conv' ) (induction m, auto)
  ultimately show ?thesis
    using assms(1) by (simp add: add_parameter_def SplitN2_par_text)
qed

lemma fold_add_parameter:
  assumes "clean_params m" and "fst ` set m \<inter> fst ` set acc = {}"
  shows "foldl add_parameter acc (map par_text m) = acc @ m"
  using assms
proof (induction m arbitrary: acc)
  case (Cons kv m)
  obtain k v where kv: "kv = (k, v)" by (cases kv)
  with Cons.prems have "add_parameter acc (par_text kv) = acc @ [kv]"
    by (auto simp: clean_params_def intro!: add_parameter_par_text)
  moreover have "clean_params m" using Cons.prems by (simp add: clean_params_def go_map_wf_def)
  moreover have "fst ` set m \<inter> fst ` set (acc @ [kv]) = {}"
    using Cons.prems kv by (auto simp: clean_params_def go_map_wf_def)
  ultimately show ?case using Cons.IH [of "acc @ [kv]"] by simp
qed simp

lemma Join_ends:
  assumes "xs \<noteq> []" "\<forall>x \<in> set xs. x \<noteq> []"
  shows "Join xs sep \<noteq> [] \<and> hd (Join xs sep) = hd (hd xs) \<and> last (Join xs sep) = last (last xs)"
  using assms by (induction xs sep rule: Join.induct) auto

lemma par_text_chars:
  assumes "clean_params m" "x \<in> set (map par_text m)"
  shows "x \<noteq> []" "CHR '';'' \<notin> set x" "CHR '','' \<notin> set x"
  using assms by (auto simp: clean_params_def par_text_def split: if_splits)

lemma ParseParameters_GenerateParameters:
  assumes "clean_params m"
  shows "ParseParameters (GenerateParameters m) = m"
proof (cases "m = []")
  case True
  then show ?thesis by (simp add: GenerateParameters_def ParseParameters_def Trim_def)
next
  case False
  let ?J = "Join (map par_text m) '';''"
  have ne: "map par_text m \<noteq> []" using False by simp
  note pc = par_text_chars [OF assms]
  have J: "?J \<noteq> []" "hd ?J = hd (hd (map par_text m))" "last ?J = last (last (map par_text m))"
    using Join_ends [OF ne, of "'';''"] pc(1) by blast+
  have "hd (map par_text m) \<in> set (map par_text m)" "last (map par_text m) \<in> set (map par_text m)"
    using ne by (auto simp del: set_map)
  then have ends: "hd ?J \<notin> {CHR '';'', CHR '',''}" "last ?J \<notin> {CHR '';'', CHR '',''}"
    using pc J by (metis empty_iff hd_in_set insert_iff, metis empty_iff last_in_set insert_iff)
  then have "Trim (Trim (GenerateParameters m) '';'') '','' = ?J"
    using J(1) False by (simp add: GenerateParameters_Join Trim_Cons_drop Trim_id)
  moreover have "Split ?J '';'' = map par_text m"
    using pc(2) ne by (intro Split_Join) blast+
  ultimately show ?thesis
    using J(1) fold_add_parameter [OF assms, of "[]"] by (simp add: ParseParameters_def)
qed

section \<open>Loops over Go maps that return at the first hit\<close>

lemma inj_snd_unique: "inj_on snd A \<Longrightarrow> (a, v) \<in> A \<Longrightarrow> (b, v) \<in> A \<Longrightarrow> a = b"
  by (drule inj_onD [of _ _ "(a, v)" "(b, v)"]) simp_all

lemma GetEnum_order:
  assumes "set m' = set m" and "inj_on snd (set m)"
  shows "GetEnum z m' i = GetEnum z m i"
proof -
  have "find (\<lambda>(k, v). v = i) m' = find (\<lambda>(k, v). v = i) m"
    by (rule find_unique_order) (use assms in \<open>auto dest: inj_snd_unique\<close>)
  then show ?thesis by (simp add: GetEnum_def)
qed

lemma DicBodyContentType_inj: "inj_on snd (set DicBodyContentType)"
proof -
  have "distinct (map snd DicBodyContentType)" by (simp add: DicBodyContentType_def)
  then show ?thesis by (simp add: distinct_map)
qed

definition GetBodyType_in :: "(BodyType \<times> string) list \<Rightarrow> string \<Rightarrow> BodyType" where
  "GetBodyType_in m contentType =
     (let ct = ASCIIToLower contentType
      in case find (\<lambda>(k, v). v = ct) m of
           Some (k, v) \<Rightarrow> k
         | None \<Rightarrow> if Contains ct ''xml'' then AnyXML else Unknown)"

lemma GetBodyType_order:
  assumes "set m = set DicBodyContentType"
  shows "GetBodyType_in m ct = GetBodyType ct"
proof -
  have "find (\<lambda>(k, v). v = ASCIIToLower ct) m
      = find (\<lambda>(k, v). v = ASCIIToLower ct) DicBodyContentType"
    by (rule find_unique_order) (use assms DicBodyContentType_inj in \<open>auto dest: inj_snd_unique\<close>)
  then show ?thesis by (simp add: GetBodyType_in_def GetBodyType_def Let_def)
qed

lemma GetBodyType_known:
  assumes "(bt, ct) \<in> set DicBodyContentType" "ASCIIToLower s = ct"
  shows "GetBodyType s = bt"
proof -
  have "find (\<lambda>(k, v). v = ct) DicBodyContentType \<noteq> None"
    using assms(1) by (auto simp: find_None_set)
  then obtain k v where f: "find (\<lambda>(k, v). v = ct) DicBodyContentType = Some (k, v)" by auto
  then have "(k, v) = (bt, ct)"
    using assms(1) DicBodyContentType_inj by (auto dest!: find_Some_set dest: inj_snd_unique)
  with f assms(2) show ?thesis by (simp add: GetBodyType_def)
qed

section \<open>Methods and status codes: the laws\<close>

lemma Method_String_eval [sr_eval, simp]:
  "Method_String UNKNOWN = ''UNKNOWN''" "Method_String INVITE = ''INVITE''"
  "Method_String ReINVITE = ''INVITE''" "Method_String REFER = ''REFER''"
  "Method_String ACK = ''ACK''" "Method_String CANCEL = ''CANCEL''" "Method_String BYE = ''BYE''"
  "Method_String OPTIONS = ''OPTIONS''" "Method_String NOTIFY = ''NOTIFY''"
  "Method_String UPDATE = ''UPDATE''" "Method_String PRACK = ''PRACK''"
  "Method_String INFO = ''INFO''" "Method_String REGISTER = ''REGISTER''"
  "Method_String SUBSCRIBE = ''SUBSCRIBE''" "Method_String MESSAGE = ''MESSAGE''"
  "Method_String PUBLISH = ''PUBLISH''" "Method_String NEGOTIATE = ''NEGOTIATE''"
  by (simp_all add: Method_String_def methods_def)

lemma MethodFromName_String:
  "MethodFromName (Method_String m) = (if m = ReINVITE then INVITE else m)"
  by (cases m) (simp_all add: MethodFromName_def methods_def Method_all_def)

lemma MethodFromName_not_ReINVITE: "MethodFromName nm \<noteq> ReINVITE"
  by (simp add: MethodFromName_def methods_def Method_all_def)

lemma status_class_partition:
  assumes "100 \<le> sc" "sc \<le> 699"
  shows "length (filter (\<lambda>P. P sc) [IsProvisional, IsPositive, IsRedirection, IsNegativeClient,
           IsNegativeServer, IsNegativeGlobal]) = 1"
    and "IsFinal sc \<longleftrightarrow> IsPositive sc \<or> IsNegative sc"
    and "IsFinal sc \<longleftrightarrow> \<not> IsProvisional sc"
  using assms by (auto simp: sr_defs)

section \<open>Number translation: literal text and group references\<close>

definition escape_dollar :: "string \<Rightarrow> string" where
  "escape_dollar s = concat (map (\<lambda>c. if c = CHR ''$'' then ''$$'' else [c]) s)"

lemma ti_text_escape: "ti_text m b (escape_dollar s @ r) = ti_text m (b @ s) r"
  by (induction s arbitrary: b) (auto simp: escape_dollar_def)

lemma ti_group_digits:
  "list_all is_digit g \<Longrightarrow> ti_group m b g0 (g @ r) = ti_group m b (g0 @ g) r"
  by (induction g arbitrary: g0) auto

lemma ti_brace_digits:
  "list_all is_digit g \<Longrightarrow> ti_brace m b g0 (g @ r) = ti_brace m b (g0 @ g) r"
  by (induction g arbitrary: g0) auto

lemma not_digit_special [simp]:
  "\<not> is_digit CHR ''$''" "\<not> is_digit CHR ''{''" "\<not> is_digit CHR ''}''"
  by (simp_all add: is_digit_def in_range_def byte_of_def)

lemma ti_text_braced_group:
  assumes "list_all is_digit g" "g \<noteq> []"
  shows "ti_text m b (''${'' @ g @ ''}'' @ r) = ti_text m (b @ group_item m g True) r"
  using ti_brace_digits [OF assms(1), of m b "[]" "''}'' @ r"] assms by simp

text \<open>After an unbraced reference the next character, unless it ends the text, is lost.\<close>

lemma ti_text_plain_group:
  assumes "list_all is_digit g" "g \<noteq> []" "\<not> is_digit c" "c \<noteq> CHR ''{''"
  shows "ti_text m b (''$'' @ g @ c # r) = ti_text m (b @ group_item m g False) r"
proof -
  obtain d g' where g: "g = d # g'" using assms(2) by (cases g) auto
  with assms(1) have "d \<noteq> CHR ''$''" by auto
  with g assms ti_group_digits [OF assms(1), of m b "[]" "c # r"] show ?thesis by simp
qed

lemma group_item_in_range:
  assumes "list_all is_digit g" "decimal g < length m" "length m < 2 ^ 32"
  shows "group_item m g br = m ! decimal g"
proof -
  have "(Str2Uint g :: u32) = of_nat (decimal g)"
    by (simp add: Str2Uint_def digit_loop_digits [OF assms(1)])
  then show ?thesis using assms(2,3)
    by (simp add: group_item_def Let_def word_le_nat_alt unat_of_nat)
qed

section \<open>Properties\<close>

text \<open>C33: Parameters written by \<open>GenerateParameters\<close> are read back by \<open>ParseParameters\<close> as the
  same map, when the keys are distinct and not empty and no separator stands in them.\<close>

theorem parameters_round_trip:
  assumes "clean_params m"
  shows "ParseParameters (GenerateParameters m) = m"
  by (rule ParseParameters_GenerateParameters [OF assms])

theorem parameters_round_trip_witness:
  "clean_params [(''tag'', ''a=b''), (''lr'', [])]
   \<and> ParseParameters (GenerateParameters [(''tag'', ''a=b''), (''lr'', [])]) = [(''tag'', ''a=b''), (''lr'', [])]"
proof -
  have c: "clean_params [(''tag'', ''a=b''), (''lr'', [])]" by (simp add: clean_params_def go_map_wf_def)
  with parameters_round_trip [OF c] show ?thesis by simp
qed

text \<open>
  A translation template: literal text and numbered groups. \<open>template_text\<close> writes it in the
  syntax of the routing table, \<open>template_value\<close> is what it stands for.
\<close>

datatype segment = Lit string | Grp nat

definition segment_text :: "segment \<Rightarrow> string" where
  "segment_text sg = (case sg of Lit s \<Rightarrow> escape_dollar s | Grp n \<Rightarrow> ''${'' @ dec_string n @ ''}'')"

definition segment_value :: "string list \<Rightarrow> segment \<Rightarrow> string" where
  "segment_value m sg =
     (case sg of Lit s \<Rightarrow> s
      | Grp n \<Rightarrow> if n < length m then m ! n else ''${'' @ dec_string n @ ''}'')"

definition template_text :: "segment list \<Rightarrow> string" where
  "template_text t = concat (map segment_text t)"

definition template_value :: "string list \<Rightarrow> segment list \<Rightarrow> string" where
  "template_value m t = concat (map (segment_value m) t)"

lemma group_item_segment:
  assumes "n < 2 ^ 32" "length m < 2 ^ 32"
  shows "group_item m (dec_string n) True = segment_value m (Grp n)"
proof -
  have u: "unat (of_nat n :: u32) = n" using assms(1) by (simp add: unat_of_nat)
  then show ?thesis using assms
    by (simp add: group_item_def Str2Uint_dec_string Uint32ToStr_eq segment_value_def Let_def
        word_le_nat_alt unat_of_nat)
qed

lemma ti_text_template:
  assumes "\<forall>n. Grp n \<in> set t \<longrightarrow> n < 2 ^ 32" "length m < 2 ^ 32"
  shows "ti_text m b (template_text t) = Inr (b @ template_value m t)"
  using assms(1)
proof (induction t arbitrary: b)
  case (Cons sg t)
  then have IH: "ti_text m b (template_text t) = Inr (b @ template_value m t)" for b by simp
  show ?case
  proof (cases sg)
    case (Lit s)
    with IH show ?thesis
      by (simp add: template_text_def template_value_def segment_text_def segment_value_def ti_text_escape)
  next
    case (Grp n)
    then have "n < 2 ^ 32" using Cons.prems by simp
    with Grp IH group_item_segment [OF this assms(2)] show ?thesis
      using ti_text_braced_group [OF dec_string_digits dec_string_nonempty, of m b n "template_text t"]
      by (simp add: template_text_def template_value_def segment_text_def)
  qed
qed (simp add: template_text_def template_value_def)

text \<open>C30: The number translation expands a template: a doubled dollar sign stands for one, a
  braced number for the group of that number, and a group that the match does not have is
  left as it is written. It never fails on such a template.\<close>

theorem TranslateInternal_template:
  assumes "\<forall>n. Grp n \<in> set t \<longrightarrow> n < 2 ^ 32" "length m < 2 ^ 32"
  shows "TranslateInternal (template_text t) (Some m) = Inr (template_value m t)"
  using ti_text_template [OF assms, of "[]"] ti_text_template [OF assms, of "[]"]
  by (cases "template_text t") (simp_all add: TranslateInternal_def)

theorem TranslateInternal_template_witness:
  "TranslateInternal (template_text [Lit ''+$'', Grp 1, Lit ''#'', Grp 7]) (Some [''0049123'', ''49''])
     = Inr ''+$49#${7}''"
proof -
  have v: "template_value [''0049123'', ''49''] [Lit ''+$'', Grp 1, Lit ''#'', Grp 7] = ''+$49#${7}''"
    by (simp add: template_value_def segment_value_def dec_string.simps digit_char_def char_of_eq_iff)
  show ?thesis
    using TranslateInternal_template [of "[Lit ''+$'', Grp 1, Lit ''#'', Grp 7]" "[''0049123'', ''49'']"]
    unfolding v by auto
qed

text \<open>A group reference without braces swallows the character that ends it: the text after
  the digits loses its first character, unless that is an opening brace.\<close>

theorem plain_reference_drops_character:
  assumes "n < length m" "length m < 2 ^ 32" "\<not> is_digit c" "c \<noteq> CHR ''{''"
  shows "TranslateInternal (''$'' @ dec_string n @ c # escape_dollar s) (Some m) = Inr (m ! n @ s)"
  using ti_text_plain_group [OF dec_string_digits dec_string_nonempty assms(3,4), of m "[]" n "escape_dollar s"]
    group_item_in_range [OF dec_string_digits, of n m False] assms ti_text_escape [of m "m ! n" s "[]"]
  by (simp add: TranslateInternal_def)

theorem plain_reference_drops_character_witness:
  "TranslateInternal ''$0-12'' (Some [''49'']) = Inr ''4912''"
  using plain_reference_drops_character [of 0 "[''49'']" "CHR ''-''" "''12''"]
  by (simp add: dec_string_0 escape_dollar_def is_digit_def in_range_def byte_of_def)

end
