(* ===== verification/Load_Share.thy ===== *)
theory Load_Share imports Params begin

text \<open>
  \<open>global/loadshare.go\<close>: the weighted choice of a host. The list of pointers to hosts is the
  list of their records, the chosen pointer is its index, and the fields that the code writes
  through the pointers are written back into the list. The hosts of a list are distinct
  objects, as \<open>NewHW\<close> makes them.
\<close>

record WeightedHost =
  HostId :: string
  Weight :: int
  AccumulatedWeight :: int
  HitsCount :: int

definition NewHW :: "string \<Rightarrow> int \<Rightarrow> WeightedHost" where
  "NewHW hn wt = \<lparr>HostId = hn, Weight = wt, AccumulatedWeight = wt, HitsCount = 0\<rparr>"

definition GetTotalWeight :: "WeightedHost list \<Rightarrow> int" where
  "GetTotalWeight hs = foldl (\<lambda>g wh. g + Weight wh) 0 hs"

text \<open>
  The loop runs down from the last index to 1, with the host at index 0 as the first
  candidate; a later candidate wins a tie.
\<close>

fun pick_loop :: "WeightedHost list \<Rightarrow> nat \<Rightarrow> nat \<Rightarrow> nat" where
  "pick_loop hs 0 best = best"
| "pick_loop hs (Suc i) best =
     pick_loop hs i
       (if AccumulatedWeight (hs ! Suc i) \<ge> AccumulatedWeight (hs ! best) then Suc i else best)"

definition pick :: "WeightedHost list \<Rightarrow> nat" where
  "pick hs = pick_loop hs (length hs - 1) 0"

definition add_weight :: "WeightedHost \<Rightarrow> WeightedHost" where
  "add_weight wh = wh\<lparr>AccumulatedWeight := Weight wh + AccumulatedWeight wh\<rparr>"

text \<open>The chosen host and the hosts afterwards; an empty list panics at index 0.\<close>

definition GetRoutedHost :: "WeightedHost list \<Rightarrow> (nat \<times> WeightedHost list) option" where
  "GetRoutedHost hs =
     (if hs = [] then None
      else let grandweight = GetTotalWeight hs; k = pick hs;
               chosen = hs ! k;
               hs' = hs[k := chosen\<lparr>AccumulatedWeight := AccumulatedWeight chosen - grandweight\<rparr>]
           in Some (k, map add_weight hs'))"

text \<open>
  The intended use: route, then count the hit on the host returned. \<open>route_n n\<close> routes
  \<open>n\<close> times.
\<close>

definition route_count :: "WeightedHost list \<Rightarrow> WeightedHost list" where
  "route_count hs =
     (case GetRoutedHost hs of
        None \<Rightarrow> hs
      | Some (k, hs') \<Rightarrow> hs'[k := (hs' ! k)\<lparr>HitsCount := HitsCount (hs' ! k) + 1\<rparr>])"

definition route_n :: "nat \<Rightarrow> WeightedHost list \<Rightarrow> WeightedHost list" where
  "route_n n hs = (route_count ^^ n) hs"

section \<open>One choice\<close>

lemma GetTotalWeight_sum: "GetTotalWeight hs = sum_list (map Weight hs)"
proof -
  have "foldl (\<lambda>g wh. g + Weight wh) a hs = a + sum_list (map Weight hs)" for a
    by (induction hs arbitrary: a) auto
  then show ?thesis by (simp add: GetTotalWeight_def)
qed

lemma pick_loop_max:
  assumes "i < length hs" "best < length hs"
  shows "pick_loop hs i best < length hs \<and>
    (\<forall>j. (1 \<le> j \<and> j \<le> i \<or> j = best) \<longrightarrow>
       AccumulatedWeight (hs ! j) \<le> AccumulatedWeight (hs ! pick_loop hs i best))"
  using assms
proof (induction hs i best rule: pick_loop.induct)
  case (2 hs i best)
  let ?b = "if AccumulatedWeight (hs ! Suc i) \<ge> AccumulatedWeight (hs ! best) then Suc i else best"
  from 2 have IH: "pick_loop hs i ?b < length hs"
    "\<forall>j. (1 \<le> j \<and> j \<le> i \<or> j = ?b) \<longrightarrow>
       AccumulatedWeight (hs ! j) \<le> AccumulatedWeight (hs ! pick_loop hs i ?b)" by auto
  have "AccumulatedWeight (hs ! best) \<le> AccumulatedWeight (hs ! ?b)"
    "AccumulatedWeight (hs ! Suc i) \<le> AccumulatedWeight (hs ! ?b)" by auto
  with IH show ?case by (auto simp: le_Suc_eq intro: order_trans)
qed auto

lemma pick_max:
  assumes "hs \<noteq> []"
  shows "pick hs < length hs"
    and "j < length hs \<Longrightarrow> AccumulatedWeight (hs ! j) \<le> AccumulatedWeight (hs ! pick hs)"
proof -
  have *: "length hs - 1 < length hs" "0 < length hs" using assms by auto
  from pick_loop_max [OF *] show "pick hs < length hs" by (simp add: pick_def)
  assume "j < length hs"
  then have "1 \<le> j \<and> j \<le> length hs - 1 \<or> j = 0" by auto
  with pick_loop_max [OF *] show "AccumulatedWeight (hs ! j) \<le> AccumulatedWeight (hs ! pick hs)"
    unfolding pick_def by blast
qed

section \<open>Fairness over one period\<close>

text \<open>
  The invariant of repeated choice: after \<open>t\<close> choices the accumulated weight of a host is
  what \<open>t + 1\<close> turns have added less the total weight for every hit, and it never falls
  below its weight by more than the total weight less one.
\<close>

definition share_inv :: "int \<Rightarrow> nat \<Rightarrow> WeightedHost list \<Rightarrow> bool" where
  "share_inv W t hs \<longleftrightarrow> hs \<noteq> [] \<and> GetTotalWeight hs = W \<and>
     sum_list (map HitsCount hs) = int t \<and>
     (\<forall>h \<in> set hs. 0 \<le> Weight h
        \<and> AccumulatedWeight h = Weight h * (int t + 1) - W * HitsCount h
        \<and> Weight h + 1 - W \<le> AccumulatedWeight h)"

definition hit :: "int \<Rightarrow> WeightedHost \<Rightarrow> WeightedHost" where
  "hit W h = h\<lparr>AccumulatedWeight := Weight h + (AccumulatedWeight h - W),
               HitsCount := HitsCount h + 1\<rparr>"

lemma route_count_eq:
  assumes "hs \<noteq> []"
  shows "route_count hs = (map add_weight hs)[pick hs := hit (GetTotalWeight hs) (hs ! pick hs)]"
  using assms pick_max(1) [OF assms]
  by (simp add: route_count_def GetRoutedHost_def Let_def map_update hit_def add_weight_def)

lemma sum_list_nth_split:
  fixes f :: "'a \<Rightarrow> int"
  assumes "k < length xs"
  shows "sum_list (map f (xs[k := y])) = sum_list (map f xs) - f (xs ! k) + f y"
  using assms by (induction xs arbitrary: k) (auto split: nat.splits simp: nth_Cons)

lemma add_weight_fields [simp]:
  "Weight (add_weight h) = Weight h" "HitsCount (add_weight h) = HitsCount h"
  "AccumulatedWeight (add_weight h) = Weight h + AccumulatedWeight h"
  "HostId (add_weight h) = HostId h"
  by (simp_all add: add_weight_def)

lemma hit_fields [simp]:
  "Weight (hit W h) = Weight h" "HitsCount (hit W h) = HitsCount h + 1"
  "AccumulatedWeight (hit W h) = Weight h + AccumulatedWeight h - W"
  "HostId (hit W h) = HostId h"
  by (simp_all add: hit_def)

lemma share_inv_sum:
  assumes "share_inv W t hs"
  shows "sum_list (map AccumulatedWeight hs) = W"
proof -
  have "map AccumulatedWeight hs = map (\<lambda>h. Weight h * (int t + 1) - W * HitsCount h) hs"
    using assms by (simp add: share_inv_def)
  then have "sum_list (map AccumulatedWeight hs)
      = sum_list (map Weight hs) * (int t + 1) - W * sum_list (map HitsCount hs)"
    by (simp only:) (simp add: sum_list_subtractf sum_list_const_mult sum_list_mult_const)
  with assms show ?thesis by (simp add: share_inv_def GetTotalWeight_sum algebra_simps)
qed

lemma share_inv_pick_pos:
  assumes "share_inv W t hs" "0 < W"
  shows "1 \<le> AccumulatedWeight (hs ! pick hs)"
proof (rule ccontr)
  assume "\<not> 1 \<le> AccumulatedWeight (hs ! pick hs)"
  moreover have "hs \<noteq> []" using assms by (simp add: share_inv_def)
  ultimately have "\<forall>h \<in> set hs. AccumulatedWeight h \<le> 0"
    using pick_max(2) by (fastforce simp: in_set_conv_nth)
  then have "sum_list (map AccumulatedWeight hs) \<le> sum_list (map (\<lambda>_. 0) hs)"
    by (intro sum_list_mono) auto
  with share_inv_sum [OF assms(1)] assms(2) show False by simp
qed

lemma share_inv_step:
  assumes inv: "share_inv W t hs" and W: "0 < W"
  shows "share_inv W (Suc t) (route_count hs)"
proof -
  let ?k = "pick hs"
  have ne: "hs \<noteq> []" and tw: "GetTotalWeight hs = W" using inv by (simp_all add: share_inv_def)
  note k = pick_max(1) [OF ne]
  have eq: "route_count hs = (map add_weight hs)[?k := hit W (hs ! ?k)]"
    using route_count_eq [OF ne] tw by simp
  have "GetTotalWeight (route_count hs) = W"
    using k tw by (simp add: eq GetTotalWeight_sum sum_list_nth_split comp_def)
  moreover have "sum_list (map HitsCount (route_count hs)) = int (Suc t)"
    using k inv by (simp add: eq sum_list_nth_split comp_def share_inv_def)
  moreover have "0 \<le> Weight h \<and> AccumulatedWeight h = Weight h * (int (Suc t) + 1) - W * HitsCount h
      \<and> Weight h + 1 - W \<le> AccumulatedWeight h" if "h \<in> set (route_count hs)" for h
  proof -
    from that k consider "h = hit W (hs ! ?k)" | g where "g \<in> set hs" "h = add_weight g"
      by (auto simp: eq dest!: set_update_subset_insert [THEN subsetD])
    then show ?thesis
    proof cases
      case 1
      with k inv share_inv_pick_pos [OF inv W] show ?thesis
        by (simp add: share_inv_def algebra_simps)
    next
      case 2
      with inv have "0 \<le> Weight g" "Weight g + 1 - W \<le> AccumulatedWeight g"
        "AccumulatedWeight g = Weight g * (int t + 1) - W * HitsCount g"
        by (auto simp: share_inv_def)
      with 2 show ?thesis by (simp add: algebra_simps)
    qed
  qed
  moreover have "route_count hs \<noteq> []" using ne by (simp add: eq)
  ultimately show ?thesis unfolding share_inv_def by blast
qed

lemma share_inv_route_n:
  assumes "share_inv W 0 hs" "0 < W"
  shows "share_inv W n (route_n n hs)"
  using assms by (induction n) (simp_all add: route_n_def share_inv_step)

text \<open>After as many choices as the total weight, every host was hit exactly its weight.\<close>

lemma share_inv_period:
  assumes inv: "share_inv W (nat W) hs" and W: "0 < W" and h: "h \<in> set hs"
  shows "HitsCount h = Weight h \<and> AccumulatedWeight h = Weight h"
proof -
  have le: "HitsCount g \<le> Weight g" if "g \<in> set hs" for g
  proof -
    from that inv W have a: "AccumulatedWeight g = Weight g * (W + 1) - W * HitsCount g"
      and b: "Weight g + 1 - W \<le> AccumulatedWeight g" by (auto simp: share_inv_def)
    then have "W * HitsCount g < W * (Weight g + 1)" by (simp add: algebra_simps)
    with W show ?thesis by simp
  qed
  have "sum_list (map (\<lambda>g. Weight g - HitsCount g) hs) = 0"
    using inv W by (simp add: sum_list_subtractf share_inv_def GetTotalWeight_sum)
  then have "\<forall>x \<in> set (map (\<lambda>g. Weight g - HitsCount g) hs). x = 0"
    using le by (subst (asm) sum_list_nonneg_eq_0_iff) auto
  with h have hits: "HitsCount h = Weight h" by auto
  moreover from h inv W have "AccumulatedWeight h = Weight h * (W + 1) - W * HitsCount h"
    by (auto simp: share_inv_def)
  ultimately show ?thesis by (simp add: algebra_simps)
qed

lemma share_inv_start:
  assumes "hs = map (\<lambda>(n, w). NewHW n w) ws" "ws \<noteq> []" "\<forall>(n, w) \<in> set ws. 0 \<le> w"
    and "0 < GetTotalWeight hs"
  shows "share_inv (GetTotalWeight hs) 0 hs"
  using assms by (auto simp: share_inv_def NewHW_def case_prod_unfold comp_def)

lemma route_n_hosts:
  "map HostId (route_n n hs) = map HostId hs \<and> map Weight (route_n n hs) = map Weight hs"
proof (induction n)
  case (Suc n)
  have "map HostId (route_count xs) = map HostId xs \<and> map Weight (route_count xs) = map Weight xs"
    for xs
  proof (cases "xs = []")
    case False
    with pick_max(1) [OF False] show ?thesis
      by (simp add: route_count_eq map_update comp_def list_update_same_conv)
  qed (simp add: route_count_def GetRoutedHost_def)
  with Suc show ?case by (simp add: route_n_def)
qed (simp add: route_n_def)

section \<open>Properties\<close>

text \<open>C26: Load sharing is fair: after any number \<open>n\<close> of choices no host has had a full hit more
  than its share, and after as many choices as the weights sum to, every host has been chosen
  exactly as often as its weight says and the weights accumulated are back at the start.\<close>

theorem load_share_fair:
  assumes "hs = map (\<lambda>(n, w). NewHW n w) ws" "ws \<noteq> []" "\<forall>(n, w) \<in> set ws. 0 \<le> w"
    and "0 < GetTotalWeight hs"
  shows "(\<forall>h \<in> set (route_n n hs).
            HitsCount h * GetTotalWeight hs < Weight h * int n + GetTotalWeight hs)
    \<and> map (\<lambda>h. (HostId h, HitsCount h)) (route_n (nat (GetTotalWeight hs)) hs) = ws
    \<and> map AccumulatedWeight (route_n (nat (GetTotalWeight hs)) hs) = map AccumulatedWeight hs"
proof -
  let ?W = "GetTotalWeight hs"
  note inv = share_inv_route_n [OF share_inv_start [OF assms] assms(4)]
  have "HitsCount h * ?W < Weight h * int n + ?W" if "h \<in> set (route_n n hs)" for h
    using inv [of n] that by (auto simp: share_inv_def algebra_simps)
  moreover have per: "HitsCount h = Weight h \<and> AccumulatedWeight h = Weight h"
    if "h \<in> set (route_n (nat ?W) hs)" for h
    by (rule share_inv_period [OF inv assms(4) that])
  then have "map HitsCount (route_n (nat ?W) hs) = map Weight (route_n (nat ?W) hs)"
    "map AccumulatedWeight (route_n (nat ?W) hs) = map Weight (route_n (nat ?W) hs)" by simp_all
  moreover have hosts: "map HostId hs = map fst ws" "map Weight hs = map snd ws"
    "map AccumulatedWeight hs = map snd ws"
    by (simp_all add: assms(1) NewHW_def case_prod_unfold)
  moreover have "map (\<lambda>h. (HostId h, HitsCount h)) hs' = zip (map HostId hs') (map HitsCount hs')"
    for hs' :: "WeightedHost list"
    by (simp add: zip_map_map zip_same_conv_map)
  note pairs = this [of "route_n (nat ?W) hs"]
  ultimately show ?thesis
    using route_n_hosts [of "nat ?W" hs] by (simp add: pairs zip_map_fst_snd del: zip_map_map)
qed

theorem load_share_fair_witness:
  "map (\<lambda>h. (HostId h, HitsCount h)) (route_n 5 [NewHW ''a'' 2, NewHW ''b'' 3]) = [(''a'', 2), (''b'', 3)]"
  using load_share_fair [of "[NewHW ''a'' 2, NewHW ''b'' 3]" "[(''a'', 2), (''b'', 3)]"]
  by (simp add: GetTotalWeight_def NewHW_def)

end
