(* ===== verification/Sip_Headers.thy ===== *)
theory Sip_Headers
  imports Params
begin

text \<open>
  \<open>sip/headers.go\<close>: the header collection of a message. The Go map from lower-case names to
  lists of values is an association list with distinct keys. A header is named by a text of
  any case or by its number (\<open>HeaderEnum\<close>), whose text is \<open>HeaderName\<close>.
\<close>

type_synonym SipHeaders = "(string \<times> string list) list"

definition NewSipHeaders :: SipHeaders where
  "NewSipHeaders = []"

section \<open>The operations\<close>

definition Values :: "string \<Rightarrow> SipHeaders \<Rightarrow> bool \<times> string list" where
  "Values headerName headers =
     (case map_of headers (ASCIIToLower headerName) of
        Some v \<Rightarrow> (True, v)
      | None \<Rightarrow> (False, []))"

definition HeaderExists :: "string \<Rightarrow> SipHeaders \<Rightarrow> bool" where
  "HeaderExists headerName headers \<longleftrightarrow> map_of headers (ASCIIToLower headerName) \<noteq> None"

definition HeaderCount :: "string \<Rightarrow> SipHeaders \<Rightarrow> nat" where
  "HeaderCount headerName headers =
     (case map_of headers (ASCIIToLower headerName) of Some v \<Rightarrow> length v | None \<Rightarrow> 0)"

definition AddValues :: "string \<Rightarrow> string list \<Rightarrow> SipHeaders \<Rightarrow> SipHeaders" where
  "AddValues headerName headerValues headers =
     (let k = ASCIIToLower headerName;
          v = (case map_of headers k of Some v \<Rightarrow> v | None \<Rightarrow> [])
      in AList.update k (v @ headerValues) headers)"

definition Add :: "string \<Rightarrow> string \<Rightarrow> SipHeaders \<Rightarrow> SipHeaders" where
  "Add headerName headerValue headers =
     (let k = ASCIIToLower headerName;
          v = (case map_of headers k of Some v \<Rightarrow> v | None \<Rightarrow> [])
      in AList.update k (v @ [headerValue]) headers)"

definition Set :: "string \<Rightarrow> string \<Rightarrow> SipHeaders \<Rightarrow> SipHeaders" where
  "Set headerName headerValue headers =
     AList.update (ASCIIToLower headerName) [headerValue] headers"

text \<open>
  The first value. A header whose list of values is empty makes \<open>Value\<close> panic at index 0:
  \<open>None\<close>.
\<close>

definition Value :: "string \<Rightarrow> SipHeaders \<Rightarrow> string option" where
  "Value headerName headers =
     (case Values headerName headers of
        (True, []) \<Rightarrow> None
      | (True, v # _) \<Rightarrow> Some v
      | (False, _) \<Rightarrow> Some [])"

definition Delete :: "string \<Rightarrow> SipHeaders \<Rightarrow> bool \<times> SipHeaders" where
  "Delete headerName headers =
     (let k = ASCIIToLower headerName; ok = map_of headers k \<noteq> None
      in (ok, if ok then AList.delete k headers else headers))"

definition DoesValueExistInHeader :: "string \<Rightarrow> string \<Rightarrow> SipHeaders \<Rightarrow> bool" where
  "DoesValueExistInHeader headerName headerValue headers \<longleftrightarrow>
     (case Values headerName headers of
        (_, vs) \<Rightarrow> list_ex (\<lambda>hv. Contains (ASCIIToLower hv) (ASCIIToLower headerValue)) vs)"

definition GetHeaderNames :: "SipHeaders \<Rightarrow> string list" where
  "GetHeaderNames headers = map fst headers"

definition ValuesWithHeaderPrefix ::
    "string \<Rightarrow> string list \<Rightarrow> SipHeaders \<Rightarrow> (string \<times> string list) list" where
  "ValuesWithHeaderPrefix headersPrefix exceptHeaders headers =
     foldl (\<lambda>data (k, v). AList.update (HeaderCase k) v data) []
       (filter (\<lambda>(k, v). HasPrefix k (ASCIIToLower headersPrefix) \<and> k \<notin> set exceptHeaders) headers)"

definition DeleteHeadersWithPrefix :: "string \<Rightarrow> SipHeaders \<Rightarrow> SipHeaders" where
  "DeleteHeadersWithPrefix headersPrefix headers =
     filter (\<lambda>(k, v). \<not> HasPrefix k (ASCIIToLower headersPrefix)) headers"

text \<open>The same by header number.\<close>

definition HeaderNameExists :: "HeaderEnum \<Rightarrow> SipHeaders \<Rightarrow> bool" where
  "HeaderNameExists header = HeaderExists (HeaderName header)"

definition AddHeader :: "HeaderEnum \<Rightarrow> string \<Rightarrow> SipHeaders \<Rightarrow> SipHeaders" where
  "AddHeader header = Add (HeaderName header)"

definition AddHeaderValues :: "HeaderEnum \<Rightarrow> string list \<Rightarrow> SipHeaders \<Rightarrow> SipHeaders" where
  "AddHeaderValues header = AddValues (HeaderName header)"

definition SetHeader :: "HeaderEnum \<Rightarrow> string \<Rightarrow> SipHeaders \<Rightarrow> SipHeaders" where
  "SetHeader header = Set (HeaderName header)"

definition HeaderValues :: "HeaderEnum \<Rightarrow> SipHeaders \<Rightarrow> string list" where
  "HeaderValues header headers = snd (Values (HeaderName header) headers)"

definition ValuesHeader :: "HeaderEnum \<Rightarrow> SipHeaders \<Rightarrow> bool \<times> string list" where
  "ValuesHeader header = Values (HeaderName header)"

definition ValueHeader :: "HeaderEnum \<Rightarrow> SipHeaders \<Rightarrow> string option" where
  "ValueHeader header = Value (HeaderName header)"

definition DeleteHeader :: "HeaderEnum \<Rightarrow> SipHeaders \<Rightarrow> bool \<times> SipHeaders" where
  "DeleteHeader header = Delete (HeaderName header)"

text \<open>The tag test reads the map at the key \<open>to\<close> and takes index 0: no value is a panic.\<close>

definition ContainsToTag :: "SipHeaders \<Rightarrow> bool option" where
  "ContainsToTag headers =
     (case map_of headers ''to'' of
        Some (v # _) \<Rightarrow> Some (Contains (ASCIIToLower v) '';tag='')
      | _ \<Rightarrow> None)"

definition NewSHsFromMap :: "(string \<times> string list) list \<Rightarrow> SipHeaders" where
  "NewSHsFromMap mp = foldl (\<lambda>h (k, v). AddValues k v h) NewSipHeaders mp"

definition NewSHsPointer :: "bool \<Rightarrow> SipHeaders" where
  "NewSHsPointer setDefaults =
     (if setDefaults
      then AddHeader Server_hdr B2BUANameVersion (AddHeader User_Agent_hdr B2BUANameVersion NewSipHeaders)
      else NewSipHeaders)"

text \<open>
  The headers that explain a response or a release: \<open>Reason\<close> for a cause (Q.850 up to 127,
  SIP above), \<open>Warning\<close> when there is a text only. \<open>Int2Str\<close> may panic, hence the option.
\<close>

definition NewSHQ850OrSIP :: "int \<Rightarrow> string \<Rightarrow> string \<Rightarrow> SipHeaders option" where
  "NewSHQ850OrSIP q850OrSip details retryAfter =
     (let h = (if retryAfter \<noteq> [] then AddHeader Retry_After_hdr retryAfter NewSipHeaders
               else NewSipHeaders)
      in if q850OrSip = 0
         then Some (if TrimSpace details \<noteq> []
                    then AddHeader Warning_hdr
                           (''399 '' @ B2BUAName @ '' '' @ [CHR 34] @ details @ [CHR 34]) h
                    else h)
         else map_option
                (\<lambda>cause.
                   AddHeader Reason_hdr
                     ((if q850OrSip \<le> 127 then ''Q.850;cause='' else ''SIP;cause='') @ cause @
                      (if TrimSpace details \<noteq> [] then '';text='' @ [CHR 34] @ details @ [CHR 34] else [])) h)
                (Int2Str (word_of_int q850OrSip)))"

text \<open>The first missing header among the mandatory ones.\<close>

definition AnyMandatoryHeadersMissing :: "Method \<Rightarrow> SipHeaders \<Rightarrow> bool \<times> string" where
  "AnyMandatoryHeadersMissing m headers =
     (case find (\<lambda>mh. \<not> HeaderExists mh headers)
             (MandatoryHeaders @ (if m = INVITE then [HeaderName Max_Forwards_hdr, HeaderName Contact_hdr] else [])) of
        Some mh \<Rightarrow> (True, mh)
      | None \<Rightarrow> (False, []))"

section \<open>The header map as a map without regard to case\<close>

text \<open>
  The interface the messages rely on: reading after adding, setting and deleting, where two
  names are the same name when they agree in lower case, and the invariant that the
  operations keep: distinct lower-case keys, every list of values non-empty.
\<close>

locale header_map =
  fixes fold_case :: "string \<Rightarrow> string"
    and get :: "string \<Rightarrow> 'h \<Rightarrow> string list"
    and add :: "string \<Rightarrow> string \<Rightarrow> 'h \<Rightarrow> 'h"
    and put :: "string \<Rightarrow> string \<Rightarrow> 'h \<Rightarrow> 'h"
    and del :: "string \<Rightarrow> 'h \<Rightarrow> 'h"
    and emp :: 'h
    and inv :: "'h \<Rightarrow> bool"
  assumes inv_emp: "inv emp"
    and inv_add: "inv h \<Longrightarrow> inv (add n v h)"
    and inv_put: "inv h \<Longrightarrow> inv (put n v h)"
    and inv_del: "inv h \<Longrightarrow> inv (del n h)"
    and get_emp: "get n emp = []"
    and get_add: "get n (add m v h) = (if fold_case n = fold_case m then get n h @ [v] else get n h)"
    and get_put: "get n (put m v h) = (if fold_case n = fold_case m then [v] else get n h)"
    and get_del: "inv h \<Longrightarrow> get n (del m h) = (if fold_case n = fold_case m then [] else get n h)"
begin

definition add_all :: "(string \<times> string) list \<Rightarrow> 'h \<Rightarrow> 'h" where
  "add_all nvs h = fold (\<lambda>(n, v). add n v) nvs h"

lemma inv_add_all: "inv h \<Longrightarrow> inv (add_all nvs h)"
  by (induction nvs arbitrary: h) (auto simp: add_all_def inv_add)

text \<open>The values of a name are those added under it, in the order of the additions.\<close>

lemma get_add_all:
  "get n (add_all nvs h) = get n h @ map snd (filter (\<lambda>(m, v). fold_case n = fold_case m) nvs)"
proof (induction nvs arbitrary: h)
  case (Cons nv nvs)
  obtain m v where "nv = (m, v)" by (cases nv)
  then show ?case using Cons [of "add m v h"] by (simp add: add_all_def get_add)
qed (simp add: add_all_def)

lemma get_put_add_all:
  "get n (put n v (add_all nvs h)) = [v]"
  by (simp add: get_put)

lemma get_case: "fold_case n = fold_case m \<Longrightarrow> get n (put m v h) = get m (put m v h)"
  by (simp add: get_put)

end

definition headers_wf :: "SipHeaders \<Rightarrow> bool" where
  "headers_wf h \<longleftrightarrow> go_map_wf h \<and> (\<forall>(k, v) \<in> set h. k = ASCIIToLower k \<and> v \<noteq> [])"

definition header_values :: "string \<Rightarrow> SipHeaders \<Rightarrow> string list" where
  "header_values n h = snd (Values n h)"

definition header_delete :: "string \<Rightarrow> SipHeaders \<Rightarrow> SipHeaders" where
  "header_delete n h = snd (Delete n h)"

lemma header_values_eq:
  "header_values n h = (case map_of h (ASCIIToLower n) of Some v \<Rightarrow> v | None \<Rightarrow> [])"
  by (simp add: header_values_def Values_def split: option.split)

lemma set_update_subset: "set (AList.update k v h) \<subseteq> insert (k, v) (set h)"
  by (induction h) auto

lemma headers_wf_update:
  "headers_wf h \<Longrightarrow> k = ASCIIToLower k \<Longrightarrow> v \<noteq> [] \<Longrightarrow> headers_wf (AList.update k v h)"
  using set_update_subset [of k v h] by (auto simp: headers_wf_def)

lemma set_delete_subset: "set (AList.delete k h) \<subseteq> set h"
  by (auto simp: AList.delete_eq)

lemma headers_wf_delete: "headers_wf h \<Longrightarrow> headers_wf (AList.delete k h)"
  using set_delete_subset [of k h] by (auto simp: headers_wf_def)

interpretation hm: header_map ASCIIToLower header_values Add Set header_delete NewSipHeaders headers_wf
proof
  show "headers_wf NewSipHeaders" by (simp add: headers_wf_def NewSipHeaders_def)
  show "headers_wf h \<Longrightarrow> headers_wf (Add n v h)" for h n v
    by (simp add: Add_def Let_def headers_wf_update ASCIIToLower_idem)
  show "headers_wf h \<Longrightarrow> headers_wf (Set n v h)" for h n v
    by (simp add: Set_def headers_wf_update ASCIIToLower_idem)
  show "headers_wf h \<Longrightarrow> headers_wf (header_delete n h)" for h n
    by (simp add: header_delete_def Delete_def Let_def headers_wf_delete)
  show "header_values n NewSipHeaders = []" for n
    by (simp add: header_values_eq NewSipHeaders_def)
  show "header_values n (Add m v h) =
      (if ASCIIToLower n = ASCIIToLower m then header_values n h @ [v] else header_values n h)"
    for n m v h by (simp add: header_values_eq Add_def Let_def update_conv')
  show "header_values n (Set m v h) = (if ASCIIToLower n = ASCIIToLower m then [v] else header_values n h)"
    for n m v h by (simp add: header_values_eq Set_def update_conv')
  show "header_values n (header_delete m h) =
      (if ASCIIToLower n = ASCIIToLower m then [] else header_values n h)" for n m h
    by (auto simp: header_values_eq header_delete_def Delete_def Let_def delete_conv' split: option.split)
qed

lemma Value_eq:
  assumes "headers_wf h"
  shows "Value n h = Some (case header_values n h of [] \<Rightarrow> [] | v # _ \<Rightarrow> v)"
proof (cases "map_of h (ASCIIToLower n)")
  case (Some v)
  then have "v \<noteq> []" using assms by (auto simp: headers_wf_def dest: map_of_SomeD)
  with Some show ?thesis by (simp add: Value_def Values_def header_values_eq split: list.split)
qed (simp add: Value_def Values_def header_values_eq)

section \<open>Properties\<close>

text \<open>C31: A message's headers behave as a map from names without regard to case: after adding,
  setting and deleting under one name, every name reads what it should, the values of a name
  stay in the order they were added, and no header is left without a value.\<close>

theorem headers_behave_as_map:
  assumes "headers_wf h"
  shows "headers_wf (Add m v h) \<and> headers_wf (Set m v h) \<and> headers_wf (snd (Delete m h))
    \<and> snd (Values n (Add m v h)) = snd (Values n h) @ (if ASCIIToLower n = ASCIIToLower m then [v] else [])
    \<and> snd (Values n (Set m v h)) = (if ASCIIToLower n = ASCIIToLower m then [v] else snd (Values n h))
    \<and> snd (Values n (snd (Delete m h))) = (if ASCIIToLower n = ASCIIToLower m then [] else snd (Values n h))
    \<and> (fst (Delete m h) \<longleftrightarrow> HeaderExists m h)
    \<and> (HeaderExists n h \<longleftrightarrow> snd (Values n h) \<noteq> [])"
proof -
  have "HeaderExists n h \<longleftrightarrow> snd (Values n h) \<noteq> []"
    using assms by (auto simp: HeaderExists_def Values_def headers_wf_def dest: map_of_SomeD split: option.split)
  moreover have "fst (Delete m h) \<longleftrightarrow> HeaderExists m h" by (simp add: Delete_def HeaderExists_def Let_def)
  ultimately show ?thesis
    using hm.inv_add [OF assms] hm.inv_put [OF assms] hm.inv_del [OF assms]
      hm.get_add [of n m v h] hm.get_put [of n m v h] hm.get_del [OF assms, of n m]
    by (simp add: header_values_def header_delete_def)
qed

theorem headers_behave_as_map_witness:
  "snd (Values ''VIA'' (Add ''Via'' ''b'' (Add ''via'' ''a'' NewSipHeaders))) = [''a'', ''b'']"
  using headers_behave_as_map [OF hm.inv_emp, of "''via''" "''a''" "''Via''"]
    headers_behave_as_map [of "Add ''via'' ''a'' NewSipHeaders" "''Via''" "''b''" "''VIA''"]
    headers_behave_as_map [OF hm.inv_emp, of "''via''" "''a''" "''VIA''"]
  by (simp add: ASCIIToLower_def NewSipHeaders_def Values_def [of _ "[]"])

text \<open>Reading the first value of a header never panics on headers built by adding and setting
  single values, whatever the sequence; it gives the first value added, or the empty text. Adding
  an empty list of values under a new name, as the code allows, makes the next read panic.\<close>

theorem Value_total_unless_empty_values:
  "Value n (fold (\<lambda>(m, v). Add m v) nvs NewSipHeaders)
      = Some (case filter (\<lambda>(m, v). ASCIIToLower n = ASCIIToLower m) nvs of [] \<Rightarrow> [] | (m, v) # _ \<Rightarrow> v)
    \<and> Value n (AddValues n [] NewSipHeaders) = None"
proof -
  have "headers_wf (hm.add_all nvs NewSipHeaders)" by (rule hm.inv_add_all [OF hm.inv_emp])
  then have "Value n (hm.add_all nvs NewSipHeaders)
      = Some (case filter (\<lambda>(m, v). ASCIIToLower n = ASCIIToLower m) nvs of [] \<Rightarrow> [] | (m, v) # _ \<Rightarrow> v)"
    by (auto simp: Value_eq hm.get_add_all hm.get_emp split: list.split prod.split)
  moreover have "Value n (AddValues n [] NewSipHeaders) = None"
    by (simp add: Value_def Values_def AddValues_def NewSipHeaders_def)
  ultimately show ?thesis by (simp add: hm.add_all_def)
qed

end
