(* ===== verification/Net_Addr.thy ===== *)
theory Net_Addr
  imports Params
begin

text \<open>
  \<open>global/types.go\<close> and the address routines of \<open>global/support.go\<close>: UDP addresses, the
  sockets made of a host text and a port, and the user agents that hold one. An address is
  its printed IP, its port and its zone. \<open>net.ResolveUDPAddr\<close> asks the name service; it is
  the parameter \<open>resolve\<close>, from \<open>host:port\<close> to an address.
\<close>

record UDPAddr =
  IP :: string
  Port :: int
  Zone :: string

text \<open>Go's \<open>%d\<close> and \<open>UDPAddr.String\<close>.\<close>

definition fmt_d :: "int \<Rightarrow> string" where
  "fmt_d n = (if n < 0 then CHR ''-'' # dec_string (nat (- n)) else dec_string (nat n))"

definition UDPAddr_String :: "UDPAddr \<Rightarrow> string" where
  "UDPAddr_String a =
     (let host = (if Zone a = [] then IP a else IP a @ ''%'' @ Zone a)
      in (if Contains host '':'' then ''['' @ host @ '']:'' else host @ '':'') @ fmt_d (Port a))"

definition AreUdpAddrsEqual :: "UDPAddr option \<Rightarrow> UDPAddr option \<Rightarrow> bool" where
  "AreUdpAddrsEqual a b =
     (case (a, b) of
        (Some x, Some y) \<Rightarrow> IP x = IP y \<and> Port x = Port y \<and> Zone x = Zone y
      | (None, None) \<Rightarrow> True
      | _ \<Rightarrow> False)"

definition GenerateViaWithoutBranch :: "UDPAddr \<Rightarrow> string" where
  "GenerateViaWithoutBranch udpsocket = ''SIP/2.0/UDP '' @ UDPAddr_String udpsocket"

definition GenerateContact :: "UDPAddr \<Rightarrow> string" where
  "GenerateContact skt = ''<sip:'' @ UDPAddr_String skt @ '';transport=udp>''"

definition BuildUdpAddr ::
    "(string \<Rightarrow> UDPAddr option) \<Rightarrow> string \<Rightarrow> int \<Rightarrow> UDPAddr option" where
  "BuildUdpAddr resolve ipsocket defaultport =
     (case Cut ipsocket '':'' of
        (part1, part2, ok) \<Rightarrow>
          let prt = (if ok then sint (Str2Int part2 :: u64) else 0)
          in if ok \<and> (prt \<le> 0 \<or> MaxPort < prt) then None
             else resolve (part1 @ '':'' @ fmt_d (if prt = 0 then defaultport else prt)))"

section \<open>Sockets\<close>

record UdpSocket =
  addr :: "UDPAddr option"
  hostOrIP :: "string option"
  port :: "int option"

datatype socket_error = NilUDPAddress | InvalidPortNumber int | ResolveFailed string

definition BuildUdpSocketFromAddr :: "UDPAddr option \<Rightarrow> socket_error + UdpSocket" where
  "BuildUdpSocketFromAddr a =
     (case a of
        None \<Rightarrow> Inl NilUDPAddress
      | Some x \<Rightarrow>
          if Port x \<le> 0 \<or> MaxPort < Port x then Inl (InvalidPortNumber (Port x))
          else Inr \<lparr>addr = Some x, hostOrIP = Some (IP x), port = Some (Port x)\<rparr>)"

definition BuildUdpSocket ::
    "(string \<Rightarrow> UDPAddr option) \<Rightarrow> string \<Rightarrow> int \<Rightarrow> socket_error + UdpSocket" where
  "BuildUdpSocket resolve ipsocket defaultport =
     (case Cut ipsocket '':'' of
        (part1, part2, ok) \<Rightarrow>
          let prt = (if ok then sint (Str2Int part2 :: u64) else 0)
          in if ok \<and> (prt \<le> 0 \<or> MaxPort < prt) then Inl (InvalidPortNumber prt)
             else let prt' = (if prt = 0 then defaultport else prt)
                  in case resolve (part1 @ '':'' @ fmt_d prt') of
                       None \<Rightarrow> Inl (ResolveFailed ipsocket)
                     | Some a \<Rightarrow> Inr \<lparr>addr = Some a, hostOrIP = Some part1, port = Some prt'\<rparr>)"

definition UdpSocket_String :: "UdpSocket \<Rightarrow> string" where
  "UdpSocket_String us =
     (case (hostOrIP us, port us) of
        (Some h, Some p) \<Rightarrow> if p = SipPort then h else h @ '':'' @ fmt_d p
      | _ \<Rightarrow> [])"

section \<open>User agents\<close>

record SipUdpUserAgent =
  udpSkt :: "UdpSocket option"
  isAlive :: bool

definition NewSipUdpUserAgentFromSocket :: "UdpSocket option \<Rightarrow> SipUdpUserAgent option" where
  "NewSipUdpUserAgentFromSocket udpskt =
     map_option (\<lambda>s. \<lparr>udpSkt = Some s, isAlive = False\<rparr>) udpskt"

definition NewSipUdpUserAgent :: "UDPAddr option \<Rightarrow> SipUdpUserAgent option" where
  "NewSipUdpUserAgent udpaddr =
     (case BuildUdpSocketFromAddr udpaddr of
        Inl _ \<Rightarrow> None
      | Inr skt \<Rightarrow> Some \<lparr>udpSkt = Some skt, isAlive = False\<rparr>)"

definition SetAlive :: "bool \<Rightarrow> SipUdpUserAgent \<Rightarrow> SipUdpUserAgent" where
  "SetAlive alive ua = ua\<lparr>isAlive := alive\<rparr>"

text \<open>A new address that makes no socket leaves the agent with none.\<close>

definition SetUDPAddr :: "UDPAddr option \<Rightarrow> SipUdpUserAgent \<Rightarrow> SipUdpUserAgent" where
  "SetUDPAddr udpAddr ua =
     ua\<lparr>udpSkt := (case BuildUdpSocketFromAddr udpAddr of Inl _ \<Rightarrow> None | Inr s \<Rightarrow> Some s)\<rparr>"

text \<open>\<open>None\<close> is the panic of reading through the missing socket.\<close>

definition GetUDPAddr :: "SipUdpUserAgent \<Rightarrow> UDPAddr option option" where
  "GetUDPAddr ua = map_option addr (udpSkt ua)"

definition GetUDPAddrString :: "SipUdpUserAgent \<Rightarrow> string option" where
  "GetUDPAddrString ua = map_option UdpSocket_String (udpSkt ua)"

section \<open>Ports and texts\<close>

lemma fmt_d_nat: "0 \<le> n \<Longrightarrow> fmt_d n = dec_string (nat n)"
  by (simp add: fmt_d_def)

lemma colon_not_digit: "list_all is_digit s \<Longrightarrow> CHR '':'' \<notin> set s"
  by (induction s) (auto simp: is_digit_def in_range_def byte_of_def)

lemma Cut_colon_none: "CHR '':'' \<notin> set h \<Longrightarrow> Cut h '':'' = (h, [], False)"
  by (simp add: Cut_def IndexOf_char_miss)

lemma Cut_colon: "CHR '':'' \<notin> set h \<Longrightarrow> Cut (h @ '':'' @ p) '':'' = (h, p, True)"
  by (simp add: Cut_def IndexOf_char_hit)

lemma Cut_colon_host: "Cut s '':'' = (h, p, ok) \<Longrightarrow> CHR '':'' \<notin> set h"
proof -
  have *: "IndexOf s '':'' = Some i \<Longrightarrow> CHR '':'' \<notin> set (take i s)" for i
    by (induction s "'':''" arbitrary: i rule: IndexOf.induct)
       (auto simp: HasPrefix_def split: if_splits)
  assume "Cut s '':'' = (h, p, ok)"
  with * show ?thesis
    by (auto simp: Cut_def IndexOf_char_None split: option.splits)
qed

lemma Str2Int_dec_string: "Str2Int (dec_string n) = (of_nat n :: 'a::len word)"
proof (rule dec_string_cases [of n])
  fix c r
  assume e: "dec_string n = c # r" and d: "is_digit c"
    and l: "digit_loop 0 (c # r) = (of_nat n :: 'a word, True)"
  have "c \<noteq> CHR ''-''" using d by auto
  with e l show ?thesis by (simp add: Str2Int_def del: digit_loop.simps)
qed

lemma sint_port: "0 \<le> p \<Longrightarrow> p \<le> MaxPort \<Longrightarrow> sint (Str2Int (fmt_d p) :: u64) = p"
  by (simp add: fmt_d_nat Str2Int_dec_string sint_uint take_bit_int_eq_self signed_take_bit_int_eq_self
      unsigned_of_int)

lemma BuildUdpAddr_port:
  assumes "BuildUdpAddr resolve s d = Some a" "1 \<le> d" "d \<le> MaxPort"
  shows "\<exists>host p. 1 \<le> p \<and> p \<le> MaxPort \<and> CHR '':'' \<notin> set host \<and> resolve (host @ '':'' @ fmt_d p) = Some a"
proof -
  obtain h p ok where c: "Cut s '':'' = (h, p, ok)" by (cases "Cut s '':''") auto
  let ?q = "if ok \<and> sint (Str2Int p :: u64) \<noteq> 0 then sint (Str2Int p :: u64) else d"
  from assms c have "resolve (h @ '':'' @ fmt_d ?q) = Some a" "1 \<le> ?q" "?q \<le> MaxPort"
    by (auto simp: BuildUdpAddr_def Let_def split: if_splits)
  with Cut_colon_host [OF c] show ?thesis by blast
qed

lemma BuildUdpSocket_String:
  assumes "BuildUdpSocket resolve s d = Inr us" "1 \<le> d" "d \<le> MaxPort"
  shows "BuildUdpSocket resolve (UdpSocket_String us) SipPort = Inr us"
proof -
  obtain h p ok where c: "Cut s '':'' = (h, p, ok)" by (cases "Cut s '':''") auto
  note h = Cut_colon_host [OF c]
  from assms c obtain q a where us: "us = \<lparr>addr = Some a, hostOrIP = Some h, port = Some q\<rparr>"
    and q: "1 \<le> q" "q \<le> MaxPort" and r: "resolve (h @ '':'' @ fmt_d q) = Some a"
    by (auto simp: BuildUdpSocket_def Let_def split: if_splits option.splits)
  show ?thesis
  proof (cases "q = SipPort")
    case True
    with h r us show ?thesis
      by (simp add: BuildUdpSocket_def UdpSocket_String_def Cut_colon_none)
  next
    case False
    with h r us q show ?thesis
      by (simp add: BuildUdpSocket_def UdpSocket_String_def Cut_colon [simplified] sint_port Let_def)
  qed
qed

section \<open>Properties\<close>

lemma sint_Str2Int_fmt_d:
  assumes "\<bar>p\<bar> < 2 ^ 63"
  shows "sint (Str2Int (fmt_d p) :: u64) = p"
proof (cases "p < 0")
  case True
  then have "(Str2Int (fmt_d p) :: u64) = word_of_int p"
    by (simp add: fmt_d_def Str2Int_def digit_loop_digits [OF dec_string_digits])
  then show ?thesis using assms by (simp add: signed_of_int signed_take_bit_int_eq_self)
next
  case False
  then show ?thesis using assms
    by (simp add: fmt_d_nat Str2Int_dec_string signed_take_bit_int_eq_self signed_of_int)
qed

text \<open>C37: An address text without a colon is resolved with the default port; one with a port is
  resolved with that port when it is in range and refused otherwise, whatever the resolver
  says. A text that ends with the colon, as a Via header without a port gives, is refused: the
  default port is not used for it.\<close>

theorem BuildUdpAddr_cases:
  assumes "1 \<le> d" "CHR '':'' \<notin> set h" "\<bar>p\<bar> < 2 ^ 63"
  shows "BuildUdpAddr resolve h d = resolve (h @ '':'' @ fmt_d d)
    \<and> BuildUdpAddr resolve (h @ '':'') d = None
    \<and> BuildUdpAddr resolve (h @ '':'' @ fmt_d p) d
        = (if 1 \<le> p \<and> p \<le> MaxPort then resolve (h @ '':'' @ fmt_d p) else None)"
proof -
  have "BuildUdpAddr resolve (h @ '':'') d = None"
    using Cut_colon [OF assms(2), of "[]"] by (simp add: BuildUdpAddr_def Str2Int_def)
  moreover have "BuildUdpAddr resolve (h @ '':'' @ fmt_d p) d
        = (if 1 \<le> p \<and> p \<le> MaxPort then resolve (h @ '':'' @ fmt_d p) else None)"
    using Cut_colon [OF assms(2), of "fmt_d p"] sint_Str2Int_fmt_d [OF assms(3)]
    by (auto simp: BuildUdpAddr_def Let_def)
  ultimately show ?thesis
    using assms Cut_colon_none [OF assms(2)] by (simp add: BuildUdpAddr_def)
qed

theorem BuildUdpAddr_cases_witness:
  "BuildUdpAddr (\<lambda>s. Some \<lparr>IP = s, Port = 5060, Zone = []\<rparr>) ''h:'' 5060 = None"
  using BuildUdpAddr_cases [of 5060 "''h''" 1 "\<lambda>s. Some \<lparr>IP = s, Port = 5060, Zone = []\<rparr>"] by simp

text \<open>A socket printed and read again, with the SIP port as the default, is the same socket,
  for the same resolver.\<close>

theorem UdpSocket_round_trip:
  assumes "BuildUdpSocket resolve s d = Inr us" "1 \<le> d" "d \<le> MaxPort"
  shows "BuildUdpSocket resolve (UdpSocket_String us) SipPort = Inr us"
  by (rule BuildUdpSocket_String [OF assms])

theorem UdpSocket_round_trip_witness:
  "BuildUdpSocket (\<lambda>s. Some \<lparr>IP = s, Port = 5070, Zone = []\<rparr>) ''h'' 5070
     = Inr \<lparr>addr = Some \<lparr>IP = ''h:5070'', Port = 5070, Zone = []\<rparr>, hostOrIP = Some ''h'', port = Some 5070\<rparr>
   \<and> BuildUdpSocket (\<lambda>s. Some \<lparr>IP = s, Port = 5070, Zone = []\<rparr>)
        (UdpSocket_String \<lparr>addr = Some \<lparr>IP = ''h:5070'', Port = 5070, Zone = []\<rparr>,
             hostOrIP = Some ''h'', port = Some 5070\<rparr>) SipPort
     = Inr \<lparr>addr = Some \<lparr>IP = ''h:5070'', Port = 5070, Zone = []\<rparr>, hostOrIP = Some ''h'', port = Some 5070\<rparr>"
proof -
  have "fmt_d 5070 = ''5070''"
    by (simp add: fmt_d_def dec_string.simps digit_char_def char_of_eq_iff)
  then have b: "BuildUdpSocket (\<lambda>s. Some \<lparr>IP = s, Port = 5070, Zone = []\<rparr>) ''h'' 5070
     = Inr \<lparr>addr = Some \<lparr>IP = ''h:5070'', Port = 5070, Zone = []\<rparr>, hostOrIP = Some ''h'', port = Some 5070\<rparr>"
    by (simp add: BuildUdpSocket_def Cut_colon_none)
  show ?thesis using b UdpSocket_round_trip [OF b] by simp
qed

end
