(* ===== verification/Regex.thy ===== *)
theory Regex
  imports Params
begin

text \<open>
  What the source uses of Go's package \<open>regexp\<close> and the patterns of \<open>global/variables.go\<close>.
  A pattern is a term; the matcher enumerates the matches from a position in the order of
  preference of Go's leftmost-first rule and keeps the first. A character class is a list of
  byte ranges, with both cases listed where the pattern has \<open>(?i)\<close>. Text is matched byte by
  byte; on valid UTF-8 the patterns, whose classes are ASCII or complements of ASCII
  classes, accept the same texts.
\<close>

section \<open>Patterns and the matcher\<close>

datatype re =
    Bol | Eol
  | Cls bool "(nat \<times> nat) list"
  | Cat re re
  | Or re re
  | Rep re nat "nat option" bool
  | Cap nat re

text \<open>A match in progress: the position reached and the bounds of the groups closed so far.\<close>

type_synonym caps = "(nat \<times> nat \<times> nat) list"

definition in_cls :: "bool \<Rightarrow> (nat \<times> nat) list \<Rightarrow> char \<Rightarrow> bool" where
  "in_cls neg rs c \<longleftrightarrow> neg \<noteq> list_ex (\<lambda>(lo, hi). in_range lo hi (byte_of c)) rs"

definition bind_all :: "('a \<Rightarrow> 'b list) \<Rightarrow> 'a list \<Rightarrow> 'b list" where
  "bind_all f xs = concat (map f xs)"

text \<open>
  \<open>star_m\<close> repeats without an upper bound: a round that does not advance is not continued, so
  the number of bytes left, the first argument, bounds the rounds. \<open>opt_m\<close> allows so many
  further rounds, \<open>times_m\<close> demands so many.
\<close>

primrec star_m :: "nat \<Rightarrow> bool \<Rightarrow> (nat \<times> caps \<Rightarrow> (nat \<times> caps) list) \<Rightarrow> nat \<times> caps \<Rightarrow> (nat \<times> caps) list" where
  "star_m 0 greedy f x = [x]"
| "star_m (Suc n) greedy f x =
     (let more = bind_all (star_m n greedy f) (filter (\<lambda>y. fst x < fst y) (f x))
      in if greedy then more @ [x] else x # more)"

primrec opt_m :: "nat \<Rightarrow> bool \<Rightarrow> (nat \<times> caps \<Rightarrow> (nat \<times> caps) list) \<Rightarrow> nat \<times> caps \<Rightarrow> (nat \<times> caps) list" where
  "opt_m 0 greedy f x = [x]"
| "opt_m (Suc n) greedy f x =
     (let more = bind_all (opt_m n greedy f) (f x)
      in if greedy then more @ [x] else x # more)"

primrec times_m :: "nat \<Rightarrow> (nat \<times> caps \<Rightarrow> (nat \<times> caps) list) \<Rightarrow> nat \<times> caps \<Rightarrow> (nat \<times> caps) list" where
  "times_m 0 f x = [x]"
| "times_m (Suc n) f x = bind_all (times_m n f) (f x)"

primrec match_re :: "re \<Rightarrow> string \<Rightarrow> nat \<times> caps \<Rightarrow> (nat \<times> caps) list" where
  "match_re Bol s x = (if fst x = 0 then [x] else [])"
| "match_re Eol s x = (if fst x = length s then [x] else [])"
| "match_re (Cls neg rs) s x =
     (if fst x < length s \<and> in_cls neg rs (s ! fst x) then [(Suc (fst x), snd x)] else [])"
| "match_re (Cat a b) s x = bind_all (match_re b s) (match_re a s x)"
| "match_re (Or a b) s x = match_re a s x @ match_re b s x"
| "match_re (Rep a lo hi greedy) s x =
     bind_all
       (case hi of
          None \<Rightarrow> star_m (length s) greedy (match_re a s)
        | Some h \<Rightarrow> opt_m (h - lo) greedy (match_re a s))
       (times_m lo (match_re a s) x)"
| "match_re (Cap n a) s x =
     map (\<lambda>(j, cs). (j, AList.update n (fst x, j) cs)) (match_re a s x)"

text \<open>The leftmost match that starts at or after a position: its bounds and its groups.\<close>

fun find_from :: "nat \<Rightarrow> re \<Rightarrow> string \<Rightarrow> nat \<Rightarrow> (nat \<times> nat \<times> caps) option" where
  "find_from 0 r s i = None"
| "find_from (Suc n) r s i =
     (case match_re r s (i, []) of
        (j, cs) # _ \<Rightarrow> Some (i, j, cs)
      | [] \<Rightarrow> find_from n r s (Suc i))"

definition find_re :: "re \<Rightarrow> string \<Rightarrow> nat \<Rightarrow> (nat \<times> nat \<times> caps) option" where
  "find_re r s i = find_from (length s + 1 - i) r s i"

primrec ngroups :: "re \<Rightarrow> nat" where
  "ngroups Bol = 0"
| "ngroups Eol = 0"
| "ngroups (Cls neg rs) = 0"
| "ngroups (Cat a b) = max (ngroups a) (ngroups b)"
| "ngroups (Or a b) = max (ngroups a) (ngroups b)"
| "ngroups (Rep a lo hi greedy) = ngroups a"
| "ngroups (Cap n a) = max n (ngroups a)"

definition slice :: "string \<Rightarrow> nat \<times> nat \<Rightarrow> string" where
  "slice s ij = take (snd ij - fst ij) (drop (fst ij) s)"

text \<open>
  The groups of a match, the whole match first, by their bounds (\<open>None\<close> for Go's \<open>-1\<close>) and
  by their text, where a group that took no part is empty.
\<close>

definition group_bounds :: "re \<Rightarrow> nat \<times> nat \<times> caps \<Rightarrow> (nat \<times> nat) option list" where
  "group_bounds r m =
     (case m of (i, j, cs) \<Rightarrow> Some (i, j) # map (\<lambda>n. map_of cs n) [1..<Suc (ngroups r)])"

definition group_texts :: "re \<Rightarrow> string \<Rightarrow> nat \<times> nat \<times> caps \<Rightarrow> string list" where
  "group_texts r s m =
     map (\<lambda>b. case b of None \<Rightarrow> [] | Some ij \<Rightarrow> slice s ij) (group_bounds r m)"

definition FindStringSubmatch :: "re \<Rightarrow> string \<Rightarrow> string list" where
  "FindStringSubmatch r s =
     (case find_re r s 0 of None \<Rightarrow> [] | Some m \<Rightarrow> group_texts r s m)"

definition FindStringSubmatchIndex :: "re \<Rightarrow> string \<Rightarrow> (nat \<times> nat) option list" where
  "FindStringSubmatchIndex r s =
     (case find_re r s 0 of None \<Rightarrow> [] | Some m \<Rightarrow> group_bounds r m)"

text \<open>
  All matches from left to right. An empty match right at the end of the match before it is
  dropped; after an empty match the search moves on by one byte.
\<close>

fun all_matches :: "nat \<Rightarrow> re \<Rightarrow> string \<Rightarrow> nat \<Rightarrow> nat option \<Rightarrow> (nat \<times> nat \<times> caps) list" where
  "all_matches 0 r s pos prev = []"
| "all_matches (Suc n) r s pos prev =
     (if length s < pos then []
      else case find_re r s pos of
        None \<Rightarrow> []
      | Some (i, j, cs) \<Rightarrow>
          if j = pos
          then (if prev = Some i then [] else [(i, j, cs)]) @ all_matches n r s (Suc pos) (Some j)
          else (i, j, cs) # all_matches n r s j (Some j))"

definition FindAllStringSubmatch :: "re \<Rightarrow> string \<Rightarrow> string list list" where
  "FindAllStringSubmatch r s = map (group_texts r s) (all_matches (length s + 2) r s 0 None)"

section \<open>Templates\<close>

text \<open>
  The name after a dollar sign, in braces or not: the text of the name and the rest. Digits,
  letters and the underscore make a name.
\<close>

definition name_char :: "char \<Rightarrow> bool" where
  "name_char c \<longleftrightarrow> in_cls False [(48, 57), (65, 90), (95, 95), (97, 122)] c"

definition extract_name :: "string \<Rightarrow> (string \<times> string) option" where
  "extract_name t =
     (case t of
        [] \<Rightarrow> None
      | c # t' \<Rightarrow>
          let brace = (c = CHR ''{''); u = (if brace then t' else t);
              name = takeWhile name_char u; rest = dropWhile name_char u
          in if name = [] then None
             else if brace then
               (case rest of d # rest' \<Rightarrow> if d = CHR ''}'' then Some (name, rest') else None
                | [] \<Rightarrow> None)
             else Some (name, rest))"

definition group_number :: "string \<Rightarrow> nat option" where
  "group_number name =
     (if list_all is_digit name \<and> \<not> (length name > 1 \<and> hd name = CHR ''0'')
         \<and> length name \<le> 9
      then Some (decimal name) else None)"

text \<open>
  \<open>ExpandString\<close> for a pattern without named groups: a group that is not there or took no
  part expands to nothing.
\<close>

function expand :: "string list \<Rightarrow> string \<Rightarrow> string" where
  "expand groups t =
     (case t of
        [] \<Rightarrow> []
      | c # t' \<Rightarrow>
          if c \<noteq> CHR ''$'' then c # expand groups t'
          else if t' \<noteq> [] \<and> hd t' = CHR ''$'' then CHR ''$'' # expand groups (tl t')
          else (case extract_name t' of
             None \<Rightarrow> CHR ''$'' # expand groups t'
           | Some (name, rest) \<Rightarrow>
               (case group_number name of
                  Some k \<Rightarrow> (if k < length groups then groups ! k else [])
                | None \<Rightarrow> [])
               @ expand groups rest))"
  by pat_completeness auto

lemma extract_name_length: "extract_name t = Some (name, rest) \<Longrightarrow> length rest < length t"
proof -
  assume a: "extract_name t = Some (name, rest)"
  have len: "length (dropWhile P xs) + length (takeWhile P xs) = length xs" for P and xs :: string
    by (metis add.commute length_append takeWhile_dropWhile_id)
  from a show ?thesis
    using len [of name_char t] len [of name_char "tl t"]
    by (cases t) (auto simp: extract_name_def Let_def split: if_splits list.splits)
qed

termination expand
  by (relation "measure (\<lambda>(g, t). length t)") (auto dest: extract_name_length simp: neq_Nil_conv)

declare expand.simps [simp del]

definition TranslatePattern :: "string \<Rightarrow> re \<Rightarrow> string \<Rightarrow> string \<times> bool" where
  "TranslatePattern input rgx trns =
     (case FindStringSubmatch rgx input of
        [] \<Rightarrow> ([], False)
      | g # gs \<Rightarrow>
          let resultStr = expand (g # gs) trns
          in (resultStr, resultStr \<noteq> [] \<and> trns \<noteq> [] \<or> resultStr = [] \<and> trns = []))"

text \<open>\<open>ReplaceAllString\<close>: the text between the matches is kept, each match is expanded.\<close>

fun replace_matches :: "re \<Rightarrow> string \<Rightarrow> string \<Rightarrow> nat \<Rightarrow> (nat \<times> nat \<times> caps) list \<Rightarrow> string" where
  "replace_matches r s rep start [] = drop start s"
| "replace_matches r s rep start ((i, j, cs) # ms) =
     slice s (start, i) @ expand (group_texts r s (i, j, cs)) rep @ replace_matches r s rep j ms"

definition ReplaceAllString :: "re \<Rightarrow> string \<Rightarrow> string \<Rightarrow> string" where
  "ReplaceAllString r s rep = replace_matches r s rep 0 (all_matches (length s + 2) r s 0 None)"

section \<open>The patterns\<close>

text \<open>Abbreviated forms and the classes the patterns share.\<close>

definition OneOf :: "string \<Rightarrow> re" where
  "OneOf cs = Cls False (map (\<lambda>c. (byte_of c, byte_of c)) cs)"

definition NoneOf :: "string \<Rightarrow> re" where
  "NoneOf cs = Cls True (map (\<lambda>c. (byte_of c, byte_of c)) cs)"

definition fold_char :: "char \<Rightarrow> re" where
  "fold_char c = Cls False [(byte_of (upper_byte c), byte_of (upper_byte c)),
                            (byte_of (lower_byte c), byte_of (lower_byte c))]"

fun Seq :: "re list \<Rightarrow> re" where
  "Seq [] = Rep Bol 0 (Some 0) True"
| "Seq [r] = r"
| "Seq (r # r' # rs) = Cat r (Seq (r' # rs))"

text \<open>A word without regard to case.\<close>

definition Word :: "string \<Rightarrow> re" where
  "Word cs = Seq (map fold_char cs)"

definition Star :: "re \<Rightarrow> re" where "Star r = Rep r 0 None True"
definition Plus :: "re \<Rightarrow> re" where "Plus r = Rep r 1 None True"
definition Opt :: "re \<Rightarrow> re" where "Opt r = Rep r 0 (Some 1) True"

definition dot :: re where "dot = Cls True [(10, 10)]"
definition digit_cls :: re where "digit_cls = Cls False [(48, 57)]"
definition word_cls :: re where "word_cls = Cls False [(48, 57), (65, 90), (95, 95), (97, 122)]"
definition space_cls :: re where "space_cls = Cls False [(9, 10), (12, 13), (32, 32)]"
definition nonspace_cls :: re where "nonspace_cls = Cls True [(9, 10), (12, 13), (32, 32)]"
definition alpha_cls :: re where "alpha_cls = Cls False [(65, 90), (97, 122)]"
definition hex_cls :: re where "hex_cls = Cls False [(48, 57), (65, 70), (97, 102)]"
definition number_cls :: re where
  "number_cls = Cls False [(40, 41), (45, 46), (48, 57), (65, 90), (97, 122)]"
definition param_cls :: re where
  "param_cls = Cls False [(45, 45), (48, 57), (65, 90), (95, 95), (97, 122)]"
definition host_cls :: re where
  "host_cls = Cls False [(45, 46), (48, 57), (65, 90), (95, 95), (97, 122)]"

datatype FieldPattern =
  NumberOnly_fp | NameAndNumber_fp | ReplaceNumberOnly_fp | RequestStartLinePattern_fp |
    INVITERURI_fp | ContactHeader_fp | ResponseStartLinePattern_fp | ViaBranchPattern_fp |
    ViaTransport_fp | MediaPayloadTypes_fp | MediaPayloadTypeDefinition_fp | SDPOriginLine_fp |
    MediaDirective_fp | ConnectionAddress_fp | FullHeader_fp | MediaLine_fp | HostIPPort_fp |
    FQDNPort_fp | TransportProtocol_fp | ViaIPv4Socket_fp | IP6_fp | IP4_fp | HeaderParameter_fp
    | SDPTime_fp | Header_fp | URIFull_fp | URIParameters_fp | HTTPRequestStartLine_fp |
    Parameters_fp | URIParameter_fp | CSeqHeader_fp | HandlingProfile_fp | ErrorStack_fp |
    SDPALineReMapping_fp | SDPPTDefinition_fp | CodecPolicy_fp | ObjectName_fp | SignalDTMF_fp |
    DurationDTMF_fp | ConfDropPart_fp | Tag_fp | RAckHeader_fp | ExpiresParameter_fp

definition NumberOnly_re :: re where
  "NumberOnly_re =
     Seq [Or (Word ''sip'') (Or (Word ''sips'') (Word ''tel'')), Word '':'', Cap 1 (Or (Seq [Opt
       (OneOf ''#*+''), Plus number_cls]) (Or (Word ''invalid'') (Or (Word ''anonymous'') (Word
       ''unavailable'')))), Opt (OneOf ''@'')]"

definition NameAndNumber_re :: re where
  "NameAndNumber_re =
     Seq [Opt (Cap 1 (Seq [Star (Seq [Plus (Cls False [(33, 33), (37, 37), (39, 39), (42, 43),
       (45, 46), (48, 57), (65, 90), (95, 122), (126, 126)]), Star space_cls]), Cls False [(34,
       34)], Star (Or (Cls True [(34, 34), (92, 92)]) (Seq [Cls False [(92, 92)], dot])), Cls
       False [(34, 34)]])), Star space_cls, Word ''<'', Or (Word ''sip'') (Word ''tel''), Word
       '':'', Cap 2 (Or (Seq [Opt (OneOf ''#*+''), Plus number_cls]) (Or (Word ''invalid'') (Or
       (Word ''anonymous'') (Word ''unavailable'')))), Opt (OneOf ''@'')]"

definition ReplaceNumberOnly_re :: re where
  "ReplaceNumberOnly_re =
     Seq [Cap 1 (Seq [Rep dot 0 None False, Or (Word ''sip'') (Or (Word ''sips'') (Word
       ''tel'')), Word '':'']), Or (Seq [Opt (OneOf ''#*+''), Plus number_cls]) (Or (Word
       ''invalid'') (Or (Word ''anonymous'') (Word ''unavailable''))), Cap 2 (Star dot)]"

definition RequestStartLinePattern_re :: re where
  "RequestStartLinePattern_re =
     Seq [Bol, Star space_cls, Cap 1 (Plus alpha_cls), Plus space_cls, Cap 2 (Seq [Plus
       word_cls, Word '':'', Opt (Seq [Plus (NoneOf ''@''), Word ''@'']), Plus (NoneOf ''@'')]),
       Plus space_cls, Cap 3 (Word ''sip/2.0''), Eol]"

definition INVITERURI_re :: re where
  "INVITERURI_re =
     Seq [Cap 1 (Plus alpha_cls), Word '':'', Opt (Seq [Cap 2 (Seq [Opt (OneOf ''#*+''), Plus
       number_cls]), Cap 3 (Star (Seq [OneOf '',;'', Or (Seq [Plus param_cls, Word ''='', Plus
       (NoneOf '',:;=@'')]) (Plus param_cls)])), Opt (Cap 4 (Seq [Word '':'', Plus (NoneOf
       ''@'')])), Word ''@'']), Cap 5 (Seq [Plus (NoneOf ''#*+,:;@''), Opt (Seq [Word '':'',
       Plus digit_cls])]), Cap 6 (Star (Seq [OneOf '',;'', Or (Seq [Plus param_cls, Word ''='',
       Plus (NoneOf '',;?@'')]) (Plus param_cls)])), Star (Cap 7 (Seq [Word ''?'', Plus (NoneOf
       ''?'')]))]"

definition ContactHeader_re :: re where
  "ContactHeader_re =
     Seq [Cap 1 (Plus alpha_cls), Word '':'', Cap 2 (Seq [Opt (OneOf ''#*+''), Plus
       number_cls]), Cap 3 (Star (Seq [OneOf '',;'', Or (Seq [Plus param_cls, Word ''='', Plus
       (NoneOf '',:;=@'')]) (Plus param_cls)])), Opt (Cap 4 (Seq [Word '':'', Plus (NoneOf
       ''@'')])), Word ''@'', Cap 5 (Seq [Plus (NoneOf ''#*+,:;@''), Opt (Seq [Word '':'', Plus
       digit_cls])]), Cap 6 (Star (Seq [OneOf '',;'', Or (Seq [Plus param_cls, Word ''='', Plus
       (NoneOf '',;?@'')]) (Plus param_cls)])), Star (Cap 7 (Seq [Word ''?'', Plus (NoneOf
       ''?'')]))]"

definition ResponseStartLinePattern_re :: re where
  "ResponseStartLinePattern_re =
     Seq [Bol, Star space_cls, Cap 1 (Word ''sip/2.0''), Plus space_cls, Cap 2 (Rep digit_cls 3
       (Some 3) True), Opt (Seq [Plus space_cls, Cap 3 (Plus (NoneOf '',;'')), Opt (Cap 4 (Seq
       [OneOf '',;'', Plus dot]))]), Eol]"

definition ViaBranchPattern_re :: re where
  "ViaBranchPattern_re =
     Seq [Word '';branch'', Star space_cls, Word ''='', Star space_cls, Cap 1 (Plus (NoneOf
       '',;''))]"

definition ViaTransport_re :: re where
  "ViaTransport_re =
     Seq [Word ''sip/2'', dot, Word ''0/'', Cap 1 (Plus word_cls)]"

definition MediaPayloadTypes_re :: re where
  "MediaPayloadTypes_re =
     Seq [Bol, Word ''m='', Plus word_cls, Plus space_cls, Cap 1 (Plus digit_cls), Plus
       space_cls, Cap 2 (Plus nonspace_cls), Plus space_cls, Cap 3 (Plus (Cls False [(9, 10),
       (12, 13), (32, 32), (48, 57), (65, 90), (95, 95), (97, 122)]))]"

definition MediaPayloadTypeDefinition_re :: re where
  "MediaPayloadTypeDefinition_re =
     Seq [Word ''a='', Or (Word ''rtpmap'') (Word ''fmtp''), Star space_cls, Word '':'', Star
       space_cls, Cap 1 (Plus digit_cls), Plus space_cls]"

definition SDPOriginLine_re :: re where
  "SDPOriginLine_re =
     Seq [Bol, Word ''o='', Cap 1 (Plus nonspace_cls), Plus space_cls, Cap 2 (Plus digit_cls),
       Plus space_cls, Cap 3 (Plus digit_cls), Plus space_cls, Word ''in'', Plus space_cls, Word
       ''ip4'', Plus space_cls, Cap 4 (Seq [Rep (Seq [Rep digit_cls 1 (Some 3) True, Word
       ''.'']) 3 (Some 3) True, Rep digit_cls 1 (Some 3) True])]"

definition MediaDirective_re :: re where
  "MediaDirective_re =
     Seq [Bol, Word ''a='', Cap 1 (Or (Word ''sendrecv'') (Or (Word ''sendonly'') (Or (Word
       ''recvonly'') (Word ''inactive'')))), Star space_cls, Eol]"

definition ConnectionAddress_re :: re where
  "ConnectionAddress_re =
     Seq [Bol, Word ''c=in'', Plus space_cls, Word ''ip4'', Plus space_cls, Cap 1 (Seq [Rep (Seq
       [Rep digit_cls 1 (Some 3) True, Word ''.'']) 3 (Some 3) True, Rep digit_cls 1 (Some 3)
       True])]"

definition FullHeader_re :: re where
  "FullHeader_re =
     Seq [Bol, Star space_cls, Cap 1 (Plus (NoneOf '':'')), Star space_cls, Word '':'', Star
       space_cls, Cap 2 (Plus dot), Eol]"

definition MediaLine_re :: re where
  "MediaLine_re =
     Seq [Bol, Word ''m='', Cap 1 (Plus word_cls), Plus space_cls, Plus digit_cls, Plus
       space_cls]"

definition HostIPPort_re :: re where
  "HostIPPort_re =
     Seq [Or (Word ''sip'') (Or (Word ''sips'') (Word ''tel'')), Word '':'', Opt (Seq [Plus
       (NoneOf ''@''), Word ''@'']), Cap 1 (Seq [Rep (Seq [Rep digit_cls 1 (Some 3) True, Word
       ''.'']) 3 (Some 3) True, Rep digit_cls 1 (Some 3) True]), Word '':'', Cap 2 (Plus
       digit_cls), Opt (OneOf '';'')]"

definition FQDNPort_re :: re where
  "FQDNPort_re =
     Seq [Or (Word ''sip'') (Or (Word ''sips'') (Word ''tel'')), Word '':'', Opt (Seq [Plus
       (NoneOf ''@''), Word ''@'']), Cap 1 (Seq [Plus host_cls, Opt (Seq [Word '':'', Plus
       digit_cls])])]"

definition TransportProtocol_re :: re where
  "TransportProtocol_re =
     Seq [Word ''transport'', Star space_cls, Word ''='', Star space_cls, Cap 1 (Plus word_cls)]"

definition ViaIPv4Socket_re :: re where
  "ViaIPv4Socket_re =
     Seq [Star space_cls, Word ''sip/2.0/'', Cap 1 (Plus word_cls), Plus space_cls, Cap 2 (Seq
       [Rep (Seq [Rep digit_cls 1 (Some 3) True, Word ''.'']) 3 (Some 3) True, Rep digit_cls 1
       (Some 3) True]), Opt (Seq [Word '':'', Cap 3 (Plus digit_cls)]), Star space_cls]"

definition IP6_re :: re where
  "IP6_re =
     Seq [Cap 1 (Or (Seq [Rep (Seq [Rep hex_cls 1 (Some 4) True, Word '':'']) 6 (Some 6) True,
       Or (Seq [Rep hex_cls 1 (Some 4) True, Word '':'', Rep hex_cls 1 (Some 4) True]) (Seq [Rep
       (Seq [Or (Seq [Word ''25'', Cls False [(48, 53)]]) (Seq [Opt (Or (Cls False [(49, 57)])
       (Or (Seq [Word ''1'', digit_cls]) (Seq [Word ''2'', Cls False [(48, 52)]]))),
       digit_cls]), Word ''.'']) 3 (Some 3) True, Or (Seq [Word ''25'', Cls False [(48, 53)]])
       (Seq [Opt (Or (Cls False [(49, 57)]) (Or (Seq [Word ''1'', digit_cls]) (Seq [Word ''2'',
       Cls False [(48, 52)]]))), digit_cls])])]) (Or (Seq [Seq [Word ''::'', Rep (Seq [Rep
       hex_cls 1 (Some 4) True, Word '':'']) 5 (Some 5) True], Or (Seq [Rep hex_cls 1 (Some 4)
       True, Word '':'', Rep hex_cls 1 (Some 4) True]) (Seq [Rep (Seq [Or (Seq [Word ''25'', Cls
       False [(48, 53)]]) (Seq [Opt (Or (Cls False [(49, 57)]) (Or (Seq [Word ''1'', digit_cls])
       (Seq [Word ''2'', Cls False [(48, 52)]]))), digit_cls]), Word ''.'']) 3 (Some 3) True, Or
       (Seq [Word ''25'', Cls False [(48, 53)]]) (Seq [Opt (Or (Cls False [(49, 57)]) (Or (Seq
       [Word ''1'', digit_cls]) (Seq [Word ''2'', Cls False [(48, 52)]]))), digit_cls])])]) (Or
       (Seq [Seq [Opt (Rep hex_cls 1 (Some 4) True), Word ''::'', Rep (Seq [Rep hex_cls 1 (Some
       4) True, Word '':'']) 4 (Some 4) True], Or (Seq [Rep hex_cls 1 (Some 4) True, Word '':'',
       Rep hex_cls 1 (Some 4) True]) (Seq [Rep (Seq [Or (Seq [Word ''25'', Cls False [(48,
       53)]]) (Seq [Opt (Or (Cls False [(49, 57)]) (Or (Seq [Word ''1'', digit_cls]) (Seq [Word
       ''2'', Cls False [(48, 52)]]))), digit_cls]), Word ''.'']) 3 (Some 3) True, Or (Seq [Word
       ''25'', Cls False [(48, 53)]]) (Seq [Opt (Or (Cls False [(49, 57)]) (Or (Seq [Word ''1'',
       digit_cls]) (Seq [Word ''2'', Cls False [(48, 52)]]))), digit_cls])])]) (Or (Seq [Seq
       [Opt (Seq [Opt (Seq [Rep hex_cls 1 (Some 4) True, Word '':'']), Rep hex_cls 1 (Some 4)
       True]), Word ''::'', Rep (Seq [Rep hex_cls 1 (Some 4) True, Word '':'']) 3 (Some 3)
       True], Or (Seq [Rep hex_cls 1 (Some 4) True, Word '':'', Rep hex_cls 1 (Some 4) True])
       (Seq [Rep (Seq [Or (Seq [Word ''25'', Cls False [(48, 53)]]) (Seq [Opt (Or (Cls False
       [(49, 57)]) (Or (Seq [Word ''1'', digit_cls]) (Seq [Word ''2'', Cls False [(48, 52)]]))),
       digit_cls]), Word ''.'']) 3 (Some 3) True, Or (Seq [Word ''25'', Cls False [(48, 53)]])
       (Seq [Opt (Or (Cls False [(49, 57)]) (Or (Seq [Word ''1'', digit_cls]) (Seq [Word ''2'',
       Cls False [(48, 52)]]))), digit_cls])])]) (Or (Seq [Seq [Opt (Seq [Rep (Seq [Rep hex_cls
       1 (Some 4) True, Word '':'']) 0 (Some 2) True, Rep hex_cls 1 (Some 4) True]), Word
       ''::'', Rep (Seq [Rep hex_cls 1 (Some 4) True, Word '':'']) 2 (Some 2) True], Or (Seq
       [Rep hex_cls 1 (Some 4) True, Word '':'', Rep hex_cls 1 (Some 4) True]) (Seq [Rep (Seq
       [Or (Seq [Word ''25'', Cls False [(48, 53)]]) (Seq [Opt (Or (Cls False [(49, 57)]) (Or
       (Seq [Word ''1'', digit_cls]) (Seq [Word ''2'', Cls False [(48, 52)]]))), digit_cls]),
       Word ''.'']) 3 (Some 3) True, Or (Seq [Word ''25'', Cls False [(48, 53)]]) (Seq [Opt (Or
       (Cls False [(49, 57)]) (Or (Seq [Word ''1'', digit_cls]) (Seq [Word ''2'', Cls False
       [(48, 52)]]))), digit_cls])])]) (Or (Seq [Seq [Opt (Seq [Rep (Seq [Rep hex_cls 1 (Some 4)
       True, Word '':'']) 0 (Some 3) True, Rep hex_cls 1 (Some 4) True]), Word ''::'', Rep
       hex_cls 1 (Some 4) True, Word '':''], Or (Seq [Rep hex_cls 1 (Some 4) True, Word '':'',
       Rep hex_cls 1 (Some 4) True]) (Seq [Rep (Seq [Or (Seq [Word ''25'', Cls False [(48,
       53)]]) (Seq [Opt (Or (Cls False [(49, 57)]) (Or (Seq [Word ''1'', digit_cls]) (Seq [Word
       ''2'', Cls False [(48, 52)]]))), digit_cls]), Word ''.'']) 3 (Some 3) True, Or (Seq [Word
       ''25'', Cls False [(48, 53)]]) (Seq [Opt (Or (Cls False [(49, 57)]) (Or (Seq [Word ''1'',
       digit_cls]) (Seq [Word ''2'', Cls False [(48, 52)]]))), digit_cls])])]) (Or (Seq [Seq
       [Opt (Seq [Rep (Seq [Rep hex_cls 1 (Some 4) True, Word '':'']) 0 (Some 4) True, Rep
       hex_cls 1 (Some 4) True]), Word ''::''], Or (Seq [Rep hex_cls 1 (Some 4) True, Word
       '':'', Rep hex_cls 1 (Some 4) True]) (Seq [Rep (Seq [Or (Seq [Word ''25'', Cls False
       [(48, 53)]]) (Seq [Opt (Or (Cls False [(49, 57)]) (Or (Seq [Word ''1'', digit_cls]) (Seq
       [Word ''2'', Cls False [(48, 52)]]))), digit_cls]), Word ''.'']) 3 (Some 3) True, Or (Seq
       [Word ''25'', Cls False [(48, 53)]]) (Seq [Opt (Or (Cls False [(49, 57)]) (Or (Seq [Word
       ''1'', digit_cls]) (Seq [Word ''2'', Cls False [(48, 52)]]))), digit_cls])])]) (Or (Seq
       [Seq [Opt (Seq [Rep (Seq [Rep hex_cls 1 (Some 4) True, Word '':'']) 0 (Some 5) True, Rep
       hex_cls 1 (Some 4) True]), Word ''::''], Rep hex_cls 1 (Some 4) True]) (Seq [Opt (Seq
       [Rep (Seq [Rep hex_cls 1 (Some 4) True, Word '':'']) 0 (Some 6) True, Rep hex_cls 1 (Some
       4) True]), Word ''::'']))))))))), Star space_cls, Eol]"

definition IP4_re :: re where
  "IP4_re =
     Seq [Cap 1 (Seq [Rep (Seq [Or (Seq [Word ''2'', Or (Seq [Word ''5'', Cls False [(48, 53)]])
       (Seq [Cls False [(48, 52)], digit_cls])]) (Seq [Opt (OneOf ''1''), Opt digit_cls,
       digit_cls]), Word ''.'']) 3 (Some 3) True, Or (Seq [Word ''2'', Or (Seq [Word ''5'', Cls
       False [(48, 53)]]) (Seq [Cls False [(48, 52)], digit_cls])]) (Seq [Opt (OneOf ''1''), Opt
       digit_cls, digit_cls])]), Star space_cls, Eol]"

definition HeaderParameter_re :: re where
  "HeaderParameter_re =
     Seq [Word '';'', Cap 1 (Plus (NoneOf ''='')), Word ''='', Cap 2 (Plus (NoneOf '';=''))]"

definition SDPTime_re :: re where
  "SDPTime_re =
     Seq [Bol, Word ''t='', Cap 1 (Plus dot)]"

definition Header_re :: re where
  "Header_re =
     Seq [Bol, Star (Seq [Plus alpha_cls, Word ''-'']), Plus alpha_cls, Eol]"

definition URIFull_re :: re where
  "URIFull_re =
     Cap 1 (Seq [Or (Word ''sip'') (Or (Word ''sips'') (Word ''tel'')), Word '':'', Plus (NoneOf
       ''>'')])"

definition URIParameters_re :: re where
  "URIParameters_re =
     Seq [Bol, Star (Seq [OneOf '',;'', Or (Plus param_cls) (Seq [Plus param_cls, Word ''='',
       Plus (NoneOf '',;=@'')])]), Eol]"

definition HTTPRequestStartLine_re :: re where
  "HTTPRequestStartLine_re =
     Seq [Bol, Cap 1 (Plus alpha_cls), Plus space_cls, Cap 2 (Plus (Seq [Word ''/'', Star (Cls
       True [(9, 9), (10, 10), (12, 12), (13, 13), (32, 32), (47, 47)])])), Plus space_cls, Word
       ''http/1'', dot, Word ''1'']"

definition Parameters_re :: re where
  "Parameters_re =
     Seq [Cap 1 (Plus (Cls True [(34, 34), (59, 59), (61, 61)])), Opt (Seq [Word ''='', Or (Seq
       [Cls False [(34, 34)], Cap 2 (Plus (Cls True [(34, 34)])), Cls False [(34, 34)]]) (Cap 3
       (Plus (NoneOf '';='')))])]"

definition URIParameter_re :: re where
  "URIParameter_re =
     Seq [Bol, Cap 1 (Plus (NoneOf ''='')), Word ''='', Cap 2 (Plus (NoneOf ''='')), Eol]"

definition CSeqHeader_re :: re where
  "CSeqHeader_re =
     Seq [Cap 1 (Plus digit_cls), Plus space_cls, Cap 2 (Plus alpha_cls)]"

definition HandlingProfile_re :: re where
  "HandlingProfile_re =
     Seq [Word ''['', Cap 1 (Plus param_cls), Word '']'']"

definition ErrorStack_re :: re where
  "ErrorStack_re =
     Seq [Cap 1 (Seq [Plus word_cls, Word ''.vb'']), Word '':line'', space_cls, Cap 2 (Plus
       digit_cls)]"

definition SDPALineReMapping_re :: re where
  "SDPALineReMapping_re =
     Seq [Bol, Cap 1 (Seq [Word ''a='', Plus word_cls, Star space_cls, Word '':'', Star
       space_cls]), Plus digit_cls, Cap 2 (Plus dot)]"

definition SDPPTDefinition_re :: re where
  "SDPPTDefinition_re =
     Seq [Bol, Word ''a=rtpmap'', Star space_cls, Word '':'', Star space_cls, Plus digit_cls,
       space_cls, Cap 1 (Plus dot)]"

definition CodecPolicy_re :: re where
  "CodecPolicy_re =
     Cap 1 (Or (Cap 2 (Or digit_cls (Or (Seq [Cls False [(49, 57)], digit_cls]) (Or (Seq [Word
       ''1'', Cls False [(48, 49)], digit_cls]) (Seq [Word ''12'', Cls False [(48, 55)]])))))
       (OneOf ''*''))"

definition ObjectName_re :: re where
  "ObjectName_re =
     Seq [Bol, Word ''['', Rep dot 1 None False, Word '']'', Eol]"

definition SignalDTMF_re :: re where
  "SignalDTMF_re =
     Seq [Bol, Star space_cls, Cap 1 (Word ''signal''), Star space_cls, Word ''='', Star
       space_cls, Cap 2 (Plus (Cls True [(10, 10), (13, 13)])), Eol]"

definition DurationDTMF_re :: re where
  "DurationDTMF_re =
     Seq [Bol, Star space_cls, Cap 1 (Word ''duration''), Star space_cls, Word ''='', Star
       space_cls, Cap 2 (Plus (Cls True [(10, 10), (13, 13)])), Eol]"

definition ConfDropPart_re :: re where
  "ConfDropPart_re =
     Seq [Bol, Word ''88'', Cap 1 (Rep digit_cls 1 (Some 2) True), OneOf ''#*'', Eol]"

definition Tag_re :: re where
  "Tag_re =
     Seq [Word '';tag='', Cap 1 (Plus (NoneOf '';''))]"

definition RAckHeader_re :: re where
  "RAckHeader_re =
     Seq [Bol, Cap 1 (Plus digit_cls), Plus space_cls, Cap 2 (Plus digit_cls), Plus space_cls,
       Word ''invite'', Star space_cls, Eol]"

definition ExpiresParameter_re :: re where
  "ExpiresParameter_re =
     Seq [Word ''expires'', Star space_cls, Word ''='', Star space_cls, Cap 1 (Plus digit_cls)]"

definition DicFieldRegExp :: "FieldPattern \<Rightarrow> re" where
  "DicFieldRegExp fp =
     (case fp of
        NumberOnly_fp \<Rightarrow> NumberOnly_re
      | NameAndNumber_fp \<Rightarrow> NameAndNumber_re
      | ReplaceNumberOnly_fp \<Rightarrow> ReplaceNumberOnly_re
      | RequestStartLinePattern_fp \<Rightarrow> RequestStartLinePattern_re
      | INVITERURI_fp \<Rightarrow> INVITERURI_re
      | ContactHeader_fp \<Rightarrow> ContactHeader_re
      | ResponseStartLinePattern_fp \<Rightarrow> ResponseStartLinePattern_re
      | ViaBranchPattern_fp \<Rightarrow> ViaBranchPattern_re
      | ViaTransport_fp \<Rightarrow> ViaTransport_re
      | MediaPayloadTypes_fp \<Rightarrow> MediaPayloadTypes_re
      | MediaPayloadTypeDefinition_fp \<Rightarrow> MediaPayloadTypeDefinition_re
      | SDPOriginLine_fp \<Rightarrow> SDPOriginLine_re
      | MediaDirective_fp \<Rightarrow> MediaDirective_re
      | ConnectionAddress_fp \<Rightarrow> ConnectionAddress_re
      | FullHeader_fp \<Rightarrow> FullHeader_re
      | MediaLine_fp \<Rightarrow> MediaLine_re
      | HostIPPort_fp \<Rightarrow> HostIPPort_re
      | FQDNPort_fp \<Rightarrow> FQDNPort_re
      | TransportProtocol_fp \<Rightarrow> TransportProtocol_re
      | ViaIPv4Socket_fp \<Rightarrow> ViaIPv4Socket_re
      | IP6_fp \<Rightarrow> IP6_re
      | IP4_fp \<Rightarrow> IP4_re
      | HeaderParameter_fp \<Rightarrow> HeaderParameter_re
      | SDPTime_fp \<Rightarrow> SDPTime_re
      | Header_fp \<Rightarrow> Header_re
      | URIFull_fp \<Rightarrow> URIFull_re
      | URIParameters_fp \<Rightarrow> URIParameters_re
      | HTTPRequestStartLine_fp \<Rightarrow> HTTPRequestStartLine_re
      | Parameters_fp \<Rightarrow> Parameters_re
      | URIParameter_fp \<Rightarrow> URIParameter_re
      | CSeqHeader_fp \<Rightarrow> CSeqHeader_re
      | HandlingProfile_fp \<Rightarrow> HandlingProfile_re
      | ErrorStack_fp \<Rightarrow> ErrorStack_re
      | SDPALineReMapping_fp \<Rightarrow> SDPALineReMapping_re
      | SDPPTDefinition_fp \<Rightarrow> SDPPTDefinition_re
      | CodecPolicy_fp \<Rightarrow> CodecPolicy_re
      | ObjectName_fp \<Rightarrow> ObjectName_re
      | SignalDTMF_fp \<Rightarrow> SignalDTMF_re
      | DurationDTMF_fp \<Rightarrow> DurationDTMF_re
      | ConfDropPart_fp \<Rightarrow> ConfDropPart_re
      | Tag_fp \<Rightarrow> Tag_re
      | RAckHeader_fp \<Rightarrow> RAckHeader_re
      | ExpiresParameter_fp \<Rightarrow> ExpiresParameter_re)"

definition RMatch :: "string \<Rightarrow> FieldPattern \<Rightarrow> string list" where
  "RMatch s rgxfp = (if s = [] then [] else FindStringSubmatch (DicFieldRegExp rgxfp) s)"

definition RReplace :: "string \<Rightarrow> FieldPattern \<Rightarrow> string \<Rightarrow> string" where
  "RReplace input rgxfp replacement = ReplaceAllString (DicFieldRegExp rgxfp) input replacement"

definition RReplaceNumberOnly :: "string \<Rightarrow> string \<Rightarrow> string" where
  "RReplaceNumberOnly input replacement = RReplace input ReplaceNumberOnly_fp replacement"

definition GetURIUsername :: "string \<Rightarrow> string" where
  "GetURIUsername uri = (case RMatch uri NumberOnly_fp of _ # m # _ \<Rightarrow> m | _ \<Rightarrow> [])"

definition ExtractParameters :: "string \<Rightarrow> bool \<Rightarrow> (string \<times> string) list option" where
  "ExtractParameters headerValue keepFirst =
     (if headerValue = [] then None
      else Some
        (foldl (\<lambda>pars (i, m). if i = 0 \<and> keepFirst then AList.update ''!headerValue'' (m ! 1) pars
                                else AList.update (m ! 1) (m ! 2 @ m ! 3) pars)
           [] (enumerate 0 (FindAllStringSubmatch (DicFieldRegExp Parameters_fp) headerValue))))"

end
