(* ===== verification/Sip_Message.thy ===== *)
theory Sip_Message
  imports Sip_Headers Net_Addr Regex "HOL-Library.Monad_Syntax"
begin

text \<open>
  \<open>sip/startline.go\<close>, \<open>sip/body.go\<close> and \<open>sip/message.go\<close>: start lines, bodies and messages. A
  body is shared by the messages that hold a pointer to it, so a message holds the number of
  its body in the store of bodies, and the operations that touch a body take the body beside
  the message. An operation that can dereference nil or index an empty list returns an
  option, \<open>None\<close> for the panic.

  The SDP library is a parameter, the record \<open>sdp_lib\<close>: an SDP session is an opaque value
  that only its functions read.
\<close>

section \<open>The SDP library\<close>

type_synonym sdp_session = nat

record sdp_lib =
  sdp_Parse :: "string \<Rightarrow> sdp_session option"
  sdp_BuildEchoResponderAnswer :: "sdp_session \<Rightarrow> string + sdp_session"
  sdp_IsCallHeld :: "sdp_session \<Rightarrow> bool"
  sdp_IsT38Image :: "sdp_session \<Rightarrow> bool"
  sdp_GetEffectiveMediaUdpAddr :: "sdp_session \<Rightarrow> UDPAddr option"
  sdp_SetName :: "string \<Rightarrow> sdp_session \<Rightarrow> sdp_session"
  sdp_SetConnection :: "string \<Rightarrow> int \<Rightarrow> sdp_session \<Rightarrow> sdp_session"
  sdp_SetOriginID :: "int \<Rightarrow> sdp_session \<Rightarrow> sdp_session"
  sdp_SetOriginVersion :: "int \<Rightarrow> sdp_session \<Rightarrow> sdp_session"
  sdp_Equals :: "sdp_session \<Rightarrow> sdp_session \<Rightarrow> bool"
  sdp_Bytes :: "sdp_session \<Rightarrow> string"

section \<open>Start lines\<close>

record StartLine =
  UserParameters :: "(string \<times> string) list"
  UriParameters :: "(string \<times> string) list"
  UriScheme :: string
  UserPart :: string
  OriginalUP :: string
  HostPart :: string
  Password :: string
  ReasonPhrase :: string
  RUri :: string
  UriHeaders :: string
  sl_Method :: Method
  StatusCode :: int

definition zero_StartLine :: StartLine where
  "zero_StartLine =
     \<lparr>UserParameters = [], UriParameters = [], UriScheme = [], UserPart = [], OriginalUP = [],
      HostPart = [], Password = [], ReasonPhrase = [], RUri = [], UriHeaders = [],
      sl_Method = UNKNOWN, StatusCode = 0\<rparr>"

definition BuildRURI :: "bool \<Rightarrow> StartLine \<Rightarrow> StartLine" where
  "BuildRURI useOriginalUP ssl =
     (let up = (if useOriginalUP then OriginalUP ssl else UserPart ssl);
          uri = GenerateParameters (UriParameters ssl) @ UriHeaders ssl
      in ssl\<lparr>RUri := UriScheme ssl @ '':'' @
           (if up = [] then HostPart ssl @ uri
            else up @ GenerateParameters (UserParameters ssl) @ Password ssl @ ''@'' @ HostPart ssl @ uri)\<rparr>)"

definition CRLF :: string where "CRLF = [CHR 13, CHR 10]"

definition GetStartLine :: "MessageType \<Rightarrow> StartLine \<Rightarrow> string" where
  "GetStartLine mt ssl =
     (if mt = REQUEST
      then Method_String (sl_Method ssl) @ '' '' @ RUri ssl @ '' '' @ SipVersion @ CRLF
      else SipVersion @ '' '' @ fmt_d (StatusCode ssl) @ '' '' @ ReasonPhrase ssl @ CRLF)"

section \<open>Bodies\<close>

record ContentPart =
  cp_Headers :: SipHeaders
  cp_Bytes :: string

record MessageBody =
  PartsContents :: "(BodyType \<times> ContentPart) list"
  SdpSession :: "sdp_session option"

definition NewBody :: MessageBody where
  "NewBody = \<lparr>PartsContents = [], SdpSession = None\<rparr>"

definition ContentType_of :: "BodyType \<Rightarrow> string" where
  "ContentType_of bt = (case map_of DicBodyContentType bt of None \<Rightarrow> [] | Some s \<Rightarrow> s)"

definition NewContentPart :: "BodyType \<Rightarrow> string \<Rightarrow> ContentPart" where
  "NewContentPart bt bytes =
     \<lparr>cp_Headers = AddHeader Content_Type_hdr (ContentType_of bt) NewSipHeaders, cp_Bytes = bytes\<rparr>"

text \<open>The three constructors write the content type into the \<open>Content-Length\<close> header.\<close>

definition NewMSCXML :: "string \<Rightarrow> MessageBody" where
  "NewMSCXML xml =
     NewBody\<lparr>PartsContents := [(MSCXML,
       \<lparr>cp_Headers = AddHeader Content_Length_hdr (ContentType_of MSCXML) NewSipHeaders, cp_Bytes = xml\<rparr>)]\<rparr>"

definition NewJSON :: "string \<Rightarrow> MessageBody" where
  "NewJSON jsonbytes =
     NewBody\<lparr>PartsContents := [(AppJson,
       \<lparr>cp_Headers = AddHeader Content_Length_hdr (ContentType_of AppJson) NewSipHeaders, cp_Bytes = jsonbytes\<rparr>)]\<rparr>"

definition NewInData :: "string \<Rightarrow> MessageBody" where
  "NewInData binbytes =
     NewBody\<lparr>PartsContents := [(AppJson,
       \<lparr>cp_Headers = AddHeader Content_Length_hdr (ContentType_of VndOrangeInData) NewSipHeaders, cp_Bytes = binbytes\<rparr>)]\<rparr>"

definition body_ContainsSDP :: "MessageBody \<Rightarrow> bool" where
  "body_ContainsSDP msgbody \<longleftrightarrow> map_of (PartsContents msgbody) SDP \<noteq> None"

section \<open>Messages\<close>

type_synonym body_id = nat

record SipMessage =
  Headers :: SipHeaders
  Body :: "body_id option"
  sm_StartLine :: StartLine
  sm_ViaUdpAddr :: "UDPAddr option"
  sm_ToTag :: string
  RCURI :: string
  sm_FromHeader :: string
  sm_ToHeader :: string
  sm_ViaBranch :: string
  sm_CallID :: string
  sm_FromTag :: string
  Bytes :: string
  DivHeaders :: "string list"
  PAIHeaders :: "string list"
  MsgType :: MessageType
  MaxFwds :: int
  CSeqMethod :: Method
  ContentLength :: int
  CSeqNum :: u32

definition zero_SipMessage :: SipMessage where
  "zero_SipMessage =
     \<lparr>Headers = NewSipHeaders, Body = None, sm_StartLine = zero_StartLine, sm_ViaUdpAddr = None,
      sm_ToTag = [], RCURI = [], sm_FromHeader = [], sm_ToHeader = [], sm_ViaBranch = [],
      sm_CallID = [], sm_FromTag = [], Bytes = [], DivHeaders = [], PAIHeaders = [],
      MsgType = REQUEST, MaxFwds = 0, CSeqMethod = UNKNOWN, ContentLength = 0, CSeqNum = 0\<rparr>"

definition NewRequestMessage :: "Method \<Rightarrow> string \<Rightarrow> SipMessage" where
  "NewRequestMessage md up =
     zero_SipMessage\<lparr>MsgType := REQUEST,
       sm_StartLine := zero_StartLine\<lparr>sl_Method := md, UriScheme := ''sip'', UserPart := up, OriginalUP := up\<rparr>\<rparr>"

definition reason_text :: "int \<Rightarrow> string" where
  "reason_text sc = (case map_of DicResponse sc of None \<Rightarrow> [] | Some s \<Rightarrow> s)"

text \<open>\<open>cmp.Or\<close>: the first of the texts that is not empty.\<close>

fun first_nonempty :: "string list \<Rightarrow> string" where
  "first_nonempty [] = []"
| "first_nonempty (x # xs) = (if x \<noteq> [] then x else first_nonempty xs)"

definition NewResponseMessage :: "int \<Rightarrow> string \<Rightarrow> SipMessage" where
  "NewResponseMessage sc0 rp =
     (let sc = (if sc0 < 100 \<or> 699 < sc0 then 400 else sc0)
      in zero_SipMessage\<lparr>MsgType := RESPONSE,
           sm_StartLine := zero_StartLine\<lparr>StatusCode := sc,
             ReasonPhrase := first_nonempty [rp, reason_text sc, reason_text (sc div 100 * 100)]\<rparr>\<rparr>)"

definition IsResponse :: "SipMessage \<Rightarrow> bool" where
  "IsResponse sipmsg \<longleftrightarrow> MsgType sipmsg = RESPONSE"

definition IsRequest :: "SipMessage \<Rightarrow> bool" where
  "IsRequest sipmsg \<longleftrightarrow> MsgType sipmsg = REQUEST"

definition GetMethod :: "SipMessage \<Rightarrow> Method" where
  "GetMethod sipmsg = sl_Method (sm_StartLine sipmsg)"

definition GetStatusCode :: "SipMessage \<Rightarrow> int" where
  "GetStatusCode sipmsg = StatusCode (sm_StartLine sipmsg)"

definition IsOutOfDialgoue :: "SipMessage \<Rightarrow> bool" where
  "IsOutOfDialgoue sipmsg \<longleftrightarrow> sm_ToTag sipmsg = []"

subsection \<open>What a message says of its body\<close>

definition WithNoBody :: "MessageBody option \<Rightarrow> bool" where
  "WithNoBody b \<longleftrightarrow> b = None"

definition WithNoBodyOrZeroParts :: "MessageBody option \<Rightarrow> bool" where
  "WithNoBodyOrZeroParts b \<longleftrightarrow> (case b of None \<Rightarrow> True | Some mb \<Rightarrow> PartsContents mb = [])"

definition WithUnknownBodyPart :: "MessageBody option \<Rightarrow> bool" where
  "WithUnknownBodyPart b \<longleftrightarrow>
     (case b of
        None \<Rightarrow> False
      | Some mb \<Rightarrow> PartsContents mb = [] \<or> list_ex (\<lambda>(k, p). k = Unknown) (PartsContents mb))"

definition IsMultiPartBody :: "MessageBody option \<Rightarrow> bool" where
  "IsMultiPartBody b \<longleftrightarrow> (case b of None \<Rightarrow> False | Some mb \<Rightarrow> 2 \<le> length (PartsContents mb))"

definition ContainsSDP :: "MessageBody option \<Rightarrow> bool" where
  "ContainsSDP b \<longleftrightarrow> (case b of None \<Rightarrow> False | Some mb \<Rightarrow> body_ContainsSDP mb)"

definition part_bytes :: "BodyType \<Rightarrow> MessageBody \<Rightarrow> string" where
  "part_bytes bt mb = (case map_of (PartsContents mb) bt of None \<Rightarrow> [] | Some p \<Rightarrow> cp_Bytes p)"

definition IsT38Image :: "sdp_lib \<Rightarrow> MessageBody option \<Rightarrow> bool" where
  "IsT38Image lib b \<longleftrightarrow>
     (case b of
        None \<Rightarrow> False
      | Some mb \<Rightarrow> (case sdp_Parse lib (part_bytes SDP mb) of
                      None \<Rightarrow> False | Some s \<Rightarrow> sdp_IsT38Image lib s))"

definition IsJSON :: "MessageBody option \<Rightarrow> bool" where
  "IsJSON b \<longleftrightarrow> (case b of None \<Rightarrow> False | Some mb \<Rightarrow> map_of (PartsContents mb) AppJson \<noteq> None)"

definition ContentType :: "MessageBody option \<Rightarrow> string" where
  "ContentType b =
     (case b of
        None \<Rightarrow> []
      | Some mb \<Rightarrow>
          (case PartsContents mb of
             [] \<Rightarrow> []
           | [(bt, p)] \<Rightarrow> ContentType_of bt
           | _ \<Rightarrow> ContentType_of MultipartMixed))"

definition SipMessage_String :: "MessageBody option \<Rightarrow> SipMessage \<Rightarrow> string option" where
  "SipMessage_String b sipmsg =
     do {
       part1 \<leftarrow> (if MsgType sipmsg = REQUEST then Some (Method_String (GetMethod sipmsg))
                 else Int2Str (word_of_int (GetStatusCode sipmsg)));
       Some (if ContentType b = [] then part1 else part1 @ '' ['' @ ContentType b @ '']'')
     }"

subsection \<open>What a message says in its headers\<close>

definition GetRSeqFromRAck :: "SipMessage \<Rightarrow> (u32 \<times> u32) option option" where
  "GetRSeqFromRAck sipmsg =
     do {
       rAck \<leftarrow> ValueHeader RAck_hdr (Headers sipmsg);
       Some (if rAck = [] then None
             else case FindStringSubmatch (DicFieldRegExp RAckHeader_fp) rAck of
               _ # m1 # m2 # _ \<Rightarrow> Some (Str2Uint m1, Str2Uint m2)
             | _ \<Rightarrow> None)
     }"

definition IsOptionSupportedOrRequired :: "string \<Rightarrow> SipMessage \<Rightarrow> bool option" where
  "IsOptionSupportedOrRequired opt sipmsg =
     do {
       hdr \<leftarrow> ValueHeader Require_hdr (Headers sipmsg);
       if Contains hdr opt then Some True
       else do { hdr2 \<leftarrow> ValueHeader Supported_hdr (Headers sipmsg); Some (Contains hdr2 opt) }
     }"

definition IsOptionSupported :: "string \<Rightarrow> SipMessage \<Rightarrow> bool option" where
  "IsOptionSupported opt sipmsg =
     do {
       hdr \<leftarrow> ValueHeader Supported_hdr (Headers sipmsg);
       let hdr = ASCIIToLower hdr;
       Some (hdr \<noteq> [] \<and> Contains hdr opt)
     }"

definition IsOptionRequired :: "string \<Rightarrow> SipMessage \<Rightarrow> bool option" where
  "IsOptionRequired opt sipmsg =
     do {
       hdr \<leftarrow> ValueHeader Require_hdr (Headers sipmsg);
       let hdr = ASCIIToLower hdr;
       Some (hdr \<noteq> [] \<and> Contains hdr opt)
     }"

definition IsMethodAllowed :: "Method \<Rightarrow> SipMessage \<Rightarrow> bool option" where
  "IsMethodAllowed m sipmsg =
     do {
       hdr \<leftarrow> ValueHeader Allow_hdr (Headers sipmsg);
       let hdr = ASCIIToLower hdr;
       Some (hdr \<noteq> [] \<and> Contains hdr (ASCIIToLower (Method_String m)))
     }"

definition IsKnownRURIScheme :: "SipMessage \<Rightarrow> bool" where
  "IsKnownRURIScheme sipmsg \<longleftrightarrow> list_ex (\<lambda>s. s = UriScheme (sm_StartLine sipmsg)) UriSchemes"

text \<open>The URI of \<open>Refer-To\<close>, or the text of the error.\<close>

definition GetReferToRUIR :: "SipMessage \<Rightarrow> (string + string) option" where
  "GetReferToRUIR sipmsg =
     (case ValuesHeader Refer_To_hdr (Headers sipmsg) of
        (ok, values) \<Rightarrow>
          if \<not> ok then Some (Inl ''No Refer-To header'')
          else if 1 < length values then Some (Inl ''Multiple Refer-To headers found'')
          else case values of
            [] \<Rightarrow> None
          | v # _ \<Rightarrow>
              if Contains (ASCIIToLower v) ''replaces'' then Some (Inl ''Refer-To with Replaces'')
              else case RMatch v URIFull_fp of
                _ # m1 # _ \<Rightarrow> Some (Inr m1)
              | _ \<Rightarrow> Some (Inl ''Badly formatted URI''))"

definition WithNoReferSubscription :: "SipMessage \<Rightarrow> bool" where
  "WithNoReferSubscription sipmsg \<longleftrightarrow>
     DoesValueExistInHeader (HeaderName Require_hdr) ''norefersub'' (Headers sipmsg)
     \<or> DoesValueExistInHeader (HeaderName Supported_hdr) ''norefersub'' (Headers sipmsg)
     \<or> DoesValueExistInHeader (HeaderName Refer_Sub_hdr) ''false'' (Headers sipmsg)"

text \<open>\<open>strings.Replace\<close> with a count of one.\<close>

definition replace_first :: "string \<Rightarrow> string \<Rightarrow> string \<Rightarrow> string" where
  "replace_first s old new =
     (case IndexOf s old of
        None \<Rightarrow> s
      | Some i \<Rightarrow> take i s @ new @ drop (i + length old) s)"

text \<open>
  Contact, extension, request URI, address and expiry of a registration. A missing expiry is
  one hour and is written into the headers; an unreadable contact is \<open>-100\<close>.
\<close>

definition GetRegistrationData ::
    "SipMessage \<Rightarrow> ((string \<times> string \<times> string \<times> string \<times> int) \<times> SipMessage) option" where
  "GetRegistrationData sipmsg =
     do {
       contact \<leftarrow> ValueHeader Contact_hdr (Headers sipmsg);
       case RMatch (replace_first contact ''-'' '';'') ContactHeader_fp of
         ruri # _ # ext # _ # _ # ipport # _ \<Rightarrow>
           (case RMatch contact ExpiresParameter_fp of
              _ # m1 # _ \<Rightarrow> Some ((contact, ext, ruri, ipport, sint (Str2Int m1 :: u64)), sipmsg)
            | _ \<Rightarrow>
                do {
                  expires \<leftarrow> ValueHeader Expires_hdr (Headers sipmsg);
                  if expires \<noteq> [] then
                    Some ((contact, ext, ruri, ipport, sint (Str2Int expires :: u64)), sipmsg)
                  else
                    Some ((contact, ext, ruri, ipport, 3600),
                          sipmsg\<lparr>Headers := SetHeader Expires_hdr ''3600'' (Headers sipmsg)\<rparr>)
                })
       | _ \<Rightarrow> Some ((contact, [], [], [], - 100), sipmsg)
     }"

definition PIDFLO_xml :: string where
  "PIDFLO_xml = map (\<lambda>c. if c = CHR ''~'' then CHR 34 else c)
    (''<?xml version=~1.0~ encoding=~UTF-8~?><presence xmlns=~urn:ietf:params:xml:ns:pi'' @
     ''df~ xmlns:gp=~urn:ietf:params:xml:ns:pidf:geopriv10~ xmlns:cl=~urn:ietf:params:x'' @
     ''ml:ns:pidf:geopriv10:civicLoc~ xmlns:btd=~http://btd.orange-business.com~ entity'' @
     ''=~pres:geotarget@btip.orange-business.com~><tuple id=~sg89ae~><status><gp:geopri'' @
     ''v><gp:location-info><cl:civicAddress><cl:country>FR</cl:country><cl:A2>35</cl:A2'' @
     ''><cl:A3>CESSON SEVIGNE</cl:A3><cl:A6>DU CHENE GERMAIN</cl:A6><cl:HNO>9</cl:HNO><'' @
     ''cl:STS>RUE</cl:STS><cl:PC>35510</cl:PC><cl:CITYCODE>99996</cl:CITYCODE></cl:civi'' @
     ''cAddress></gp:location-info><gp:usage-rules></gp:usage-rules></gp:geopriv></stat'' @
     ''us></tuple></presence>'')"


text \<open>The constant that \<open>hex.DecodeString\<close> yields.\<close>

definition INDATA_bytes :: string where
  "INDATA_bytes = map char_of
     [0x77, 0x12, 0x47, 0x00, 0x83, 0x0e, 0x83, 0x07, 0x83, 0x90, 0x69, 0x39, 0x17, 0x18, 0x06,
      0x8a, 0x01, 0x92, 0x88, 0x00, 0x0d, 0x0a :: nat]"

datatype add_part = AddXMLPIDFLO | AddINDATA

definition BodyAddParts :: "(add_part \<times> string) list" where
  "BodyAddParts = [(AddXMLPIDFLO, ''pidflo''), (AddINDATA, ''indata'')]"

text \<open>The parts that the special header asks for; the header is dropped.\<close>

definition getAddBodyParts :: "SipMessage \<Rightarrow> (add_part list \<times> SipMessage) option" where
  "getAddBodyParts sipmsg =
     do {
       v \<leftarrow> ValueHeader P_Add_BodyPart_hdr (Headers sipmsg);
       let partflags = Split (ReplaceAll (ASCIIToLower v) '' '' []) '','';
       Some (map fst (filter (\<lambda>(k, v). v \<in> set partflags) BodyAddParts),
             sipmsg\<lparr>Headers := snd (DeleteHeader P_Add_BodyPart_hdr (Headers sipmsg))\<rparr>)
     }"

definition requested_part :: "add_part \<Rightarrow> BodyType \<times> ContentPart" where
  "requested_part pf =
     (case pf of
        AddXMLPIDFLO \<Rightarrow> (PIDFXML, NewContentPart PIDFXML PIDFLO_xml)
      | AddINDATA \<Rightarrow>
          (VndOrangeInData,
           \<lparr>cp_Headers = AddHeader Content_Disposition_hdr ''signal;handling=optional''
              (AddHeader Content_Transfer_Encoding_hdr ''binary''
                (AddHeader Content_Type_hdr (ContentType_of VndOrangeInData) NewSipHeaders)),
            cp_Bytes = INDATA_bytes\<rparr>))"

definition AddRequestedBodyParts ::
    "MessageBody option \<Rightarrow> SipMessage \<Rightarrow> (MessageBody option \<times> SipMessage) option" where
  "AddRequestedBodyParts b sipmsg =
     do {
       (pflags, m1) \<leftarrow> getAddBodyParts sipmsg;
       if pflags = [] then Some (b, m1)
       else case b of
         None \<Rightarrow> None
       | Some mb \<Rightarrow>
           let (mb1, m2) =
             (case PartsContents mb of
                [(frstbt, p)] \<Rightarrow>
                  let cntnt = ValuesWithHeaderPrefix ''Content-'' [LowerCaseString Content_Length_hdr] (Headers m1)
                  in (mb\<lparr>PartsContents := [(frstbt, p\<lparr>cp_Headers := NewSHsFromMap cntnt\<rparr>)]\<rparr>,
                      m1\<lparr>Headers := DeleteHeadersWithPrefix ''Content-'' (Headers m1)\<rparr>)
              | _ \<Rightarrow> (mb, m1))
           in Some (Some (mb1\<lparr>PartsContents :=
                       foldl (\<lambda>ps pf. AList.update (fst (requested_part pf)) (snd (requested_part pf)) ps)
                         (PartsContents mb1) pflags\<rparr>), m2)
     }"

text \<open>
  Keep one part and move its \<open>Content-*\<close> headers to the message; the result says whether the
  part is there. \<open>part_headers\<close> goes through the headers of the part, whose values may panic.
\<close>

fun set_part_headers :: "SipHeaders \<Rightarrow> string list \<Rightarrow> SipHeaders \<Rightarrow> SipHeaders option" where
  "set_part_headers ph [] h = Some h"
| "set_part_headers ph (n # ns) h =
     do { v \<leftarrow> Value n ph; set_part_headers ph ns (Set n v h) }"

definition KeepOnlyBodyPart ::
    "BodyType \<Rightarrow> MessageBody option \<Rightarrow> SipMessage \<Rightarrow> (bool \<times> MessageBody option \<times> SipMessage) option" where
  "KeepOnlyBodyPart bt b sipmsg =
     (case b of
        None \<Rightarrow> None
      | Some mb \<Rightarrow>
          if Keys (PartsContents mb) = [bt] then Some (True, b, sipmsg)
          else (case filter (\<lambda>(k, p). k = bt) (PartsContents mb) of
                  [] \<Rightarrow> Some (False, Some (mb\<lparr>PartsContents := []\<rparr>), sipmsg)
                | (k, cntprt) # _ \<Rightarrow>
                    do {
                      h \<leftarrow> set_part_headers (cp_Headers cntprt) (GetHeaderNames (cp_Headers cntprt))
                             (DeleteHeadersWithPrefix ''Content-'' (Headers sipmsg));
                      Some (True,
                        Some (mb\<lparr>PartsContents := [(bt, \<lparr>cp_Headers = NewSipHeaders, cp_Bytes = cp_Bytes cntprt\<rparr>)]\<rparr>),
                        sipmsg\<lparr>Headers := h\<rparr>)
                    }))"

definition GetBodyPart :: "BodyType \<Rightarrow> MessageBody option \<Rightarrow> (ContentPart \<times> bool) option" where
  "GetBodyPart bt b =
     map_option (\<lambda>mb. case map_of (PartsContents mb) bt of
                         Some p \<Rightarrow> (p, True)
                       | None \<Rightarrow> (\<lparr>cp_Headers = NewSipHeaders, cp_Bytes = []\<rparr>, False)) b"

text \<open>Status, warning and hold flag of the local answer to an offer, with the changed body.\<close>

definition ParseSDPPartAndBuildAnswer ::
    "sdp_lib \<Rightarrow> MessageBody \<Rightarrow> (int \<times> string \<times> bool) \<times> MessageBody" where
  "ParseSDPPartAndBuildAnswer lib mb =
     (case sdp_Parse lib (part_bytes SDP mb) of
        None \<Rightarrow> ((400, ''Failed to parse SDP for Echo Responder'', False), mb)
      | Some sdpses \<Rightarrow>
          (case sdp_BuildEchoResponderAnswer lib sdpses of
             Inl _ \<Rightarrow> ((488, ''Failed to build Echo Responder SDP'', False), mb)
           | Inr sdpses2 \<Rightarrow> ((200, [], sdp_IsCallHeld lib sdpses), mb\<lparr>SdpSession := Some sdpses2\<rparr>)))"

section \<open>The bytes of a message\<close>

text \<open>
  The code prints the body and its length in a goroutine of its own and waits for it, so that the
  two never run at once; a panic there, for a body of 10^10 bytes or more, would not be recovered
  by the handler. The parts of a body and the headers of the prefix are ranged over in the order
  of the model's lists, Go's maps in any.
\<close>

definition header_line :: "string \<Rightarrow> string \<Rightarrow> string" where
  "header_line h hv = h @ '': '' @ hv @ CRLF"

definition part_text :: "ContentPart \<Rightarrow> string" where
  "part_text ct =
     ''--'' @ MultipartBoundary @ CRLF @
     concat (map (\<lambda>h. concat (map (header_line (HeaderCase h)) (snd (Values h (cp_Headers ct)))))
                 (GetHeaderNames (cp_Headers ct))) @
     CRLF @ cp_Bytes ct"

text \<open>The headers that describe the body, and its bytes.\<close>

definition body_bytes :: "MessageBody option \<Rightarrow> SipHeaders \<Rightarrow> SipHeaders \<times> string" where
  "body_bytes b h =
     (case b of
        None \<Rightarrow> (SetHeader MIME_Version_hdr [] (SetHeader Content_Type_hdr [] h), [])
      | Some mb \<Rightarrow>
          (case PartsContents mb of
             [] \<Rightarrow> (SetHeader MIME_Version_hdr [] (SetHeader Content_Type_hdr [] h), [])
           | [(k, v)] \<Rightarrow>
               (SetHeader MIME_Version_hdr [] (SetHeader Content_Type_hdr (ContentType_of k) h), cp_Bytes v)
           | parts \<Rightarrow>
               (SetHeader MIME_Version_hdr ''1.0''
                  (SetHeader Content_Type_hdr (''multipart/mixed;boundary='' @ MultipartBoundary) h),
                Join (map (part_text \<circ> snd) parts) CRLF @ CRLF @ ''--'' @ MultipartBoundary @ ''--'' @ CRLF)))"

definition write_headers :: "(string \<times> string list) list \<Rightarrow> string" where
  "write_headers hs =
     concat (map (\<lambda>(h, vs). concat (map (header_line h) (filter (\<lambda>hv. hv \<noteq> []) vs))) hs)"

definition header_order :: "SipMessage \<Rightarrow> string list" where
  "header_order sipmsg =
     (if IsRequest sipmsg
      then (case map_of DicRequestHeaders (GetMethod sipmsg) of None \<Rightarrow> [] | Some hs \<Rightarrow> hs)
      else (case DicResponseHeaders (GetStatusCode sipmsg) of None \<Rightarrow> [] | Some hs \<Rightarrow> hs))"

definition PrepareMessageBytes :: "MessageBody option \<Rightarrow> SipMessage \<Rightarrow> SipMessage option" where
  "PrepareMessageBytes b sipmsg =
     (let (h1, bodybytes) = body_bytes b (Headers sipmsg)
      in do {
           len \<leftarrow> Int2Str (of_nat (length bodybytes));
           let h = SetHeader Content_Length_hdr len h1;
           Some (sipmsg\<lparr>Headers := h,
             Bytes :=
               GetStartLine (if IsRequest sipmsg then REQUEST else RESPONSE) (sm_StartLine sipmsg) @
               write_headers (map (\<lambda>n. (n, snd (Values n h))) (header_order sipmsg)) @
               write_headers (ValuesWithHeaderPrefix ''P-'' [] h) @ CRLF @ bodybytes\<rparr>)
         })"

section \<open>What to send\<close>

record RequestPack =
  rq_CustomHeaders :: SipHeaders
  RUriUP :: string
  FromUP :: string
  rq_Method :: Method
  Max70 :: bool
  rq_IsProbing :: bool

definition request_pack :: "Method \<Rightarrow> RequestPack" where
  "request_pack m = \<lparr>rq_CustomHeaders = NewSipHeaders, RUriUP = [], FromUP = [], rq_Method = m,
     Max70 = False, rq_IsProbing = False\<rparr>"

text \<open>\<open>LinkedPRACKST\<close> is the number of a transaction.\<close>

record ResponsePack =
  rp_CustomHeaders :: SipHeaders
  LinkedPRACKST :: "nat option"
  rp_ReasonPhrase :: string
  rp_ContactHeader :: string
  rp_StatusCode :: int
  PRACKRequested :: bool

definition response_pack :: "int \<Rightarrow> ResponsePack" where
  "response_pack stc = \<lparr>rp_CustomHeaders = NewSipHeaders, LinkedPRACKST = None, rp_ReasonPhrase = [],
     rp_ContactHeader = [], rp_StatusCode = stc, PRACKRequested = False\<rparr>"

definition NewResponsePackRFWarning :: "int \<Rightarrow> string \<Rightarrow> string \<Rightarrow> ResponsePack option" where
  "NewResponsePackRFWarning stc rsnphrs warning =
     map_option (\<lambda>h. (response_pack stc)\<lparr>rp_ReasonPhrase := rsnphrs, rp_CustomHeaders := h\<rparr>)
       (NewSHQ850OrSIP 0 warning [])"

definition NewResponsePackSRW :: "int \<Rightarrow> string \<Rightarrow> string \<Rightarrow> ResponsePack option" where
  "NewResponsePackSRW stc warning reason =
     map_option (\<lambda>h. (response_pack stc)\<lparr>rp_CustomHeaders := h\<rparr>)
       (if reason = [] then NewSHQ850OrSIP stc warning []
        else map_option (SetHeader Reason_hdr reason) (NewSHQ850OrSIP 0 warning []))"

definition NewResponsePackSIPQ850Details :: "int \<Rightarrow> int \<Rightarrow> string \<Rightarrow> ResponsePack option" where
  "NewResponsePackSIPQ850Details stc q850c details =
     map_option (\<lambda>h. (response_pack stc)\<lparr>rp_CustomHeaders := h\<rparr>) (NewSHQ850OrSIP q850c details [])"

definition NewResponsePackWarning :: "int \<Rightarrow> string \<Rightarrow> ResponsePack option" where
  "NewResponsePackWarning stc warning =
     map_option (\<lambda>h. (response_pack stc)\<lparr>rp_CustomHeaders := h\<rparr>) (NewSHQ850OrSIP 0 warning [])"

section \<open>Properties\<close>

lemma class_reason_nonempty:
  assumes "c \<in> {1, 2, 3, 4, 5, 6}"
  shows "reason_text (c * 100) \<noteq> []"
  using assms by (auto simp: reason_text_def DicResponse_def)

lemma first_nonempty_Nil: "first_nonempty xs = [] \<longleftrightarrow> (\<forall>x \<in> set xs. x = [])"
  by (induction xs) auto

text \<open>A response message always has a status code of the protocol and a reason phrase that is
  not empty, whatever code and phrase it is made with: a code out of range becomes 400, a given
  phrase is kept, an unknown code takes the phrase of its class.\<close>

theorem NewResponseMessage_wellformed:
  "let m = NewResponseMessage sc rp in
     100 \<le> GetStatusCode m \<and> GetStatusCode m \<le> 699
     \<and> GetStatusCode m = (if 100 \<le> sc \<and> sc \<le> 699 then sc else 400)
     \<and> ReasonPhrase (sm_StartLine m) \<noteq> []
     \<and> (rp = [] \<or> ReasonPhrase (sm_StartLine m) = rp)
     \<and> IsResponse m"
proof -
  let ?sc = "if sc < 100 \<or> 699 < sc then 400 else sc"
  have "?sc div 100 \<in> {1, 2, 3, 4, 5, 6}" by auto
  from class_reason_nonempty [OF this] show ?thesis
    by (cases "sc < 100 \<or> 699 < sc") (auto simp add: NewResponseMessage_def Let_def GetStatusCode_def IsResponse_def first_nonempty_Nil)
qed

end
