(* ===== verification/Session_State.thy ===== *)
theory Session_State imports Params begin

text \<open>
  \<open>sip/state/state.go\<close>: the states of a session. Finalising a state goes through its name: the
  prefix \<open>Being\<close> is cut off and the rest is looked up in the table of names.
\<close>

datatype SessionState =
  NotSet | BeingEstablished | Established | BeingCleared | Cleared | BeingRejected | Rejected |
  BeingCancelled | Cancelled | BeingFailed | Failed | BeingDenied | Denied | BeingDropped |
  Dropped | BeingRedirected | Redirected | BeingReferred | Referred | BeingNeglected |
  Neglected | BeingProbed | Probed | TimedOut | BeingRestored | BeingConnected |
  BeingUpdated | BeingReinvited | Registered | Unregistered

definition dicNames :: "(SessionState \<times> string) list" where
  "dicNames =
    [(NotSet, ''NotSet''), (BeingEstablished, ''BeingEstablished''),
     (Established, ''Established''), (BeingCleared, ''BeingCleared''), (Cleared, ''Cleared''),
     (BeingRejected, ''BeingRejected''), (Rejected, ''Rejected''),
     (BeingCancelled, ''BeingCancelled''), (Cancelled, ''Cancelled''),
     (BeingFailed, ''BeingFailed''), (Failed, ''Failed''), (BeingDenied, ''BeingDenied''),
     (Denied, ''Denied''), (BeingDropped, ''BeingDropped''), (Dropped, ''Dropped''),
     (BeingRedirected, ''BeingRedirected''), (Redirected, ''Redirected''),
     (BeingReferred, ''BeingReferred''), (Referred, ''Referred''),
     (BeingNeglected, ''BeingNeglected''), (Neglected, ''Neglected''),
     (BeingRestored, ''BeingRestored''), (BeingConnected, ''BeingConnected''),
     (BeingProbed, ''BeingProbed''), (Probed, ''Probed''), (BeingUpdated, ''BeingUpdated''),
     (BeingReinvited, ''BeingReinvited''), (TimedOut, ''TimedOut''),
     (Registered, ''Registered''), (Unregistered, ''Unregistered'')]"

definition SessionState_String :: "SessionState \<Rightarrow> string" where
  "SessionState_String ss = (case map_of dicNames ss of None \<Rightarrow> [] | Some s \<Rightarrow> s)"

definition StartsWith :: "SessionState \<Rightarrow> string \<Rightarrow> bool" where
  "StartsWith ss prfx \<longleftrightarrow> HasPrefix (SessionState_String ss) prfx"

definition FinalizeMe :: "SessionState \<Rightarrow> SessionState" where
  "FinalizeMe ss = GetEnum NotSet dicNames (TrimPrefix (SessionState_String ss) ''Being'')"

definition IsPending :: "SessionState \<Rightarrow> bool" where
  "IsPending ss \<longleftrightarrow> HasPrefix (SessionState_String ss) ''Being''"

definition IsFinalized :: "SessionState \<Rightarrow> bool" where
  "IsFinalized ss \<longleftrightarrow> \<not> IsPending ss"

section \<open>Evaluated on every state\<close>

lemmas session_state_defs =
  FinalizeMe_def IsPending_def IsFinalized_def SessionState_String_def dicNames_def
  GetEnum_def HasPrefix_def TrimPrefix_def

lemma IsPending_eval [simp]:
  "IsPending ss \<longleftrightarrow> ss \<in> {BeingEstablished, BeingCleared, BeingRejected, BeingCancelled,
     BeingFailed, BeingDenied, BeingDropped, BeingRedirected, BeingReferred, BeingNeglected,
     BeingProbed, BeingRestored, BeingConnected, BeingUpdated, BeingReinvited}"
  by (cases ss) (simp_all add: session_state_defs)

lemma IsFinalized_eval [simp]: "IsFinalized ss \<longleftrightarrow> \<not> IsPending ss"
  by (simp add: IsFinalized_def)

lemma FinalizeMe_eval [simp]:
  "FinalizeMe ss =
     (case ss of
        BeingEstablished \<Rightarrow> Established | BeingCleared \<Rightarrow> Cleared | BeingRejected \<Rightarrow> Rejected
      | BeingCancelled \<Rightarrow> Cancelled | BeingFailed \<Rightarrow> Failed | BeingDenied \<Rightarrow> Denied
      | BeingDropped \<Rightarrow> Dropped | BeingRedirected \<Rightarrow> Redirected | BeingReferred \<Rightarrow> Referred
      | BeingNeglected \<Rightarrow> Neglected | BeingProbed \<Rightarrow> Probed | BeingRestored \<Rightarrow> NotSet
      | BeingConnected \<Rightarrow> NotSet | BeingUpdated \<Rightarrow> NotSet | BeingReinvited \<Rightarrow> NotSet
      | _ \<Rightarrow> ss)"
  by (cases ss) (simp_all add: session_state_defs)

lemma dicNames_inj: "inj_on snd (set dicNames)"
proof -
  have "distinct (map snd dicNames)" by (simp add: dicNames_def)
  then show ?thesis by (simp add: distinct_map)
qed

lemma FinalizeMe_settles: "\<not> IsPending (FinalizeMe ss)"
  by (cases ss) simp_all

lemma FinalizeMe_id: "\<not> IsPending ss \<Longrightarrow> FinalizeMe ss = ss"
  by (cases ss) simp_all

lemma FinalizeMe_lost_iff:
  "IsPending ss \<Longrightarrow>
     FinalizeMe ss = NotSet \<longleftrightarrow> ss \<in> {BeingRestored, BeingConnected, BeingUpdated, BeingReinvited}"
  by (cases ss) simp_all

section \<open>Properties\<close>

text \<open>C36: Finalising a session state always ends its pending form, and is done once: a second
  time changes nothing. Four pending states have no settled name and are lost to \<open>NotSet\<close>.\<close>

theorem FinalizeMe_settles_once:
  "IsFinalized (FinalizeMe ss) \<and> FinalizeMe (FinalizeMe ss) = FinalizeMe ss
   \<and> (FinalizeMe ss = ss \<longleftrightarrow> IsFinalized ss)
   \<and> (FinalizeMe ss = NotSet \<longleftrightarrow>
        ss \<in> {NotSet, BeingRestored, BeingConnected, BeingUpdated, BeingReinvited})"
  by (cases ss) simp_all

end
