(* ===== verification/Stores.thy ===== *)
theory Stores
  imports Net_Addr Session_State
begin

text \<open>
  The shared stores: the session map of \<open>sip/syncMapMutex.go\<close> with its gauge, the registered
  phones of \<open>phone/phone.go\<close>. Both answer the same questions, stated once as an interface.
  Every operation holds the lock of its store for its whole body, so it is one step here.
\<close>

section \<open>The interface\<close>

locale kv_store =
  fixes lookup :: "'s \<Rightarrow> string \<Rightarrow> 'v option"
    and store :: "string \<Rightarrow> 'v \<Rightarrow> 's \<Rightarrow> 's"
    and remove :: "string \<Rightarrow> 's \<Rightarrow> 's"
    and size_of :: "'s \<Rightarrow> nat"
    and inv :: "'s \<Rightarrow> bool"
    and emp :: 's
  assumes lookup_emp: "lookup emp k = None"
    and inv_emp: "inv emp"
    and inv_store: "inv s \<Longrightarrow> inv (store k v s)"
    and inv_remove: "inv s \<Longrightarrow> inv (remove k s)"
    and lookup_store: "lookup (store k v s) j = (if j = k then Some v else lookup s j)"
    and lookup_remove: "inv s \<Longrightarrow> lookup (remove k s) j = (if j = k then None else lookup s j)"
    and size_dom: "inv s \<Longrightarrow> finite {k. lookup s k \<noteq> None} \<and> size_of s = card {k. lookup s k \<noteq> None}"
begin

lemma size_emp: "size_of emp = 0"
  using size_dom [OF inv_emp] by (simp add: lookup_emp)

lemma size_store:
  assumes "inv s"
  shows "size_of (store k v s) = (if lookup s k = None then Suc (size_of s) else size_of s)"
proof -
  have "{j. lookup (store k v s) j \<noteq> None} = insert k {j. lookup s j \<noteq> None}"
    by (auto simp: lookup_store)
  with size_dom [OF assms] size_dom [OF inv_store [OF assms, of k v]] show ?thesis
    by (auto simp: insert_absorb)
qed

lemma size_remove:
  assumes "inv s"
  shows "size_of (remove k s) = (if lookup s k = None then size_of s else size_of s - 1)"
proof -
  have "{j. lookup (remove k s) j \<noteq> None} = {j. lookup s j \<noteq> None} - {k}"
    using assms by (auto simp: lookup_remove)
  with size_dom [OF assms] size_dom [OF inv_remove [OF assms, of k]] show ?thesis by auto
qed

lemma remove_store:
  "inv s \<Longrightarrow> lookup s k = None \<Longrightarrow> lookup (remove k (store k v s)) = lookup s"
  by (auto simp: fun_eq_iff lookup_store lookup_remove [OF inv_store])

end

section \<open>The session map\<close>

text \<open>\<open>ConSessions\<close> is the gauge of concurrent sessions, which only this map moves.\<close>

record 'v ConcurrentMapMutex =
  cm_map :: "(string \<times> 'v) list"
  ConSessions :: int

definition NewConcurrentMapMutex :: "'v ConcurrentMapMutex" where
  "NewConcurrentMapMutex = \<lparr>cm_map = [], ConSessions = 0\<rparr>"

definition Store :: "string \<Rightarrow> 'v \<Rightarrow> 'v ConcurrentMapMutex \<Rightarrow> 'v ConcurrentMapMutex" where
  "Store ky ss c = c\<lparr>cm_map := AList.update ky ss (cm_map c), ConSessions := ConSessions c + 1\<rparr>"

definition Delete_cm :: "string \<Rightarrow> 'v ConcurrentMapMutex \<Rightarrow> 'v ConcurrentMapMutex" where
  "Delete_cm ky c = c\<lparr>cm_map := AList.delete ky (cm_map c), ConSessions := ConSessions c - 1\<rparr>"

definition Load :: "'v ConcurrentMapMutex \<Rightarrow> string \<Rightarrow> 'v option" where
  "Load c ky = map_of (cm_map c) ky"

definition Summaries :: "('v \<Rightarrow> string) \<Rightarrow> 'v ConcurrentMapMutex \<Rightarrow> string list" where
  "Summaries str c = map (\<lambda>(k, x). str x) (cm_map c)"

definition Count :: "'v ConcurrentMapMutex \<Rightarrow> nat" where
  "Count c = length (cm_map c)"

definition IsEmpty :: "'v ConcurrentMapMutex \<Rightarrow> bool" where
  "IsEmpty c \<longleftrightarrow> length (cm_map c) = 0"

definition cm_wf :: "'v ConcurrentMapMutex \<Rightarrow> bool" where
  "cm_wf c \<longleftrightarrow> go_map_wf (cm_map c)"

lemma go_map_card:
  assumes "go_map_wf m"
  shows "finite {k. map_of m k \<noteq> None} \<and> length m = card {k. map_of m k \<noteq> None}"
proof -
  have "{k. map_of m k \<noteq> None} = set (map fst m)" by (auto simp: map_of_eq_None_iff)
  moreover have "card (set (map fst m)) = length m"
    using assms unfolding go_map_wf_def by (metis distinct_card length_map)
  ultimately show ?thesis by simp
qed

interpretation cm: kv_store Load Store Delete_cm Count cm_wf NewConcurrentMapMutex
proof
  show "cm_wf c \<Longrightarrow> finite {k. Load c k \<noteq> None} \<and> Count c = card {k. Load c k \<noteq> None}"
    for c :: "'a ConcurrentMapMutex"
    using go_map_card [of "cm_map c"] by (simp add: cm_wf_def Load_def Count_def)
qed (auto simp: Load_def Store_def Delete_cm_def cm_wf_def NewConcurrentMapMutex_def update_conv'
      delete_conv')

text \<open>The gauge counts calls, not entries: it is the size as long as every store is of a new
  key and every delete of a present one.\<close>

lemma gauge_store: "ConSessions (Store k v c) = ConSessions c + 1"
  by (simp add: Store_def)

lemma gauge_delete: "ConSessions (Delete_cm k c) = ConSessions c - 1"
  by (simp add: Delete_cm_def)

datatype 'v cm_op = CStore string 'v | CDelete string

definition cm_apply :: "'v cm_op \<Rightarrow> 'v ConcurrentMapMutex \<Rightarrow> 'v ConcurrentMapMutex" where
  "cm_apply op c = (case op of CStore k v \<Rightarrow> Store k v c | CDelete k \<Rightarrow> Delete_cm k c)"

text \<open>An operation is exact when it changes the set of keys.\<close>

definition cm_exact :: "'v cm_op \<Rightarrow> 'v ConcurrentMapMutex \<Rightarrow> bool" where
  "cm_exact op c \<longleftrightarrow> (case op of CStore k v \<Rightarrow> Load c k = None | CDelete k \<Rightarrow> Load c k \<noteq> None)"

fun cm_run :: "'v cm_op list \<Rightarrow> 'v ConcurrentMapMutex \<Rightarrow> 'v ConcurrentMapMutex" where
  "cm_run [] c = c"
| "cm_run (op # ops) c = cm_run ops (cm_apply op c)"

fun cm_inexact :: "'v cm_op list \<Rightarrow> 'v ConcurrentMapMutex \<Rightarrow> int" where
  "cm_inexact [] c = 0"
| "cm_inexact (op # ops) c =
     (if cm_exact op c then 0 else case op of CStore k v \<Rightarrow> 1 | CDelete k \<Rightarrow> - 1)
     + cm_inexact ops (cm_apply op c)"

lemma cm_wf_apply: "cm_wf c \<Longrightarrow> cm_wf (cm_apply op c)"
  by (cases op) (simp_all add: cm_apply_def cm.inv_store cm.inv_remove)

lemma Load_Count: "cm_wf c \<Longrightarrow> Load c k \<noteq> None \<Longrightarrow> 0 < Count c"
  by (auto simp: Load_def Count_def)

lemma cm_run_gauge:
  "cm_wf c \<Longrightarrow> ConSessions (cm_run ops c) - int (Count (cm_run ops c))
     = ConSessions c - int (Count c) + cm_inexact ops c"
proof (induction ops arbitrary: c)
  case (Cons op ops)
  note IH = Cons.IH [OF cm_wf_apply [OF Cons.prems]]
  show ?case
  proof (cases op)
    case (CStore k v)
    then show ?thesis using IH [of op] Cons.prems
      by (auto simp: cm_apply_def cm_exact_def gauge_store cm.size_store)
  next
    case (CDelete k)
    then show ?thesis using IH [of op] Cons.prems Load_Count [of c k]
      by (auto simp: cm_apply_def cm_exact_def gauge_delete cm.size_remove)
  qed
qed simp

section \<open>The registered phones\<close>

text \<open>
  The agents are shared by pointer: a phone holds the number of its agent in the list of all
  agents ever made.
\<close>

record IPPhone =
  UA :: "nat option"
  Extension :: string
  RURI :: string
  IsReachable :: bool
  IsRegistered :: bool

type_synonym IPPhoneRepo = "(string \<times> IPPhone) list"

definition NewIPPhoneRepo :: IPPhoneRepo where "NewIPPhoneRepo = []"

definition IsPhoneExt :: "IPPhoneRepo \<Rightarrow> string \<Rightarrow> bool" where
  "IsPhoneExt r ext \<longleftrightarrow> map_of r ext \<noteq> None"

definition Get :: "IPPhoneRepo \<Rightarrow> string \<Rightarrow> IPPhone option" where
  "Get r ext = map_of r ext"

definition Remove :: "string \<Rightarrow> IPPhoneRepo \<Rightarrow> IPPhoneRepo" where
  "Remove ext r = AList.delete ext r"

definition All :: "IPPhoneRepo \<Rightarrow> IPPhone list" where
  "All r = map snd r"

definition new_ua :: "UDPAddr \<Rightarrow> SipUdpUserAgent list \<Rightarrow> nat option \<times> SipUdpUserAgent list" where
  "new_ua a uas =
     (case NewSipUdpUserAgent (Some a) of
        None \<Rightarrow> (None, uas)
      | Some ua \<Rightarrow> (Some (length uas), uas @ [ua]))"

text \<open>
  Registration. An agent whose printed address is the one given is kept; otherwise the
  address is resolved, and a failure leaves the phone unreachable and without an agent.
  \<open>None\<close> is the panic on an agent without a socket.
\<close>

definition AddOrUpdate ::
    "(string \<Rightarrow> UDPAddr option) \<Rightarrow> string \<Rightarrow> string \<Rightarrow> string \<Rightarrow> int
       \<Rightarrow> SipUdpUserAgent list \<times> IPPhoneRepo
       \<Rightarrow> (SessionState \<times> SipUdpUserAgent list \<times> IPPhoneRepo) option" where
  "AddOrUpdate resolve ext ruri ipport expires ur =
     (let (uas, r) = ur;
          phone = (case map_of r ext of
            Some p \<Rightarrow> p
          | None \<Rightarrow> \<lparr>UA = None, Extension = ext, RURI = ruri, IsReachable = False, IsRegistered = False\<rparr>);
          finish = (\<lambda>(p, us). let reg = 0 < expires
                              in Some (if reg then Registered else Unregistered, us,
                                       AList.update ext (p\<lparr>IsRegistered := reg\<rparr>) r));
          renew = (case BuildUdpAddr resolve ipport SipPort of
                     None \<Rightarrow> (phone\<lparr>IsReachable := False, UA := None\<rparr>, uas)
                   | Some a \<Rightarrow> (let (u, us) = new_ua a uas in (phone\<lparr>IsReachable := True, UA := u\<rparr>, us)))
      in case UA phone of
           None \<Rightarrow> finish renew
         | Some n \<Rightarrow>
             (case GetUDPAddrString (uas ! n) of
                None \<Rightarrow> None
              | Some s \<Rightarrow> if s = ipport then finish (phone, uas) else finish renew))"

definition put_phone :: "string \<Rightarrow> IPPhone \<Rightarrow> IPPhoneRepo \<Rightarrow> IPPhoneRepo" where
  "put_phone ext p r = AList.update ext p r"

interpretation phones: kv_store Get put_phone Remove length go_map_wf NewIPPhoneRepo
proof
  show "go_map_wf r \<Longrightarrow> finite {k. Get r k \<noteq> None} \<and> length r = card {k. Get r k \<noteq> None}" for r
    using go_map_card [of r] by (simp add: Get_def)
qed (auto simp: Get_def put_phone_def Remove_def NewIPPhoneRepo_def update_conv' delete_conv')

text \<open>
  A phone of the repository carries its extension, and its agent is there and has a socket.
\<close>

definition phone_wf :: "SipUdpUserAgent list \<Rightarrow> string \<Rightarrow> IPPhone \<Rightarrow> bool" where
  "phone_wf uas ext p \<longleftrightarrow> Extension p = ext
     \<and> (\<forall>n. UA p = Some n \<longrightarrow> n < length uas \<and> udpSkt (uas ! n) \<noteq> None)"

definition phones_wf :: "SipUdpUserAgent list \<Rightarrow> IPPhoneRepo \<Rightarrow> bool" where
  "phones_wf uas r \<longleftrightarrow> go_map_wf r \<and> (\<forall>ext p. Get r ext = Some p \<longrightarrow> phone_wf uas ext p)"

lemma NewSipUdpUserAgent_socket: "NewSipUdpUserAgent a = Some ua \<Longrightarrow> udpSkt ua \<noteq> None"
  by (auto simp: NewSipUdpUserAgent_def split: sum.splits)

lemma new_ua_spec:
  "new_ua a uas = (u, us) \<Longrightarrow>
     (\<exists>extra. us = uas @ extra) \<and> (\<forall>n. u = Some n \<longrightarrow> n < length us \<and> udpSkt (us ! n) \<noteq> None)"
  by (auto simp: new_ua_def nth_append dest: NewSipUdpUserAgent_socket split: option.splits)

lemma phone_wf_mono: "phone_wf uas ext p \<Longrightarrow> phone_wf (uas @ extra) ext p"
  by (auto simp: phone_wf_def nth_append)

lemma AddOrUpdate_cases:
  assumes "phones_wf uas r"
  obtains p extra where "phone_wf (uas @ extra) ext p"
    and "AddOrUpdate resolve ext ruri ipport expires (uas, r) =
           Some (if 0 < expires then Registered else Unregistered, uas @ extra,
                 put_phone ext (p\<lparr>IsRegistered := 0 < expires\<rparr>) r)"
    and "(\<exists>n. Get r ext = Some p \<and> UA p = Some n \<and> GetUDPAddrString (uas ! n) = Some ipport)
         \<or> (IsReachable p \<longleftrightarrow> BuildUdpAddr resolve ipport SipPort \<noteq> None)"
proof -
  let ?phone = "case map_of r ext of Some p \<Rightarrow> p
     | None \<Rightarrow> \<lparr>UA = None, Extension = ext, RURI = ruri, IsReachable = False, IsRegistered = False\<rparr>"
  let ?renew = "case BuildUdpAddr resolve ipport SipPort of
       None \<Rightarrow> (?phone\<lparr>IsReachable := False, UA := None\<rparr>, uas)
     | Some a \<Rightarrow> (let (u, us) = new_ua a uas in (?phone\<lparr>IsReachable := True, UA := u\<rparr>, us))"
  have wf: "phone_wf uas ext ?phone" using assms
    by (auto simp: phones_wf_def phone_wf_def Get_def split: option.split)
  obtain q extra where q: "?renew = (q, uas @ extra)" and wf': "phone_wf (uas @ extra) ext q"
    and re: "IsReachable q \<longleftrightarrow> BuildUdpAddr resolve ipport SipPort \<noteq> None"
  proof (cases "BuildUdpAddr resolve ipport SipPort")
    case None
    with that [of "?phone\<lparr>IsReachable := False, UA := None\<rparr>" "[]"] wf show thesis
      by (simp add: phone_wf_def)
  next
    case (Some a)
    obtain u us where n: "new_ua a uas = (u, us)" by (cases "new_ua a uas") auto
    with new_ua_spec obtain extra where "us = uas @ extra" by blast
    with n new_ua_spec [OF n] Some wf that [of "?phone\<lparr>IsReachable := True, UA := u\<rparr>" extra] show thesis
      by (simp add: phone_wf_def)
  qed
  show thesis
  proof (cases "UA ?phone")
    case None
    then show thesis using that [OF wf'] re q
      by (simp add: AddOrUpdate_def Let_def put_phone_def)
  next
    case (Some n)
    then obtain p where p: "map_of r ext = Some p" by (cases "map_of r ext") auto
    from Some wf obtain s where s: "GetUDPAddrString (uas ! n) = Some s"
      by (auto simp: phone_wf_def GetUDPAddrString_def)
    show thesis
    proof (cases "s = ipport")
      case True
      with Some p s wf show thesis using that [of "[]" p]
        by (simp add: AddOrUpdate_def Let_def put_phone_def Get_def)
    next
      case False
      with Some s q show thesis using that [OF wf'] re
        by (simp add: AddOrUpdate_def Let_def put_phone_def)
    qed
  qed
qed

lemma AddOrUpdate_wf:
  assumes "phones_wf uas r"
  shows "\<exists>st us r'. AddOrUpdate resolve ext ruri ipport expires (uas, r) = Some (st, us, r')
     \<and> phones_wf us r'"
proof -
  obtain p extra where p: "phone_wf (uas @ extra) ext p"
    "AddOrUpdate resolve ext ruri ipport expires (uas, r) =
           Some (if 0 < expires then Registered else Unregistered, uas @ extra,
                 put_phone ext (p\<lparr>IsRegistered := 0 < expires\<rparr>) r)"
    by (rule AddOrUpdate_cases [OF assms])
  then have "phones_wf (uas @ extra) (put_phone ext (p\<lparr>IsRegistered := 0 < expires\<rparr>) r)"
    using assms phone_wf_mono [of uas _ _ extra]
    by (auto simp: phones_wf_def phones.inv_store phones.lookup_store)
       (simp add: phone_wf_def)
  with p show ?thesis by blast
qed

section \<open>Properties\<close>

text \<open>C34: The session map answers as a map, and its gauge of concurrent sessions is the number of
  entries plus one for every store over a present key and less one for every delete of an
  absent one: the two agree exactly when these balance.\<close>

theorem session_map_gauge:
  "let c = cm_run ops NewConcurrentMapMutex in
     ConSessions c = int (Count c) + cm_inexact ops NewConcurrentMapMutex
     \<and> Load (Store k v c) j = (if j = k then Some v else Load c j)
     \<and> Load (Delete_cm k c) j = (if j = k then None else Load c j)
     \<and> (IsEmpty c \<longleftrightarrow> (\<forall>j. Load c j = None))"
proof -
  let ?c = "cm_run ops NewConcurrentMapMutex"
  have wf: "cm_wf (cm_run ops c)" if "cm_wf c" for c :: "'a ConcurrentMapMutex"
    using that by (induction ops arbitrary: c) (simp_all add: cm_wf_apply)
  have "ConSessions ?c = int (Count ?c) + cm_inexact ops NewConcurrentMapMutex"
    using cm_run_gauge [OF cm.inv_emp, of ops]
    by (simp add: Count_def [of NewConcurrentMapMutex])
       (simp add: NewConcurrentMapMutex_def)
  moreover have "IsEmpty ?c \<longleftrightarrow> (\<forall>j. Load ?c j = None)"
    by (cases "cm_map ?c") (auto simp: IsEmpty_def Load_def)
  ultimately show ?thesis
    using cm.lookup_remove [OF wf [OF cm.inv_emp]] by (simp add: Let_def cm.lookup_store)
qed

text \<open>C35: Registering a phone never panics on a repository built by registrations, keeps every
  phone under its own extension with an agent that has a socket or none, answers Registered
  exactly for a positive expiry, and leaves the other phones alone.\<close>

theorem phone_registration:
  assumes "phones_wf uas r"
  shows "\<exists>p extra. AddOrUpdate resolve ext ruri ipport expires (uas, r)
       = Some (if 0 < expires then Registered else Unregistered, uas @ extra, put_phone ext p r)
    \<and> phones_wf (uas @ extra) (put_phone ext p r)
    \<and> Get (put_phone ext p r) ext = Some p \<and> (IsRegistered p \<longleftrightarrow> 0 < expires)
    \<and> (e \<noteq> ext \<longrightarrow> Get (put_phone ext p r) e = Get r e)"
proof -
  obtain p extra where p: "AddOrUpdate resolve ext ruri ipport expires (uas, r) =
           Some (if 0 < expires then Registered else Unregistered, uas @ extra,
                 put_phone ext (p\<lparr>IsRegistered := 0 < expires\<rparr>) r)"
    by (rule AddOrUpdate_cases [OF assms])
  moreover have "phones_wf (uas @ extra) (put_phone ext (p\<lparr>IsRegistered := 0 < expires\<rparr>) r)"
    using AddOrUpdate_wf [OF assms, of resolve ext ruri ipport expires] p by simp
  ultimately show ?thesis
    by (intro exI [of _ "p\<lparr>IsRegistered := 0 < expires\<rparr>"] exI [of _ extra])
       (simp add: phones.lookup_store)
qed

theorem phone_registration_witness:
  "\<exists>p extra. AddOrUpdate (\<lambda>_. None) ''100'' ''sip:100@h'' ''h:0'' 60 ([], NewIPPhoneRepo)
     = Some (Registered, extra, put_phone ''100'' p NewIPPhoneRepo)"
  using phone_registration [of "[]" NewIPPhoneRepo "\<lambda>_. None" "''100''" "''sip:100@h''" "''h:0''" 60 "''100''"]
  by (auto simp: phones_wf_def phones.inv_emp phones.lookup_emp)

end
