(* ===== verification/Limiter_Pool.thy ===== *)
theory Limiter_Pool
  imports Params "HOL-Library.Multiset"
begin

text \<open>
  The two resource guards: the call rate limiter of \<open>cl/calllimiter.go\<close> and the pool of media
  ports of \<open>sip/mediapool.go\<close>.
\<close>

section \<open>The call limiter\<close>

text \<open>\<open>Caps\<close> is the gauge that the tick of every second sets.\<close>

record CallLimiter =
  rate :: int
  callCount :: int
  Caps :: int

definition NewCallLimiter :: "int \<Rightarrow> CallLimiter" where
  "NewCallLimiter r = \<lparr>rate = r, callCount = 0, Caps = 0\<rparr>"

definition resetCount :: "CallLimiter \<Rightarrow> CallLimiter" where
  "resetCount clmtr = clmtr\<lparr>Caps := callCount clmtr, callCount := 0\<rparr>"

definition AcceptNewCall :: "CallLimiter \<Rightarrow> bool \<times> CallLimiter" where
  "AcceptNewCall clmtr =
     (if rate clmtr = - 1 \<or> callCount clmtr < rate clmtr
      then (True, clmtr\<lparr>callCount := callCount clmtr + 1\<rparr>)
      else (False, clmtr))"

text \<open>A history of the limiter: attempts and ticks, with the answers to the attempts.\<close>

datatype limiter_event = Attempt | Tick

fun limiter_run :: "limiter_event list \<Rightarrow> CallLimiter \<Rightarrow> bool list \<times> CallLimiter" where
  "limiter_run [] c = ([], c)"
| "limiter_run (Tick # es) c = limiter_run es (resetCount c)"
| "limiter_run (Attempt # es) c =
     (let (b, c') = AcceptNewCall c; (bs, c'') = limiter_run es c' in (b # bs, c''))"

definition accepted :: "bool list \<Rightarrow> nat" where
  "accepted bs = length (filter id bs)"

lemma AcceptNewCall_rate [simp]: "rate (snd (AcceptNewCall c)) = rate c"
  by (simp add: AcceptNewCall_def)

lemma limiter_run_append:
  "limiter_run (es @ fs) c =
     (let (bs, c') = limiter_run es c; (bs', c'') = limiter_run fs c' in (bs @ bs', c''))"
  by (induction es c rule: limiter_run.induct) (auto simp: Let_def split: prod.split)

lemma limiter_run_rate: "rate (snd (limiter_run es c)) = rate c"
  by (induction es c rule: limiter_run.induct)
     (auto simp: Let_def resetCount_def AcceptNewCall_def split: prod.split)

lemma limiter_window:
  assumes "0 \<le> callCount c" "rate c \<noteq> - 1"
  shows "limiter_run (replicate n Attempt) c =
    (let k = min n (nat (rate c - callCount c))
     in (replicate k True @ replicate (n - k) False, c\<lparr>callCount := callCount c + int k\<rparr>))"
  using assms
proof (induction n arbitrary: c)
  case (Suc n)
  show ?case
  proof (cases "callCount c < rate c")
    case True
    let ?c = "c\<lparr>callCount := callCount c + 1\<rparr>"
    have "nat (rate c - callCount c) = Suc (nat (rate c - (callCount c + 1)))" using True by simp
    with True Suc.prems Suc.IH [of ?c] show ?thesis by (simp add: AcceptNewCall_def Let_def)
  next
    case False
    with Suc show ?thesis by (simp add: AcceptNewCall_def Let_def)
  qed
qed simp

lemma limiter_unlimited:
  "rate c = - 1 \<Longrightarrow>
     limiter_run (replicate n Attempt) c = (replicate n True, c\<lparr>callCount := callCount c + int n\<rparr>)"
  by (induction n arbitrary: c) (simp_all add: AcceptNewCall_def)

text \<open>A history without a tick accepts no more than what is left of the rate.\<close>

lemma accepted_no_tick:
  assumes "Tick \<notin> set es" "rate c \<noteq> - 1" "0 \<le> callCount c"
  shows "accepted (fst (limiter_run es c)) = min (length es) (nat (rate c - callCount c))"
proof -
  have "es = replicate (length es) Attempt"
    using assms(1) by (induction es) (auto, metis limiter_event.exhaust)
  then have "limiter_run es c = limiter_run (replicate (length es) Attempt) c" by simp
  with limiter_window [OF assms(3,2), of "length es"] show ?thesis
    by (simp add: Let_def accepted_def)
qed

section \<open>The media port pool\<close>

text \<open>
  A socket is known by its port. The map from ports to their use is walked in some order;
  \<open>listen\<close> says which ports can be bound at that moment.
\<close>

type_synonym MediaPool = "(int \<times> bool) list"

definition NewMediaPortPool :: MediaPool where
  "NewMediaPortPool = map (\<lambda>p. (p, False)) [MediaStartPort..MediaEndPort]"

definition ReserveSocket :: "(int \<Rightarrow> bool) \<Rightarrow> MediaPool \<Rightarrow> int option \<times> MediaPool" where
  "ReserveSocket listen mpp =
     (case find (\<lambda>(port, used). \<not> used \<and> listen port) mpp of
        Some (port, used) \<Rightarrow> (Some port, AList.update port True mpp)
      | None \<Rightarrow> (None, mpp))"

definition ReleaseSocket :: "int option \<Rightarrow> MediaPool \<Rightarrow> bool \<times> MediaPool" where
  "ReleaseSocket conn mpp =
     (case conn of
        None \<Rightarrow> (True, mpp)
      | Some port \<Rightarrow>
          if map_of mpp port = Some True then (True, AList.update port False mpp) else (False, mpp))"

text \<open>The pool with the sockets that were handed out and not yet given back.\<close>

inductive pool_step :: "MediaPool \<times> int list \<Rightarrow> MediaPool \<times> int list \<Rightarrow> bool" where
  reserve: "ReserveSocket listen mpp = (Some p, mpp') \<Longrightarrow> pool_step (mpp, held) (mpp', p # held)"
| no_port: "ReserveSocket listen mpp = (None, mpp') \<Longrightarrow> pool_step (mpp, held) (mpp', held)"
| release: "p \<in> set held \<Longrightarrow> ReleaseSocket (Some p) mpp = (b, mpp')
    \<Longrightarrow> pool_step (mpp, held) (mpp', remove1 p held)"
| reorder: "mset mpp' = mset mpp \<Longrightarrow> pool_step (mpp, held) (mpp', held)"

inductive pool_reachable :: "MediaPool \<times> int list \<Rightarrow> bool" where
  start: "pool_reachable (NewMediaPortPool, [])"
| step: "pool_reachable s \<Longrightarrow> pool_step s s' \<Longrightarrow> pool_reachable s'"

definition pool_wf_on :: "MediaPool \<Rightarrow> int set \<Rightarrow> bool" where
  "pool_wf_on mpp ps \<longleftrightarrow> go_map_wf mpp \<and> fst ` set mpp = ps"

definition pool_inv :: "MediaPool \<times> int list \<Rightarrow> bool" where
  "pool_inv s \<longleftrightarrow> (case s of (mpp, held) \<Rightarrow>
     pool_wf_on mpp {MediaStartPort..MediaEndPort} \<and> distinct held \<and>
     (\<forall>p. p \<in> set held \<longleftrightarrow> map_of mpp p = Some True))"

inductive_cases pool_stepE: "pool_step (mpp, held) s'"

lemma ReserveSocket_Some:
  assumes "ReserveSocket listen mpp = (Some p, mpp')" "go_map_wf mpp"
  shows "map_of mpp p = Some False" "listen p" "mpp' = AList.update p True mpp"
  using assms by (auto simp: ReserveSocket_def dest!: find_Some_set split: option.splits
      simp: map_of_SomeI)

lemma ReserveSocket_None:
  "ReserveSocket listen mpp = (None, mpp') \<longleftrightarrow>
     mpp' = mpp \<and> (\<forall>(p, used) \<in> set mpp. used \<or> \<not> listen p)"
proof (cases "find (\<lambda>(port, used). \<not> used \<and> listen port) mpp")
  case None
  then have "ReserveSocket listen mpp = (None, mpp)" by (simp add: ReserveSocket_def)
  moreover have "\<forall>(p, used) \<in> set mpp. used \<or> \<not> listen p"
    using None by (fastforce simp: find_None_set)
  ultimately show ?thesis by auto
next
  case (Some x)
  then have "x \<in> set mpp" "case x of (port, used) \<Rightarrow> \<not> used \<and> listen port"
    by (auto dest!: find_Some_set)
  with Some show ?thesis by (auto simp: ReserveSocket_def)
qed

lemma fresh_pool:
  "pool_wf_on (map (\<lambda>p. (p, False)) [a..b]) {a..b}"
  "map_of (map (\<lambda>p. (p, False)) [a..b]) p \<noteq> Some True"
  by (auto simp: pool_wf_on_def go_map_wf_def comp_def image_iff dest: map_of_SomeD)

lemma pool_inv_start: "pool_inv (NewMediaPortPool, [])"
  using fresh_pool [of MediaStartPort MediaEndPort]
  unfolding pool_inv_def NewMediaPortPool_def by (simp del: upto_rec_numeral)

lemma fst_update: "p \<in> fst ` set m \<Longrightarrow> fst ` set (AList.update p b m) = fst ` set m"
  using dom_update [of p b m] by (auto simp flip: dom_map_of_conv_image_fst)

lemma pool_inv_update:
  assumes "pool_inv (mpp, held)" "map_of mpp p = Some b'" "distinct held'"
    and "\<And>q. q \<in> set held' \<longleftrightarrow> (if q = p then b else q \<in> set held)"
  shows "pool_inv (AList.update p b mpp, held')"
proof -
  from assms(2) have "p \<in> fst ` set mpp" by (force dest: map_of_SomeD)
  with assms show ?thesis by (auto simp: pool_inv_def pool_wf_on_def fst_update update_conv')
qed

lemma pool_inv_step:
  assumes "pool_inv s" "pool_step s s'"
  shows "pool_inv s'"
  using assms(2,1)
proof cases
  case (reserve listen mpp p mpp' held)
  with assms(1) have inv: "pool_inv (mpp, held)" by simp
  then have "go_map_wf mpp" by (simp add: pool_inv_def pool_wf_on_def)
  note r = ReserveSocket_Some [OF reserve(3) this]
  have "p \<notin> set held" "distinct held" using inv r(1) by (simp_all add: pool_inv_def)
  with pool_inv_update [OF inv r(1), of "p # held" True] r(3) reserve(2) show ?thesis by auto
next
  case (no_port listen mpp mpp' held)
  with assms(1) show ?thesis by (simp add: ReserveSocket_None)
next
  case (release p held mpp b mpp')
  with assms(1) have inv: "pool_inv (mpp, held)" by simp
  with release have t: "map_of mpp p = Some True" "distinct held" by (simp_all add: pool_inv_def)
  with pool_inv_update [OF inv t(1), of "remove1 p held" False] release show ?thesis
    by (auto simp: ReleaseSocket_def)
next
  case (reorder mpp' mpp held)
  then have s: "set mpp' = set mpp" by (auto dest: mset_eq_setD)
  have "mset (map fst mpp') = mset (map fst mpp)" using reorder(3) by simp
  then have d: "go_map_wf mpp' \<longleftrightarrow> go_map_wf mpp"
    unfolding go_map_wf_def by (rule mset_eq_imp_distinct_iff)
  have inv: "pool_inv (mpp, held)" using assms(1) reorder(1) by simp
  then have wf: "go_map_wf mpp" by (simp add: pool_inv_def pool_wf_on_def)
  have "map_of mpp' p = map_of mpp p" for p
    using map_of_set_eq [of mpp' mpp] wf d s by simp
  with inv d s reorder(2) show ?thesis by (simp add: pool_inv_def pool_wf_on_def)
qed

lemma pool_inv_reachable: "pool_reachable s \<Longrightarrow> pool_inv s"
  by (induction rule: pool_reachable.induct) (auto intro: pool_inv_start pool_inv_step)

section \<open>Properties\<close>

lemma limiter_run_tick: "snd (limiter_run (es @ [Tick]) c) = resetCount (snd (limiter_run es c))"
  by (simp add: limiter_run_append Let_def split: prod.split)

text \<open>C27: Between two ticks of the limiter, whatever happened before, the attempts accepted are
  the first \<open>rate\<close> ones and no other; a tick shows their number on the gauge.\<close>

theorem limiter_rate_per_tick:
  assumes "Tick \<notin> set es" "r \<noteq> - 1" "0 \<le> r"
  shows "let c = snd (limiter_run (past @ [Tick]) (NewCallLimiter r)) in
    fst (limiter_run es c)
        = replicate (min (length es) (nat r)) True @ replicate (length es - min (length es) (nat r)) False
    \<and> Caps (snd (limiter_run (es @ [Tick]) c)) = int (accepted (fst (limiter_run es c)))"
proof -
  let ?c = "snd (limiter_run (past @ [Tick]) (NewCallLimiter r))"
  have c: "rate ?c = r" "callCount ?c = 0"
    using limiter_run_rate [of past "NewCallLimiter r"]
    by (simp_all add: limiter_run_tick resetCount_def NewCallLimiter_def)
  have "es = replicate (length es) Attempt"
    using assms(1) by (induction es) (auto, metis limiter_event.exhaust)
  then have "limiter_run es ?c = limiter_run (replicate (length es) Attempt) ?c" by simp
  with limiter_window [of ?c "length es"] c assms show ?thesis
    by (simp add: Let_def limiter_run_tick [of es] resetCount_def accepted_def)
qed

theorem limiter_rate_per_tick_witness:
  "fst (limiter_run [Attempt, Attempt, Attempt]
          (snd (limiter_run ([Attempt, Attempt] @ [Tick]) (NewCallLimiter 2)))) = [True, True, False]"
  using limiter_rate_per_tick [of "[Attempt, Attempt, Attempt]" 2 "[Attempt, Attempt]"]
  by (simp add: Let_def numeral_2_eq_2)

text \<open>C28: The pool of media ports, after any sequence of reservations and releases and whatever
  ports the system refuses to bind: no port is handed out twice, every one handed out is of
  the configured range and marked, and a reservation fails only when no free port can be
  bound.\<close>

theorem media_pool_exclusive:
  assumes "pool_reachable (mpp, held)"
  shows "distinct held \<and> set held \<subseteq> {MediaStartPort..MediaEndPort}
    \<and> (case ReserveSocket listen mpp of
         (Some p, mpp') \<Rightarrow> p \<in> {MediaStartPort..MediaEndPort} - set held \<and> listen p
           \<and> map_of mpp' = (map_of mpp)(p \<mapsto> True)
       | (None, mpp') \<Rightarrow> mpp' = mpp \<and> (\<forall>p. p \<in> {MediaStartPort..MediaEndPort} - set held \<longrightarrow> \<not> listen p))"
proof -
  have inv: "go_map_wf mpp" "fst ` set mpp = {MediaStartPort..MediaEndPort}" "distinct held"
    "\<And>p. p \<in> set held \<longleftrightarrow> map_of mpp p = Some True"
    using pool_inv_reachable [OF assms] by (auto simp: pool_inv_def pool_wf_on_def)
  have dom: "p \<in> {MediaStartPort..MediaEndPort} \<longleftrightarrow> map_of mpp p \<noteq> None" for p
    unfolding inv(2) [symmetric] by (auto simp: map_of_eq_None_iff)
  have held: "set held \<subseteq> {MediaStartPort..MediaEndPort}" using inv(4) dom by fastforce
  show ?thesis
  proof (cases "ReserveSocket listen mpp")
    case (Pair q mpp')
    show ?thesis
    proof (cases q)
      case (Some p)
      with Pair ReserveSocket_Some [of listen mpp p mpp'] inv(1)
      have r: "map_of mpp p = Some False" "listen p" "mpp' = AList.update p True mpp" by simp_all
      with Pair Some held inv(3) inv(4) [of p] dom [of p] show ?thesis by (simp add: update_conv')
    next
      case None
      then have n: "mpp' = mpp" "\<forall>(p, used) \<in> set mpp. used \<or> \<not> listen p"
        using Pair ReserveSocket_None [of listen mpp mpp'] by simp_all
      have "\<not> listen p" if "p \<in> {MediaStartPort..MediaEndPort} - set held" for p
      proof -
        from that dom [of p] inv(4) [of p] obtain b where "map_of mpp p = Some b" "b \<noteq> True" by auto
        with n(2) show ?thesis by (auto dest: map_of_SomeD)
      qed
      with Pair None n(1) held inv(3) show ?thesis by simp
    qed
  qed
qed

theorem media_pool_exclusive_witness:
  "set [] \<subseteq> {MediaStartPort..MediaEndPort} \<and> pool_reachable (NewMediaPortPool, [])"
  using media_pool_exclusive [OF pool_reachable.start, of "\<lambda>_. True"] pool_reachable.start by simp

text \<open>Releasing a port that is held makes it free and reports success; releasing any other
  port changes nothing and reports failure; giving back no socket at all is a success.\<close>

theorem media_pool_release:
  assumes "pool_reachable (mpp, held)"
  shows "ReleaseSocket (Some p) mpp
           = (if p \<in> set held then (True, AList.update p False mpp) else (False, mpp))
    \<and> ReleaseSocket None mpp = (True, mpp)
    \<and> (p \<in> set held \<longrightarrow> pool_reachable (AList.update p False mpp, remove1 p held))"
proof -
  have h: "p \<in> set held \<longleftrightarrow> map_of mpp p = Some True"
    using pool_inv_reachable [OF assms] by (simp add: pool_inv_def)
  then have r: "ReleaseSocket (Some p) mpp
           = (if p \<in> set held then (True, AList.update p False mpp) else (False, mpp))"
    by (simp add: ReleaseSocket_def)
  moreover have "pool_reachable (AList.update p False mpp, remove1 p held)" if "p \<in> set held"
    using that r by (intro pool_reachable.step [OF assms] pool_step.release) simp_all
  ultimately show ?thesis by (simp add: ReleaseSocket_def [of None])
qed

theorem media_pool_release_witness:
  "ReleaseSocket (Some 5) NewMediaPortPool = (False, NewMediaPortPool)"
  using media_pool_release [OF pool_reachable.start, of 5] by simp

end
