(* ===== verification/Routing_DB.thy ===== *)
theory Routing_DB
  imports Net_Addr Regex
begin

text \<open>
  \<open>sip/routingdata.go\<close>: the routing records and the routing engine. The JSON text of the
  configuration is decoded by the library; a row of the decoded list is its pattern and its
  record. \<open>regexp.Compile\<close> on a pattern of the configuration is the parameter \<open>compile\<close>,
  which gives a pattern term or fails.
\<close>

datatype CallFlow = Transparent | TransformEarlyToFinal_flow | EchoResponder | OtherFlow string

definition CallFlow_of :: "string \<Rightarrow> CallFlow" where
  "CallFlow_of s =
     (if s = ''Transparent'' then Transparent
      else if s = ''TransformEarlyToFinal'' then TransformEarlyToFinal_flow
      else if s = ''EchoResponder'' then EchoResponder
      else OtherFlow s)"

record RoutingRecord =
  InRegex :: "re option"
  RemoteUDPSocket :: "UdpSocket option"
  OutCallFlow :: CallFlow
  UserpartPattern :: string
  OutRuriHostport :: string
  OutRuriUserpart :: string
  MaxCallDuration :: int
  No18xTimeout :: int
  NoAnswerTimeout :: int
  DisallowDifferent18x :: bool
  DisallowSimilar18x :: bool
  SteerMedia :: bool
  IsDB :: bool

definition zero_RoutingRecord :: RoutingRecord where
  "zero_RoutingRecord =
     \<lparr>InRegex = None, RemoteUDPSocket = None, OutCallFlow = OtherFlow [], UserpartPattern = [],
      OutRuriHostport = [], OutRuriUserpart = [], MaxCallDuration = 0, No18xTimeout = 0,
      NoAnswerTimeout = 0, DisallowDifferent18x = False, DisallowSimilar18x = False,
      SteerMedia = False, IsDB = False\<rparr>"

record config_row =
  row_pattern :: string
  row_RD :: RoutingRecord

section \<open>Loading\<close>

text \<open>One row of the configuration: a record that goes into the engine, or a skipped row.\<close>

definition load_row ::
    "(string \<Rightarrow> re option) \<Rightarrow> (string \<Rightarrow> UDPAddr option) \<Rightarrow> config_row \<Rightarrow> RoutingRecord option" where
  "load_row compile resolve r =
     (let rd = row_RD r
      in if OutCallFlow rd \<noteq> EchoResponder \<and> No18xTimeout rd \<le> 0 \<and> NoAnswerTimeout rd \<le> 0 then None
         else case compile (row_pattern r) of
           None \<Rightarrow> None
         | Some upRegex \<Rightarrow>
             let rd1 = rd\<lparr>UserpartPattern := row_pattern r, InRegex := Some upRegex\<rparr>
             in if OutRuriHostport rd1 \<noteq> []
                then (case BuildUdpSocket resolve (OutRuriHostport rd1) SipPort of
                        Inl _ \<Rightarrow> None
                      | Inr uaddr \<Rightarrow> Some (rd1\<lparr>RemoteUDPSocket := Some uaddr, IsDB := True\<rparr>))
                else Some (rd1\<lparr>IsDB := True\<rparr>))"

text \<open>A text that does not decode, \<open>None\<close>, leaves the records as they are.\<close>

definition ReadConfig ::
    "(string \<Rightarrow> re option) \<Rightarrow> (string \<Rightarrow> UDPAddr option) \<Rightarrow> config_row list option
       \<Rightarrow> RoutingRecord list \<Rightarrow> RoutingRecord list" where
  "ReadConfig compile resolve rdp routings =
     (case rdp of
        None \<Rightarrow> routings
      | Some rows \<Rightarrow> List.map_filter (load_row compile resolve) rows)"

section \<open>Looking up\<close>

text \<open>
  The first record whose pattern matches and whose translation is consistent. A record
  without a compiled pattern is a nil dereference, \<open>None\<close>; the loader makes none.
\<close>

fun Get_route :: "RoutingRecord list \<Rightarrow> string \<Rightarrow> (RoutingRecord \<times> string) option option" where
  "Get_route [] userpart = Some None"
| "Get_route (rd # rds) userpart =
     (case InRegex rd of
        None \<Rightarrow> None
      | Some rgx \<Rightarrow>
          (case TranslatePattern userpart rgx (OutRuriUserpart rd) of
             (up, ok) \<Rightarrow> if ok then Some (Some (rd, up)) else Get_route rds userpart))"

section \<open>Lemmas\<close>

text \<open>What every loaded record satisfies.\<close>

definition route_wf :: "RoutingRecord \<Rightarrow> bool" where
  "route_wf rd \<longleftrightarrow> InRegex rd \<noteq> None \<and> IsDB rd
     \<and> (OutCallFlow rd = EchoResponder \<or> 0 < No18xTimeout rd \<or> 0 < NoAnswerTimeout rd)"

lemma load_row_wf: "load_row compile resolve r = Some rd \<Longrightarrow> route_wf rd"
  by (auto simp: load_row_def Let_def route_wf_def split: if_splits option.splits sum.splits)

lemma ReadConfig_wf:
  "list_all route_wf routings \<Longrightarrow> list_all route_wf (ReadConfig compile resolve rdp routings)"
  by (auto simp: ReadConfig_def list_all_iff List.map_filter_def dest: load_row_wf
      split: option.split)

definition route_hits :: "string \<Rightarrow> RoutingRecord \<Rightarrow> bool" where
  "route_hits userpart rd \<longleftrightarrow>
     (case InRegex rd of None \<Rightarrow> False
      | Some rgx \<Rightarrow> snd (TranslatePattern userpart rgx (OutRuriUserpart rd)))"

lemma Get_route_first:
  assumes "list_all route_wf rds"
  shows "Get_route rds userpart =
    Some (case find (route_hits userpart) rds of
            None \<Rightarrow> None
          | Some rd \<Rightarrow> Some (rd, fst (TranslatePattern userpart (the (InRegex rd)) (OutRuriUserpart rd))))"
  using assms
  by (induction rds) (auto simp: route_hits_def route_wf_def split: option.split prod.split)

text \<open>A hit with a non-empty template gives a non-empty user part.\<close>

lemma Get_route_userpart:
  assumes "list_all route_wf rds" "Get_route rds userpart = Some (Some (rd, up))"
  shows "rd \<in> set rds \<and> (up = [] \<longleftrightarrow> OutRuriUserpart rd = [])"
proof -
  from assms have f: "find (route_hits userpart) rds = Some rd"
    and u: "up = fst (TranslatePattern userpart (the (InRegex rd)) (OutRuriUserpart rd))"
    by (auto simp: Get_route_first split: option.splits)
  from find_Some_set [OF f] have rd: "rd \<in> set rds" "route_hits userpart rd" by simp_all
  then obtain rgx where "InRegex rd = Some rgx" by (auto simp: route_hits_def split: option.splits)
  with rd u show ?thesis
    by (auto simp: route_hits_def TranslatePattern_def Let_def split: list.splits)
qed

section \<open>Properties\<close>

text \<open>C29: Whatever configuration is loaded, in any order and however often, the lookup of a user
  part never dereferences a missing pattern: it returns the first record, in the order of the
  file, whose pattern matches with a usable translation, with the translated user part, which
  is empty only for a record without a template.\<close>

theorem routing_lookup_first_match:
  "let rds = fold (ReadConfig compile resolve) configs [] in
    Get_route rds userpart =
      Some (map_option (\<lambda>rd. (rd, fst (TranslatePattern userpart (the (InRegex rd)) (OutRuriUserpart rd))))
              (find (route_hits userpart) rds))
    \<and> (case Get_route rds userpart of
         Some (Some (rd, up)) \<Rightarrow> rd \<in> set rds \<and> route_wf rd \<and> (up = [] \<longleftrightarrow> OutRuriUserpart rd = [])
       | Some None \<Rightarrow> list_all (\<lambda>rd. \<not> route_hits userpart rd) rds
       | None \<Rightarrow> False)"
proof -
  let ?rds = "fold (ReadConfig compile resolve) configs []"
  have "list_all route_wf (fold (ReadConfig compile resolve) configs rs)" if "list_all route_wf rs" for rs
    using that by (induction configs arbitrary: rs) (simp_all add: ReadConfig_wf)
  then have wf: "list_all route_wf ?rds" by simp
  show ?thesis
  proof (cases "find (route_hits userpart) ?rds")
    case None
    then have "\<forall>rd \<in> set ?rds. \<not> route_hits userpart rd" by (simp add: find_None_set)
    with None show ?thesis using Get_route_first [OF wf, of userpart] by (simp add: Let_def list_all_iff)
  next
    case (Some rd)
    let ?up = "fst (TranslatePattern userpart (the (InRegex rd)) (OutRuriUserpart rd))"
    have g: "Get_route ?rds userpart = Some (Some (rd, ?up))"
      using Get_route_first [OF wf, of userpart] Some by simp
    with Get_route_userpart [OF wf g] wf Some show ?thesis by (simp add: list_all_iff Let_def)
  qed
qed

end
