(* ===== verification/World.thy ===== *)
theory World
  imports Sip_Message Stores Limiter_Pool Routing_DB "HOL-Library.State_Monad"
begin

text \<open>
  The state of the router. Go's sessions, transactions, messages and bodies are objects
  shared by pointer: each kind is a store from numbers to records with the number of the next
  object. Handlers are state transformers (\<open>HOL-Library.State_Monad\<close>). A panic sets a flag
  after which every primitive effect does nothing, so that the effects before the panic stay
  and the rest of the handler is skipped, as when Go unwinds to the deferred recover. A
  handler holds the locks it needs for its whole body, and locks are not modelled: a handler
  is one step.
\<close>

section \<open>Timers\<close>

text \<open>
  A \<open>*time.Timer\<close> field: nil, running with the session its function was made for, or
  stopped or fired but still set.
\<close>

datatype timer = TNil | TArmed nat | TStopped

definition stop_timer :: "timer \<Rightarrow> timer" where
  "stop_timer t = (case t of TNil \<Rightarrow> TNil | _ \<Rightarrow> TStopped)"

section \<open>Transactions and sessions\<close>

type_synonym ss_id = nat
type_synonym tx_id = nat
type_synonym msg_id = nat

record Transaction =
  ViaUdpAddr :: "UDPAddr option"
  Timer :: timer
  ACKTransaction :: "tx_id option"
  CANCELAuxTimer :: timer
  LinkedTransaction :: "tx_id option"
  RequestMessage :: "msg_id option"
  SentMessage :: "msg_id option"
  From :: string
  RAck :: string
  ViaBranch :: string
  Key :: string
  To :: string
  Responses :: "int list"
  Method_tx :: Method
  ReTXCount :: int
  Direction_tx :: Direction
  PrackStatus :: PRACKStatus
  TransTimeOut :: int
  RSeq_tx :: u32
  CSeq :: u32
  UseRemoteURI :: bool
  ResetMF :: bool
  IsProbing :: bool
  IsFinalized_tx :: bool
  IsACKed :: bool

definition zero_Transaction :: Transaction where
  "zero_Transaction =
     \<lparr>ViaUdpAddr = None, Timer = TNil, ACKTransaction = None, CANCELAuxTimer = TNil,
      LinkedTransaction = None, RequestMessage = None, SentMessage = None, From = [], RAck = [],
      ViaBranch = [], Key = [], To = [], Responses = [], Method_tx = UNKNOWN, ReTXCount = 0,
      Direction_tx = INBOUND, PrackStatus = PRACKExpected, TransTimeOut = 0, RSeq_tx = 0, CSeq = 0,
      UseRemoteURI = False, ResetMF = False, IsProbing = False, IsFinalized_tx = False,
      IsACKed = False\<rparr>"

record SipSession =
  remoteMediaUdpAddr :: "UDPAddr option"
  SDPSession :: "sdp_session option"
  no18xSTimer :: timer
  MediaConn :: "int option"
  udpListenser :: "UDPAddr option"
  RemoteUserAgent :: "nat option"
  LinkedSession :: "ss_id option"
  RoutingData :: "RoutingRecord option"
  probDone :: bool
  noAnsSTimer :: timer
  maxDurationTimer :: timer
  remoteUDP :: "UDPAddr option"
  RemoteContactUDP :: "UDPAddr option"
  probingTicker :: timer
  EgressProxy :: "UDPAddr option"
  RemoteContactURI :: string
  RemoteURI :: string
  ToTag :: string
  FromTag :: string
  ToHeader :: string
  FromHeader :: string
  CallID :: string
  Mymode :: SessionMode
  RecordRoutes :: "string list"
  Transactions :: "tx_id list"
  Relayed18xNotify :: "int list"
  Direction_ss :: Direction
  ss_state :: SessionState
  SDPSessionVersion :: int
  SDPSessionID :: int
  RSeq :: u32
  FwdCSeq :: u32
  BwdCSeq :: u32
  IsDisposed :: bool
  dialogueChanging :: bool
  TransformEarlyToFinal :: bool
  isHeld :: bool
  ReferSubscription :: bool
  IsDelayedOfferCall :: bool
  received18xSDP :: bool
  IsPRACKSupported :: bool

definition NewSS :: "Direction \<Rightarrow> SipSession" where
  "NewSS dir =
     \<lparr>remoteMediaUdpAddr = None, SDPSession = None, no18xSTimer = TNil, MediaConn = None,
      udpListenser = None, RemoteUserAgent = None, LinkedSession = None, RoutingData = None,
      probDone = False, noAnsSTimer = TNil, maxDurationTimer = TNil, remoteUDP = None,
      RemoteContactUDP = None, probingTicker = TNil, EgressProxy = None, RemoteContactURI = [],
      RemoteURI = [], ToTag = [], FromTag = [], ToHeader = [], FromHeader = [], CallID = [],
      Mymode = UnsetMode, RecordRoutes = [], Transactions = [], Relayed18xNotify = [],
      Direction_ss = dir, ss_state = NotSet, SDPSessionVersion = 0, SDPSessionID = 0, RSeq = 0,
      FwdCSeq = 0, BwdCSeq = 0, IsDisposed = False, dialogueChanging = False,
      TransformEarlyToFinal = False, isHeld = False, ReferSubscription = False,
      IsDelayedOfferCall = False, received18xSDP = False, IsPRACKSupported = False\<rparr>"

text \<open>\<open>NewSIPSession\<close>: the inbound session of a first message.\<close>

definition NewSIPSession :: "SipMessage \<Rightarrow> SipSession" where
  "NewSIPSession sipmsg =
     (NewSS INBOUND)\<lparr>CallID := sm_CallID sipmsg,
                     RecordRoutes := HeaderValues Record_Route_hdr (Headers sipmsg)\<rparr>"

definition SipSession_String :: "SipSession \<Rightarrow> string" where
  "SipSession_String session =
     ''Call-ID: '' @ CallID session @ '', State: '' @ SessionState_String (ss_state session) @
     '', Direction: '' @ Direction_String (Direction_ss session) @
     '', Mode: '' @ SessionMode_String (Mymode session)"

section \<open>The world\<close>

text \<open>
  What the program takes from outside, each a function of the number of the request for it:
  UUIDs as printed, random numbers, the date as the headers print it, which media port can
  be bound; and the name service, the SDP library and the compiler of regular expressions.
\<close>

record env =
  e_resolve :: "string \<Rightarrow> UDPAddr option"
  e_sdp :: sdp_lib
  e_uuid :: "nat \<Rightarrow> string"
  e_rand :: "nat \<Rightarrow> u32 \<Rightarrow> u32"
  e_date :: "nat \<Rightarrow> string"
  e_listen :: "nat \<Rightarrow> int \<Rightarrow> bool"
  e_compile :: "string \<Rightarrow> re option"

text \<open>A datagram sent: the message as it was at that moment and where it went.\<close>

record datagram =
  dg_msg :: SipMessage
  dg_to :: UDPAddr

text \<open>An echo call that waits before it is answered.\<close>

record echo_wait =
  ew_ss :: ss_id
  ew_tx :: tx_id
  ew_msg :: msg_id
  ew_answer :: sdp_session
  ew_held :: bool

record world =
  w_env :: env
  w_ss :: "ss_id \<Rightarrow> SipSession"
  w_nss :: nat
  w_tx :: "tx_id \<Rightarrow> Transaction"
  w_ntx :: nat
  w_msg :: "msg_id \<Rightarrow> SipMessage"
  w_nmsg :: nat
  w_body :: "body_id \<Rightarrow> MessageBody"
  w_nbody :: nat
  w_Sessions :: "ss_id ConcurrentMapMutex"
  w_limiter :: CallLimiter
  w_uas :: "SipUdpUserAgent list"
  w_phones :: IPPhoneRepo
  w_pool :: MediaPool
  w_routes :: "RoutingRecord list"
  w_ServerIPv4 :: string
  w_SkipAS :: bool
  w_ASUserAgent :: "nat option"
  w_ProxyUdpServer :: "UDPAddr option"
  w_IndialogueProbingInterval :: int
  w_sippTesting :: bool
  w_seed :: nat
  w_out :: "datagram list"
  w_drops :: "ss_id list"
  w_echo :: "echo_wait list"
  w_panic :: bool
  w_recovered :: nat

section \<open>The primitive effects\<close>

type_synonym 'a go = "(world, 'a) state"

abbreviation (input) ret :: "'a \<Rightarrow> 'a go" where "ret \<equiv> State_Monad.return"

definition asks :: "(world \<Rightarrow> 'a) \<Rightarrow> 'a go" where
  "asks f = State (\<lambda>w. (f w, w))"

definition act :: "(world \<Rightarrow> world) \<Rightarrow> unit go" where
  "act f = State (\<lambda>w. ((), if w_panic w then w else f w))"

definition panic :: "unit go" where
  "panic = act (\<lambda>w. w\<lparr>w_panic := True\<rparr>)"

text \<open>The value of an option whose \<open>None\<close> is a panic.\<close>

definition deref :: "'a \<Rightarrow> 'a option \<Rightarrow> 'a go" where
  "deref d x = (case x of Some y \<Rightarrow> ret y | None \<Rightarrow> do { panic; ret d })"

text \<open>\<open>defer LogCallStack()\<close>: the panic is caught and logged.\<close>

definition recover :: "unit go" where
  "recover = State (\<lambda>w. ((), if w_panic w then w\<lparr>w_panic := False, w_recovered := w_recovered w + 1\<rparr> else w))"

definition upd_ss :: "ss_id \<Rightarrow> (SipSession \<Rightarrow> SipSession) \<Rightarrow> unit go" where
  "upd_ss i f = act (\<lambda>w. w\<lparr>w_ss := (w_ss w)(i := f (w_ss w i))\<rparr>)"

definition upd_tx :: "tx_id \<Rightarrow> (Transaction \<Rightarrow> Transaction) \<Rightarrow> unit go" where
  "upd_tx t f = act (\<lambda>w. w\<lparr>w_tx := (w_tx w)(t := f (w_tx w t))\<rparr>)"

definition upd_msg :: "msg_id \<Rightarrow> (SipMessage \<Rightarrow> SipMessage) \<Rightarrow> unit go" where
  "upd_msg m f = act (\<lambda>w. w\<lparr>w_msg := (w_msg w)(m := f (w_msg w m))\<rparr>)"

definition upd_body :: "body_id \<Rightarrow> (MessageBody \<Rightarrow> MessageBody) \<Rightarrow> unit go" where
  "upd_body b f = act (\<lambda>w. w\<lparr>w_body := (w_body w)(b := f (w_body w b))\<rparr>)"

definition get_ss :: "ss_id \<Rightarrow> SipSession go" where "get_ss i = asks (\<lambda>w. w_ss w i)"
definition get_tx :: "tx_id \<Rightarrow> Transaction go" where "get_tx t = asks (\<lambda>w. w_tx w t)"
definition get_msg :: "msg_id \<Rightarrow> SipMessage go" where "get_msg m = asks (\<lambda>w. w_msg w m)"

definition get_body :: "body_id option \<Rightarrow> MessageBody option go" where
  "get_body b = asks (\<lambda>w. map_option (w_body w) b)"

text \<open>New objects.\<close>

definition new_ss :: "SipSession \<Rightarrow> ss_id go" where
  "new_ss s = do {
     i \<leftarrow> asks w_nss;
     act (\<lambda>w. w\<lparr>w_ss := (w_ss w)(w_nss w := s), w_nss := Suc (w_nss w)\<rparr>);
     ret i
   }"

definition new_tx :: "Transaction \<Rightarrow> tx_id go" where
  "new_tx t = do {
     i \<leftarrow> asks w_ntx;
     act (\<lambda>w. w\<lparr>w_tx := (w_tx w)(w_ntx w := t), w_ntx := Suc (w_ntx w)\<rparr>);
     ret i
   }"

definition new_msg :: "SipMessage \<Rightarrow> msg_id go" where
  "new_msg m = do {
     i \<leftarrow> asks w_nmsg;
     act (\<lambda>w. w\<lparr>w_msg := (w_msg w)(w_nmsg w := m), w_nmsg := Suc (w_nmsg w)\<rparr>);
     ret i
   }"

definition new_body :: "MessageBody \<Rightarrow> body_id go" where
  "new_body b = do {
     i \<leftarrow> asks w_nbody;
     act (\<lambda>w. w\<lparr>w_body := (w_body w)(w_nbody w := b), w_nbody := Suc (w_nbody w)\<rparr>);
     ret i
   }"

text \<open>What the world outside answers next.\<close>

definition next_seed :: "nat go" where
  "next_seed = do {
     n \<leftarrow> asks w_seed;
     act (\<lambda>w. w\<lparr>w_seed := Suc (w_seed w)\<rparr>);
     ret n
   }"

definition random_num :: "u32 \<Rightarrow> u32 \<Rightarrow> u32 go" where
  "random_num minlmt maxlmt = do {
     n \<leftarrow> next_seed;
     e \<leftarrow> asks w_env;
     ret (RandomNum (e_rand e n) minlmt maxlmt)
   }"

definition date_now :: "string go" where
  "date_now = do { n \<leftarrow> next_seed; e \<leftarrow> asks w_env; ret (e_date e n) }"

text \<open>\<open>guid/guid.go\<close>: identifiers cut out of a printed UUID.\<close>

definition newUUID :: "string go" where
  "newUUID = do { n \<leftarrow> next_seed; e \<leftarrow> asks w_env; ret (e_uuid e n) }"

definition NewCallID :: "string go" where
  "NewCallID = newUUID"

definition NewViaBranch :: "string go" where
  "NewViaBranch = do { u \<leftarrow> newUUID; ret (MagicCookie @ drop 24 u) }"

definition NewTag :: "string go" where
  "NewTag = do { u \<leftarrow> newUUID; ret (drop 24 u) }"

definition NewKey :: "string go" where
  "NewKey = do { u \<leftarrow> newUUID; ret (drop 24 u) }"

primrec for_each :: "('a \<Rightarrow> unit go) \<Rightarrow> 'a list \<Rightarrow> unit go" where
  "for_each f [] = ret ()"
| "for_each f (x # xs) = do { f x; for_each f xs }"

definition "when" :: "bool \<Rightarrow> unit go \<Rightarrow> unit go" where
  "when c m = (if c then m else ret ())"

end
