(* ===== verification/Sip_Transaction.thy ===== *)
theory Sip_Transaction
  imports World
begin

text \<open>
  \<open>sip/transaction.go\<close>: the constructors of transactions, what their responses say, and the
  starting and stopping of their timers. The functions that a timer runs when it fires are in
  the theory of the session operations.
\<close>

section \<open>Constructors\<close>

text \<open>A transaction gets its fields before anything else can reach it, and then its number.\<close>

definition NewST :: "Transaction go" where
  "NewST = do { k \<leftarrow> NewKey; ret (zero_Transaction\<lparr>Key := k\<rparr>) }"

definition NewSIPTransaction_RT :: "msg_id \<Rightarrow> tx_id option \<Rightarrow> ss_id \<Rightarrow> tx_id go" where
  "NewSIPTransaction_RT rm lt i = do {
     st \<leftarrow> NewST;
     m \<leftarrow> get_msg rm;
     t \<leftarrow> new_tx (st\<lparr>Method_tx := GetMethod m, RequestMessage := Some rm, Direction_tx := INBOUND,
             ViaUdpAddr := sm_ViaUdpAddr m, CSeq := CSeqNum m, ViaBranch := sm_ViaBranch m,
             LinkedTransaction := lt\<rparr>);
     upd_ss i (\<lambda>s. s\<lparr>FromTag := sm_FromTag m, ToTag := sm_ToTag m\<rparr>);
     ret t
   }"

definition NewSIPTransaction_RP :: "u32 \<Rightarrow> PRACKStatus \<Rightarrow> tx_id go" where
  "NewSIPTransaction_RP rseq prksts = do {
     st \<leftarrow> NewST;
     new_tx (st\<lparr>Direction_tx := INBOUND, Method_tx := PRACK, RSeq_tx := rseq, PrackStatus := prksts\<rparr>)
   }"

definition NewSIPTransaction_RC :: "u32 \<Rightarrow> string \<Rightarrow> tx_id go" where
  "NewSIPTransaction_RC rseq cseq = do {
     st \<leftarrow> NewST;
     b \<leftarrow> NewViaBranch;
     r \<leftarrow> deref [] (Uint32ToStr rseq);
     new_tx (st\<lparr>RSeq_tx := rseq, Direction_tx := OUTBOUND, Method_tx := PRACK, ViaBranch := b,
                RAck := r @ '' '' @ cseq\<rparr>)
   }"

definition NewSIPTransaction_CRL :: "u32 \<Rightarrow> Method \<Rightarrow> tx_id option \<Rightarrow> tx_id go" where
  "NewSIPTransaction_CRL cq method lt = do {
     st \<leftarrow> NewST;
     b \<leftarrow> NewViaBranch;
     t \<leftarrow> new_tx (st\<lparr>Direction_tx := OUTBOUND, Method_tx := method, CSeq := cq,
             LinkedTransaction := lt, ViaBranch := b\<rparr>);
     (case lt of
        Some l \<Rightarrow> when (method \<noteq> ACK \<and> method \<noteq> CANCEL)
                    (upd_tx l (\<lambda>x. x\<lparr>LinkedTransaction := Some t\<rparr>))
      | None \<Rightarrow> ret ());
     ret t
   }"

section \<open>Responses of a transaction\<close>

definition AnyResponse :: "(int \<Rightarrow> bool) \<Rightarrow> Transaction \<Rightarrow> bool" where
  "AnyResponse fltr tx \<longleftrightarrow> list_ex fltr (Responses tx)"

definition RequireSameViaBranch :: "Transaction \<Rightarrow> bool" where
  "RequireSameViaBranch tx \<longleftrightarrow> AnyResponse IsNegative tx"

definition StatusCodeExists :: "int \<Rightarrow> Transaction \<Rightarrow> bool" where
  "StatusCodeExists sc tx \<longleftrightarrow> AnyResponse (\<lambda>sc1. sc1 = sc) tx"

definition Any1xx :: "Transaction \<Rightarrow> bool" where
  "Any1xx tx \<longleftrightarrow> AnyResponse IsProvisional tx"

definition IsFinalResponsePositive :: "Transaction \<Rightarrow> bool" where
  "IsFinalResponsePositive tx \<longleftrightarrow> AnyResponse IsPositive tx"

section \<open>CANCEL and ACK for a transaction\<close>

definition CreateCANCELST :: "tx_id \<Rightarrow> tx_id go" where
  "CreateCANCELST t = do {
     x \<leftarrow> get_tx t;
     st \<leftarrow> new_tx (zero_Transaction\<lparr>Direction_tx := OUTBOUND, Method_tx := CANCEL, CSeq := CSeq x,
             LinkedTransaction := Some t, To := To x, From := From x, ViaBranch := ViaBranch x,
             UseRemoteURI := True\<rparr>);
     upd_tx t (\<lambda>y. y\<lparr>LinkedTransaction := Some st\<rparr>);
     ret st
   }"

definition CreateACKST :: "tx_id \<Rightarrow> tx_id go" where
  "CreateACKST t = do {
     x \<leftarrow> get_tx t;
     let same = RequireSameViaBranch x;
     b \<leftarrow> (if same then ret (ViaBranch x) else NewViaBranch);
     st \<leftarrow> new_tx (zero_Transaction\<lparr>Method_tx := ACK, Direction_tx := OUTBOUND, CSeq := CSeq x,
             LinkedTransaction := Some t, UseRemoteURI := same, ViaBranch := b\<rparr>);
     upd_tx t (\<lambda>y. y\<lparr>ACKTransaction := Some st\<rparr>);
     ret st
   }"

section \<open>Timers\<close>

definition StartTransTimer :: "tx_id \<Rightarrow> ss_id \<Rightarrow> unit go" where
  "StartTransTimer t i =
     upd_tx t (\<lambda>x. if Timer x = TNil
                   then x\<lparr>ReTXCount := 0, TransTimeOut := T1Timer, Timer := TArmed i\<rparr> else x)"

definition StopTransTimer :: "tx_id \<Rightarrow> unit go" where
  "StopTransTimer t = upd_tx t (\<lambda>x. x\<lparr>Timer := stop_timer (Timer x)\<rparr>)"

definition StartCancelTimer :: "tx_id \<Rightarrow> ss_id \<Rightarrow> unit go" where
  "StartCancelTimer t i =
     upd_tx t (\<lambda>x. if CANCELAuxTimer x \<noteq> TNil \<or> IsFinalized_tx x then x
                   else x\<lparr>CANCELAuxTimer := TArmed i\<rparr>)"

definition StopCancelTimer :: "tx_id \<Rightarrow> unit go" where
  "StopCancelTimer t = upd_tx t (\<lambda>x. x\<lparr>CANCELAuxTimer := stop_timer (CANCELAuxTimer x)\<rparr>)"

end
