(* ===== verification/Sip_Session.thy ===== *)
theory Sip_Session
  imports Sip_Transaction
begin

text \<open>
  \<open>sip/session.go\<close>, first part, with \<open>ParseNPrepareSDP\<close> and \<open>TranslateRM\<close> of \<open>sip/message.go\<close>:
  finding transactions, sending, the state and the timers of a session. A finder that reads
  only is a function of the world.
\<close>

section \<open>Finding transactions\<close>

definition txs :: "world \<Rightarrow> ss_id \<Rightarrow> tx_id list" where
  "txs w i = Transactions (w_ss w i)"

definition find_tx :: "(Transaction \<Rightarrow> bool) \<Rightarrow> ss_id \<Rightarrow> world \<Rightarrow> tx_id option" where
  "find_tx P i w = Find (\<lambda>t. P (w_tx w t)) (txs w i)"

definition filter_tx :: "(Transaction \<Rightarrow> bool) \<Rightarrow> ss_id \<Rightarrow> world \<Rightarrow> tx_id list" where
  "filter_tx P i w = filter (\<lambda>t. P (w_tx w t)) (txs w i)"

definition GetTransaction :: "ss_id \<Rightarrow> SipMessage \<Rightarrow> world \<Rightarrow> tx_id option" where
  "GetTransaction i m w =
     (if IsRequest m then
        find_tx (\<lambda>x. Direction_tx x = INBOUND \<and> CSeq x = CSeqNum m \<and>
                    (Method_tx x = GetMethod m \<and> ViaBranch x = sm_ViaBranch m \<or>
                     GetMethod m = ACK \<and> RequiresACK (Method_tx x) \<and> IsACKed x \<and>
                     FromTag (w_ss w i) = sm_FromTag m \<and>
                     (ToTag (w_ss w i) = [] \<or> ToTag (w_ss w i) = sm_ToTag m))) i w
      else
        find_tx (\<lambda>x. Direction_tx x = OUTBOUND \<and> ViaBranch x = sm_ViaBranch m \<and> CSeq x = CSeqNum m \<and>
                    (Method_tx x = CSeqMethod m \<or> CSeqMethod m = INVITE \<and> Method_tx x = ReINVITE)) i w)"

definition IsDuplicateINVITE :: "ss_id \<Rightarrow> SipMessage \<Rightarrow> world \<Rightarrow> bool" where
  "IsDuplicateINVITE i m w \<longleftrightarrow>
     find_tx (\<lambda>x. Direction_tx x = INBOUND \<and> Method_tx x = INVITE \<and>
                 (case RequestMessage x of None \<Rightarrow> False | Some r \<Rightarrow> sm_FromTag (w_msg w r) = sm_FromTag m) \<and>
                 ViaBranch x = sm_ViaBranch m \<and> CSeq x = CSeqNum m) i w \<noteq> None"

definition GetReOrInviteTransaction :: "ss_id \<Rightarrow> u32 \<Rightarrow> bool \<Rightarrow> world \<Rightarrow> tx_id option" where
  "GetReOrInviteTransaction i cSeqNum isFinalized w =
     find_tx (\<lambda>x. Direction_tx x = INBOUND \<and> CSeq x = cSeqNum \<and> RequiresACK (Method_tx x) \<and>
                 IsFinalized_tx x = isFinalized) i w"

definition GetPendingOutgoingTransactions :: "ss_id \<Rightarrow> world \<Rightarrow> tx_id list" where
  "GetPendingOutgoingTransactions i w =
     filter_tx (\<lambda>x. Direction_tx x = OUTBOUND \<and> \<not> IsFinalized_tx x) i w"

text \<open>All the incoming ones: the test for finality is commented out in the source.\<close>

definition GetPendingIncomingTransactions :: "ss_id \<Rightarrow> world \<Rightarrow> tx_id list" where
  "GetPendingIncomingTransactions i w = filter_tx (\<lambda>x. Direction_tx x = INBOUND) i w"

definition GetPendingIncomingTransactionsSYNC :: "ss_id \<Rightarrow> world \<Rightarrow> tx_id list" where
  "GetPendingIncomingTransactionsSYNC i w =
     filter_tx (\<lambda>x. Direction_tx x = INBOUND \<and> \<not> IsFinalized_tx x) i w"

definition GetPRACKTransaction :: "ss_id \<Rightarrow> u32 \<Rightarrow> u32 \<Rightarrow> tx_id option go" where
  "GetPRACKTransaction i rSeqNum cSeqNum = do {
     reInvite \<leftarrow> asks (GetReOrInviteTransaction i cSeqNum False);
     (case reInvite of Some t \<Rightarrow> StopTransTimer t | None \<Rightarrow> ret ());
     asks (find_tx (\<lambda>x. Direction_tx x = INBOUND \<and> RSeq_tx x = rSeqNum \<and> Method_tx x = PRACK) i)
   }"

definition AreTherePendingOutgoingPRACK :: "ss_id \<Rightarrow> world \<Rightarrow> bool" where
  "AreTherePendingOutgoingPRACK i w \<longleftrightarrow>
     find_tx (\<lambda>x. Direction_tx x = OUTBOUND \<and> Method_tx x = PRACK \<and> \<not> IsFinalized_tx x) i w \<noteq> None"

definition UnPRACKed18xCount :: "ss_id \<Rightarrow> world \<Rightarrow> nat" where
  "UnPRACKed18xCount i w =
     length (filter_tx (\<lambda>x. Direction_tx x = INBOUND \<and> Method_tx x = PRACK \<and> RequestMessage x = None) i w)"

definition GetUnACKedINVorReINV :: "ss_id \<Rightarrow> world \<Rightarrow> tx_id option" where
  "GetUnACKedINVorReINV i w =
     find_tx (\<lambda>x. Direction_tx x = OUTBOUND \<and> RequiresACK (Method_tx x) \<and> \<not> IsACKed x) i w"

definition GetLastUnACKedINV :: "ss_id \<Rightarrow> Direction \<Rightarrow> world \<Rightarrow> tx_id option" where
  "GetLastUnACKedINV i dir w =
     Find (\<lambda>t. Direction_tx (w_tx w t) = dir \<and> Method_tx (w_tx w t) = INVITE \<and> \<not> IsACKed (w_tx w t))
       (rev (txs w i))"

text \<open>The first transaction; a session without one makes index 0 panic.\<close>

definition GetFirstTransaction :: "ss_id \<Rightarrow> tx_id go" where
  "GetFirstTransaction i = do {
     ts \<leftarrow> asks (\<lambda>w. txs w i);
     deref 0 (case ts of [] \<Rightarrow> None | t # _ \<Rightarrow> Some t)
   }"

definition GetLastTransaction :: "ss_id \<Rightarrow> world \<Rightarrow> tx_id option" where
  "GetLastTransaction i w = (if txs w i = [] then None else Some (last (txs w i)))"

definition HasNoTransactions :: "ss_id \<Rightarrow> world \<Rightarrow> bool" where
  "HasNoTransactions i w \<longleftrightarrow> txs w i = []"

definition Received1xx :: "ss_id \<Rightarrow> bool go" where
  "Received1xx i = do { t \<leftarrow> GetFirstTransaction i; x \<leftarrow> get_tx t; ret (Any1xx x) }"

definition Received200 :: "ss_id \<Rightarrow> bool go" where
  "Received200 i = do { t \<leftarrow> GetFirstTransaction i; x \<leftarrow> get_tx t; ret (IsFinalResponsePositive x) }"

definition CurrentRequestMessage :: "ss_id \<Rightarrow> msg_id option go" where
  "CurrentRequestMessage i = do { t \<leftarrow> GetFirstTransaction i; x \<leftarrow> get_tx t; ret (RequestMessage x) }"

definition StopAllOutTransactions :: "ss_id \<Rightarrow> unit go" where
  "StopAllOutTransactions i = do { ts \<leftarrow> asks (\<lambda>w. txs w i); for_each StopTransTimer ts }"

text \<open>
  The header of the last CANCEL or BYE that has it; \<open>None\<close> is the panic of an empty header.
\<close>

definition GetLastMessageHeaderValue :: "ss_id \<Rightarrow> string \<Rightarrow> world \<Rightarrow> string option" where
  "GetLastMessageHeaderValue i headerName w =
     (case Find (\<lambda>t. (Method_tx (w_tx w t) = CANCEL \<or> Method_tx (w_tx w t) = BYE) \<and>
                     (case RequestMessage (w_tx w t) of
                        None \<Rightarrow> False | Some m \<Rightarrow> HeaderExists headerName (Headers (w_msg w m))))
            (rev (txs w i)) of
        None \<Rightarrow> Some []
      | Some t \<Rightarrow> Value headerName (Headers (w_msg w (the (RequestMessage (w_tx w t))))))"

definition AddTransaction :: "ss_id \<Rightarrow> tx_id \<Rightarrow> unit go" where
  "AddTransaction i t = upd_ss i (\<lambda>s. s\<lparr>Transactions := Transactions s @ [t]\<rparr>)"

definition GenerateOutgoingPRACKST :: "ss_id \<Rightarrow> SipMessage \<Rightarrow> tx_id go" where
  "GenerateOutgoingPRACKST i m = do {
     r \<leftarrow> deref [] (ValueHeader RSeq_hdr (Headers m));
     c \<leftarrow> deref [] (ValueHeader CSeq_hdr (Headers m));
     t \<leftarrow> NewSIPTransaction_RC (Str2Uint r) c;
     AddTransaction i t;
     ret t
   }"

definition GenerateRSeqCreatePRACKST :: "ss_id \<Rightarrow> tx_id option \<Rightarrow> string go" where
  "GenerateRSeqCreatePRACKST i linkedPRACKST = do {
     s \<leftarrow> get_ss i;
     (if RSeq s = 0 then do { r \<leftarrow> random_num 1 999; upd_ss i (\<lambda>x. x\<lparr>RSeq := r\<rparr>) }
      else upd_ss i (\<lambda>x. x\<lparr>RSeq := RSeq x + 1\<rparr>));
     s1 \<leftarrow> get_ss i;
     pst \<leftarrow> NewSIPTransaction_RP (RSeq s1) PRACKExpected;
     (case linkedPRACKST of
        Some l \<Rightarrow> do {
          upd_tx pst (\<lambda>x. x\<lparr>LinkedTransaction := Some l\<rparr>);
          upd_tx l (\<lambda>x. x\<lparr>LinkedTransaction := Some pst\<rparr>)
        }
      | None \<Rightarrow> ret ());
     AddTransaction i pst;
     s2 \<leftarrow> get_ss i;
     deref [] (Uint32ToStr (RSeq s2))
   }"

section \<open>State\<close>

definition SetState :: "ss_id \<Rightarrow> SessionState \<Rightarrow> unit go" where
  "SetState i st = upd_ss i (\<lambda>s. s\<lparr>ss_state := st\<rparr>)"

definition FinalizeState :: "ss_id \<Rightarrow> unit go" where
  "FinalizeState i = upd_ss i (\<lambda>s. s\<lparr>ss_state := FinalizeMe (ss_state s)\<rparr>)"

definition state_is :: "SessionState \<Rightarrow> ss_id \<Rightarrow> bool go" where
  "state_is st i = asks (\<lambda>w. ss_state (w_ss w i) = st)"

definition IsEstablished :: "ss_id \<Rightarrow> bool go" where
  "IsEstablished i = state_is Established i"

definition IsBeingEstablished :: "ss_id \<Rightarrow> bool go" where
  "IsBeingEstablished i = state_is BeingEstablished i"

definition IsPending_ss :: "ss_id \<Rightarrow> bool go" where
  "IsPending_ss i = asks (\<lambda>w. IsPending (ss_state (w_ss w i)))"

definition IsFinalized_ss :: "ss_id \<Rightarrow> bool go" where
  "IsFinalized_ss i = asks (\<lambda>w. IsFinalized (ss_state (w_ss w i)))"

definition IsDialogueChanging :: "ss_id \<Rightarrow> bool go" where
  "IsDialogueChanging i = asks (\<lambda>w. dialogueChanging (w_ss w i))"

definition ChecknSetDialogueChanging :: "ss_id \<Rightarrow> bool \<Rightarrow> bool go" where
  "ChecknSetDialogueChanging i newflag = do {
     s \<leftarrow> get_ss i;
     if newflag \<noteq> dialogueChanging s
     then do { upd_ss i (\<lambda>x. x\<lparr>dialogueChanging := newflag\<rparr>); ret True }
     else ret False
   }"

definition SetRemoteMediaUdpAddr :: "ss_id \<Rightarrow> UDPAddr option \<Rightarrow> unit go" where
  "SetRemoteMediaUdpAddr i rmt =
     (case rmt of None \<Rightarrow> ret () | Some a \<Rightarrow> upd_ss i (\<lambda>s. s\<lparr>remoteMediaUdpAddr := Some a\<rparr>))"

definition SetRemoteUDPnListenser :: "ss_id \<Rightarrow> UDPAddr option \<Rightarrow> UDPAddr option \<Rightarrow> unit go" where
  "SetRemoteUDPnListenser i rmt cn = upd_ss i (\<lambda>s. s\<lparr>remoteUDP := rmt, udpListenser := cn\<rparr>)"

text \<open>The record routes, contact and next hop that a message brings.\<close>

definition extractHostpart :: "string \<Rightarrow> string" where
  "extractHostpart hv = (case RMatch hv FQDNPort_fp of _ # m1 # _ \<Rightarrow> m1 | _ \<Rightarrow> [])"

definition UpdateContactRecordRouteBody :: "ss_id \<Rightarrow> SipMessage \<Rightarrow> unit go" where
  "UpdateContactRecordRouteBody i m = do {
     e \<leftarrow> asks w_env;
     let rcrdrts = HeaderValues Record_Route_hdr (Headers m);
     upd_ss i (\<lambda>s. if RecordRoutes s = [] \<and> rcrdrts \<noteq> [] then s\<lparr>RecordRoutes := rcrdrts\<rparr> else s);
     case BuildUdpAddr (e_resolve e) (extractHostpart (RCURI m)) SipPort of
       None \<Rightarrow> ret ()
     | Some a \<Rightarrow>
         upd_ss i (\<lambda>s. s\<lparr>RemoteContactURI := RCURI m,
                         RemoteContactUDP := (if RecordRoutes s = [] then Some a else RemoteContactUDP s)\<rparr>)
   }"

section \<open>Preparing SDP\<close>

text \<open>
  The SDP session of the body, given or parsed, gets the router's media address and its own
  origin and version; the version grows when the session differs from the last one sent. The
  Go object is shared between the body and the SIP session, so its final value goes to both.
\<close>

definition ParseNPrepareSDP :: "ss_id \<Rightarrow> body_id option \<Rightarrow> unit go" where
  "ParseNPrepareSDP i b = do {
     e \<leftarrow> asks w_env;
     let lib = e_sdp e;
     mb \<leftarrow> get_body b;
     case (b, mb) of
       (Some bid, Some body) \<Rightarrow>
         (case (case SdpSession body of
                  Some s \<Rightarrow> Some s
                | None \<Rightarrow> if body_ContainsSDP body
                    then map_option (sdp_SetName lib B2BUANameVersion) (sdp_Parse lib (part_bytes SDP body))
                    else None) of
            None \<Rightarrow> ret ()
          | Some sdp0 \<Rightarrow> do {
              s \<leftarrow> get_ss i;
              sdp1 \<leftarrow> (case (RoutingData s, MediaConn s) of
                 (Some rd, Some prt) \<Rightarrow>
                   if SteerMedia rd \<or> OutCallFlow rd = EchoResponder then do {
                     (case LinkedSession s of
                        Some l \<Rightarrow> SetRemoteMediaUdpAddr l (sdp_GetEffectiveMediaUdpAddr lib sdp0)
                      | None \<Rightarrow> ret ());
                     ip \<leftarrow> asks w_ServerIPv4;
                     ret (sdp_SetConnection lib ip prt sdp0)
                   } else ret sdp0
               | _ \<Rightarrow> ret sdp0);
              (if SDPSessionID s = 0 then do {
                 r \<leftarrow> random_num 1000 9000;
                 upd_ss i (\<lambda>x. x\<lparr>SDPSessionID := uint r\<rparr>)
               } else ret ());
              s1 \<leftarrow> get_ss i;
              let sdp2 = sdp_SetOriginID lib (SDPSessionID s1) sdp1;
              let (version, changed) =
                (case SDPSession s1 of
                   None \<Rightarrow> (1, True)
                 | Some old \<Rightarrow> if sdp_Equals lib old sdp2 then (SDPSessionVersion s1, False)
                               else (SDPSessionVersion s1 + 1, True));
              let sdp3 = sdp_SetOriginVersion lib version sdp2;
              upd_ss i (\<lambda>x. x\<lparr>SDPSessionVersion := version,
                              SDPSession := (if changed then Some sdp3 else SDPSession x)\<rparr>);
              upd_body bid (\<lambda>y. y\<lparr>SdpSession := (if SdpSession y = None then None else Some sdp3),
                 PartsContents := AList.update SDP
                   \<lparr>cp_Headers = (case map_of (PartsContents y) SDP of None \<Rightarrow> NewSipHeaders | Some p \<Rightarrow> cp_Headers p),
                    cp_Bytes = sdp_Bytes lib sdp3\<rparr> (PartsContents y)\<rparr>)
            })
     | _ \<Rightarrow> ret ()
   }"

section \<open>Sending\<close>

definition sendmessage :: "ss_id \<Rightarrow> msg_id \<Rightarrow> UDPAddr option \<Rightarrow> unit go" where
  "sendmessage i m rmt = do {
     s \<leftarrow> get_ss i;
     case (udpListenser s, rmt) of
       (Some _, Some a) \<Rightarrow> act (\<lambda>w. w\<lparr>w_out := w_out w @ [\<lparr>dg_msg = w_msg w m, dg_to = a\<rparr>]\<rparr>)
     | _ \<Rightarrow> ret ()
   }"

definition Send :: "ss_id \<Rightarrow> tx_id \<Rightarrow> unit go" where
  "Send i t = do {
     x \<leftarrow> get_tx t;
     m \<leftarrow> deref 0 (SentMessage x);
     msg \<leftarrow> get_msg m;
     (if Bytes msg = [] then do {
        b \<leftarrow> get_body (Body msg);
        msg' \<leftarrow> deref msg (PrepareMessageBytes b msg);
        upd_msg m (\<lambda>_. msg')
      } else ret ());
     s \<leftarrow> get_ss i;
     if IsResponse msg then
       sendmessage i m (case ViaUdpAddr x of Some a \<Rightarrow> Some a | None \<Rightarrow> remoteUDP s)
     else if \<not> UseRemoteURI x \<and> RemoteContactUDP s \<noteq> None then sendmessage i m (RemoteContactUDP s)
     else if EgressProxy s \<noteq> None then sendmessage i m (EgressProxy s)
     else sendmessage i m (remoteUDP s)
   }"

definition SendSTMessage :: "ss_id \<Rightarrow> tx_id \<Rightarrow> unit go" where
  "SendSTMessage i t = do {
     x \<leftarrow> get_tx t;
     n \<leftarrow> asks (UnPRACKed18xCount i);
     let createTimer =
       (if Direction_tx x = OUTBOUND then Method_tx x \<noteq> ACK
        else if IsFinalized_tx x then RequiresACK (Method_tx x)
        else 0 < n);
     Send i t;
     when createTimer (StartTransTimer t i)
   }"

definition IsDuplicateMessage :: "ss_id \<Rightarrow> SipMessage \<Rightarrow> bool go" where
  "IsDuplicateMessage i m =
     (let sc = GetStatusCode m in do {
        t \<leftarrow> asks (GetTransaction i m);
        if sc = 0 then ret (t \<noteq> None)
        else if sc \<le> 199 then ret False
        else case t of
          None \<Rightarrow> ret True
        | Some tid \<Rightarrow> do {
            x \<leftarrow> get_tx tid;
            if StatusCodeExists sc x then do {
              (case ACKTransaction x of
                 Some a \<Rightarrow> when (RequiresACK (Method_tx x)) (SendSTMessage i a)
               | None \<Rightarrow> ret ());
              ret True
            } else ret False
          }
      })"

section \<open>The timers of a session\<close>

definition StartTimer :: "ss_id \<Rightarrow> TimerType \<Rightarrow> unit go" where
  "StartTimer i tt = do {
     s \<leftarrow> get_ss i;
     if tt = NoAnswer \<and> noAnsSTimer s \<noteq> TNil \<or> tt = No18x \<and> no18xSTimer s \<noteq> TNil then ret ()
     else do {
       rd \<leftarrow> deref zero_RoutingRecord (RoutingData s);
       let delay = (if tt = NoAnswer then NoAnswerTimeout rd else No18xTimeout rd);
       if delay \<le> 0 then ret ()
       else upd_ss i (\<lambda>x. if tt = NoAnswer then x\<lparr>noAnsSTimer := TArmed i\<rparr> else x\<lparr>no18xSTimer := TArmed i\<rparr>)
     }
   }"

definition StopTimer :: "ss_id \<Rightarrow> TimerType \<Rightarrow> unit go" where
  "StopTimer i tt =
     upd_ss i (\<lambda>x. if tt = NoAnswer then x\<lparr>noAnsSTimer := stop_timer (noAnsSTimer x)\<rparr>
                   else x\<lparr>no18xSTimer := stop_timer (no18xSTimer x)\<rparr>)"

definition StopNoTimers :: "ss_id \<Rightarrow> unit go" where
  "StopNoTimers i = do { StopTimer i No18x; StopTimer i NoAnswer }"

definition StartInDialogueProbing :: "ss_id \<Rightarrow> unit go" where
  "StartInDialogueProbing i = do {
     p \<leftarrow> asks w_IndialogueProbingInterval;
     when (0 < p) (upd_ss i (\<lambda>s. s\<lparr>probingTicker := TArmed i\<rparr>))
   }"

definition StartMaxCallDuration :: "ss_id \<Rightarrow> unit go" where
  "StartMaxCallDuration i = do {
     s \<leftarrow> get_ss i;
     case RoutingData s of
       None \<Rightarrow> ret ()
     | Some rd \<Rightarrow> when (0 < MaxCallDuration rd) (upd_ss i (\<lambda>x. x\<lparr>maxDurationTimer := TArmed i\<rparr>))
   }"

section \<open>Translating numbers in a message\<close>

definition set_number_header :: "HeaderEnum \<Rightarrow> string \<Rightarrow> msg_id \<Rightarrow> string go" where
  "set_number_header h rep m = do {
     msg \<leftarrow> get_msg m;
     v \<leftarrow> deref [] (ValueHeader h (Headers msg));
     let v' = RReplaceNumberOnly v rep;
     upd_msg m (\<lambda>x. x\<lparr>Headers := SetHeader h v' (Headers x)\<rparr>);
     ret v'
   }"

definition TranslateRM :: "msg_id \<Rightarrow> ss_id \<Rightarrow> tx_id \<Rightarrow> NumberType \<Rightarrow> string \<Rightarrow> unit go" where
  "TranslateRM m i t nt newNumber =
     (if newNumber = [] then ret () else do {
        s \<leftarrow> get_ss i;
        localsocket \<leftarrow> deref \<lparr>IP = [], Port = 0, Zone = []\<rparr> (udpListenser s);
        let rep = ''${1}'' @ newNumber @ ''$2'';
        let ruri = (do {
              upd_msg m (\<lambda>x. x\<lparr>sm_StartLine := (sm_StartLine x)\<lparr>RUri := RReplaceNumberOnly (RUri (sm_StartLine x)) rep,
                                                              UserPart := newNumber\<rparr>\<rparr>);
              msg \<leftarrow> get_msg m;
              upd_ss i (\<lambda>x. x\<lparr>RemoteContactURI := RUri (sm_StartLine msg)\<rparr>)
            });
        let to = (do {
              v \<leftarrow> set_number_header To_hdr rep m;
              upd_ss i (\<lambda>x. x\<lparr>ToHeader := v\<rparr>);
              upd_tx t (\<lambda>x. x\<lparr>To := v\<rparr>)
            });
        let from = (do {
              v \<leftarrow> set_number_header From_hdr rep m;
              upd_ss i (\<lambda>x. x\<lparr>FromHeader := v\<rparr>);
              upd_tx t (\<lambda>x. x\<lparr>From := v\<rparr>)
            });
        let pai = (do {
              msg \<leftarrow> get_msg m;
              if HeaderNameExists P_Asserted_Identity_hdr (Headers msg)
              then do { _ \<leftarrow> set_number_header P_Asserted_Identity_hdr rep m; ret () }
              else upd_msg m (\<lambda>x. x\<lparr>Headers := SetHeader P_Asserted_Identity_hdr
                     (''<sip:'' @ newNumber @ ''@'' @ IP localsocket @ '';user=phone>'') (Headers x)\<rparr>)
            });
        case nt of
          CalledRURI \<Rightarrow> ruri
        | CalledTo \<Rightarrow> to
        | CalledBoth \<Rightarrow> do { ruri; to }
        | CallingFrom \<Rightarrow> from
        | CallingPAI \<Rightarrow> pai
        | CallingBoth \<Rightarrow> do { pai; from }
      })"

end
