(* ===== verification/Sip_Responses.thy ===== *)
theory Sip_Responses
  imports Sip_Session
begin

text \<open>
  \<open>sip/sessionResponses.go\<close>: the headers of a response and the sending of a response in a
  transaction.
\<close>

text \<open>Custom headers are added value by value.\<close>

definition add_custom :: "SipHeaders \<Rightarrow> SipHeaders \<Rightarrow> SipHeaders" where
  "add_custom custom hdrs = foldl (\<lambda>h (k, vs). foldl (\<lambda>h v. Add k v h) h vs) hdrs custom"

text \<open>
  The To header of a response above 100 on an inbound session whose request had no To tag: the
  tag is made with the first 18x or 2xx.
\<close>

definition set_to_tag :: "ss_id \<Rightarrow> tx_id \<Rightarrow> int \<Rightarrow> SipHeaders \<Rightarrow> SipHeaders go" where
  "set_to_tag i t sc hdrs = do {
     has \<leftarrow> deref True (ContainsToTag hdrs);
     s \<leftarrow> get_ss i;
     if \<not> has \<and> Direction_ss s = INBOUND then do {
       (if ToTag s = [] \<and> Is18xOrPositive sc then do {
          tag \<leftarrow> NewTag;
          to \<leftarrow> deref [] (ValueHeader To_hdr hdrs);
          let th = to @ '';tag='' @ tag;
          upd_ss i (\<lambda>x. x\<lparr>ToTag := tag, ToHeader := th\<rparr>);
          upd_tx t (\<lambda>x. x\<lparr>To := th\<rparr>)
        } else ret ());
       s1 \<leftarrow> get_ss i;
       ret (SetHeader To_hdr (ToHeader s1) hdrs)
     } else ret hdrs
   }"

definition createHeadersForResponse :: "ss_id \<Rightarrow> tx_id \<Rightarrow> ResponsePack \<Rightarrow> SipHeaders go" where
  "createHeadersForResponse i t rspnspk = do {
     let sc = rp_StatusCode rspnspk;
     x \<leftarrow> get_tx t;
     s \<leftarrow> get_ss i;
     contact \<leftarrow> (if rp_ContactHeader rspnspk = [] then do {
                   a \<leftarrow> deref \<lparr>IP = [], Port = 0, Zone = []\<rparr> (udpListenser s);
                   ret (GenerateContact a)
                 } else ret (rp_ContactHeader rspnspk));
     let h1 = AddHeader Contact_hdr contact (NewSHsPointer True);
     mid \<leftarrow> deref 0 (RequestMessage x);
     m \<leftarrow> get_msg mid;
     let rh = Headers m;
     h2 \<leftarrow> (if Method_tx x = REGISTER then do {
              v \<leftarrow> deref [] (ValueHeader Expires_hdr rh);
              ret (if v \<noteq> [] then AddHeader Expires_hdr v h1 else h1)
            } else ret h1);
     let h3 = add_custom (rp_CustomHeaders rspnspk) (AddHeader Call_ID_hdr (CallID s) h2);
     let h4 = AddHeaderValues Via_hdr (HeaderValues Via_hdr rh) h3;
     from \<leftarrow> deref [] (ValueHeader From_hdr rh);
     to \<leftarrow> deref [] (ValueHeader To_hdr rh);
     cseq \<leftarrow> deref [] (ValueHeader CSeq_hdr rh);
     date \<leftarrow> date_now;
     let h5 = AddHeader Date_hdr date (AddHeader CSeq_hdr cseq (AddHeader To_hdr to (AddHeader From_hdr from h4)));
     if 100 < sc then do {
       h6 \<leftarrow> set_to_tag i t sc h5;
       sub \<leftarrow> deref [] (ValueHeader Refer_Sub_hdr rh);
       let h7 = AddHeader Refer_Sub_hdr sub (AddHeaderValues Record_Route_hdr (RecordRoutes s) h6);
       let prackRequested = (PRACKRequested rspnspk \<or> LinkedPRACKST rspnspk \<noteq> None);
       if IsProvisional18x sc \<and> IsPRACKSupported s \<and> Direction_ss s = INBOUND \<and> prackRequested then do {
         rseq \<leftarrow> GenerateRSeqCreatePRACKST i (LinkedPRACKST rspnspk);
         ret (SetHeader Require_hdr ''100rel'' (SetHeader RSeq_hdr rseq h7))
       } else ret h7
     } else ret h5
   }"

text \<open>
  A repeated 18x without SDP is held back when the routing record says so; the record is read
  through a pointer that may be nil.
\<close>

definition suppressed18x :: "ss_id \<Rightarrow> tx_id \<Rightarrow> ResponsePack \<Rightarrow> body_id option \<Rightarrow> bool go" where
  "suppressed18x i t rspspk msgbody = do {
     let stc = rp_StatusCode rspspk;
     mb \<leftarrow> get_body msgbody;
     if IsProvisional18x stc \<and> LinkedPRACKST rspspk = None \<and> \<not> ContainsSDP mb then do {
       s \<leftarrow> get_ss i;
       x \<leftarrow> get_tx t;
       rd \<leftarrow> deref zero_RoutingRecord (RoutingData s);
       ret (DisallowSimilar18x rd \<and> stc \<in> set (Responses x)
            \<or> DisallowDifferent18x rd \<and> list_ex (\<lambda>y. IsProvisional18x y \<and> y \<noteq> stc) (Responses x))
     } else ret False
   }"

definition send_response :: "ss_id \<Rightarrow> tx_id \<Rightarrow> ResponsePack \<Rightarrow> body_id option \<Rightarrow> unit go" where
  "send_response i t rspspk msgbody = do {
     let stc = rp_StatusCode rspspk;
     blocked \<leftarrow> suppressed18x i t rspspk msgbody;
     if blocked then ret () else do {
       upd_tx t (\<lambda>x. x\<lparr>Responses := Responses x @ [stc], IsFinalized_tx := IsFinalized_tx x \<or> 200 \<le> stc\<rparr>);
       hdrs \<leftarrow> createHeadersForResponse i t rspspk;
       m \<leftarrow> new_msg ((NewResponseMessage stc (rp_ReasonPhrase rspspk))\<lparr>Headers := hdrs, Body := msgbody\<rparr>);
       ParseNPrepareSDP i msgbody;
       upd_tx t (\<lambda>x. x\<lparr>SentMessage := Some m\<rparr>);
       SendSTMessage i t
     }
   }"

text \<open>Without a transaction the last unacknowledged incoming INVITE is answered.\<close>

definition SendCreatedResponseDetailed :: "ss_id \<Rightarrow> tx_id option \<Rightarrow> ResponsePack \<Rightarrow> body_id option \<Rightarrow> unit go" where
  "SendCreatedResponseDetailed i tr rspspk msgbody = do {
     t0 \<leftarrow> (case tr of Some t \<Rightarrow> ret (Some t) | None \<Rightarrow> asks (GetLastUnACKedINV i INBOUND));
     case t0 of
       None \<Rightarrow> ret ()
     | Some t \<Rightarrow> send_response i t rspspk msgbody
   }"

definition SendCreatedResponse :: "ss_id \<Rightarrow> tx_id option \<Rightarrow> int \<Rightarrow> body_id option \<Rightarrow> unit go" where
  "SendCreatedResponse i tr sc msgbody = SendCreatedResponseDetailed i tr (response_pack sc) msgbody"

end
