(* ===== verification/Sip_Requests.thy ===== *)
theory Sip_Requests
  imports Sip_Responses
begin

text \<open>
  \<open>sip/sessionRequests.go\<close> and \<open>addOutgoingRequest\<close> of \<open>sip/sessionHelper.go\<close>: the
  transaction and the headers of an outgoing request.
\<close>

definition no_addr :: UDPAddr where
  "no_addr = \<lparr>IP = [], Port = 0, Zone = []\<rparr>"

section \<open>The transaction of an outgoing request\<close>

definition acknowledge :: "tx_id \<Rightarrow> tx_id go" where
  "acknowledge t = do { upd_tx t (\<lambda>x. x\<lparr>IsACKed := True\<rparr>); CreateACKST t }"

text \<open>
  Before a BYE every unfinished incoming request is answered with 503. The result is \<open>None\<close>
  where the code finds no transaction to acknowledge or cancel.
\<close>

definition reject_pending :: "ss_id \<Rightarrow> unit go" where
  "reject_pending i = do {
     ts \<leftarrow> asks (GetPendingIncomingTransactionsSYNC i);
     for_each (\<lambda>t. do {
         h \<leftarrow> deref NewSipHeaders (NewSHQ850OrSIP 31 ''Session being cleared'' []);
         SendCreatedResponseDetailed i (Some t) ((response_pack 503)\<lparr>rp_CustomHeaders := h\<rparr>) None
       }) ts
   }"

definition addOutgoingRequest :: "ss_id \<Rightarrow> Method \<Rightarrow> tx_id option \<Rightarrow> tx_id option go" where
  "addOutgoingRequest i rt lt = do {
     when (rt = BYE) (reject_pending i);
     s \<leftarrow> get_ss i;
     if Direction_ss s = OUTBOUND then
       (if rt = ACK then do {
          u \<leftarrow> asks (GetUnACKedINVorReINV i);
          case (case lt of None \<Rightarrow> u | Some l \<Rightarrow> Some l) of
            None \<Rightarrow> ret None
          | Some l \<Rightarrow> do { st \<leftarrow> acknowledge l; ret (Some st) }
        }
        else if rt = CANCEL then do {
          u \<leftarrow> asks (GetLastUnACKedINV i OUTBOUND);
          case (case lt of None \<Rightarrow> u | Some l \<Rightarrow> Some l) of
            None \<Rightarrow> ret None
          | Some l \<Rightarrow> do { st \<leftarrow> CreateCANCELST l; AddTransaction i st; ret (Some st) }
        }
        else do {
          (if FwdCSeq s = 0 then do { r \<leftarrow> random_num 0 500; upd_ss i (\<lambda>x. x\<lparr>FwdCSeq := r\<rparr>) }
           else upd_ss i (\<lambda>x. x\<lparr>FwdCSeq := FwdCSeq x + 1\<rparr>));
          s1 \<leftarrow> get_ss i;
          if rt = PRACK then do {
            l \<leftarrow> deref 0 lt;
            upd_tx l (\<lambda>x. x\<lparr>CSeq := FwdCSeq s1\<rparr>);
            ret (Some l)
          } else do {
            st \<leftarrow> NewSIPTransaction_CRL (FwdCSeq s1) rt lt;
            AddTransaction i st;
            ret (Some st)
          }
        })
     else
       (if rt = ACK then do {
          u \<leftarrow> asks (GetUnACKedINVorReINV i);
          l \<leftarrow> deref 0 (case lt of None \<Rightarrow> u | Some l \<Rightarrow> Some l);
          st \<leftarrow> acknowledge l;
          ret (Some st)
        }
        else do {
          (if BwdCSeq s = 0 then do { r \<leftarrow> random_num 600 1000; upd_ss i (\<lambda>x. x\<lparr>BwdCSeq := r\<rparr>) }
           else upd_ss i (\<lambda>x. x\<lparr>BwdCSeq := BwdCSeq x + 1\<rparr>));
          s1 \<leftarrow> get_ss i;
          st \<leftarrow> NewSIPTransaction_CRL (BwdCSeq s1) rt lt;
          AddTransaction i st;
          ret (Some st)
        })
   }"

section \<open>Headers of in-dialogue requests\<close>

definition prepareRequestHeaders :: "ss_id \<Rightarrow> tx_id \<Rightarrow> RequestPack \<Rightarrow> SipMessage \<Rightarrow> SipMessage go" where
  "prepareRequestHeaders i t rqstpk sipmsg = do {
     x \<leftarrow> get_tx t;
     s \<leftarrow> get_ss i;
     localsocket \<leftarrow> deref no_addr (udpListenser s);
     let ruri = (if UseRemoteURI x then RemoteURI s else RemoteContactURI s);
     let h0 = NewSHsPointer True;
     let h1 = (if Direction_ss s = OUTBOUND
               then SetHeader From_hdr (FromHeader s) (SetHeader To_hdr (ToHeader s) h0)
               else SetHeader From_hdr (ToHeader s) (SetHeader To_hdr (FromHeader s) h0));
     let h2 = (if rq_Method rqstpk = PRACK then SetHeader RAck_hdr (RAck x) h1 else h1);
     maxFwds \<leftarrow>
       (if Max70 rqstpk \<or> LinkedSession s = None \<or> ResetMF x then ret 70
        else case LinkedTransaction x of
          None \<Rightarrow> ret 70
        | Some l \<Rightarrow> do {
            lx \<leftarrow> get_tx l;
            mid \<leftarrow> deref 0 (RequestMessage lx);
            m \<leftarrow> get_msg mid;
            ret (if rq_Method rqstpk = ACK \<or> rq_Method rqstpk = CANCEL then MaxFwds m else MaxFwds m - 1)
          });
     mf \<leftarrow> deref [] (Int2Str (word_of_int maxFwds));
     let h3 = SetHeader Max_Forwards_hdr mf h2;
     let h4 = AddHeaderValues Route_hdr
                (if Direction_ss s = INBOUND then RecordRoutes s else Reverse [] (RecordRoutes s)) h3;
     let h5 = AddHeader Via_hdr (GenerateViaWithoutBranch localsocket @ '';branch='' @ ViaBranch x)
                (SetHeader Call_ID_hdr (CallID s) (SetHeader Contact_hdr (GenerateContact localsocket) h4));
     ret (sipmsg\<lparr>sm_StartLine := (sm_StartLine sipmsg)\<lparr>RUri := ruri\<rparr>, Headers := h5,
                 MaxFwds := (if rq_Method rqstpk = ReINVITE then maxFwds else MaxFwds sipmsg)\<rparr>)
   }"

text \<open>
  The Reason header of a CANCEL or BYE that brings none: the one of the request that caused
  it, or normal clearing.
\<close>

definition add_reason :: "ss_id \<Rightarrow> tx_id \<Rightarrow> SipHeaders \<Rightarrow> SipHeaders go" where
  "add_reason i t h = do {
     s \<leftarrow> get_ss i;
     x \<leftarrow> get_tx t;
     case (LinkedSession s, LinkedTransaction x) of
       (Some _, Some l) \<Rightarrow> do {
         lx \<leftarrow> get_tx l;
         mid \<leftarrow> deref 0 (RequestMessage lx);
         m \<leftarrow> get_msg mid;
         reason \<leftarrow> deref [] (ValueHeader Reason_hdr (Headers m));
         ret (AddHeader Reason_hdr (if reason \<noteq> [] then reason else ''Q.850;cause=16'') h)
       }
     | _ \<Rightarrow> ret (AddHeader Reason_hdr ''Q.850;cause=16'' h)
   }"

definition warning_100rel :: string where
  "warning_100rel =
     ''399 SRGo '' @ [CHR 34] @ ''100rel was not offered, yet it was requested'' @ [CHR 34]"

text \<open>The message is completed in the store, where its number is \<open>m\<close>.\<close>

definition processRequestHeaders :: "ss_id \<Rightarrow> tx_id \<Rightarrow> msg_id \<Rightarrow> RequestPack \<Rightarrow> body_id option \<Rightarrow> unit go" where
  "processRequestHeaders i t m rqstpk msgbody = do {
     date \<leftarrow> date_now;
     x \<leftarrow> get_tx t;
     cs \<leftarrow> deref [] (Uint32ToStr (CSeq x));
     upd_msg m (\<lambda>y. y\<lparr>Headers := add_custom (rq_CustomHeaders rqstpk)
         (SetHeader CSeq_hdr (cs @ '' '' @ Method_String (GetMethod y)) (SetHeader Date_hdr date (Headers y))),
         Body := msgbody\<rparr>);
     ParseNPrepareSDP i msgbody;
     msg \<leftarrow> get_msg m;
     s \<leftarrow> get_ss i;
     (if GetMethod msg = INVITE then do {
        upd_tx t (\<lambda>y. y\<lparr>RequestMessage := Some m, SentMessage := Some m\<rparr>);
        upd_ss i (\<lambda>y. y\<lparr>RemoteURI := RUri (sm_StartLine msg), RemoteContactURI := RUri (sm_StartLine msg)\<rparr>)
      } else do {
        upd_msg m (\<lambda>y. y\<lparr>sm_StartLine := (sm_StartLine y)\<lparr>RUri :=
          (if UseRemoteURI x then RemoteURI s else RemoteContactURI s)\<rparr>\<rparr>);
        when ((GetMethod msg = CANCEL \<or> GetMethod msg = BYE) \<and> \<not> HeaderExists ''Reason'' (Headers msg)) (do {
          h \<leftarrow> add_reason i t (Headers msg);
          upd_msg m (\<lambda>y. y\<lparr>Headers := h\<rparr>)
        })
      });
     when (GetMethod msg = PRACK \<and> \<not> IsPRACKSupported s)
       (upd_msg m (\<lambda>y. y\<lparr>Headers := AddHeader Warning_hdr warning_100rel (Headers y)\<rparr>))
   }"

definition SendCreatedRequestDetailed :: "ss_id \<Rightarrow> RequestPack \<Rightarrow> tx_id option \<Rightarrow> body_id option \<Rightarrow> unit go" where
  "SendCreatedRequestDetailed i rqstpk tr body = do {
     nt \<leftarrow> addOutgoingRequest i (rq_Method rqstpk) tr;
     case nt of
       None \<Rightarrow> ret ()
     | Some newtrans \<Rightarrow> do {
         msg \<leftarrow> prepareRequestHeaders i newtrans rqstpk (NewRequestMessage (rq_Method rqstpk) []);
         m \<leftarrow> new_msg msg;
         processRequestHeaders i newtrans m rqstpk body;
         upd_tx newtrans (\<lambda>x. x\<lparr>IsProbing := rq_IsProbing rqstpk, RequestMessage := Some m, SentMessage := Some m\<rparr>);
         SendSTMessage i newtrans
       }
   }"

definition SendCreatedRequest :: "ss_id \<Rightarrow> Method \<Rightarrow> tx_id option \<Rightarrow> body_id option \<Rightarrow> unit go" where
  "SendCreatedRequest i m tr body = SendCreatedRequestDetailed i (request_pack m) tr body"

section \<open>Stand-alone requests\<close>

definition buildSARequestHeaders :: "ss_id \<Rightarrow> tx_id \<Rightarrow> RequestPack \<Rightarrow> SipMessage \<Rightarrow> SipMessage go" where
  "buildSARequestHeaders i st rqstpk sipmsg = do {
     s \<leftarrow> get_ss i;
     x \<leftarrow> get_tx st;
     localsocket \<leftarrow> deref no_addr (udpListenser s);
     remote \<leftarrow> deref no_addr (remoteUDP s);
     let sl = sm_StartLine sipmsg;
     let sl1 = BuildRURI False (sl\<lparr>HostPart := UDPAddr_String remote,
        UriParameters := (if rq_Method rqstpk = INVITE then [(''user'', ''phone'')] else UriParameters sl)\<rparr>);
     callid \<leftarrow> NewCallID;
     tag \<leftarrow> NewTag;
     let fromh = ''<sip:'' @ FromUP rqstpk @ ''@'' @ IP localsocket @ '';user=phone>;tag='' @ tag;
     let toh = ''<sip:'' @ RUriUP rqstpk @ ''@'' @ IP remote @ '';user=phone>'';
     cs \<leftarrow> deref [] (Uint32ToStr (FwdCSeq s));
     date \<leftarrow> date_now;
     upd_ss i (\<lambda>y. y\<lparr>RemoteURI := RUri sl1, RemoteContactURI := RUri sl1, CallID := callid, FromTag := tag,
                     FromHeader := fromh, ToHeader := toh\<rparr>);
     upd_tx st (\<lambda>y. y\<lparr>From := fromh, To := toh, CSeq := FwdCSeq s\<rparr>);
     let h1 = AddHeader From_hdr fromh
                (AddHeader Via_hdr (GenerateViaWithoutBranch localsocket @ '';branch='' @ ViaBranch x)
                  (AddHeader Call_ID_hdr callid (NewSHsPointer True)));
     let h2 = SetHeader To_hdr toh (add_custom (rq_CustomHeaders rqstpk) h1);
     let h3 = SetHeader Contact_hdr (GenerateContact localsocket)
                (AddHeader CSeq_hdr (cs @ '' '' @ Method_String (rq_Method rqstpk)) h2);
     ret (sipmsg\<lparr>sm_StartLine := sl1, MaxFwds := 70,
                 Headers := AddHeader Date_hdr date (SetHeader Max_Forwards_hdr ''70'' h3)\<rparr>)
   }"

definition CreateSARequest :: "ss_id \<Rightarrow> RequestPack \<Rightarrow> body_id option \<Rightarrow> tx_id go" where
  "CreateSARequest i rqstpk body = do {
     (if rq_Method rqstpk = OPTIONS then upd_ss i (\<lambda>s. s\<lparr>FwdCSeq := 911, Mymode := KeepAlive\<rparr>)
      else do {
        r \<leftarrow> random_num 1 500;
        upd_ss i (\<lambda>s. s\<lparr>FwdCSeq := r, Mymode := (if rq_Method rqstpk = INVITE then Multimedia else Mymode s)\<rparr>)
      });
     s \<leftarrow> get_ss i;
     st \<leftarrow> NewSIPTransaction_CRL (FwdCSeq s) (rq_Method rqstpk) None;
     msg \<leftarrow> buildSARequestHeaders i st rqstpk (NewRequestMessage (rq_Method rqstpk) (RUriUP rqstpk));
     m \<leftarrow> new_msg (msg\<lparr>Body := body\<rparr>);
     upd_tx st (\<lambda>y. y\<lparr>RequestMessage := Some m, SentMessage := Some m\<rparr>);
     AddTransaction i st;
     ret st
   }"

section \<open>The INVITE of the second leg\<close>

text \<open>A header value rewritten to the router's own address; \<open>None\<close> when it is not an address.\<close>

definition rewrite_name_addr :: "string \<Rightarrow> string \<Rightarrow> string \<Rightarrow> string option" where
  "rewrite_name_addr hv host param =
     (case RMatch hv NameAndNumber_fp of
        _ # m1 # m2 # _ \<Rightarrow>
          Some (TrimWithSuffix m1 '' '' @ ''<sip:'' @ DropVisualSeparators m2 @ ''@'' @ host @ param)
      | _ \<Rightarrow> None)"

definition from_header :: "SipHeaders \<Rightarrow> string \<Rightarrow> string go" where
  "from_header lh localIP = do {
     from \<leftarrow> deref [] (ValueHeader From_hdr lh);
     ret (if DoesValueExistInHeader ''Privacy'' ''user'' lh
          then [CHR 34] @ ''Anonymous'' @ [CHR 34] @ '' <sip:anonymous@anonymous.invalid>''
          else case rewrite_name_addr from localIP '';user=phone>'' of
            Some v \<Rightarrow> v
          | None \<Rightarrow> ''<sip:Invalid@'' @ localIP @ '';user=phone>'')
   }"

definition forward_header :: "HeaderEnum \<Rightarrow> SipHeaders \<Rightarrow> SipHeaders \<Rightarrow> SipHeaders" where
  "forward_header he lh h =
     (case ValuesHeader he lh of (ok, vs) \<Rightarrow> if ok then AddHeaderValues he vs h else h)"

text \<open>
  The headers copied from the first leg's INVITE. The \<open>P-Asserted-Identity\<close> block tests that
  the header is absent before it reads it, so that it never adds one.
\<close>

definition proxifyRequestHeaders :: "ss_id \<Rightarrow> msg_id \<Rightarrow> tx_id \<Rightarrow> unit go" where
  "proxifyRequestHeaders i m t = do {
     s \<leftarrow> get_ss i;
     l \<leftarrow> deref 0 (LinkedSession s);
     lmo \<leftarrow> CurrentRequestMessage l;
     lm \<leftarrow> deref 0 lmo;
     lmsg \<leftarrow> get_msg lm;
     let lh = Headers lmsg;
     localsocket \<leftarrow> deref no_addr (udpListenser s);
     remote \<leftarrow> deref no_addr (remoteUDP s);
     rd \<leftarrow> deref zero_RoutingRecord (RoutingData s);
     let lsl = sm_StartLine lmsg;
     upd_msg m (\<lambda>y. y\<lparr>sm_StartLine := BuildRURI (\<not> IsDB rd)
        ((sm_StartLine y)\<lparr>HostPart := UDPAddr_String remote, OriginalUP := OriginalUP lsl,
           UserParameters := UserParameters lsl, Password := Password lsl,
           UriParameters := UriParameters lsl, UriHeaders := UriHeaders lsl\<rparr>)\<rparr>);
     frm \<leftarrow> from_header lh (IP localsocket);
     tag \<leftarrow> NewTag;
     let fromh = frm @ '';tag='' @ tag;
     lfrom \<leftarrow> deref [] (ValueHeader From_hdr lh);
     lto \<leftarrow> deref [] (ValueHeader To_hdr lh);
     x \<leftarrow> get_tx t;
     let toh = (case rewrite_name_addr lto (IP remote) '';user=phone>'' of Some v \<Rightarrow> v | None \<Rightarrow> To x);
     callid \<leftarrow> NewCallID;
     upd_tx t (\<lambda>y. y\<lparr>From := fromh, To := toh\<rparr>);
     upd_ss i (\<lambda>y. y\<lparr>FromTag := tag, FromHeader := fromh, ToHeader := toh, CallID := callid\<rparr>);
     cd \<leftarrow> deref [] (ValueHeader Content_Disposition_hdr lh);
     route \<leftarrow> deref [] (ValueHeader Route_hdr lh);
     priv \<leftarrow> deref [] (ValueHeader Privacy_hdr lh);
     let maxForwards = (if ResetMF x then 70 else MaxFwds lmsg - 1);
     upd_tx t (\<lambda>y. y\<lparr>ResetMF := False\<rparr>);
     mf \<leftarrow> deref [] (Int2Str (word_of_int maxForwards));
     pai \<leftarrow> (if \<not> HeaderNameExists P_Asserted_Identity_hdr lh
            then deref [] (ValueHeader P_Asserted_Identity_hdr lh) else ret []);
     upd_msg m (\<lambda>y.
       let h1 = SetHeader Call_ID_hdr callid (SetHeader To_hdr toh
                  (Set ''X-ToHeader'' lto (Set ''X-FromHeader'' lfrom (SetHeader From_hdr fromh (Headers y)))));
           h2 = (if IsPRACKSupported s then AddHeader Supported_hdr ''100rel'' h1 else h1);
           h3 = SetHeader Contact_hdr (GenerateContact localsocket)
                  (AddHeader Via_hdr (GenerateViaWithoutBranch localsocket @ '';branch='' @ ViaBranch x) h2);
           h4 = forward_header Diversion_hdr lh (AddHeader Content_Disposition_hdr cd h3);
           h5 = forward_header History_Info_hdr lh (AddHeader Privacy_hdr priv (AddHeader Route_hdr route h4));
           h6 = add_custom (ValuesWithHeaderPrefix ''P-'' [] lh) h5;
           h7 = (if \<not> HeaderNameExists P_Asserted_Identity_hdr lh
                 then (case rewrite_name_addr pai (UDPAddr_String localsocket) '';transport=udp>'' of
                         Some v \<Rightarrow> AddHeader P_Asserted_Identity_hdr v h6
                       | None \<Rightarrow> h6)
                 else h6)
       in y\<lparr>MaxFwds := maxForwards, Headers := SetHeader Max_Forwards_hdr mf h7\<rparr>)
   }"

definition CreateLinkedINVITE :: "ss_id \<Rightarrow> string \<Rightarrow> body_id option \<Rightarrow> (tx_id \<times> msg_id) go" where
  "CreateLinkedINVITE i userpart body = do {
     to \<leftarrow> addOutgoingRequest i INVITE None;
     t \<leftarrow> deref 0 to;
     m \<leftarrow> new_msg ((NewRequestMessage INVITE userpart)\<lparr>Headers := NewSHsPointer True\<rparr>);
     upd_ss i (\<lambda>s. s\<lparr>Mymode := Multimedia\<rparr>);
     proxifyRequestHeaders i m t;
     processRequestHeaders i t m (request_pack INVITE) body;
     ret (t, m)
   }"

end
