(* ===== verification/Session_Ops.thy ===== *)
theory Session_Ops
  imports Sip_Requests
begin

text \<open>
  \<open>sip/session.go\<close>, second part, with \<open>RerouteRequest\<close> of \<open>sip/routing.go\<close>, the timer
  functions of \<open>sip/transaction.go\<close> and the incoming side of \<open>sip/sessionHelper.go\<close>: releasing,
  rejecting, cancelling and dropping sessions, what happens when a timer fires, and the
  transaction that an incoming message belongs to.
\<close>

text \<open>A function with \<open>defer LogCallStack()\<close>: a panic inside ends the function only.\<close>

definition protect :: "unit go \<Rightarrow> unit go" where
  "protect m = do { p \<leftarrow> asks w_panic; if p then ret () else do { m; recover } }"

section \<open>Dropping\<close>

text \<open>
  The effects of the first drop, one after the other under one lock: the probing channel is
  closed, the timers stop, the media port goes back, the session leaves the map.
\<close>

definition drop_session :: "ss_id \<Rightarrow> world \<Rightarrow> world" where
  "drop_session i w =
     (let s = w_ss w i in
      w\<lparr>w_ss := (w_ss w)(i := s\<lparr>probDone := True, maxDurationTimer := stop_timer (maxDurationTimer s),
                             probingTicker := stop_timer (probingTicker s), IsDisposed := True\<rparr>),
        w_pool := snd (ReleaseSocket (MediaConn s) (w_pool w)),
        w_Sessions := Delete_cm (CallID s) (w_Sessions w)\<rparr>)"

definition DropMe :: "ss_id \<Rightarrow> unit go" where
  "DropMe i = do {
     s \<leftarrow> get_ss i;
     if IsDisposed s then ret ()
     else if probDone s then panic
     else act (drop_session i)
   }"

definition DropMeTimed :: "ss_id \<Rightarrow> unit go" where
  "DropMeTimed i = act (\<lambda>w. w\<lparr>w_drops := w_drops w @ [i]\<rparr>)"

definition AddMe :: "ss_id \<Rightarrow> unit go" where
  "AddMe i = act (\<lambda>w. w\<lparr>w_Sessions := Store (CallID (w_ss w i)) i (w_Sessions w)\<rparr>)"

section \<open>Releasing\<close>

definition send_bye :: "ss_id \<Rightarrow> bool \<Rightarrow> int \<Rightarrow> string \<Rightarrow> tx_id option \<Rightarrow> unit go" where
  "send_bye i max70 cause details tr = do {
     h \<leftarrow> deref NewSipHeaders (NewSHQ850OrSIP cause details []);
     SendCreatedRequestDetailed i ((request_pack BYE)\<lparr>Max70 := max70, rq_CustomHeaders := h\<rparr>) tr None
   }"

definition release_one :: "ss_id \<Rightarrow> SessionState \<Rightarrow> string \<Rightarrow> tx_id option \<Rightarrow> bool go" where
  "release_one i st details tr = do {
     e \<leftarrow> IsEstablished i;
     if e then do { SetState i st; send_bye i True 0 details tr; ret True } else ret False
   }"

definition ReleaseMe :: "ss_id \<Rightarrow> string \<Rightarrow> tx_id option \<Rightarrow> bool go" where
  "ReleaseMe i details linkedTrans = release_one i BeingCleared details linkedTrans"

definition ReleaseCall :: "ss_id \<Rightarrow> string \<Rightarrow> (bool \<times> bool) go" where
  "ReleaseCall i details = do {
     s1 \<leftarrow> release_one i BeingDropped details None;
     s \<leftarrow> get_ss i;
     s2 \<leftarrow> (case LinkedSession s of
              Some l \<Rightarrow> release_one l BeingDropped details None
            | None \<Rightarrow> ret False);
     ret (s1, s2)
   }"

definition ReleaseEarlyFinalCall :: "ss_id \<Rightarrow> string \<Rightarrow> (bool \<times> bool) go" where
  "ReleaseEarlyFinalCall i details = do {
     b \<leftarrow> IsBeingEstablished i;
     s1 \<leftarrow> (if b then do {
              SetState i BeingFailed;
              h \<leftarrow> deref NewSipHeaders (NewSHQ850OrSIP 0 details []);
              SendCreatedResponseDetailed i None ((response_pack status_NotAcceptable)\<lparr>rp_CustomHeaders := h\<rparr>) None;
              ret True
            } else ret False);
     s \<leftarrow> get_ss i;
     s2 \<leftarrow> (case LinkedSession s of
              Some l \<Rightarrow> release_one l BeingDropped details None
            | None \<Rightarrow> ret False);
     ret (s1, s2)
   }"

definition CancelMe :: "ss_id \<Rightarrow> int \<Rightarrow> string \<Rightarrow> bool go" where
  "CancelMe i q850 details = do {
     s \<leftarrow> get_ss i;
     if Direction_ss s \<noteq> OUTBOUND then ret False else do {
       b \<leftarrow> IsBeingEstablished i;
       if b then do {
         StopNoTimers i;
         SetState i BeingCancelled;
         (if q850 = - 1 \<or> details = [] then SendCreatedRequest i CANCEL None None
          else do {
            h \<leftarrow> deref NewSipHeaders (NewSHQ850OrSIP q850 details []);
            SendCreatedRequestDetailed i ((request_pack CANCEL)\<lparr>rq_CustomHeaders := h\<rparr>) None None
          });
         ret True
       } else ret False
     }
   }"

definition RejectMe :: "ss_id \<Rightarrow> tx_id option \<Rightarrow> int \<Rightarrow> int \<Rightarrow> string \<Rightarrow> bool go" where
  "RejectMe i tr stsCode q850 details = do {
     s \<leftarrow> get_ss i;
     if Direction_ss s \<noteq> INBOUND then ret False else do {
       b \<leftarrow> IsBeingEstablished i;
       if b then do {
         SetState i BeingFailed;
         h \<leftarrow> deref NewSipHeaders (NewSHQ850OrSIP q850 details []);
         SendCreatedResponseDetailed i tr ((response_pack stsCode)\<lparr>rp_CustomHeaders := h\<rparr>) None;
         ret True
       } else ret False
     }
   }"

definition Ack3xxTo6xx :: "ss_id \<Rightarrow> SessionState \<Rightarrow> unit go" where
  "Ack3xxTo6xx i finalstate = do {
     s \<leftarrow> get_ss i;
     when (Direction_ss s = OUTBOUND)
       (do { SetState i finalstate; SendCreatedRequest i ACK None None; DropMeTimed i })
   }"

definition Ack3xxTo6xxFinalize :: "ss_id \<Rightarrow> unit go" where
  "Ack3xxTo6xxFinalize i = do {
     s \<leftarrow> get_ss i;
     when (Direction_ss s = OUTBOUND)
       (do { FinalizeState i; SendCreatedRequest i ACK None None; DropMeTimed i })
   }"

text \<open>Rerouting rejects the caller: the nil session is answered by doing nothing.\<close>

definition reroute_reason :: "int \<Rightarrow> string" where
  "reroute_reason sc =
     (if sc = 487 then ''NOANSWER'' else if sc = 408 then ''UNREACHABLE'' else ''REJECTED'')"

definition RerouteRequest :: "ss_id option \<Rightarrow> ResponsePack \<Rightarrow> unit go" where
  "RerouteRequest ss1 rspnspk =
     protect
       (case ss1 of
          None \<Rightarrow> ret ()
        | Some i \<Rightarrow> do {
            tr1 \<leftarrow> asks (GetLastUnACKedINV i INBOUND);
            if tr1 = None then ret () else do {
              b \<leftarrow> IsBeingEstablished i;
              if b then do {
                upd_ss i (\<lambda>s. s\<lparr>LinkedSession := None\<rparr>);
                _ \<leftarrow> RejectMe i tr1 (rp_StatusCode rspnspk) q850_NormalUnspecified
                       (reroute_reason (rp_StatusCode rspnspk));
                ret ()
              } else ret ()
            }
          })"

section \<open>A transaction without an answer\<close>

definition pack_SRW :: "int \<Rightarrow> string \<Rightarrow> string \<Rightarrow> ResponsePack go" where
  "pack_SRW stc warning reason = deref (response_pack stc) (NewResponsePackSRW stc warning reason)"

definition check_INVITE :: "ss_id \<Rightarrow> tx_id \<Rightarrow> unit go" where
  "check_INVITE i t = do {
     p \<leftarrow> IsPending_ss i;
     when p (do { SetState i TimedOut; DropMe i });
     s \<leftarrow> get_ss i;
     x \<leftarrow> get_tx t;
     case LinkedSession s of
       None \<Rightarrow> ret ()
     | Some l \<Rightarrow>
         if Direction_tx x = INBOUND then do {
           ls \<leftarrow> get_ss l;
           if Direction_ss ls = OUTBOUND then do {
             b \<leftarrow> IsBeingEstablished l;
             r \<leftarrow> (if b then Received200 l else ret False);
             if r then do {
               SendCreatedRequest l ACK None None;
               SetState l BeingDropped;
               send_bye l False 487 ''Inbound INVITE timed-out'' None
             } else do { _ \<leftarrow> CancelMe l 31 ''Caller timed-out''; ret () }
           } else ret ()
         } else do {
           rp \<leftarrow> pack_SRW 408 ''Outbound INVITE timed-out'' [];
           RerouteRequest (Some l) rp
         }
   }"

definition CheckPendingTransaction :: "ss_id \<Rightarrow> tx_id \<Rightarrow> unit go" where
  "CheckPendingTransaction i t = do {
     x \<leftarrow> get_tx t;
     s \<leftarrow> get_ss i;
     if Method_tx x = OPTIONS then
       (if Mymode s = KeepAlive then do { SetState i TimedOut; DropMe i }
        else if Mymode s = Multimedia \<and> Direction_ss s = INBOUND \<and> Direction_tx x = OUTBOUND \<and> IsProbing x
        then do { _ \<leftarrow> ReleaseCall i ''Probing timed-out''; ret () }
        else ret ())
     else if Method_tx x = INVITE then check_INVITE i t
     else if Method_tx x = CANCEL \<or> Method_tx x = BYE then do { FinalizeState i; DropMe i }
     else if Method_tx x = PRACK then do {
       StopNoTimers i;
       rp \<leftarrow> pack_SRW 408 ''Outbound PRACK timed-out'' [];
       RerouteRequest (LinkedSession s) rp;
       SetState i Failed;
       DropMe i
     }
     else do {
       (s1, s2) \<leftarrow> ReleaseCall i (''In-dialogue '' @ Method_String (Method_tx x) @ '' timed-out'');
       when (\<not> s1) (DropMe i);
       (case LinkedSession s of
          Some l \<Rightarrow> when (\<not> s2) (DropMe l)
        | None \<Rightarrow> ret ())
     }
   }"

section \<open>Timers that fire\<close>

definition transTimerHandler :: "tx_id \<Rightarrow> ss_id \<Rightarrow> unit go" where
  "transTimerHandler t i = do {
     x \<leftarrow> get_tx t;
     if ReTXCount_max \<le> ReTXCount x then do {
       upd_tx t (\<lambda>y. y\<lparr>Timer := TNil\<rparr>);
       CheckPendingTransaction i t
     } else do {
       Send i t;
       upd_tx t (\<lambda>y. y\<lparr>ReTXCount := ReTXCount y + 1, TransTimeOut := 2 * TransTimeOut y, Timer := TArmed i\<rparr>)
     }
   }"

definition cancelTimerHandler :: "ss_id \<Rightarrow> unit go" where
  "cancelTimerHandler i = do {
     f \<leftarrow> IsFinalized_ss i;
     if f then ret () else do { FinalizeState i; DropMe i }
   }"

definition timerHandler :: "ss_id \<Rightarrow> TimerType \<Rightarrow> unit go" where
  "timerHandler i tt = do {
     upd_ss i (\<lambda>x. if tt = NoAnswer then x\<lparr>noAnsSTimer := TNil\<rparr> else x\<lparr>no18xSTimer := TNil\<rparr>);
     s \<leftarrow> get_ss i;
     _ \<leftarrow> CancelMe i q850_NoAnswerFromUser (Details tt);
     rp \<leftarrow> pack_SRW 487 ''No response from far end'' [];
     RerouteRequest (LinkedSession s) rp
   }"

definition probingTickerHandler :: "ss_id \<Rightarrow> unit go" where
  "probingTickerHandler i = do {
     e \<leftarrow> IsEstablished i;
     when e (SendCreatedRequestDetailed i ((request_pack OPTIONS)\<lparr>Max70 := True, rq_IsProbing := True\<rparr>) None None)
   }"

definition maxDurationHandler :: "ss_id \<Rightarrow> unit go" where
  "maxDurationHandler i = do { _ \<leftarrow> ReleaseCall i ''Max call duration reached''; ret () }"

section \<open>The transaction of an incoming request\<close>

definition bye_arrived :: "ss_id \<Rightarrow> unit go" where
  "bye_arrived i = do {
     outs \<leftarrow> asks (GetPendingOutgoingTransactions i);
     for_each StopTransTimer outs;
     ins \<leftarrow> asks (GetPendingIncomingTransactions i);
     for_each (\<lambda>t. do {
         x \<leftarrow> get_tx t;
         when (Method_tx x = INVITE \<and> IsFinalized_tx x \<and> \<not> IsACKed x)
           (do { StopTransTimer t; CheckPendingTransaction i t })
       }) ins
   }"

definition add_ACK :: "ss_id \<Rightarrow> msg_id \<Rightarrow> tx_id option go" where
  "add_ACK i mid = do {
     m \<leftarrow> get_msg mid;
     r \<leftarrow> asks (GetReOrInviteTransaction i (CSeqNum m) True);
     case r of
       None \<Rightarrow> ret None
     | Some t \<Rightarrow> do {
         x \<leftarrow> get_tx t;
         if IsACKed x then ret None
         else if RequireSameViaBranch x = (ViaBranch x = sm_ViaBranch m) then do {
           upd_tx t (\<lambda>y. y\<lparr>IsACKed := True\<rparr>);
           StopTransTimer t;
           ret (Some t)
         } else ret None
       }
   }"

definition add_RT :: "ss_id \<Rightarrow> msg_id \<Rightarrow> tx_id option \<Rightarrow> tx_id go" where
  "add_RT i mid lt = do { st \<leftarrow> NewSIPTransaction_RT mid lt i; AddTransaction i st; ret st }"

definition add_CANCEL :: "ss_id \<Rightarrow> msg_id \<Rightarrow> tx_id option \<Rightarrow> tx_id option go" where
  "add_CANCEL i mid lt = do {
     m \<leftarrow> get_msg mid;
     r \<leftarrow> asks (GetReOrInviteTransaction i (CSeqNum m) False);
     case r of
       None \<Rightarrow> do { st \<leftarrow> add_RT i mid lt; ret (Some st) }
     | Some t \<Rightarrow> do {
         x \<leftarrow> get_tx t;
         if ViaBranch x = sm_ViaBranch m then do { st \<leftarrow> add_RT i mid (Some t); ret (Some st) }
         else ret None
       }
   }"

definition add_RP :: "ss_id \<Rightarrow> PRACKStatus \<Rightarrow> tx_id go" where
  "add_RP i st = do { t \<leftarrow> NewSIPTransaction_RP 0 st; AddTransaction i t; ret t }"

definition add_PRACK :: "ss_id \<Rightarrow> msg_id \<Rightarrow> tx_id option go" where
  "add_PRACK i mid = do {
     m \<leftarrow> get_msg mid;
     rack \<leftarrow> deref None (GetRSeqFromRAck m);
     st \<leftarrow> (case rack of
              Some (rSeq, cSeq) \<Rightarrow> do {
                r \<leftarrow> GetPRACKTransaction i rSeq cSeq;
                case r of Some t \<Rightarrow> ret t | None \<Rightarrow> add_RP i PRACKUnexpected
              }
            | None \<Rightarrow> add_RP i PRACKMissingBadRAck);
     upd_tx st (\<lambda>x. x\<lparr>RequestMessage := Some mid, CSeq := CSeqNum m, ViaBranch := sm_ViaBranch m\<rparr>);
     ret (Some st)
   }"

definition add_other :: "ss_id \<Rightarrow> msg_id \<Rightarrow> tx_id option \<Rightarrow> tx_id option go" where
  "add_other i mid lt = do {
     m \<leftarrow> get_msg mid;
     dup \<leftarrow> asks (IsDuplicateINVITE i m);
     if GetMethod m = INVITE \<and> dup then ret None else do {
       st \<leftarrow> NewSIPTransaction_RT mid lt i;
       s \<leftarrow> get_ss i;
       when (IsDialogueCreating (GetMethod m) \<and> Direction_ss s = INBOUND) (do {
         upd_ss i (\<lambda>y. y\<lparr>FromHeader := sm_FromHeader m, ToHeader := sm_ToHeader m, FromTag := sm_FromTag m\<rparr>);
         upd_tx st (\<lambda>y. y\<lparr>From := sm_FromHeader m, To := sm_ToHeader m, RequestMessage := Some mid\<rparr>)
       });
       AddTransaction i st;
       ret (Some st)
     }
   }"

definition addIncomingRequest :: "ss_id \<Rightarrow> msg_id \<Rightarrow> tx_id option \<Rightarrow> tx_id option go" where
  "addIncomingRequest i mid lt = do {
     m \<leftarrow> get_msg mid;
     let rType = GetMethod m;
     when (rType = BYE) (bye_arrived i);
     if rType = ACK then add_ACK i mid
     else if rType = CANCEL then add_CANCEL i mid lt
     else if rType = PRACK then add_PRACK i mid
     else add_other i mid lt
   }"

section \<open>The transaction of an incoming response\<close>

definition addIncomingResponse :: "ss_id \<Rightarrow> msg_id \<Rightarrow> tx_id option go" where
  "addIncomingResponse i mid = do {
     m \<leftarrow> get_msg mid;
     r \<leftarrow> asks (GetTransaction i m);
     case r of
       None \<Rightarrow> ret None
     | Some t \<Rightarrow> do {
         let rc = GetStatusCode m;
         StopTransTimer t;
         upd_tx t (\<lambda>x. x\<lparr>Responses := Responses x @ [rc], IsFinalized_tx := IsFinalized_tx x \<or> 200 \<le> rc\<rparr>);
         x \<leftarrow> get_tx t;
         when (IsFinalized_tx x)
           (if Method_tx x = CANCEL then do { l \<leftarrow> deref 0 (LinkedTransaction x); StartCancelTimer l i }
            else if Method_tx x = INVITE then StopCancelTimer t
            else ret ());
         s \<leftarrow> get_ss i;
         when (sm_ToTag m \<noteq> [] \<and> Direction_ss s = OUTBOUND \<and> ToTag s = []) (do {
           th \<leftarrow> deref [] (ValueHeader To_hdr (Headers m));
           upd_ss i (\<lambda>y. y\<lparr>ToTag := sm_ToTag m, ToHeader := th\<rparr>);
           upd_tx t (\<lambda>y. y\<lparr>To := th\<rparr>)
         });
         ret (Some t)
       }
   }"

end
