(* ===== verification/Routing_Ops.thy ===== *)
theory Routing_Ops
  imports Session_Ops
begin

text \<open>
  \<open>sip/routing.go\<close>: routing a new call to its second leg, by the external application server
  or by the internal routing table, the echo responder, REFER and probing. The goroutines
  that copy media packets are input and output only and are not modelled; the two seconds
  before an echo call is answered are a pending entry of the world.
\<close>

section \<open>Small steps on the world\<close>

text \<open>\<open>KeepOnlyBodyPart\<close> and \<open>AddRequestedBodyParts\<close> on the stores.\<close>

definition write_body :: "body_id option \<Rightarrow> MessageBody option \<Rightarrow> unit go" where
  "write_body b mb =
     (case (b, mb) of (Some n, Some x) \<Rightarrow> upd_body n (\<lambda>_. x) | _ \<Rightarrow> ret ())"

definition keep_body_part :: "msg_id \<Rightarrow> BodyType \<Rightarrow> bool go" where
  "keep_body_part mid bt = do {
     m \<leftarrow> get_msg mid;
     mb \<leftarrow> get_body (Body m);
     (ok, mb', m') \<leftarrow> deref (False, mb, m) (KeepOnlyBodyPart bt mb m);
     upd_msg mid (\<lambda>_. m');
     write_body (Body m) mb';
     ret ok
   }"

definition add_body_parts :: "msg_id \<Rightarrow> unit go" where
  "add_body_parts mid = do {
     m \<leftarrow> get_msg mid;
     mb \<leftarrow> get_body (Body m);
     (mb', m') \<leftarrow> deref (mb, m) (AddRequestedBodyParts mb m);
     upd_msg mid (\<lambda>_. m');
     write_body (Body m) mb'
   }"

definition reserve_socket :: "ss_id \<Rightarrow> bool go" where
  "reserve_socket i = do {
     n \<leftarrow> next_seed;
     e \<leftarrow> asks w_env;
     pool \<leftarrow> asks w_pool;
     let (p, pool') = ReserveSocket (e_listen e n) pool;
     act (\<lambda>w. w\<lparr>w_pool := pool'\<rparr>);
     upd_ss i (\<lambda>s. s\<lparr>MediaConn := p\<rparr>);
     ret (p \<noteq> None)
   }"

text \<open>Reading a phone's agent through a nil pointer panics.\<close>

definition ua_socket :: "nat option \<Rightarrow> UdpSocket option go" where
  "ua_socket u = do {
     n \<leftarrow> deref 0 u;
     uas \<leftarrow> asks w_uas;
     ret (if n < length uas then udpSkt (uas ! n) else None)
   }"

definition socket_addr :: "UdpSocket option \<Rightarrow> UDPAddr option go" where
  "socket_addr s = do {
     x \<leftarrow> deref \<lparr>addr = None, hostOrIP = None, port = None\<rparr> s;
     ret (addr x)
   }"

definition reject :: "ss_id \<Rightarrow> tx_id \<Rightarrow> int \<Rightarrow> int \<Rightarrow> string \<Rightarrow> unit go" where
  "reject i t sc q850 details = do { _ \<leftarrow> RejectMe i (Some t) sc q850 details; ret () }"

text \<open>
  The checks on a registered phone, in the order of the code: the agent's socket is read
  before the phone is known to be registered and reachable. The result says whether to go on.
\<close>

definition check_phone :: "ss_id \<Rightarrow> tx_id \<Rightarrow> msg_id \<Rightarrow> IPPhone \<Rightarrow> bool go" where
  "check_phone i1 t1 m1 ph = do {
     skt \<leftarrow> ua_socket (UA ph);
     upd_ss i1 (\<lambda>s. s\<lparr>RoutingData := map_option (\<lambda>rd. rd\<lparr>RemoteUDPSocket := skt\<rparr>) (RoutingData s)\<rparr>);
     if \<not> IsRegistered ph then do {
       reject i1 t1 status_TemporarilyUnavailable q850_NoAnswerFromUser ''target not registered'';
       ret False
     } else if \<not> IsReachable ph then do {
       reject i1 t1 status_DoesNotExistAnywhere q850_NoRouteToDestination ''target not reachable'';
       ret False
     } else do {
       ok \<leftarrow> keep_body_part m1 SDP;
       if \<not> ok then do {
         reject i1 t1 status_NotAcceptableHere q850_BearerCapabilityNotAvailable ''no remaining body'';
         ret False
       } else ret True
     }
   }"

text \<open>The second session is linked with the first; the INVITE goes out if the first still waits.\<close>

definition link_sessions :: "ss_id \<Rightarrow> ss_id \<Rightarrow> unit go" where
  "link_sessions i1 i2 = do {
     upd_ss i2 (\<lambda>s. s\<lparr>LinkedSession := Some i1\<rparr>);
     upd_ss i1 (\<lambda>s. s\<lparr>LinkedSession := Some i2\<rparr>)
   }"

definition launch :: "ss_id \<Rightarrow> ss_id \<Rightarrow> tx_id \<Rightarrow> unit go" where
  "launch i1 i2 t2 = do {
     b \<leftarrow> IsBeingEstablished i1;
     if \<not> b then ret () else do {
       SetState i2 BeingEstablished;
       AddMe i2;
       SendSTMessage i2 t2
     }
   }"

section \<open>The external application server\<close>

definition external_target :: "ss_id \<Rightarrow> tx_id \<Rightarrow> msg_id \<Rightarrow> bool go" where
  "external_target i1 t1 m1 = do {
     s1 \<leftarrow> get_ss i1;
     if RoutingData s1 \<noteq> None then ret True else do {
       m \<leftarrow> get_msg m1;
       let up = UserPart (sm_StartLine m);
       upd_ss i1 (\<lambda>s. s\<lparr>RoutingData := Some (zero_RoutingRecord\<lparr>NoAnswerTimeout := 180, No18xTimeout := 60,
                                               OutRuriUserpart := up\<rparr>)\<rparr>);
       as \<leftarrow> asks w_ASUserAgent;
       skt \<leftarrow> ua_socket as;
       asskt \<leftarrow> socket_addr skt;
       if AreUdpAddrsEqual (remoteUDP s1) asskt then do {
         ph \<leftarrow> asks (\<lambda>w. Get (w_phones w) up);
         case ph of
           Some p \<Rightarrow> check_phone i1 t1 m1 p
         | None \<Rightarrow> do {
             reject i1 t1 status_NotFound q850_UnallocatedNumber ''No target found'';
             ret False
           }
       } else do {
         upd_ss i1 (\<lambda>s. s\<lparr>RoutingData := map_option (\<lambda>rd. rd\<lparr>RemoteUDPSocket := skt\<rparr>) (RoutingData s)\<rparr>);
         add_body_parts m1;
         ret True
       }
     }
   }"

definition RouteRequestExternal :: "ss_id \<Rightarrow> tx_id \<Rightarrow> msg_id \<Rightarrow> unit go" where
  "RouteRequestExternal i1 t1 m1 =
     protect (do {
       go_on \<leftarrow> external_target i1 t1 m1;
       if \<not> go_on then ret () else do {
         s1 \<leftarrow> get_ss i1;
         m \<leftarrow> get_msg m1;
         rd \<leftarrow> deref zero_RoutingRecord (RoutingData s1);
         dst \<leftarrow> socket_addr (RemoteUDPSocket rd);
         i2 \<leftarrow> new_ss ((NewSS OUTBOUND)\<lparr>remoteUDP := dst, udpListenser := udpListenser s1,
                  RoutingData := Some rd, IsDelayedOfferCall := IsDelayedOfferCall s1\<rparr>);
         link_sessions i1 i2;
         (t2, _) \<leftarrow> CreateLinkedINVITE i2 (OutRuriUserpart rd) (Body m);
         upd_ss i2 (\<lambda>s. s\<lparr>IsPRACKSupported := IsPRACKSupported s1\<rparr>);
         launch i1 i2 t2
       }
     })"

section \<open>The echo responder\<close>

definition answerEchoCall :: "ss_id \<Rightarrow> tx_id \<Rightarrow> msg_id \<Rightarrow> unit go" where
  "answerEchoCall i t mid = do {
     e \<leftarrow> asks w_env;
     let lib = e_sdp e;
     m \<leftarrow> get_msg mid;
     mb0 \<leftarrow> get_body (Body m);
     mb \<leftarrow> deref NewBody mb0;
     case sdp_Parse lib (part_bytes SDP mb) of
       None \<Rightarrow> reject i t status_NotAcceptableHere q850_FacilityRejected ''Bad SDP in echo call''
     | Some sdp1 \<Rightarrow> do {
         ok \<leftarrow> reserve_socket i;
         if \<not> ok then
           reject i t status_ServiceUnavailable q850_ResourceUnavailableUnspecified
             ''No media port available for ingress''
         else case sdp_BuildEchoResponderAnswer lib sdp1 of
           Inl err \<Rightarrow> reject i t status_ServerInternalError q850_NormalUnspecified err
         | Inr sdp2 \<Rightarrow> do {
             SendCreatedResponse i (Some t) 180 None;
             act (\<lambda>w. w\<lparr>w_echo := w_echo w @ [\<lparr>ew_ss = i, ew_tx = t, ew_msg = mid, ew_answer = sdp2,
                                            ew_held = sdp_IsCallHeld lib sdp1\<rparr>]\<rparr>)
           }
       }
   }"

text \<open>
  The second half of \<open>answerEchoCall\<close>, after its sleep of two seconds. The sleep blocks the worker,
  so what else the datagram holds waits for it; here it is an event of its own, which comes at
  some time after, like all that the other workers do meanwhile.
\<close>

definition finishEchoCall :: "echo_wait \<Rightarrow> unit go" where
  "finishEchoCall ew =
     protect (do {
       b \<leftarrow> IsBeingEstablished (ew_ss ew);
       if \<not> b then ret () else do {
         m \<leftarrow> get_msg (ew_msg ew);
         bid \<leftarrow> deref 0 (Body m);
         upd_body bid (\<lambda>x. x\<lparr>SdpSession := Some (ew_answer ew)\<rparr>);
         SendCreatedResponse (ew_ss ew) (Some (ew_tx ew)) 200 (Body m);
         upd_ss (ew_ss ew) (\<lambda>s. s\<lparr>isHeld := ew_held ew\<rparr>)
       }
     })"

section \<open>The internal routing table\<close>

definition route_call :: "ss_id \<Rightarrow> tx_id \<Rightarrow> msg_id \<Rightarrow> string \<Rightarrow> unit go" where
  "route_call i1 t1 m1 upart2 = do {
     s1 \<leftarrow> get_ss i1;
     rd \<leftarrow> deref zero_RoutingRecord (RoutingData s1);
     ok1 \<leftarrow> (if SteerMedia rd then reserve_socket i1 else ret True);
     if \<not> ok1 then
       reject i1 t1 status_ServiceUnavailable q850_ResourceUnavailableUnspecified
         ''No media port available for ingress''
     else do {
       proxy \<leftarrow> asks w_ProxyUdpServer;
       i2 \<leftarrow> new_ss ((NewSS OUTBOUND)\<lparr>EgressProxy := proxy,
                remoteUDP := (case RemoteUDPSocket rd of
                                None \<Rightarrow> remoteUDP s1
                              | Some k \<Rightarrow> if addr k = None then remoteUDP s1 else addr k),
                udpListenser := udpListenser s1, RoutingData := Some rd,
                IsDelayedOfferCall := IsDelayedOfferCall s1,
                IsPRACKSupported := (OutCallFlow rd = Transparent \<and> IsPRACKSupported s1)\<rparr>);
       link_sessions i1 i2;
       ok2 \<leftarrow> (if SteerMedia rd then reserve_socket i2 else ret True);
       if \<not> ok2 then do {
         DropMe i2;
         reject i1 t1 status_ServiceUnavailable q850_ResourceUnavailableUnspecified
           ''No media port available for egress''
       } else do {
         m \<leftarrow> get_msg m1;
         (t2, _) \<leftarrow> CreateLinkedINVITE i2 upart2 (Body m);
         upd_ss i2 (\<lambda>s. s\<lparr>TransformEarlyToFinal := (OutCallFlow rd = TransformEarlyToFinal_flow)\<rparr>);
         launch i1 i2 t2
       }
     }
   }"

definition route_by_table :: "ss_id \<Rightarrow> tx_id \<Rightarrow> msg_id \<Rightarrow> RoutingRecord \<Rightarrow> string \<Rightarrow> unit go" where
  "route_by_table i1 t1 m1 rd upart2 = do {
     s1 \<leftarrow> get_ss i1;
     m \<leftarrow> get_msg m1;
     mb \<leftarrow> get_body (Body m);
     let go_on =
       (if No18xTimeout rd \<le> 0 \<and> NoAnswerTimeout rd \<le> 0 then
          reject i1 t1 status_ServiceUnavailable q850_NormalUnspecified
            ''Answer and 18x Timeouts cannot be both disabled''
        else route_call i1 t1 m1 upart2);
     case OutCallFlow rd of
       EchoResponder \<Rightarrow>
         if IsDelayedOfferCall s1 then
           reject i1 t1 status_NotAcceptableHere q850_BearerCapabilityNotAvailable ''Delayed offer not supported''
         else do {
           b \<leftarrow> deref NewBody mb;
           if \<not> body_ContainsSDP b then
             reject i1 t1 status_NotAcceptableHere q850_BearerCapabilityNotAvailable ''No SDP in echo call''
           else answerEchoCall i1 t1 m1
         }
     | TransformEarlyToFinal_flow \<Rightarrow>
         if IsDelayedOfferCall s1 then
           reject i1 t1 status_NotAcceptableHere q850_BearerCapabilityNotAvailable ''Delayed offer not supported''
         else go_on
     | _ \<Rightarrow> go_on
   }"

definition RouteRequestInternal :: "ss_id \<Rightarrow> tx_id \<Rightarrow> msg_id \<Rightarrow> unit go" where
  "RouteRequestInternal i1 t1 m1 =
     protect (do {
       m \<leftarrow> get_msg m1;
       let upart = UserPart (sm_StartLine m);
       ph \<leftarrow> asks (\<lambda>w. Get (w_phones w) upart);
       case ph of
         Some p \<Rightarrow> do {
           upd_ss i1 (\<lambda>s. s\<lparr>RoutingData := Some (zero_RoutingRecord\<lparr>NoAnswerTimeout := 60, No18xTimeout := 30,
                             MaxCallDuration := 7200, OutRuriUserpart := upart\<rparr>)\<rparr>);
           ok \<leftarrow> check_phone i1 t1 m1 p;
           if ok then route_call i1 t1 m1 upart else ret ()
         }
       | None \<Rightarrow> do {
           routes \<leftarrow> asks w_routes;
           r \<leftarrow> deref None (Get_route routes upart);
           upd_ss i1 (\<lambda>s. s\<lparr>RoutingData := map_option fst r\<rparr>);
           case r of
             Some (rd, upart2) \<Rightarrow> route_by_table i1 t1 m1 rd upart2
           | None \<Rightarrow> reject i1 t1 status_NotFound q850_UnallocatedNumber ''No target found''
         }
     })"

section \<open>REFER and probing\<close>

definition pack_RFWarning :: "int \<Rightarrow> string \<Rightarrow> ResponsePack go" where
  "pack_RFWarning stc warning = deref (response_pack stc) (NewResponsePackRFWarning stc [] warning)"

definition HandleRefer :: "ss_id \<Rightarrow> tx_id \<Rightarrow> SipMessage \<Rightarrow> unit go" where
  "HandleRefer i t m = do {
     r \<leftarrow> deref (Inr []) (GetReferToRUIR m);
     case r of
       Inl errmsg \<Rightarrow> do {
         rp \<leftarrow> pack_RFWarning status_BadRequest errmsg;
         SendCreatedResponseDetailed i (Some t) rp None
       }
     | Inr _ \<Rightarrow> do {
         upd_ss i (\<lambda>s. let sub = \<not> WithNoReferSubscription m
                        in s\<lparr>ReferSubscription := sub,
                             Relayed18xNotify := (if sub then [] else Relayed18xNotify s)\<rparr>);
         SendCreatedResponse i (Some t) status_OK None
       }
   }"

definition probe_headers :: SipHeaders where
  "probe_headers = AddHeader Accept_hdr ''application/sdp''
     (AddHeader Subject_hdr ''Out-of-dialogue keep-alive'' NewSipHeaders)"

definition ProbeUA :: "UDPAddr option \<Rightarrow> nat option \<Rightarrow> unit go" where
  "ProbeUA conn ua =
     (case (conn, ua) of
        (Some c, Some n) \<Rightarrow> do {
          skt \<leftarrow> ua_socket ua;
          a \<leftarrow> socket_addr skt;
          i \<leftarrow> new_ss ((NewSS OUTBOUND)\<lparr>remoteUDP := a, udpListenser := conn, RemoteUserAgent := ua\<rparr>);
          t \<leftarrow> CreateSARequest i ((request_pack OPTIONS)\<lparr>Max70 := True, rq_CustomHeaders := probe_headers,
                  RUriUP := ''ping'', FromUP := ''ping'', rq_IsProbing := True\<rparr>) None;
          SetState i BeingProbed;
          AddMe i;
          SendSTMessage i t
        }
      | _ \<Rightarrow> ret ())"

text \<open>One tick of \<open>periodicUAProbing\<close>: the application server, then the phones in use.\<close>

definition periodicUAProbing :: "UDPAddr option \<Rightarrow> unit go" where
  "periodicUAProbing conn = do {
     as \<leftarrow> asks w_ASUserAgent;
     ProbeUA conn as;
     phs \<leftarrow> asks (\<lambda>w. All (w_phones w));
     for_each (\<lambda>p. when (IsReachable p \<and> IsRegistered p) (ProbeUA conn (UA p))) phs
   }"

end
