(* ===== verification/Sip_Stack.thy ===== *)
theory Sip_Stack
  imports Routing_Ops
begin

text \<open>
  \<open>sip/stack.go\<close>: finding the session of a parsed message, and the handling of the message by
  its kind and its session's state. \<open>process_message\<close> is the body of the loop of
  \<open>processPacket\<close> in \<open>sip/init.go\<close> after the parser.
\<close>

section \<open>Finding or making the session\<close>

text \<open>
  A new key is stored and counted; \<open>ExceedCondition\<close> asks the limiter for an inbound session.
\<close>

definition store_session :: "string \<Rightarrow> ss_id \<Rightarrow> bool go" where
  "store_session callID i = do {
     act (\<lambda>w. w\<lparr>w_Sessions := Store callID i (w_Sessions w)\<rparr>);
     s \<leftarrow> get_ss i;
     if Direction_ss s = INBOUND then do {
       l \<leftarrow> asks w_limiter;
       act (\<lambda>w. w\<lparr>w_limiter := snd (AcceptNewCall l)\<rparr>);
       ret (\<not> fst (AcceptNewCall l))
     } else ret False
   }"

definition classify_INVITE :: "ss_id \<Rightarrow> SipMessage \<Rightarrow> bool \<Rightarrow> NewSessionType go" where
  "classify_INVITE i m exceededRate = do {
     mb \<leftarrow> get_body (Body m);
     prack \<leftarrow> deref False (IsOptionSupported ''100rel'' m);
     upd_ss i (\<lambda>s. s\<lparr>Mymode := Multimedia, IsPRACKSupported := prack,
                     IsDelayedOfferCall := \<not> ContainsSDP mb\<rparr>);
     SetState i BeingEstablished;
     ret (if \<not> IsKnownRURIScheme m then UnsupportedURIScheme
          else if WithUnknownBodyPart mb then UnsupportedBody
          else if HeaderExists ''Require'' (Headers m) then WithRequireHeader
          else if MaxFwds m \<le> MinMaxFwds then TooLowMaxForwards
          else if exceededRate then ExceededCallRate
          else ValidRequest)
   }"

definition new_session_type :: "ss_id \<Rightarrow> SipMessage \<Rightarrow> bool \<Rightarrow> NewSessionType go" where
  "new_session_type i m exceededRate =
     (if sm_ToTag m \<noteq> [] then ret CallLegTransactionNotExist
      else case GetMethod m of
        INVITE \<Rightarrow> classify_INVITE i m exceededRate
      | MESSAGE \<Rightarrow> do { upd_ss i (\<lambda>s. s\<lparr>Mymode := Messaging\<rparr>); ret ValidRequest }
      | SUBSCRIBE \<Rightarrow> do { upd_ss i (\<lambda>s. s\<lparr>Mymode := Subscription\<rparr>); ret ValidRequest }
      | OPTIONS \<Rightarrow> do { upd_ss i (\<lambda>s. s\<lparr>Mymode := KeepAlive\<rparr>); ret ValidRequest }
      | REGISTER \<Rightarrow> do { upd_ss i (\<lambda>s. s\<lparr>Mymode := Registration\<rparr>); ret ValidRequest }
      | REFER \<Rightarrow> ret InvalidRequest
      | NOTIFY \<Rightarrow> ret InvalidRequest
      | UPDATE \<Rightarrow> ret InvalidRequest
      | PRACK \<Rightarrow> ret InvalidRequest
      | INFO \<Rightarrow> ret InvalidRequest
      | PUBLISH \<Rightarrow> ret InvalidRequest
      | NEGOTIATE \<Rightarrow> ret InvalidRequest
      | ACK \<Rightarrow> ret UnExpectedMessage
      | _ \<Rightarrow> ret CallLegTransactionNotExist)"

definition sessionGetter :: "SipMessage \<Rightarrow> (ss_id option \<times> NewSessionType) go" where
  "sessionGetter m = do {
     found \<leftarrow> asks (\<lambda>w. Load (w_Sessions w) (sm_CallID m));
     case found of
       Some i \<Rightarrow>
         if GetMethod m = INVITE then ret (Some i, DuplicateMessage)
         else do {
           d \<leftarrow> IsDuplicateMessage i m;
           ret (Some i, if d then DuplicateMessage else ValidRequest)
         }
     | None \<Rightarrow>
         if IsResponse m then ret (None, Response)
         else do {
           i \<leftarrow> new_ss (NewSIPSession m);
           exceededRate \<leftarrow> store_session (sm_CallID m) i;
           ty \<leftarrow> new_session_type i m exceededRate;
           ret (Some i, ty)
         }
   }"

section \<open>Requests that are refused at once\<close>

definition handle_refused :: "ss_id \<Rightarrow> tx_id \<Rightarrow> SipMessage \<Rightarrow> NewSessionType \<Rightarrow> bool go" where
  "handle_refused i t m ty =
     (case ty of
        Response \<Rightarrow> ret True
      | UnExpectedMessage \<Rightarrow> do { DropMe i; ret True }
      | TooLowMaxForwards \<Rightarrow> do {
          reject i t status_TooManyHops q850_NoRCProvided ''INVITE with too low MF''; ret True }
      | WithRequireHeader \<Rightarrow> do {
          reject i t status_BadExtension q850_NoRCProvided ''INVITE with Require header''; ret True }
      | UnsupportedURIScheme \<Rightarrow> do {
          reject i t status_UnsupportedURIScheme q850_NoRCProvided ''URI scheme unsupported''; ret True }
      | UnsupportedBody \<Rightarrow> do {
          reject i t status_UnsupportedMediaType q850_NoRCProvided ''Message body unsupported''; ret True }
      | ExceededCallRate \<Rightarrow> do {
          reject i t status_ServiceUnavailable q850_NoCircuitChannelAvailable ''Call rate exceeded''; ret True }
      | InvalidRequest \<Rightarrow> do {
          SetState i BeingFailed;
          SendCreatedResponse i (Some t) 503 None;
          DropMe i;
          ret True }
      | CallLegTransactionNotExist \<Rightarrow> do {
          when (GetMethod m \<noteq> ACK) (do { SetState i Dropped; SendCreatedResponse i (Some t) 481 None });
          DropMe i;
          ret True }
      | _ \<Rightarrow> ret False)"

section \<open>Requests by method\<close>

definition respond_warning :: "ss_id \<Rightarrow> tx_id \<Rightarrow> int \<Rightarrow> string \<Rightarrow> unit go" where
  "respond_warning i t stc warning = do {
     rp \<leftarrow> pack_RFWarning stc warning;
     SendCreatedResponseDetailed i (Some t) rp None
   }"

definition handle_INVITE :: "ss_id \<Rightarrow> tx_id \<Rightarrow> msg_id \<Rightarrow> unit go" where
  "handle_INVITE i t mid = do {
     SendCreatedResponse i (Some t) status_Trying None;
     testing \<leftarrow> asks w_sippTesting;
     skip \<leftarrow> asks w_SkipAS;
     if testing then do {
       SendCreatedResponse i (Some t) status_Ringing None;
       SendCreatedResponse i (Some t) status_OK None
     }
     else if skip then RouteRequestInternal i t mid
     else RouteRequestExternal i t mid
   }"

text \<open>An offer that no second leg takes is answered by the router itself.\<close>

definition answer_locally :: "ss_id \<Rightarrow> tx_id \<Rightarrow> SipMessage \<Rightarrow> string \<Rightarrow> unit go" where
  "answer_locally i t m nosdp = do {
     e \<leftarrow> asks w_env;
     mb \<leftarrow> get_body (Body m);
     case (if ContainsSDP mb then mb else None) of
       None \<Rightarrow> respond_warning i t 488 nosdp
     | Some b \<Rightarrow>
         (case ParseSDPPartAndBuildAnswer (e_sdp e) b of
            ((sts, warn, callheld), b') \<Rightarrow>
              if sts = 200 then do {
                write_body (Body m) (Some b');
                SendCreatedResponse i (Some t) sts (Body m);
                upd_ss i (\<lambda>s. s\<lparr>isHeld := callheld\<rparr>)
              } else respond_warning i t sts warn)
   }"

definition competing :: "ss_id \<Rightarrow> ss_id \<Rightarrow> bool go" where
  "competing i l = do {
     was_free \<leftarrow> ChecknSetDialogueChanging i True;
     if \<not> was_free then ret True else IsDialogueChanging l
   }"

definition handle_ReINVITE :: "ss_id \<Rightarrow> tx_id \<Rightarrow> SipMessage \<Rightarrow> unit go" where
  "handle_ReINVITE i t m = do {
     SendCreatedResponse i (Some t) 100 None;
     s \<leftarrow> get_ss i;
     case LinkedSession s of
       None \<Rightarrow> answer_locally i t m ''Delayed-offer ReINVITE not supported''
     | Some l \<Rightarrow> do {
         glare \<leftarrow> competing i l;
         if glare then respond_warning i t status_RequestPending ''Competing ReINVITE rejected''
         else do {
           ls \<leftarrow> get_ss l;
           mb \<leftarrow> get_body (Body m);
           if TransformEarlyToFinal ls then
             (if ContainsSDP mb then SendCreatedRequest l UPDATE (Some t) (Body m)
              else SendCreatedResponse i (Some t) 488 None)
           else SendCreatedRequest l ReINVITE (Some t) (Body m)
         }
       }
   }"

definition handle_ACK :: "ss_id \<Rightarrow> tx_id \<Rightarrow> SipMessage \<Rightarrow> unit go" where
  "handle_ACK i t m = do {
     x \<leftarrow> get_tx t;
     if Method_tx x = INVITE then do {
       FinalizeState i;
       e \<leftarrow> IsEstablished i;
       if \<not> e then DropMe i else do {
         StartMaxCallDuration i;
         StartInDialogueProbing i;
         s \<leftarrow> get_ss i;
         case LinkedSession s of
           None \<Rightarrow> ret ()
         | Some l \<Rightarrow> do {
             ls \<leftarrow> get_ss l;
             when (\<not> TransformEarlyToFinal ls)
               (do { FinalizeState l; SendCreatedRequest l ACK None (Body m) })
           }
       }
     } else do {
       s \<leftarrow> get_ss i;
       case (LinkedSession s, LinkedTransaction x) of
         (Some l, Some lt) \<Rightarrow> do {
           lx \<leftarrow> get_tx lt;
           when (IsFinalResponsePositive lx) (do {
             _ \<leftarrow> ChecknSetDialogueChanging i False;
             _ \<leftarrow> ChecknSetDialogueChanging l False;
             ret ()
           });
           ls \<leftarrow> get_ss l;
           when (\<not> TransformEarlyToFinal ls) (SendCreatedRequest l ACK (Some lt) (Body m))
         }
       | _ \<Rightarrow> ret ()
     }
   }"

definition incompatible :: "ss_id \<Rightarrow> tx_id \<Rightarrow> unit go" where
  "incompatible i t = SendCreatedResponseDetailed i (Some t)
     ((response_pack 400)\<lparr>rp_ReasonPhrase := ''Incompatible Method With Session State''\<rparr>) None"

definition handle_CANCEL :: "ss_id \<Rightarrow> tx_id \<Rightarrow> unit go" where
  "handle_CANCEL i t = do {
     b \<leftarrow> IsBeingEstablished i;
     if \<not> b then incompatible i t else do {
       SetState i BeingCancelled;
       SendCreatedResponse i (Some t) 200 None;
       s \<leftarrow> get_ss i;
       done \<leftarrow> (case LinkedSession s of
                  None \<Rightarrow> ret False
                | Some l \<Rightarrow> do {
                    StopAllOutTransactions l;
                    r \<leftarrow> ReleaseMe l ''Caller cleared the call'' None;
                    if r then ret True else do { _ \<leftarrow> CancelMe l (- 1) []; ret False }
                  });
       if done then ret () else do {
         h \<leftarrow> deref NewSipHeaders (NewSHQ850OrSIP 487 [] []);
         SendCreatedResponseDetailed i None ((response_pack 487)\<lparr>rp_CustomHeaders := h\<rparr>) None
       }
     }
   }"

definition handle_BYE :: "ss_id \<Rightarrow> tx_id \<Rightarrow> unit go" where
  "handle_BYE i t = do {
     e \<leftarrow> IsEstablished i;
     if \<not> e then incompatible i t else do {
       SetState i Cleared;
       SendCreatedResponse i (Some t) status_OK None;
       DropMe i;
       s \<leftarrow> get_ss i;
       case LinkedSession s of
         None \<Rightarrow> ret ()
       | Some l \<Rightarrow> do {
           StopAllOutTransactions l;
           r \<leftarrow> ReleaseMe l ''Caller cleared the call'' (Some t);
           if r then ret () else do { _ \<leftarrow> CancelMe l 16 ''Caller cleared the call''; ret () }
         }
     }
   }"

definition handle_OPTIONS :: "ss_id \<Rightarrow> tx_id \<Rightarrow> SipMessage \<Rightarrow> unit go" where
  "handle_OPTIONS i t m =
     (if IsOutOfDialgoue m then do {
        SetState i Probed;
        SendCreatedResponse i (Some t) 200 None;
        DropMe i
      } else SendCreatedResponse i (Some t) 200 None)"

definition handle_UPDATE :: "ss_id \<Rightarrow> tx_id \<Rightarrow> SipMessage \<Rightarrow> unit go" where
  "handle_UPDATE i t m = do {
     mb \<leftarrow> get_body (Body m);
     if WithNoBody mb then SendCreatedResponse i (Some t) 200 None
     else do {
       s \<leftarrow> get_ss i;
       case LinkedSession s of
         None \<Rightarrow> answer_locally i t m ''Not Supported''
       | Some l \<Rightarrow> do {
           glare \<leftarrow> competing i l;
           if glare then respond_warning i t status_RequestPending ''Competing Update rejected''
           else SendCreatedRequest l UPDATE (Some t) (Body m)
         }
     }
   }"

definition handle_PRACK :: "ss_id \<Rightarrow> tx_id \<Rightarrow> SipMessage \<Rightarrow> unit go" where
  "handle_PRACK i t m = do {
     x \<leftarrow> get_tx t;
     if PrackStatus x \<noteq> PRACKExpected then respond_warning i t status_BadRequest ''Bad or missing RAck header''
     else do {
       SendCreatedResponse i (Some t) status_OK None;
       s \<leftarrow> get_ss i;
       x1 \<leftarrow> get_tx t;
       case LinkedSession s of
         None \<Rightarrow> ret ()
       | Some l \<Rightarrow> SendCreatedRequest l PRACK (LinkedTransaction x1) (Body m)
     }
   }"

text \<open>Without a second leg, an established session dereferences nil.\<close>

definition handle_REFER :: "ss_id \<Rightarrow> tx_id \<Rightarrow> SipMessage \<Rightarrow> unit go" where
  "handle_REFER i t m = do {
     e \<leftarrow> IsEstablished i;
     s \<leftarrow> get_ss i;
     both \<leftarrow> (if \<not> e then ret False else do { l \<leftarrow> deref 0 (LinkedSession s); IsEstablished l });
     if \<not> both then
       respond_warning i t status_TemporarilyUnavailable ''REFER received during early dialogue''
     else HandleRefer i t m
   }"

definition handle_INFO :: "ss_id \<Rightarrow> tx_id \<Rightarrow> SipMessage \<Rightarrow> unit go" where
  "handle_INFO i t m = do {
     s \<leftarrow> get_ss i;
     case LinkedSession s of
       None \<Rightarrow> ret ()
     | Some l \<Rightarrow> SendCreatedRequest l INFO (Some t) (Body m)
   }"

text \<open>
  The deferred drop runs even when the handler panics after it was deferred; reading the
  registration data comes before.
\<close>

definition set_panic :: "bool \<Rightarrow> unit go" where
  "set_panic p = State (\<lambda>w. ((), w\<lparr>w_panic := p\<rparr>))"

definition deferred :: "unit go \<Rightarrow> unit go \<Rightarrow> unit go" where
  "deferred d m = do {
     m;
     p \<leftarrow> asks w_panic;
     set_panic False;
     d;
     (if p then set_panic True else ret ())
   }"

definition handle_REGISTER :: "ss_id \<Rightarrow> tx_id \<Rightarrow> msg_id \<Rightarrow> unit go" where
  "handle_REGISTER i t mid = do {
     m \<leftarrow> get_msg mid;
     ((contact, ext, ruri, ipport, expires), m') \<leftarrow> deref (([], [], [], [], 0), m) (GetRegistrationData m);
     upd_msg mid (\<lambda>_. m');
     p \<leftarrow> asks w_panic;
     if p then ret () else deferred (DropMe i)
       (if expires < 0 then do {
          SetState i Dropped;
          respond_warning i t 400 ''Bad Contact header''
        } else do {
          e \<leftarrow> asks w_env;
          uas \<leftarrow> asks w_uas;
          phs \<leftarrow> asks w_phones;
          (st, uas', phs') \<leftarrow> deref (NotSet, uas, phs) (AddOrUpdate (e_resolve e) ext ruri ipport expires (uas, phs));
          act (\<lambda>w. w\<lparr>w_uas := uas', w_phones := phs'\<rparr>);
          SetState i st;
          SendCreatedResponseDetailed i (Some t) ((response_pack 200)\<lparr>rp_ContactHeader := contact\<rparr>) None
        })
   }"

definition handle_request :: "ss_id \<Rightarrow> tx_id \<Rightarrow> msg_id \<Rightarrow> unit go" where
  "handle_request i t mid = do {
     m \<leftarrow> get_msg mid;
     mb \<leftarrow> get_body (Body m);
     if WithUnknownBodyPart mb then SendCreatedResponse i (Some t) status_UnsupportedMediaType None
     else case GetMethod m of
       INVITE \<Rightarrow> handle_INVITE i t mid
     | ReINVITE \<Rightarrow> handle_ReINVITE i t m
     | ACK \<Rightarrow> handle_ACK i t m
     | CANCEL \<Rightarrow> handle_CANCEL i t
     | BYE \<Rightarrow> handle_BYE i t
     | OPTIONS \<Rightarrow> handle_OPTIONS i t m
     | UPDATE \<Rightarrow> handle_UPDATE i t m
     | PRACK \<Rightarrow> handle_PRACK i t m
     | REFER \<Rightarrow> handle_REFER i t m
     | NOTIFY \<Rightarrow> SendCreatedResponse i (Some t) status_MethodNotAllowed None
     | INFO \<Rightarrow> handle_INFO i t m
     | REGISTER \<Rightarrow> handle_REGISTER i t mid
     | _ \<Rightarrow> do {
         SetState i Dropped;
         SendCreatedResponse i (Some t) status_MethodNotAllowed None;
         DropMe i
       }
   }"

section \<open>Responses\<close>

definition finish_bye :: "ss_id \<Rightarrow> unit go" where
  "finish_bye i = do { StopAllOutTransactions i; FinalizeState i; DropMe i }"

definition handle_18x :: "ss_id \<Rightarrow> ss_id \<Rightarrow> SipMessage \<Rightarrow> unit go" where
  "handle_18x i l m = do {
     let stsCode = GetStatusCode m;
     mb \<leftarrow> get_body (Body m);
     b \<leftarrow> IsBeingEstablished i;
     if \<not> b then ret () else do {
       StopTimer i No18x;
       s \<leftarrow> get_ss i;
       if TransformEarlyToFinal s then
         (if ContainsSDP mb then
            when (\<not> received18xSDP s) (do {
              upd_ss i (\<lambda>x. x\<lparr>received18xSDP := True\<rparr>);
              SendCreatedResponse l None 200 (Body m)
            })
          else when (\<not> received18xSDP s) (SendCreatedResponse l None stsCode None))
       else do {
         req \<leftarrow> deref False (IsOptionRequired ''100rel'' m);
         pst \<leftarrow> (if req then do { t \<leftarrow> GenerateOutgoingPRACKST i m; ret (Some t) } else ret None);
         lb \<leftarrow> IsBeingEstablished l;
         when lb (SendCreatedResponseDetailed l None ((response_pack stsCode)\<lparr>LinkedPRACKST := pst\<rparr>) (Body m))
       }
     }
   }"

definition handle_2xx_INVITE :: "ss_id \<Rightarrow> ss_id \<Rightarrow> SipMessage \<Rightarrow> unit go" where
  "handle_2xx_INVITE i l m = do {
     b \<leftarrow> IsBeingEstablished i;
     if \<not> b then do {
       StopAllOutTransactions i;
       SendCreatedRequest i ACK None None;
       send_bye i False 487 ''Call cancelled already'' None
     } else do {
       StopNoTimers i;
       s \<leftarrow> get_ss i;
       when (TransformEarlyToFinal s) (upd_ss i (\<lambda>x. x\<lparr>TransformEarlyToFinal := False\<rparr>));
       if TransformEarlyToFinal s \<and> received18xSDP s
       then do { FinalizeState i; SendCreatedRequest i ACK None None }
       else SendCreatedResponse l None (GetStatusCode m) (Body m)
     }
   }"

definition handle_2xx :: "ss_id \<Rightarrow> ss_id \<Rightarrow> tx_id \<Rightarrow> SipMessage \<Rightarrow> unit go" where
  "handle_2xx i l t m = do {
     x \<leftarrow> get_tx t;
     case Method_tx x of
       INVITE \<Rightarrow> handle_2xx_INVITE i l m
     | UPDATE \<Rightarrow> do {
         _ \<leftarrow> ChecknSetDialogueChanging i False;
         _ \<leftarrow> ChecknSetDialogueChanging l False;
         SendCreatedResponse l (LinkedTransaction x) (GetStatusCode m) (Body m)
       }
     | ReINVITE \<Rightarrow> SendCreatedResponse l (LinkedTransaction x) (GetStatusCode m) (Body m)
     | BYE \<Rightarrow> finish_bye i
     | _ \<Rightarrow> ret ()
   }"

definition handle_3xx :: "ss_id \<Rightarrow> ss_id \<Rightarrow> tx_id \<Rightarrow> SipMessage \<Rightarrow> unit go" where
  "handle_3xx i l t m = do {
     x \<leftarrow> get_tx t;
     if Method_tx x = INVITE then do {
       StopNoTimers i;
       Ack3xxTo6xx i Redirected;
       rp \<leftarrow> pack_SRW (GetStatusCode m) ''Call redirected but forbidden'' [];
       RerouteRequest (Some l) rp
     } else if Method_tx x = CANCEL \<or> Method_tx x = BYE then DropMe i
     else do {
       FinalizeState i;
       _ \<leftarrow> ReleaseCall i ''Exotic 3xx response received on non-INVITE'';
       ret ()
     }
   }"

definition handle_failed_INVITE :: "ss_id \<Rightarrow> ss_id \<Rightarrow> SipMessage \<Rightarrow> unit go" where
  "handle_failed_INVITE i l m = do {
     s \<leftarrow> get_ss i;
     if ss_state s = BeingEstablished then do {
       StopNoTimers i;
       Ack3xxTo6xx i Rejected;
       s1 \<leftarrow> get_ss i;
       if TransformEarlyToFinal s1 then do {
         upd_ss i (\<lambda>x. x\<lparr>TransformEarlyToFinal := False\<rparr>);
         r \<leftarrow> ReleaseMe l ''Called rejected the call'' None;
         if r then ret ()
         else do { _ \<leftarrow> RejectMe l None (GetStatusCode m) 31 ''Called rejected the call''; ret () }
       } else do {
         reason \<leftarrow> deref [] (ValueHeader Reason_hdr (Headers m));
         rp \<leftarrow> pack_SRW (GetStatusCode m) ''Call failed or rejected'' reason;
         RerouteRequest (Some l) rp
       }
     }
     else if ss_state s = BeingCancelled then Ack3xxTo6xxFinalize i
     else ret ()
   }"

definition handle_failure :: "ss_id \<Rightarrow> ss_id \<Rightarrow> tx_id \<Rightarrow> SipMessage \<Rightarrow> unit go" where
  "handle_failure i l t m = do {
     x \<leftarrow> get_tx t;
     case Method_tx x of
       INVITE \<Rightarrow> handle_failed_INVITE i l m
     | ReINVITE \<Rightarrow> SendCreatedResponse l (LinkedTransaction x) (GetStatusCode m) (Body m)
     | UPDATE \<Rightarrow> SendCreatedResponse l (LinkedTransaction x) (GetStatusCode m) (Body m)
     | BYE \<Rightarrow> finish_bye i
     | OPTIONS \<Rightarrow>
         when (IsProbing x \<and> (GetStatusCode m = 408 \<or> GetStatusCode m = 481))
           (do { _ \<leftarrow> ReleaseCall i ''Probing rejected but unexpectedly''; ret () })
     | _ \<Rightarrow> ret ()
   }"

definition probe_answered :: "ss_id \<Rightarrow> unit go" where
  "probe_answered i = do {
     s \<leftarrow> get_ss i;
     when (Mymode s = KeepAlive) (do {
       FinalizeState i;
       n \<leftarrow> deref 0 (RemoteUserAgent s);
       act (\<lambda>w. w\<lparr>w_uas := (w_uas w)[n := SetAlive True (w_uas w ! n)]\<rparr>);
       DropMe i
     })
   }"

definition handle_response_alone :: "ss_id \<Rightarrow> tx_id \<Rightarrow> SipMessage \<Rightarrow> unit go" where
  "handle_response_alone i t m = do {
     x \<leftarrow> get_tx t;
     let stsCode = GetStatusCode m;
     if stsCode \<le> 199 then ret ()
     else if stsCode \<le> 299 then
       (case Method_tx x of
          OPTIONS \<Rightarrow> probe_answered i
        | BYE \<Rightarrow> finish_bye i
        | _ \<Rightarrow> ret ())
     else if stsCode \<le> 399 then ret ()
     else if Method_tx x = OPTIONS then probe_answered i
     else ret ()
   }"

definition handle_response :: "ss_id \<Rightarrow> tx_id \<Rightarrow> msg_id \<Rightarrow> unit go" where
  "handle_response i t mid = do {
     m \<leftarrow> get_msg mid;
     x \<leftarrow> get_tx t;
     let stsCode = GetStatusCode m;
     if stsCode \<le> 199 \<and> Method_tx x \<noteq> INVITE then ret () else do {
       s \<leftarrow> get_ss i;
       case LinkedSession s of
         None \<Rightarrow> handle_response_alone i t m
       | Some l \<Rightarrow>
           if 180 \<le> stsCode \<and> stsCode \<le> 189 then handle_18x i l m
           else if stsCode \<le> 199 then do {
             b \<leftarrow> IsBeingEstablished i;
             when b (do { StartTimer i No18x; StartTimer i NoAnswer })
           }
           else if stsCode \<le> 299 then handle_2xx i l t m
           else if stsCode \<le> 399 then handle_3xx i l t m
           else handle_failure i l t m
     }
   }"

section \<open>The stack\<close>

definition stack_body :: "msg_id \<Rightarrow> ss_id \<Rightarrow> NewSessionType \<Rightarrow> unit go" where
  "stack_body mid i newSesType = do {
     m \<leftarrow> get_msg mid;
     UpdateContactRecordRouteBody i m;
     tr \<leftarrow> (if IsRequest m then addIncomingRequest i mid None else addIncomingResponse i mid);
     case tr of
       None \<Rightarrow> do {
         none \<leftarrow> asks (HasNoTransactions i);
         when none (DropMe i)
       }
     | Some t \<Rightarrow> do {
         refused \<leftarrow> handle_refused i t m newSesType;
         if refused then ret ()
         else if IsRequest m then handle_request i t mid
         else handle_response i t mid
       }
   }"

definition sipStack :: "msg_id \<Rightarrow> ss_id option \<Rightarrow> NewSessionType \<Rightarrow> unit go" where
  "sipStack mid ss newSesType =
     protect
       (case ss of
          None \<Rightarrow> ret ()
        | Some i \<Rightarrow> if newSesType = DuplicateMessage then ret () else stack_body mid i newSesType)"

text \<open>
  A panic in \<open>sessionGetter\<close> is recovered there: it returns its zero values, no session.
\<close>

definition session_of :: "SipMessage \<Rightarrow> (ss_id option \<times> NewSessionType) go" where
  "session_of m = do {
     r \<leftarrow> sessionGetter m;
     p \<leftarrow> asks w_panic;
     if p then do { recover; ret (None, Unset) } else ret r
   }"

definition process_message :: "SipMessage \<Rightarrow> MessageBody option \<Rightarrow> UDPAddr \<Rightarrow> UDPAddr \<Rightarrow> unit go" where
  "process_message m0 mb src conn = do {
     b \<leftarrow> (case mb of None \<Rightarrow> ret None | Some x \<Rightarrow> do { n \<leftarrow> new_body x; ret (Some n) });
     let m = m0\<lparr>Body := b\<rparr>;
     mid \<leftarrow> new_msg m;
     (ss, newSesType) \<leftarrow> session_of m;
     (case ss of
        Some i \<Rightarrow> SetRemoteUDPnListenser i (Some src) (Some conn)
      | None \<Rightarrow> ret ());
     sipStack mid ss newSesType
   }"

section \<open>The events of a running router\<close>

datatype event =
    Receive SipMessage "MessageBody option" UDPAddr UDPAddr
  | TransTimer tx_id
  | CancelTimer tx_id
  | SessionTimer ss_id TimerType
  | ProbingTick ss_id
  | MaxDuration ss_id
  | DropDue nat
  | EchoDue nat
  | LimiterTick
  | ProbeTick UDPAddr
  | RefreshConfig "config_row list option"
  | Unrecovered

text \<open>
  A reload of the routing configuration that the web server was asked for, with the decoded
  file. The engine exists only without an application server; with one the nil engine panics
  in the web server, which ends that request only.
\<close>

definition refreshConfig :: "config_row list option \<Rightarrow> unit go" where
  "refreshConfig rows = do {
     skip \<leftarrow> asks w_SkipAS;
     when skip (act (\<lambda>w. w\<lparr>w_routes :=
       ReadConfig (e_compile (w_env w)) (e_resolve (w_env w)) rows (w_routes w)\<rparr>))
   }"

text \<open>
  A timer event happens while its timer runs. A panic outside \<open>protect\<close> stops the program, so
  a stopped world takes no events. \<open>Unrecovered\<close> is such a panic in the goroutines around the
  stack: the parser's in a worker and the one of a media loop.
\<close>

definition remove_nth :: "nat \<Rightarrow> 'a list \<Rightarrow> 'a list" where
  "remove_nth n xs = take n xs @ drop (Suc n) xs"

definition run_event :: "event \<Rightarrow> unit go" where
  "run_event ev =
     (case ev of
        Receive m mb src conn \<Rightarrow> process_message m mb src conn
      | TransTimer t \<Rightarrow> do {
          x \<leftarrow> get_tx t;
          case Timer x of TArmed i \<Rightarrow> transTimerHandler t i | _ \<Rightarrow> ret ()
        }
      | CancelTimer t \<Rightarrow> do {
          x \<leftarrow> get_tx t;
          case CANCELAuxTimer x of
            TArmed i \<Rightarrow> do { upd_tx t (\<lambda>y. y\<lparr>CANCELAuxTimer := TStopped\<rparr>); cancelTimerHandler i }
          | _ \<Rightarrow> ret ()
        }
      | SessionTimer i tt \<Rightarrow> do {
          s \<leftarrow> get_ss i;
          case (if tt = NoAnswer then noAnsSTimer s else no18xSTimer s) of
            TArmed j \<Rightarrow> timerHandler j tt
          | _ \<Rightarrow> ret ()
        }
      | ProbingTick i \<Rightarrow> do {
          s \<leftarrow> get_ss i;
          case probingTicker s of TArmed j \<Rightarrow> probingTickerHandler j | _ \<Rightarrow> ret ()
        }
      | MaxDuration i \<Rightarrow> do {
          s \<leftarrow> get_ss i;
          case maxDurationTimer s of
            TArmed j \<Rightarrow> do { upd_ss i (\<lambda>x. x\<lparr>maxDurationTimer := TStopped\<rparr>); maxDurationHandler j }
          | _ \<Rightarrow> ret ()
        }
      | DropDue n \<Rightarrow> do {
          ds \<leftarrow> asks w_drops;
          if n < length ds then do { act (\<lambda>w. w\<lparr>w_drops := remove_nth n (w_drops w)\<rparr>); DropMe (ds ! n) }
          else ret ()
        }
      | EchoDue n \<Rightarrow> do {
          es \<leftarrow> asks w_echo;
          if n < length es then do { act (\<lambda>w. w\<lparr>w_echo := remove_nth n (w_echo w)\<rparr>); finishEchoCall (es ! n) }
          else ret ()
        }
      | LimiterTick \<Rightarrow> act (\<lambda>w. w\<lparr>w_limiter := resetCount (w_limiter w)\<rparr>)
      | ProbeTick conn \<Rightarrow> periodicUAProbing (Some conn)
      | RefreshConfig rows \<Rightarrow> refreshConfig rows
      | Unrecovered \<Rightarrow> panic)"

inductive world_step :: "world \<Rightarrow> world \<Rightarrow> bool" where
  event: "\<not> w_panic w \<Longrightarrow> world_step w (snd (run_state (run_event ev) w))"

end
