(* ===== verification/Frames.thy ===== *)
theory Frames
  imports Sip_Stack "HOL-Library.Sublist"
begin

text \<open>
  What every operation does to the world, whatever it does. A relation between worlds that is
  reflexive and transitive and that the primitive effects respect is respected by every
  operation. The locales follow what the operations do: \<open>calm_rel\<close> is for what reads and branches,
  \<open>go_rel\<close> for what may panic, \<open>send_rel\<close> for what sends messages, \<open>quiet_rel\<close> for what neither makes,
  adds nor drops a session, \<open>call_rel\<close> for the set-up of one session, and \<open>world_rel\<close> for all of them.
\<close>

section \<open>Relations kept by a computation\<close>

definition keeps :: "(world \<Rightarrow> world \<Rightarrow> bool) \<Rightarrow> 'a go \<Rightarrow> bool" where
  "keeps R m \<longleftrightarrow> (\<forall>w. R w (snd (run_state m w)))"

lemma run_asks [simp]: "run_state (asks f) w = (f w, w)"
  by (simp add: asks_def)

lemma run_act [simp]: "run_state (act f) w = ((), if w_panic w then w else f w)"
  by (simp add: act_def)

lemma run_recover [simp]:
  "run_state recover w = ((), if w_panic w then w\<lparr>w_panic := False, w_recovered := w_recovered w + 1\<rparr> else w)"
  by (simp add: recover_def)

lemma run_set_panic [simp]: "run_state (set_panic p) w = ((), w\<lparr>w_panic := p\<rparr>)"
  by (simp add: set_panic_def)

text \<open>
  The updates that the code makes. Of a session: its direction, Call-ID, media port and
  disposal stay and its transactions are only appended to. Of a transaction: its kind stays,
  its responses are only appended to, it is final exactly when it has a final response, and
  its retransmission interval is the initial one doubled at every retransmission.
\<close>

definition ss_safe :: "(SipSession \<Rightarrow> SipSession) \<Rightarrow> bool" where
  "ss_safe f \<longleftrightarrow> (\<forall>s. Direction_ss (f s) = Direction_ss s \<and> CallID (f s) = CallID s \<and>
     IsDisposed (f s) = IsDisposed s \<and> probDone (f s) = probDone s \<and> MediaConn (f s) = MediaConn s \<and>
     prefix (Transactions s) (Transactions (f s)))"

definition final_ok :: "Transaction \<Rightarrow> bool" where
  "final_ok x \<longleftrightarrow> (IsFinalized_tx x \<longleftrightarrow> list_ex (\<lambda>r. 200 \<le> r) (Responses x))"

definition timer_ok :: "Transaction \<Rightarrow> bool" where
  "timer_ok x \<longleftrightarrow> 0 \<le> ReTXCount x \<and> ReTXCount x \<le> ReTXCount_max \<and>
     (Timer x \<noteq> TNil \<longrightarrow> TransTimeOut x = T1Timer * 2 ^ nat (ReTXCount x))"

definition tx_ok :: "Transaction \<Rightarrow> bool" where
  "tx_ok x \<longleftrightarrow> final_ok x \<and> timer_ok x"

definition tx_grows :: "Transaction \<Rightarrow> Transaction \<Rightarrow> bool" where
  "tx_grows x y \<longleftrightarrow> Method_tx y = Method_tx x \<and> Direction_tx y = Direction_tx x \<and>
     RSeq_tx y = RSeq_tx x \<and> PrackStatus y = PrackStatus x \<and>
     prefix (Responses x) (Responses y) \<and> (IsFinalized_tx x \<longrightarrow> IsFinalized_tx y) \<and>
     (IsACKed x \<longrightarrow> IsACKed y) \<and> (tx_ok x \<longrightarrow> tx_ok y)"

definition tx_safe :: "(Transaction \<Rightarrow> Transaction) \<Rightarrow> bool" where
  "tx_safe f \<longleftrightarrow> (\<forall>x. tx_grows x (f x))"

text \<open>
  The smaller updates that sending makes: the core of a session stays - everything but the tags,
  headers, contacts, sequence numbers, SDP and the transactions.
\<close>

definition core :: "SipSession \<Rightarrow> SipSession" where
  "core s = s\<lparr>ToTag := [], FromTag := [], ToHeader := [], FromHeader := [], RemoteContactURI := [],
     RemoteURI := [], RemoteContactUDP := None, RecordRoutes := [], RSeq := 0, FwdCSeq := 0,
     BwdCSeq := 0, SDPSession := None, SDPSessionID := 0, SDPSessionVersion := 0,
     remoteMediaUdpAddr := None, Transactions := []\<rparr>"

definition send_safe :: "(SipSession \<Rightarrow> SipSession) \<Rightarrow> bool" where
  "send_safe f \<longleftrightarrow> (\<forall>s. core (f s) = core s \<and> prefix (Transactions s) (Transactions (f s)))"

lemma core_fields:
  assumes "core s' = core s"
  shows "ss_state s' = ss_state s" "LinkedSession s' = LinkedSession s" "RoutingData s' = RoutingData s"
    "Direction_ss s' = Direction_ss s" "CallID s' = CallID s" "IsDisposed s' = IsDisposed s"
    "probDone s' = probDone s" "MediaConn s' = MediaConn s" "udpListenser s' = udpListenser s"
    "remoteUDP s' = remoteUDP s" "Mymode s' = Mymode s" "dialogueChanging s' = dialogueChanging s"
    "TransformEarlyToFinal s' = TransformEarlyToFinal s" "IsPRACKSupported s' = IsPRACKSupported s"
    "EgressProxy s' = EgressProxy s" "noAnsSTimer s' = noAnsSTimer s" "no18xSTimer s' = no18xSTimer s"
  using assms by (cases s, cases s', simp add: core_def)+

lemma send_safe_ss_safe: "send_safe f \<Longrightarrow> ss_safe f"
  by (simp add: send_safe_def ss_safe_def core_fields [of "f s" s for s])

text \<open>What every step is built from, and, with panics, what every operation is built from.\<close>

locale calm_rel =
  fixes R :: "world \<Rightarrow> world \<Rightarrow> bool"
  assumes R_refl: "R w w"
    and R_trans: "R w1 w2 \<Longrightarrow> R w2 w3 \<Longrightarrow> R w1 w3"
begin

lemma keeps_ret: "keeps R (ret a)"
  by (simp add: keeps_def R_refl)

lemma keeps_asks: "keeps R (asks f)"
  by (simp add: keeps_def R_refl)

lemma keeps_act_calm: "(\<And>w. \<not> w_panic w \<Longrightarrow> R w (f w)) \<Longrightarrow> keeps R (act f)"
  by (simp add: keeps_def R_refl)

lemma keeps_act: "(\<And>w. R w (f w)) \<Longrightarrow> keeps R (act f)"
  by (simp add: keeps_act_calm)

lemma keeps_bind: "keeps R m \<Longrightarrow> (\<And>a. keeps R (f a)) \<Longrightarrow> keeps R (m \<bind> f)"
  by (auto simp: keeps_def split: prod.split intro: R_trans)

lemma keeps_get: "keeps R (get_ss i)" "keeps R (get_tx t)" "keeps R (get_msg m)" "keeps R (get_body b)"
  by (simp_all add: get_ss_def get_tx_def get_msg_def get_body_def keeps_asks)

lemma keeps_if: "keeps R m \<Longrightarrow> keeps R n \<Longrightarrow> keeps R (if c then m else n)"
  by simp

lemma keeps_when: "keeps R m \<Longrightarrow> keeps R (when c m)"
  by (simp add: when_def keeps_ret)

lemma keeps_option:
  "keeps R m \<Longrightarrow> (\<And>x. keeps R (f x)) \<Longrightarrow> keeps R (case ox of None \<Rightarrow> m | Some x \<Rightarrow> f x)"
  by (cases ox) auto

lemma keeps_prod: "(\<And>a b. keeps R (f a b)) \<Longrightarrow> keeps R (case p of (a, b) \<Rightarrow> f a b)"
  by (cases p) auto

lemma keeps_for_each: "(\<And>x. keeps R (f x)) \<Longrightarrow> keeps R (for_each f xs)"
  by (induction xs) (auto intro: keeps_ret keeps_bind)

lemmas keeps_calm = keeps_ret keeps_asks keeps_get keeps_if keeps_when keeps_option keeps_prod keeps_for_each

end

locale go_rel = calm_rel +
  assumes R_panic: "R w (w\<lparr>w_panic := True\<rparr>)"
begin

lemma keeps_panic: "keeps R panic"
  unfolding panic_def by (intro keeps_act R_panic)

lemma keeps_deref: "keeps R (deref d x)"
  unfolding deref_def by (cases x) (auto intro: keeps_ret keeps_bind keeps_panic)

lemmas keeps_basic = keeps_ret keeps_asks keeps_panic keeps_deref keeps_get keeps_if keeps_when
  keeps_option keeps_prod keeps_for_each

end

text \<open>What sending needs of a relation.\<close>

locale send_rel = go_rel +
  assumes R_seed: "R w (w\<lparr>w_seed := n\<rparr>)"
    and R_msg: "R w (w\<lparr>w_msg := ms, w_nmsg := n\<rparr>)"
    and R_body: "R w (w\<lparr>w_body := bs, w_nbody := n\<rparr>)"
    and R_out: "R w (w\<lparr>w_out := w_out w @ [d]\<rparr>)"
    and R_send: "send_safe f \<Longrightarrow> R w (w\<lparr>w_ss := (w_ss w)(i := f (w_ss w i))\<rparr>)"
    and R_tx: "tx_safe g \<Longrightarrow> R w (w\<lparr>w_tx := (w_tx w)(t := g (w_tx w t))\<rparr>)"
    and R_new_tx: "tx_ok x \<Longrightarrow> R w (w\<lparr>w_tx := (w_tx w)(w_ntx w := x), w_ntx := Suc (w_ntx w)\<rparr>)"
begin

lemma keeps_upd_msg: "keeps R (upd_msg i f)"
proof -
  have "R w (w\<lparr>w_msg := ms\<rparr>)" for w ms
    using R_msg [where w = w and ms = ms and n = "w_nmsg w"] by simp
  then show ?thesis unfolding upd_msg_def by (intro keeps_act)
qed

lemma keeps_upd_body: "keeps R (upd_body i f)"
proof -
  have "R w (w\<lparr>w_body := bs\<rparr>)" for w bs
    using R_body [where w = w and bs = bs and n = "w_nbody w"] by simp
  then show ?thesis unfolding upd_body_def by (intro keeps_act)
qed

lemma keeps_new_tx: "tx_ok x \<Longrightarrow> keeps R (new_tx x)"
  unfolding new_tx_def by (intro keeps_bind keeps_asks keeps_act keeps_ret R_new_tx)

lemma keeps_new_msg: "keeps R (new_msg x)"
  unfolding new_msg_def by (intro keeps_bind keeps_asks keeps_act keeps_ret R_msg)

lemma keeps_new_body: "keeps R (new_body x)"
  unfolding new_body_def by (intro keeps_bind keeps_asks keeps_act keeps_ret R_body)

lemma keeps_next_seed: "keeps R next_seed"
  unfolding next_seed_def by (intro keeps_bind keeps_asks keeps_act keeps_ret R_seed)

lemmas keeps_stores = keeps_upd_msg keeps_upd_body keeps_new_msg keeps_new_body keeps_next_seed

text \<open>The record updates that every lambda of the code is checked against.\<close>

lemmas safe_defs = tx_grows_def tx_ok_def final_ok_def timer_ok_def stop_timer_def core_def

lemma send_safeI:
  "(\<And>s. core (f s) = core s \<and> prefix (Transactions s) (Transactions (f s))) \<Longrightarrow> keeps R (upd_ss i f)"
  unfolding upd_ss_def by (intro keeps_act R_send) (simp add: send_safe_def)

lemma tx_safeI: "(\<And>x. tx_grows x (f x)) \<Longrightarrow> keeps R (upd_tx i f)"
  unfolding upd_tx_def by (intro keeps_act R_tx) (simp add: tx_safe_def)

lemmas keeps_base = keeps_bind keeps_basic keeps_stores tx_safeI keeps_new_tx
lemmas keeps_send_rules = keeps_base send_safeI

lemma keeps_ids:
  "keeps R newUUID" "keeps R NewCallID" "keeps R NewViaBranch" "keeps R NewTag" "keeps R NewKey"
  "keeps R date_now" "keeps R (random_num a b)"
  by (auto simp: newUUID_def NewCallID_def NewViaBranch_def NewTag_def NewKey_def date_now_def random_num_def
      intro!: keeps_base)

lemma keeps_sends: "keeps R (sendmessage i m a)"
  "keeps R (AddTransaction i t)" "keeps R (StartTransTimer t i)" "keeps R (StopTransTimer t)"
  "keeps R (StartCancelTimer t i)" "keeps R (StopCancelTimer t)" "keeps R (SetRemoteMediaUdpAddr i rmt)"
  by (auto simp: sendmessage_def AddTransaction_def StartTransTimer_def
      StopTransTimer_def StartCancelTimer_def StopCancelTimer_def SetRemoteMediaUdpAddr_def
      safe_defs split: timer.splits if_splits intro!: keeps_send_rules keeps_act R_out)

lemma keeps_states: "keeps R (state_is st i)" "keeps R (IsEstablished i)" "keeps R (IsBeingEstablished i)"
  "keeps R (IsPending_ss i)" "keeps R (IsFinalized_ss i)" "keeps R (IsDialogueChanging i)"
  by (auto simp: state_is_def IsEstablished_def IsBeingEstablished_def IsPending_ss_def IsFinalized_ss_def
      IsDialogueChanging_def intro!: keeps_base)

lemma keeps_NewST_bind: "(\<And>k. keeps R (f (zero_Transaction\<lparr>Key := k\<rparr>))) \<Longrightarrow> keeps R (NewST \<bind> f)"
  by (simp add: NewST_def keeps_bind keeps_ids)

lemma keeps_new_transactions:
  "keeps R (NewSIPTransaction_RT m lt i)" "keeps R (NewSIPTransaction_RP r p)"
  "keeps R (NewSIPTransaction_RC r c)" "keeps R (NewSIPTransaction_CRL q me lt)"
  "keeps R (CreateCANCELST t)" "keeps R (CreateACKST t)"
  by (auto simp: NewSIPTransaction_RT_def NewSIPTransaction_RP_def NewSIPTransaction_RC_def
      NewSIPTransaction_CRL_def CreateCANCELST_def CreateACKST_def safe_defs
      zero_Transaction_def Let_def intro!: keeps_NewST_bind keeps_send_rules keeps_ids)

lemmas keeps_small = keeps_ids keeps_sends keeps_states keeps_new_transactions

lemma keeps_session_reads:
  "keeps R (GetPRACKTransaction i r c)" "keeps R (GetFirstTransaction i)" "keeps R (Received1xx i)"
  "keeps R (Received200 i)" "keeps R (CurrentRequestMessage i)" "keeps R (StopAllOutTransactions i)"
  "keeps R (GenerateOutgoingPRACKST i ms)" "keeps R (GenerateRSeqCreatePRACKST i l)"
  "keeps R (UpdateContactRecordRouteBody i ms)"
  by (auto simp: GetPRACKTransaction_def GetFirstTransaction_def Received1xx_def Received200_def
      CurrentRequestMessage_def StopAllOutTransactions_def GenerateOutgoingPRACKST_def
      GenerateRSeqCreatePRACKST_def UpdateContactRecordRouteBody_def safe_defs Let_def split: if_splits timer.splits
      intro!: keeps_send_rules keeps_small)

lemma keeps_ParseNPrepareSDP: "keeps R (ParseNPrepareSDP i b)"
  by (auto simp: ParseNPrepareSDP_def safe_defs Let_def split: option.split intro!: keeps_send_rules keeps_small)

lemma keeps_Send: "keeps R (Send i t)" "keeps R (SendSTMessage i t)" "keeps R (IsDuplicateMessage i ms)"
proof -
  show 1: "keeps R (Send i t)" for t
    by (auto simp: Send_def Let_def intro!: keeps_base keeps_small)
  show 2: "keeps R (SendSTMessage i t)" for t
    by (auto simp: SendSTMessage_def Let_def intro!: keeps_base keeps_small 1)
  show "keeps R (IsDuplicateMessage i ms)"
    by (auto simp: IsDuplicateMessage_def Let_def intro!: keeps_base keeps_small 2)
qed

lemmas keeps_session = keeps_small keeps_session_reads keeps_ParseNPrepareSDP keeps_Send

lemma keeps_responses:
  "keeps R (set_to_tag i t sc h)" "keeps R (createHeadersForResponse i t rp)"
  "keeps R (suppressed18x i t rp b)" "keeps R (send_response i t rp b)"
  "keeps R (SendCreatedResponseDetailed i tr rp b)" "keeps R (SendCreatedResponse i tr sc b)"
proof -
  show 1: "keeps R (set_to_tag i t sc h)" for i t sc h
    by (auto simp: set_to_tag_def safe_defs Let_def intro!: keeps_send_rules keeps_session)
  show 2: "keeps R (createHeadersForResponse i t rp)" for i t rp
    by (auto simp: createHeadersForResponse_def Let_def intro!: keeps_base keeps_session 1)
  show 3: "keeps R (suppressed18x i t rp b)" for i t rp b
    by (auto simp: suppressed18x_def Let_def intro!: keeps_base keeps_session)
  show 4: "keeps R (send_response i t rp b)" for i t rp b
    by (auto simp: send_response_def safe_defs Let_def intro!: keeps_base keeps_session 2 3)
  show 5: "keeps R (SendCreatedResponseDetailed i tr rp b)" for tr rp b
    by (auto simp: SendCreatedResponseDetailed_def intro!: keeps_base keeps_session 4)
  show "keeps R (SendCreatedResponse i tr sc b)"
    unfolding SendCreatedResponse_def by (rule 5)
qed

lemma keeps_new_msgs: "keeps R (prepareRequestHeaders i t rp sm)" "keeps R (add_reason i t h)"
  "keeps R (processRequestHeaders i t m rp b)"
proof -
  show "keeps R (prepareRequestHeaders i t rp sm)"
    by (auto simp: prepareRequestHeaders_def Let_def split: option.split intro!: keeps_base keeps_session)
  show 2: "keeps R (add_reason i t h)" for h
    by (auto simp: add_reason_def Let_def split: option.split intro!: keeps_base keeps_session)
  show "keeps R (processRequestHeaders i t m rp b)"
    by (auto simp: processRequestHeaders_def safe_defs Let_def intro!: keeps_send_rules keeps_session 2)
qed

lemma keeps_addOutgoingRequest:
  "keeps R (acknowledge t)" "keeps R (reject_pending i)" "keeps R (addOutgoingRequest i rt lt)"
proof -
  show 1: "keeps R (acknowledge t)" for t
    by (auto simp: acknowledge_def safe_defs intro!: keeps_base keeps_session)
  show 2: "keeps R (reject_pending i)"
    by (auto simp: reject_pending_def intro!: keeps_base keeps_session keeps_responses)
  show "keeps R (addOutgoingRequest i rt lt)"
    by (auto simp: addOutgoingRequest_def safe_defs Let_def intro!: keeps_send_rules keeps_session 1 2)
qed

lemma keeps_requests:
  "keeps R (SendCreatedRequestDetailed i rp tr b)" "keeps R (SendCreatedRequest i m tr b)"
  "keeps R (send_bye i f c d tr)" "keeps R (pack_SRW sc d rs)" "keeps R (pack_RFWarning sc wn)"
  by (auto simp: SendCreatedRequest_def SendCreatedRequestDetailed_def send_bye_def pack_SRW_def
      pack_RFWarning_def safe_defs intro!: keeps_base keeps_session keeps_new_msgs keeps_addOutgoingRequest)

lemmas keeps_messages = keeps_session keeps_responses keeps_requests

end

text \<open>
  What the operations need that set the state of sessions, reserve ports and leave entries to be
  handled later, but neither make, add nor drop a session.
\<close>

locale quiet_rel = send_rel +
  assumes R_pending: "R w (w\<lparr>w_drops := ds, w_echo := es\<rparr>)"
    and R_reserve: "ReserveSocket listen (w_pool w) = (p, pool) \<Longrightarrow>
      R w (w\<lparr>w_pool := pool, w_ss := (w_ss w)(i := (w_ss w i)\<lparr>MediaConn := p\<rparr>)\<rparr>)"
    and R_ss: "ss_safe f \<Longrightarrow> R w (w\<lparr>w_ss := (w_ss w)(i := f (w_ss w i))\<rparr>)"
begin

lemma keeps_upd_ss: "ss_safe f \<Longrightarrow> keeps R (upd_ss i f)"
  unfolding upd_ss_def by (intro keeps_act R_ss)

lemma ss_safeI:
  "(\<And>s. Direction_ss (f s) = Direction_ss s \<and> CallID (f s) = CallID s \<and> IsDisposed (f s) = IsDisposed s \<and>
     probDone (f s) = probDone s \<and> MediaConn (f s) = MediaConn s \<and>
     prefix (Transactions s) (Transactions (f s))) \<Longrightarrow> keeps R (upd_ss i f)"
  by (rule keeps_upd_ss) (simp add: ss_safe_def)

lemmas keeps_rules = keeps_base ss_safeI

lemma keeps_set_states: "keeps R (SetState i st)" "keeps R (FinalizeState i)" "keeps R (StopTimer i tt)"
  "keeps R (SetRemoteUDPnListenser i rmt2 cn)" "keeps R (ChecknSetDialogueChanging i b)"
  by (auto simp: SetState_def FinalizeState_def StopTimer_def SetRemoteUDPnListenser_def
      ChecknSetDialogueChanging_def split: if_splits intro!: keeps_rules)

lemma keeps_session_timers:
  "keeps R (StartTimer i tt)" "keeps R (StopNoTimers i)" "keeps R (StartInDialogueProbing i)"
  "keeps R (StartMaxCallDuration i)"
  by (auto simp: StartTimer_def StopNoTimers_def StartInDialogueProbing_def StartMaxCallDuration_def
      Let_def intro!: keeps_rules keeps_set_states)

lemmas keeps_talks = keeps_rules keeps_messages keeps_set_states keeps_session_timers

lemma keeps_release:
  "keeps R (release_one i st d tr)" "keeps R (ReleaseMe i d tr)"
  "keeps R (ReleaseCall i d)" "keeps R (ReleaseEarlyFinalCall i d)" "keeps R (CancelMe i q d)"
  "keeps R (RejectMe i tr sc q d)" "keeps R (DropMeTimed i)" "keeps R (Ack3xxTo6xx i st)"
  "keeps R (Ack3xxTo6xxFinalize i)" "keeps R (reject i t sc q d)"
proof -
  show 2: "keeps R (release_one i st d tr)" for i st d tr
    by (auto simp: release_one_def intro!: keeps_talks)
  have drops: "R w (w\<lparr>w_drops := ds\<rparr>)" for w ds
    using R_pending [where w = w and ds = ds and es = "w_echo w"] by simp
  show 3: "keeps R (DropMeTimed i)" by (auto simp: DropMeTimed_def intro!: keeps_act drops)
  show 4: "keeps R (RejectMe i tr sc q d)" for i tr
    by (auto simp: RejectMe_def intro!: keeps_talks)
  show "keeps R (ReleaseMe i d tr)" by (auto simp: ReleaseMe_def intro!: 2)
  show "keeps R (ReleaseCall i d)" by (auto simp: ReleaseCall_def intro!: keeps_talks 2)
  show "keeps R (ReleaseEarlyFinalCall i d)"
    by (auto simp: ReleaseEarlyFinalCall_def intro!: keeps_talks 2)
  show "keeps R (CancelMe i q d)" by (auto simp: CancelMe_def intro!: keeps_talks)
  show "keeps R (Ack3xxTo6xx i st)" by (auto simp: Ack3xxTo6xx_def intro!: keeps_talks 3)
  show "keeps R (Ack3xxTo6xxFinalize i)" by (auto simp: Ack3xxTo6xxFinalize_def intro!: keeps_talks 3)
  show "keeps R (reject i t sc q d)" by (auto simp: reject_def intro!: keeps_talks 4)
qed

lemmas keeps_ops = keeps_talks keeps_release

lemma keeps_incoming:
  "keeps R (add_ACK i mid)" "keeps R (add_RT i mid lt)" "keeps R (add_CANCEL i mid lt)"
  "keeps R (add_RP i st)" "keeps R (add_PRACK i mid)" "keeps R (add_other i mid lt)"
  "keeps R (addIncomingResponse i mid)"
  by (auto simp: add_ACK_def add_RT_def add_CANCEL_def add_RP_def add_PRACK_def add_other_def
      addIncomingResponse_def safe_defs Let_def split: if_splits intro!: keeps_ops)

lemma keeps_routing_steps:
  "keeps R (write_body b mb)" "keeps R (keep_body_part mid bt)" "keeps R (add_body_parts mid)"
  "keeps R (reserve_socket i)" "keeps R (ua_socket u)" "keeps R (socket_addr sk)"
  "keeps R (check_phone i t mid ph)" "keeps R (link_sessions i j)"
  "keeps R (external_target i t mid)" "keeps R (answerEchoCall i t mid)" "keeps R (HandleRefer i t ms)"
proof -
  show 1: "keeps R (write_body b mb)" for b mb
    by (auto simp: write_body_def split: option.split intro!: keeps_ops)
  show 2: "keeps R (keep_body_part mid bt)" for mid bt
    by (auto simp: keep_body_part_def intro!: keeps_ops 1)
  show 3: "keeps R (add_body_parts mid)" for mid
    by (auto simp: add_body_parts_def intro!: keeps_ops 1)
  show 4: "keeps R (reserve_socket i)" for i
  proof -
    have "R w (snd (run_state (reserve_socket i) w))" for w
    proof (cases "w_panic w")
      case False
      let ?ws = "w\<lparr>w_seed := Suc (w_seed w)\<rparr>"
      obtain p pool where r: "ReserveSocket (e_listen (w_env w) (w_seed w)) (w_pool ?ws) = (p, pool)"
        by fastforce
      with False have "snd (run_state (reserve_socket i) w)
          = ?ws\<lparr>w_pool := pool, w_ss := (w_ss ?ws)(i := (w_ss ?ws i)\<lparr>MediaConn := p\<rparr>)\<rparr>"
        by (simp add: reserve_socket_def next_seed_def upd_ss_def)
      with R_trans [OF R_seed R_reserve [OF r]] show ?thesis by simp
    qed (simp add: reserve_socket_def next_seed_def upd_ss_def R_refl split: prod.split)
    then show ?thesis by (simp add: keeps_def)
  qed
  show 5: "keeps R (ua_socket u)" for u by (auto simp: ua_socket_def intro!: keeps_ops)
  show 6: "keeps R (socket_addr sk)" for sk by (auto simp: socket_addr_def intro!: keeps_ops)
  show 7: "keeps R (check_phone i t mid ph)" for ph
    by (auto simp: check_phone_def intro!: keeps_ops 2 5)
  show "keeps R (link_sessions i j)" by (auto simp: link_sessions_def intro!: keeps_ops)
  show "keeps R (external_target i t mid)"
    by (auto simp: external_target_def Let_def intro!: keeps_ops 3 5 6 7)
  have echo: "R w (w\<lparr>w_echo := es\<rparr>)" for w es
    using R_pending [where w = w and ds = "w_drops w" and es = es] by simp
  show "keeps R (answerEchoCall i t mid)"
    by (auto simp: answerEchoCall_def Let_def split: option.split sum.split intro!: keeps_ops 4 keeps_act echo)
  show "keeps R (HandleRefer i t ms)"
    by (auto simp: HandleRefer_def Let_def split: sum.split intro!: keeps_ops)
qed

end

lemma SetAlive_wf: "phones_wf us ps \<Longrightarrow> phones_wf (us[n := SetAlive b (us ! n)]) ps"
  by (cases "n < length us")
     (auto simp: phones_wf_def phone_wf_def SetAlive_def nth_list_update list_update_beyond)

section \<open>Making a second leg\<close>

text \<open>The Call-ID of one session, the one being set up, may change.\<close>

locale call_rel = quiet_rel +
  fixes j :: ss_id
  assumes R_callid: "\<not> w_panic w \<Longrightarrow> ss_safe (\<lambda>s. (f s)\<lparr>CallID := CallID s\<rparr>) \<Longrightarrow>
    R w (w\<lparr>w_ss := (w_ss w)(j := f (w_ss w j))\<rparr>)"
begin

lemma keeps_upd_new:
  "(\<And>s. Direction_ss (f s) = Direction_ss s \<and> IsDisposed (f s) = IsDisposed s \<and>
     probDone (f s) = probDone s \<and> MediaConn (f s) = MediaConn s \<and>
     prefix (Transactions s) (Transactions (f s))) \<Longrightarrow> keeps R (upd_ss j f)"
  unfolding upd_ss_def by (intro keeps_act_calm R_callid) (simp_all add: ss_safe_def)

lemma keeps_new_leg:
  "keeps R (from_header h ip)" "keeps R (proxifyRequestHeaders j m t)"
  "keeps R (CreateLinkedINVITE j up b)" "keeps R (buildSARequestHeaders j t rp sm)"
  "keeps R (CreateSARequest j rp b)"
proof -
  show 1: "keeps R (from_header h ip)" for h ip
    by (auto simp: from_header_def Let_def intro!: keeps_ops)
  show 2: "keeps R (proxifyRequestHeaders j m t)" for m t
    by (auto simp: proxifyRequestHeaders_def safe_defs Let_def intro!: 1 keeps_ops keeps_upd_new)
  show "keeps R (CreateLinkedINVITE j up b)"
    by (auto simp: CreateLinkedINVITE_def safe_defs Let_def
        intro!: 2 keeps_ops keeps_addOutgoingRequest keeps_new_msgs)
  show 3: "keeps R (buildSARequestHeaders j t rp sm)" for t rp sm
    by (auto simp: buildSARequestHeaders_def safe_defs Let_def intro!: keeps_ops keeps_upd_new)
  show "keeps R (CreateSARequest j rp b)"
    by (auto simp: CreateSARequest_def safe_defs Let_def intro!: 3 keeps_ops)
qed

end

section \<open>Hoare triples over worlds\<close>

definition ensures :: "(world \<Rightarrow> bool) \<Rightarrow> 'a go \<Rightarrow> (world \<Rightarrow> bool) \<Rightarrow> bool" where
  "ensures P m Q \<longleftrightarrow> (\<forall>w. P w \<longrightarrow> Q (snd (run_state m w)))"

lemma ensures_bind: "ensures P m Q \<Longrightarrow> (\<And>a. ensures Q (f a) S) \<Longrightarrow> ensures P (m \<bind> f) S"
  by (auto simp: ensures_def split: prod.split)

lemma ensures_weaken: "ensures P m Q \<Longrightarrow> (\<And>w. P' w \<Longrightarrow> P w) \<Longrightarrow> (\<And>w. Q w \<Longrightarrow> Q' w) \<Longrightarrow> ensures P' m Q'"
  by (auto simp: ensures_def)

lemma ensures_if: "ensures P m Q \<Longrightarrow> ensures P n Q \<Longrightarrow> ensures P (if c then m else n) Q"
  by simp

lemma ensures_ret: "(\<And>w. P w \<Longrightarrow> Q w) \<Longrightarrow> ensures P (ret a) Q"
  by (auto simp: ensures_def)

section \<open>Every operation\<close>

definition fresh_ss :: "SipSession \<Rightarrow> bool" where
  "fresh_ss s \<longleftrightarrow> Transactions s = [] \<and> \<not> IsDisposed s \<and> \<not> probDone s \<and> MediaConn s = None"

definition with_ss :: "SipSession \<Rightarrow> world \<Rightarrow> world" where
  "with_ss s w = w\<lparr>w_ss := (w_ss w)(w_nss w := s), w_nss := Suc (w_nss w)\<rparr>"

definition with_key :: "ss_id \<Rightarrow> world \<Rightarrow> world" where
  "with_key i w = w\<lparr>w_Sessions := Store (CallID (w_ss w i)) i (w_Sessions w)\<rparr>"

definition retx :: "ss_id \<Rightarrow> Transaction \<Rightarrow> Transaction" where
  "retx i y = y\<lparr>ReTXCount := ReTXCount y + 1, TransTimeOut := 2 * TransTimeOut y, Timer := TArmed i\<rparr>"

text \<open>Sending leaves the transactions alone.\<close>

definition same_tx :: "world \<Rightarrow> world \<Rightarrow> bool" where
  "same_tx w w' \<longleftrightarrow> w_tx w' = w_tx w"

interpretation same_tx: go_rel same_tx
  by unfold_locales (simp_all add: same_tx_def)

lemma Send_same_tx: "keeps same_tx (Send i t)"
  by (auto simp: Send_def sendmessage_def upd_msg_def same_tx_def split: option.split
      intro!: same_tx.keeps_bind same_tx.keeps_basic same_tx.keeps_act)

text \<open>
  \<open>Rf j\<close> relates the worlds while session \<open>j\<close> is set up, from its creation until it is put into
  the session map.
\<close>

locale world_rel = quiet_rel +
  fixes Rf :: "ss_id \<Rightarrow> world \<Rightarrow> world \<Rightarrow> bool"
  assumes Rf_call: "call_rel (Rf j) j"
    and R_recover: "R w (w\<lparr>w_panic := p, w_recovered := n\<rparr>)"
    and R_limiter: "lm = resetCount (w_limiter w) \<or> lm = snd (AcceptNewCall (w_limiter w)) \<Longrightarrow>
      R w (w\<lparr>w_limiter := lm\<rparr>)"
    and R_phones: "(phones_wf (w_uas w) (w_phones w) \<Longrightarrow> phones_wf us ps) \<Longrightarrow>
      R w (w\<lparr>w_uas := us, w_phones := ps\<rparr>)"
    and R_routes: "(list_all route_wf (w_routes w) \<Longrightarrow> list_all route_wf rs) \<Longrightarrow> R w (w\<lparr>w_routes := rs\<rparr>)"
    and R_drop: "\<not> IsDisposed (w_ss w i) \<Longrightarrow> R w (drop_session i w)"
    and R_retx: "ReTXCount (w_tx w t) < ReTXCount_max \<Longrightarrow> Timer (w_tx w t) \<noteq> TNil \<Longrightarrow>
      R w (w\<lparr>w_tx := (w_tx w)(t := retx i (w_tx w t))\<rparr>)"
    and R_leave: "fresh_ss s \<Longrightarrow> Rf (w_nss w) (with_ss s w) w2 \<Longrightarrow> R w w2"
    and R_add: "fresh_ss s \<Longrightarrow> Rf (w_nss w) (with_ss s w) w2 \<Longrightarrow> \<not> w_panic w2 \<Longrightarrow>
      R w (with_key (w_nss w) w2)"
    and R_panicking: "w_panic w \<Longrightarrow> Rf j w w2 \<Longrightarrow> w_panic w2 \<and> R w w2"
begin

lemma keeps_recover: "keeps R recover"
  by (simp add: keeps_def R_refl R_recover)

lemma keeps_set_panic: "keeps R (set_panic p)"
proof -
  have "R w (w\<lparr>w_panic := p\<rparr>)" for w
    using R_recover [where w = w and p = p and n = "w_recovered w"] by simp
  then show ?thesis by (simp add: keeps_def)
qed

lemma keeps_protect: "keeps R m \<Longrightarrow> keeps R (protect m)"
  by (auto simp: protect_def intro!: keeps_basic keeps_bind keeps_recover)

lemma keeps_deferred: "keeps R d \<Longrightarrow> keeps R m \<Longrightarrow> keeps R (deferred d m)"
  by (auto simp: deferred_def intro!: keeps_basic keeps_bind keeps_set_panic)

lemma keeps_DropMe: "keeps R (DropMe i)"
proof -
  have "R w (snd (run_state (DropMe i) w))" for w
    by (auto simp: DropMe_def get_ss_def panic_def R_refl R_drop R_panic)
  then show ?thesis by (simp add: keeps_def)
qed

lemma ensures_keeps: "keeps R m \<Longrightarrow> ensures (R w0) m (R w0)"
  by (auto simp: keeps_def ensures_def intro: R_trans)

definition fresh_phase :: "SipSession \<Rightarrow> world \<Rightarrow> ss_id \<Rightarrow> world \<Rightarrow> bool" where
  "fresh_phase s w0 j w \<longleftrightarrow>
     (if w_panic w0 then Rf j w0 w else j = w_nss w0 \<and> Rf j (with_ss s w0) w)"

lemmas Rf_calm = call_rel.axioms(1) [OF Rf_call, THEN quiet_rel.axioms(1), THEN send_rel.axioms(1), THEN go_rel.axioms(1)]

lemma fresh_step: "keeps (Rf j) m \<Longrightarrow> ensures (fresh_phase s w0 j) m (fresh_phase s w0 j)"
  using calm_rel.R_trans [OF Rf_calm]
  by (auto simp: keeps_def ensures_def fresh_phase_def)

lemma fresh_leave: "fresh_ss s \<Longrightarrow> fresh_phase s w0 j w \<Longrightarrow> R w0 w"
  by (auto simp: fresh_phase_def dest: R_leave R_panicking split: if_splits)

lemma fresh_ret: "fresh_ss s \<Longrightarrow> ensures (fresh_phase s w0 j) (ret a) (R w0)"
  by (rule ensures_ret) (rule fresh_leave)

lemma fresh_end: "fresh_ss s \<Longrightarrow> keeps R m \<Longrightarrow> ensures (fresh_phase s w0 j) m (R w0)"
  by (rule ensures_weaken [OF ensures_keeps]) (auto intro: fresh_leave)

lemma fresh_AddMe:
  assumes "fresh_ss s"
  shows "ensures (fresh_phase s w0 j) (AddMe j) (R w0)"
proof -
  have "R w0 (if w_panic w then w else with_key j w)" if "fresh_phase s w0 j w" for w
    using that assms by (auto simp: fresh_phase_def dest: R_leave R_panicking R_add split: if_splits)
  then show ?thesis
    unfolding ensures_def AddMe_def run_act snd_conv with_key_def [symmetric] by blast
qed

lemma keeps_fresh:
  assumes "fresh_ss s" "\<And>w0 j. ensures (fresh_phase s w0 j) (m j) (R w0)"
  shows "keeps R (new_ss s \<bind> m)"
proof -
  have "fresh_phase s w (w_nss w) (snd (run_state (new_ss s) w))" for w
    using calm_rel.R_refl [OF Rf_calm]
    by (simp add: new_ss_def fresh_phase_def with_ss_def)
  moreover have "fst (run_state (new_ss s) w) = w_nss w" for w by (simp add: new_ss_def)
  ultimately show ?thesis using assms(2)
    by (auto simp: keeps_def ensures_def split: prod.split) (metis fst_conv snd_conv)
qed

lemmas keeps_all = keeps_ops keeps_DropMe keeps_recover keeps_set_panic

lemma keeps_RerouteRequest: "keeps R (RerouteRequest l rp)"
  by (auto simp: RerouteRequest_def split: option.split intro!: keeps_protect keeps_all)

lemma keeps_check_INVITE: "keeps R (check_INVITE i t)"
  by (auto simp: check_INVITE_def split: option.split intro!: keeps_all keeps_RerouteRequest)

lemma keeps_CheckPendingTransaction: "keeps R (CheckPendingTransaction i t)"
  by (auto simp: CheckPendingTransaction_def split: option.split
      intro!: keeps_all keeps_RerouteRequest keeps_check_INVITE)

lemma keeps_timers:
  "keeps R (cancelTimerHandler i)" "keeps R (timerHandler i tt)" "keeps R (probingTickerHandler i)"
  "keeps R (maxDurationHandler i)"
  by (auto simp: cancelTimerHandler_def timerHandler_def probingTickerHandler_def maxDurationHandler_def
      split: if_splits intro!: keeps_all keeps_RerouteRequest)

lemma keeps_addIncomingRequest: "keeps R (bye_arrived i)" "keeps R (addIncomingRequest i mid lt)"
proof -
  show 1: "keeps R (bye_arrived i)"
    by (auto simp: bye_arrived_def intro!: keeps_all keeps_CheckPendingTransaction)
  show "keeps R (addIncomingRequest i mid lt)"
    by (auto simp: addIncomingRequest_def Let_def intro!: keeps_all keeps_incoming 1)
qed

lemma keeps_trans_timer:
  "keeps R (get_tx t \<bind> (\<lambda>x. case Timer x of TArmed i \<Rightarrow> transTimerHandler t i | _ \<Rightarrow> ret ()))"
proof -
  have pending: "keeps R (do { upd_tx t (\<lambda>y. y\<lparr>Timer := TNil\<rparr>); CheckPendingTransaction i t })" for i
    by (auto simp: safe_defs intro!: keeps_all keeps_CheckPendingTransaction)
  have resend: "R w (snd (run_state (do { Send i t; upd_tx t (retx i) }) w))"
    if "ReTXCount (w_tx w t) < ReTXCount_max" "Timer (w_tx w t) \<noteq> TNil" for i w
  proof -
    let ?w = "snd (run_state (Send i t) w)"
    have "w_tx ?w t = w_tx w t" using Send_same_tx by (simp add: keeps_def same_tx_def)
    with that have "R ?w (?w\<lparr>w_tx := (w_tx ?w)(t := retx i (w_tx ?w t))\<rparr>)" by (intro R_retx) simp_all
    moreover have "R w ?w" using keeps_Send(1) by (simp add: keeps_def)
    ultimately show ?thesis
      by (simp add: upd_tx_def split: prod.split) (metis R_trans snd_conv)
  qed
  have "R w (snd (run_state (transTimerHandler t i) w))" if "Timer (w_tx w t) \<noteq> TNil" for i w
  proof (cases "ReTXCount_max \<le> ReTXCount (w_tx w t)")
    case True
    then show ?thesis using pending [of i] by (simp add: keeps_def transTimerHandler_def get_tx_def)
  next
    case False
    with resend [of w i] that show ?thesis
      by (simp add: transTimerHandler_def get_tx_def retx_def [abs_def])
  qed
  then show ?thesis by (auto simp: keeps_def get_tx_def R_refl split: timer.split)
qed

text \<open>The second leg: set up with \<open>Rf\<close>, from its entry in the session map on with \<open>R\<close>.\<close>

lemmas Rf_quiet = call_rel.axioms(1) [OF Rf_call]
lemmas Rf_ops = quiet_rel.keeps_ops [OF Rf_quiet]
lemmas Rf_routing = quiet_rel.keeps_routing_steps [OF Rf_quiet]

lemma fresh_NewSS: "fresh_ss (NewSS d)"
  by (simp add: fresh_ss_def NewSS_def)

lemma fresh_launch:
  assumes "fresh_ss s"
  shows "ensures (fresh_phase s w0 j) (launch i j t) (R w0)"
  unfolding launch_def
  by (intro ensures_bind [OF fresh_step] ensures_if fresh_ret ensures_bind [OF fresh_AddMe] assms
      ensures_keeps Rf_ops keeps_ops)

lemma keeps_routing:
  "keeps R (RouteRequestExternal i t mid)" "keeps R (finishEchoCall ew)" "keeps R (route_call i t mid up)"
  "keeps R (route_by_table i t mid rd up)" "keeps R (RouteRequestInternal i t mid)"
proof -
  note fresh = fresh_NewSS [THEN iffD1 [OF fresh_ss_def]]
  show "keeps R (RouteRequestExternal i t mid)"
    unfolding RouteRequestExternal_def
    by (intro keeps_protect keeps_bind keeps_if keeps_ret keeps_routing_steps keeps_all keeps_fresh
        ensures_bind [OF fresh_step] Rf_routing fresh_launch)
       (use fresh in \<open>auto simp: fresh_ss_def intro!: ensures_bind [OF fresh_step] fresh_launch Rf_ops
         call_rel.keeps_new_leg [OF Rf_call] split: prod.split\<close>)
  show "keeps R (finishEchoCall ew)"
    by (auto simp: finishEchoCall_def intro!: keeps_protect keeps_all)
  have leg: "ensures (fresh_phase s w0 j)
      (do { m \<leftarrow> get_msg mid; (t2, _) \<leftarrow> CreateLinkedINVITE j up (Body m); upd_ss j (f j t2); launch i j t2 }) (R w0)"
    if "fresh_ss s" "\<And>j t2. ss_safe (f j t2)" for s w0 j up f
    using that by (auto intro!: ensures_bind [OF fresh_step] fresh_launch Rf_ops
        quiet_rel.keeps_upd_ss [OF Rf_quiet] call_rel.keeps_new_leg [OF Rf_call] split: prod.split)
  have second: "ensures (fresh_phase s w0 j)
      (do { link_sessions i j; ok2 \<leftarrow> (if c then reserve_socket j else ret True);
            if \<not> ok2 then do { DropMe j; reject i t sc q d } else m j }) (R w0)"
    if "fresh_ss s" "ensures (fresh_phase s w0 j) (m j) (R w0)" for s w0 j c sc q d m
  proof (rule ensures_bind [OF fresh_step [OF Rf_routing(8)]], rule ensures_bind [OF fresh_step])
    show "keeps (Rf j) (if c then reserve_socket j else ret True)"
      by (auto intro: Rf_routing Rf_ops)
    show "ensures (fresh_phase s w0 j) (if \<not> ok2 then do { DropMe j; reject i t sc q d } else m j) (R w0)" for ok2
      by (intro ensures_if fresh_end that keeps_bind keeps_all)
  qed
  show 1: "keeps R (route_call i t mid up)" for up
    unfolding route_call_def
    by (intro keeps_fresh keeps_bind keeps_if keeps_ret keeps_routing_steps keeps_all second leg)
       (use fresh in \<open>simp_all add: fresh_ss_def ss_safe_def\<close>)
  show 2: "keeps R (route_by_table i t mid rd up)" for rd up
    by (auto simp: route_by_table_def Let_def split: CallFlow.split intro!: keeps_all keeps_routing_steps 1)
  show "keeps R (RouteRequestInternal i t mid)"
    by (auto simp: RouteRequestInternal_def Let_def split: option.split
        intro!: keeps_protect keeps_all keeps_routing_steps 1 2)
qed

lemma keeps_probing: "keeps R (ProbeUA conn ua)" "keeps R (periodicUAProbing conn)"
proof -
  note fresh = fresh_NewSS [THEN iffD1 [OF fresh_ss_def]]
  have leg: "ensures (fresh_phase s w0 j)
      (do { t \<leftarrow> CreateSARequest j rp None; SetState j BeingProbed; AddMe j; SendSTMessage j t }) (R w0)"
    if "fresh_ss s" for s w0 j rp
    by (intro ensures_bind [OF fresh_step] ensures_bind [OF fresh_AddMe] ensures_keeps keeps_Send that
        call_rel.keeps_new_leg(5) [OF Rf_call] quiet_rel.keeps_set_states(1) [OF Rf_quiet])
  show 1: "keeps R (ProbeUA conn ua)" for conn ua
  proof (cases conn; cases ua)
    fix c n assume "conn = Some c" "ua = Some n"
    then show ?thesis unfolding ProbeUA_def using fresh
      by (auto simp: fresh_ss_def intro!: keeps_bind [OF keeps_routing_steps(5)] keeps_bind [OF keeps_routing_steps(6)]
          keeps_fresh leg)
  qed (simp_all add: ProbeUA_def keeps_ret)
  show "keeps R (periodicUAProbing conn)"
    by (auto simp: periodicUAProbing_def intro!: keeps_all 1)
qed

text \<open>A new session is stored under the Call-ID of its first message at once.\<close>

lemma keeps_store_new:
  assumes "fresh_ss s"
  shows "keeps R (new_ss s \<bind> (\<lambda>i. store_session (CallID s) i \<bind> (\<lambda>ex. ret (i, ex))))"
proof -
  have "R w (snd (run_state (new_ss s \<bind> (\<lambda>i. store_session (CallID s) i \<bind> (\<lambda>ex. ret (i, ex)))) w))" for w
  proof (cases "w_panic w")
    case False
    let ?w = "with_key (w_nss w) (with_ss s w)"
    have "R w ?w"
      using False assms calm_rel.R_refl [OF Rf_calm]
      by (intro R_add) (simp_all add: with_ss_def)
    moreover have "R ?w (?w\<lparr>w_limiter := snd (AcceptNewCall (w_limiter ?w))\<rparr>)" by (intro R_limiter) simp
    ultimately have "R w (?w\<lparr>w_limiter := snd (AcceptNewCall (w_limiter ?w))\<rparr>)" "R w ?w"
      by (blast intro: R_trans)+
    with False show ?thesis
      by (simp add: new_ss_def store_session_def with_key_def with_ss_def get_ss_def)
  qed (simp add: new_ss_def store_session_def get_ss_def R_refl)
  then show ?thesis by (simp add: keeps_def)
qed

lemma keeps_new_session_type: "keeps R (classify_INVITE i m ex)" "keeps R (new_session_type i m ex)"
proof -
  show 1: "keeps R (classify_INVITE i m ex)"
    by (auto simp: classify_INVITE_def intro!: keeps_all)
  show "keeps R (new_session_type i m ex)"
    by (auto simp: new_session_type_def split: Method.split intro!: keeps_all 1)
qed

lemma keeps_sessionGetter: "keeps R (sessionGetter m)"
proof -
  have f: "fresh_ss (NewSIPSession m)" "CallID (NewSIPSession m) = sm_CallID m"
    by (simp_all add: fresh_ss_def NewSIPSession_def NewSS_def)
  let ?new = "new_ss (NewSIPSession m) \<bind> (\<lambda>i. store_session (sm_CallID m) i \<bind> (\<lambda>ex. ret (i, ex)))"
  let ?ty = "\<lambda>(i, ex). new_session_type i m ex \<bind> (\<lambda>ty. ret (Some i, ty))"
  have "keeps R (?ty p)" for p by (auto intro!: keeps_bind keeps_ret keeps_new_session_type split: prod.split)
  with keeps_store_new [OF f(1)] have "keeps R (?new \<bind> ?ty)" unfolding f(2) by (rule keeps_bind)
  then have new: "keeps R (new_ss (NewSIPSession m) \<bind> (\<lambda>i. store_session (sm_CallID m) i \<bind>
      (\<lambda>ex. new_session_type i m ex \<bind> (\<lambda>ty. ret (Some i, ty)))))" by simp
  show ?thesis
    unfolding sessionGetter_def by (intro keeps_bind keeps_option new keeps_if keeps_all)
qed

lemma keeps_handlers:
  "keeps R (handle_refused i t ms ty)" "keeps R (respond_warning i t sc wn)"
  "keeps R (answer_locally i t ms ns)" "keeps R (competing i l)" "keeps R (handle_INVITE i t mid)"
  "keeps R (handle_ReINVITE i t ms)" "keeps R (handle_ACK i t ms)" "keeps R (incompatible i t)"
  "keeps R (handle_CANCEL i t)" "keeps R (handle_BYE i t)" "keeps R (handle_OPTIONS i t ms)"
  "keeps R (handle_UPDATE i t ms)" "keeps R (handle_PRACK i t ms)" "keeps R (handle_REFER i t ms)"
  "keeps R (handle_INFO i t ms)" "keeps R (handle_REGISTER i t mid)"
proof -
  show "keeps R (handle_refused i t ms ty)"
    by (auto simp: handle_refused_def split: NewSessionType.split intro!: keeps_all)
  show 1: "keeps R (respond_warning i t sc wn)" for sc wn
    by (auto simp: respond_warning_def intro!: keeps_all)
  show 2: "keeps R (answer_locally i t ms ns)" for ns
    by (auto simp: answer_locally_def split: option.split prod.split intro!: keeps_all keeps_routing_steps 1)
  show 3: "keeps R (competing i l)" for l
    by (auto simp: competing_def intro!: keeps_all)
  show "keeps R (handle_INVITE i t mid)"
    by (auto simp: handle_INVITE_def intro!: keeps_all keeps_routing)
  show "keeps R (handle_ReINVITE i t ms)"
    by (auto simp: handle_ReINVITE_def split: option.split intro!: keeps_all 1 2 3)
  show "keeps R (handle_ACK i t ms)"
    by (auto simp: handle_ACK_def split: option.split intro!: keeps_all)
  show 4: "keeps R (incompatible i t)"
    by (auto simp: incompatible_def intro!: keeps_all)
  show "keeps R (handle_CANCEL i t)"
    by (auto simp: handle_CANCEL_def split: option.split intro!: keeps_all 4)
  show "keeps R (handle_BYE i t)"
    by (auto simp: handle_BYE_def split: option.split intro!: keeps_all 4)
  show "keeps R (handle_OPTIONS i t ms)"
    by (auto simp: handle_OPTIONS_def intro!: keeps_all)
  show "keeps R (handle_UPDATE i t ms)"
    by (auto simp: handle_UPDATE_def split: option.split intro!: keeps_all 1 2 3)
  show "keeps R (handle_PRACK i t ms)"
    by (auto simp: handle_PRACK_def split: option.split intro!: keeps_all 1)
  show "keeps R (handle_REFER i t ms)"
    by (auto simp: handle_REFER_def intro!: keeps_all keeps_routing_steps 1)
  show "keeps R (handle_INFO i t ms)"
    by (auto simp: handle_INFO_def split: option.split intro!: keeps_all)
  have register: "keeps R (do { e \<leftarrow> asks w_env; uas \<leftarrow> asks w_uas; phs \<leftarrow> asks w_phones;
      (st, uas', phs') \<leftarrow> deref (NotSet, uas, phs) (AddOrUpdate (e_resolve e) ext ruri ipport expires (uas, phs));
      act (\<lambda>w. w\<lparr>w_uas := uas', w_phones := phs'\<rparr>); ret st })" for ext ruri ipport expires
  proof -
    have "R w (snd (run_state (do { e \<leftarrow> asks w_env; uas \<leftarrow> asks w_uas; phs \<leftarrow> asks w_phones;
      (st, uas', phs') \<leftarrow> deref (NotSet, uas, phs) (AddOrUpdate (e_resolve e) ext ruri ipport expires (uas, phs));
      act (\<lambda>w. w\<lparr>w_uas := uas', w_phones := phs'\<rparr>); ret st }) w))" for w
      using AddOrUpdate_wf [of "w_uas w" "w_phones w" "e_resolve (w_env w)" ext ruri ipport expires]
      by (cases "AddOrUpdate (e_resolve (w_env w)) ext ruri ipport expires (w_uas w, w_phones w)")
         (auto simp: deref_def panic_def R_refl R_panic intro!: R_phones)
    then show ?thesis by (simp add: keeps_def)
  qed
  show "keeps R (handle_REGISTER i t mid)"
  proof -
    have put: "keeps R (do { e \<leftarrow> asks w_env; uas \<leftarrow> asks w_uas; phs \<leftarrow> asks w_phones;
      (st, uas', phs') \<leftarrow> deref (NotSet, uas, phs) (AddOrUpdate (e_resolve e) ext ruri ipport expires (uas, phs));
      act (\<lambda>w. w\<lparr>w_uas := uas', w_phones := phs'\<rparr>); SetState i st;
      SendCreatedResponseDetailed i (Some t) ((response_pack 200)\<lparr>rp_ContactHeader := c\<rparr>) None })"
      for ext ruri ipport expires c
      using keeps_bind [OF register keeps_bind [OF keeps_set_states(1) keeps_responses(5)]]
      by (simp add: split_def)
    show ?thesis
      unfolding handle_REGISTER_def split_def
      by (intro put [unfolded split_def] keeps_bind keeps_deferred keeps_if 1 keeps_all)
  qed
qed

lemma keeps_handle_request: "keeps R (handle_request i t mid)"
  by (auto simp: handle_request_def split: Method.split intro!: keeps_all keeps_handlers)

lemma keeps_responses_in:
  "keeps R (finish_bye i)" "keeps R (handle_18x i l m)" "keeps R (handle_2xx_INVITE i l m)"
  "keeps R (handle_2xx i l t m)" "keeps R (handle_3xx i l t m)" "keeps R (handle_failed_INVITE i l m)"
  "keeps R (handle_failure i l t m)" "keeps R (probe_answered i)" "keeps R (handle_response_alone i t m)"
  "keeps R (handle_response i t mid)"
proof -
  show 1: "keeps R (finish_bye i)" by (auto simp: finish_bye_def intro!: keeps_all)
  show 2: "keeps R (handle_18x i l m)" for l m
    by (auto simp: handle_18x_def Let_def intro!: keeps_all)
  show 3: "keeps R (handle_2xx_INVITE i l m)" for l m
    by (auto simp: handle_2xx_INVITE_def intro!: keeps_all)
  show 4: "keeps R (handle_2xx i l t m)" for l m
    by (auto simp: handle_2xx_def split: Method.split intro!: keeps_all 1 3)
  show 5: "keeps R (handle_3xx i l t m)" for l m
    by (auto simp: handle_3xx_def intro!: keeps_all keeps_RerouteRequest)
  show 6: "keeps R (handle_failed_INVITE i l m)" for l m
    by (auto simp: handle_failed_INVITE_def intro!: keeps_all keeps_RerouteRequest)
  show 7: "keeps R (handle_failure i l t m)" for l m
    by (auto simp: handle_failure_def split: Method.split intro!: keeps_all 1 6)
  have alive: "R w (w\<lparr>w_uas := (w_uas w)[n := SetAlive True (w_uas w ! n)]\<rparr>)" for w n
    using R_phones [where w = w and us = "(w_uas w)[n := SetAlive True (w_uas w ! n)]" and ps = "w_phones w"]
    by (simp add: SetAlive_wf)
  show 8: "keeps R (probe_answered i)"
    by (auto simp: probe_answered_def intro!: keeps_all keeps_act alive)
  show 9: "keeps R (handle_response_alone i t m)" for m
    by (auto simp: handle_response_alone_def Let_def split: Method.split intro!: keeps_all 1 8)
  show "keeps R (handle_response i t mid)"
    by (auto simp: handle_response_def Let_def split: option.split intro!: keeps_all 2 4 5 7 9)
qed

lemma keeps_stack: "keeps R (stack_body mid i ty)" "keeps R (sipStack mid so ty)" "keeps R (session_of m)"
  "keeps R (process_message m mb src conn)"
proof -
  show 1: "keeps R (stack_body mid i ty)" for mid i ty
    by (auto simp: stack_body_def split: option.split
        intro!: keeps_all keeps_addIncomingRequest keeps_incoming keeps_handlers keeps_handle_request keeps_responses_in)
  show 2: "keeps R (sipStack mid so ty)" for mid so ty
    by (auto simp: sipStack_def split: option.split intro!: keeps_protect keeps_all 1)
  show 3: "keeps R (session_of m)" for m
    by (auto simp: session_of_def intro!: keeps_sessionGetter keeps_all)
  show "keeps R (process_message m mb src conn)"
    by (auto simp: process_message_def Let_def split: option.split prod.split intro!: keeps_all 2 3)
qed

lemma keeps_run_event: "keeps R (run_event ev)"
proof (cases ev)
  case (DropDue n)
  have "R w (w\<lparr>w_drops := ds\<rparr>)" for w ds
    using R_pending [where w = w and ds = ds and es = "w_echo w"] by simp
  then show ?thesis by (auto simp: DropDue run_event_def intro!: keeps_all keeps_act)
next
  case (EchoDue n)
  have "R w (w\<lparr>w_echo := es\<rparr>)" for w es
    using R_pending [where w = w and ds = "w_drops w" and es = es] by simp
  then show ?thesis by (auto simp: EchoDue run_event_def intro!: keeps_all keeps_act keeps_routing)
next
  case LimiterTick
  then show ?thesis by (auto simp: run_event_def intro!: keeps_act R_limiter)
next
  case (RefreshConfig rows)
  then show ?thesis
    by (auto simp: run_event_def refreshConfig_def intro!: keeps_all keeps_act R_routes ReadConfig_wf)
next
  case (TransTimer t)
  then show ?thesis using keeps_trans_timer by (simp add: run_event_def)
qed (auto simp: run_event_def safe_defs split: timer.split
      intro!: keeps_all keeps_timers keeps_stack keeps_probing)

end

end
