(* ===== verification/Start_Up.thy ===== *)
theory Start_Up
  imports Sip_Stack
begin

text \<open>
  \<open>StartServer\<close> of \<open>sip/init.go\<close>: the state in which the router starts to listen, and the
  worlds that its events lead to. The configuration is what the environment variables gave:
  the socket of the application server or none, the addresses, the interval of the probing in
  a dialogue. The machine's own addresses, the parser of an address and the decoded routing
  file come from outside. The objects that do not exist yet have their zero value.
\<close>

definition RateLimit :: int where "RateLimit = 1500"

definition idle_world :: "env \<Rightarrow> world" where
  "idle_world e =
     \<lparr>w_env = e, w_ss = (\<lambda>_. NewSS INBOUND), w_nss = 0, w_tx = (\<lambda>_. zero_Transaction), w_ntx = 0,
      w_msg = (\<lambda>_. NewRequestMessage UNKNOWN []), w_nmsg = 0, w_body = (\<lambda>_. NewBody), w_nbody = 0,
      w_Sessions = NewConcurrentMapMutex, w_limiter = NewCallLimiter RateLimit, w_uas = [],
      w_phones = NewIPPhoneRepo, w_pool = NewMediaPortPool, w_routes = [], w_ServerIPv4 = [],
      w_SkipAS = True, w_ASUserAgent = None, w_ProxyUdpServer = None,
      w_IndialogueProbingInterval = IdProbingSec, w_sippTesting = False, w_seed = 0, w_out = [],
      w_drops = [], w_echo = [], w_panic = False, w_recovered = 0\<rparr>"

text \<open>
  The socket the router listens on: a nil address or a refused bind is an error. Which binds the
  system accepts is the parameter \<open>listen\<close>; the mark of the traffic class is only logged when
  it fails.
\<close>

definition StartListening :: "(string \<Rightarrow> int \<Rightarrow> bool) \<Rightarrow> string option \<Rightarrow> int \<Rightarrow> bool" where
  "StartListening listen ip prt = (case ip of None \<Rightarrow> False | Some a \<Rightarrow> listen a prt)"

text \<open>
  The machine's own addresses: of every interface that is up and running the first that is a
  private IPv4 address.
\<close>

record interface =
  if_up :: bool
  if_running :: bool
  if_addrs :: "(string \<times> bool) list"

definition GetLocalIPs :: "interface list \<Rightarrow> string list" where
  "GetLocalIPs ifaces =
     List.map_filter (\<lambda>i. if \<not> if_up i \<or> \<not> if_running i then None
                     else map_option fst (List.find snd (if_addrs i))) ifaces"

text \<open>
  The routing file beside the program; the path of the program, its directory and the reading of
  a file are the system's, and a failure of either gives no data.
\<close>

definition readJsonFile :: "string option \<Rightarrow> (string \<Rightarrow> string) \<Rightarrow> (string \<Rightarrow> string option) \<Rightarrow> string option" where
  "readJsonFile exePath dir readFile =
     (case exePath of
        None \<Rightarrow> None
      | Some p \<Rightarrow> readFile (dir p @ ''/rdb.json''))"

text \<open>
  \<open>None\<close> is a router that does not start: a machine without an address of its own (an index
  panic), an address that does not parse, a port that cannot be bound.
\<close>

definition StartServer ::
    "env \<Rightarrow> (string \<Rightarrow> string option) \<Rightarrow> interface list \<Rightarrow> (string \<Rightarrow> int \<Rightarrow> bool) \<Rightarrow> config_row list option
      \<Rightarrow> UdpSocket option \<Rightarrow> string \<Rightarrow> int \<Rightarrow> int \<Rightarrow> string \<Rightarrow> world option" where
  "StartServer e parse_ip ifaces listen rows asUdpskt ipv4 prt indint uproxy =
     (let w0 = idle_world e;
          w1 = w0\<lparr>w_SkipAS := (asUdpskt = None),
                 w_uas := (case NewSipUdpUserAgentFromSocket asUdpskt of None \<Rightarrow> [] | Some ua \<Rightarrow> [ua]),
                 w_ASUserAgent := (if asUdpskt = None then None else Some 0),
                 w_routes := (if asUdpskt = None
                              then ReadConfig (e_compile e) (e_resolve e) rows [] else [])\<rparr>;
          w2 = (if indint = - 1 then w1\<lparr>w_IndialogueProbingInterval := IdProbingSec\<rparr>
                else w1\<lparr>w_IndialogueProbingInterval := indint, w_sippTesting := True\<rparr>);
          w3 = (if uproxy = [] then w2
                else w2\<lparr>w_ProxyUdpServer := BuildUdpAddr (e_resolve e) uproxy SipPort\<rparr>);
          ip = (if ipv4 \<noteq> [] then parse_ip ipv4
                else case GetLocalIPs ifaces of [] \<Rightarrow> None | a # _ \<Rightarrow> Some a)
      in if StartListening listen ip prt then Some (w3\<lparr>w_ServerIPv4 := the ip\<rparr>) else None)"

text \<open>The worlds of a run: a started router and the events it took without stopping.\<close>

inductive world_reachable :: "world \<Rightarrow> bool" where
  started: "StartServer e parse_ip ifaces listen rows asUdpskt ipv4 prt indint uproxy = Some w \<Longrightarrow>
    world_reachable w"
| stepped: "world_reachable w \<Longrightarrow> world_step w w' \<Longrightarrow> world_reachable w'"

end
