(* ===== verification/Sample.thy ===== *)
theory Sample
  imports Start_Up
begin

text \<open>
  A concrete router and concrete traffic, for the properties to be applied to: an environment
  whose every answer is fixed, a router without an application server, and a call that the
  routing table sends to \<open>10.0.0.2\<close>. The messages are the values that the parser makes of
  them.
\<close>

definition sample_sdp :: sdp_lib where
  "sample_sdp =
     \<lparr>sdp_Parse = (\<lambda>_. Some 0), sdp_BuildEchoResponderAnswer = (\<lambda>n. Inr n), sdp_IsCallHeld = (\<lambda>_. False),
      sdp_IsT38Image = (\<lambda>_. False), sdp_GetEffectiveMediaUdpAddr = (\<lambda>_. None),
      sdp_SetName = (\<lambda>_ n. n), sdp_SetConnection = (\<lambda>_ _ n. n), sdp_SetOriginID = (\<lambda>_ n. n),
      sdp_SetOriginVersion = (\<lambda>v n. nat v), sdp_Equals = (=), sdp_Bytes = dec_string\<rparr>"

definition sample_addr :: "string \<Rightarrow> UDPAddr" where
  "sample_addr ip = \<lparr>IP = ip, Port = 5060, Zone = []\<rparr>"

definition sample_env :: env where
  "sample_env =
     \<lparr>e_resolve = (\<lambda>s. case Cut s '':'' of (h, _, _) \<Rightarrow> Some (sample_addr h)), e_sdp = sample_sdp,
      e_uuid = (\<lambda>n. ''01234567-89ab-cdef-0123-'' @ dec_string n), e_rand = (\<lambda>n lo. lo + of_nat n),
      e_date = (\<lambda>_. ''Thu, 01 Jan 2026 00:00:00 GMT''), e_listen = (\<lambda>_ _. True),
      e_compile = (\<lambda>_. Some (Seq [Bol, Cap 1 (Plus (Cls False [(48, 57)])), Eol]))\<rparr>"

definition sample_row :: config_row where
  "sample_row =
     \<lparr>row_pattern = ''^([0-9]+)$'',
      row_RD = zero_RoutingRecord\<lparr>OutCallFlow := Transparent, OutRuriHostport := ''10.0.0.2:5060'',
        OutRuriUserpart := ''9$1'', MaxCallDuration := 7200, No18xTimeout := 30, NoAnswerTimeout := 60\<rparr>\<rparr>"

definition sample_router :: world where
  "sample_router =
     the (StartServer sample_env Some [] (\<lambda>_ _. True) (Some [sample_row]) None ''10.0.0.1'' 5060 (- 1) [])"

definition sample_headers :: "Method \<Rightarrow> string \<Rightarrow> string \<Rightarrow> string \<Rightarrow> string \<Rightarrow> string \<Rightarrow> SipHeaders" where
  "sample_headers m via frm to callid cseq =
     AddHeader CSeq_hdr (cseq @ '' '' @ Method_String m) (AddHeader Call_ID_hdr callid
       (AddHeader To_hdr to (AddHeader From_hdr frm (AddHeader Via_hdr via NewSipHeaders))))"

definition sample_request :: "Method \<Rightarrow> string \<Rightarrow> string \<Rightarrow> string \<Rightarrow> string \<Rightarrow> SipMessage" where
  "sample_request m branch totag callid cseq =
     (let frm = ''<sip:100@10.0.0.3>;tag=a'';
          to = ''<sip:200@10.0.0.1>'' @ (if totag = [] then [] else '';tag='' @ totag)
      in (NewRequestMessage m ''200'')\<lparr>
        Headers := sample_headers m (''SIP/2.0/UDP 10.0.0.3:5060;branch='' @ branch) frm to callid cseq,
        sm_ViaUdpAddr := Some (sample_addr ''10.0.0.3''), sm_FromTag := ''a'', sm_ToTag := totag,
        sm_FromHeader := frm, sm_ToHeader := to, sm_ViaBranch := branch, sm_CallID := callid,
        RCURI := ''sip:100@10.0.0.3'', MaxFwds := 70, CSeqMethod := m, CSeqNum := Str2Uint cseq\<rparr>)"

definition sample_response :: "int \<Rightarrow> Method \<Rightarrow> string \<Rightarrow> string \<Rightarrow> u32 \<Rightarrow> SipMessage" where
  "sample_response sc m branch callid cseq =
     (let frm = ''<sip:100@10.0.0.1>;tag=f''; to = ''<sip:200@10.0.0.2>;tag=b''
      in (NewResponseMessage sc [])\<lparr>
        Headers := sample_headers m (''SIP/2.0/UDP 10.0.0.1:5060;branch='' @ branch) frm to callid
                     (dec_string (unat cseq)),
        sm_ViaUdpAddr := Some (sample_addr ''10.0.0.1''), sm_FromTag := ''f'', sm_ToTag := ''b'',
        sm_FromHeader := frm, sm_ToHeader := to, sm_ViaBranch := branch, sm_CallID := callid,
        RCURI := ''sip:200@10.0.0.2'', CSeqMethod := m, CSeqNum := cseq\<rparr>)"

text \<open>A whole call: set up, answered, acknowledged and cleared by the caller.\<close>

definition from_caller :: "SipMessage \<Rightarrow> event" where
  "from_caller m = Receive m None (sample_addr ''10.0.0.3'') (sample_addr ''10.0.0.1'')"

definition from_callee :: "SipMessage \<Rightarrow> event" where
  "from_callee m = Receive m None (sample_addr ''10.0.0.2'') (sample_addr ''10.0.0.1'')"

definition sample_answer :: "int \<Rightarrow> SipMessage" where
  "sample_answer sc = sample_response sc INVITE ''z9hG4bK4'' ''01234567-89ab-cdef-0123-6'' 503"

definition sample_call :: "event list" where
  "sample_call =
     [from_caller (sample_request INVITE ''z9hG4bKx'' [] ''c1'' ''1''),
      from_callee (sample_answer 180), from_callee (sample_answer 200),
      from_caller (sample_request ACK ''z9hG4bKy'' ''9'' ''c1'' ''1''),
      from_caller (sample_request BYE ''z9hG4bKz'' ''9'' ''c1'' ''2'')]"

definition run_events :: "event list \<Rightarrow> world \<Rightarrow> world" where
  "run_events evs w = foldl (\<lambda>w ev. snd (run_state (run_event ev) w)) w evs"

end
