(* ===== verification/Invariants.thy ===== *)
theory Invariants
  imports Frames Sample
begin

text \<open>
  Two relations that every event of the router keeps: what only grows, and the invariant of
  the stores. Both are interpretations of \<open>world_rel\<close>.
\<close>

section \<open>What only grows\<close>

definition ss_grows :: "SipSession \<Rightarrow> SipSession \<Rightarrow> bool" where
  "ss_grows s s' \<longleftrightarrow> Direction_ss s' = Direction_ss s \<and> prefix (Transactions s) (Transactions s') \<and>
     (IsDisposed s \<longrightarrow> IsDisposed s')"

definition grows :: "world \<Rightarrow> world \<Rightarrow> bool" where
  "grows w w' \<longleftrightarrow> w_nss w \<le> w_nss w' \<and> w_ntx w \<le> w_ntx w' \<and> w_env w' = w_env w \<and>
     prefix (w_out w) (w_out w') \<and> rate (w_limiter w') = rate (w_limiter w) \<and>
     (\<forall>i < w_nss w. ss_grows (w_ss w i) (w_ss w' i)) \<and>
     (\<forall>t < w_ntx w. tx_grows (w_tx w t) (w_tx w' t))"

definition grows_new :: "world \<Rightarrow> world \<Rightarrow> bool" where
  "grows_new w w' \<longleftrightarrow> grows w w' \<and> (w_panic w \<longrightarrow> w_panic w')"

lemma ss_grows_refl [simp]: "ss_grows s s"
  by (simp add: ss_grows_def)

lemma tx_grows_refl [simp]: "tx_grows x x"
  by (simp add: tx_grows_def)

lemma ss_grows_trans: "ss_grows s s' \<Longrightarrow> ss_grows s' s'' \<Longrightarrow> ss_grows s s''"
  by (auto simp: ss_grows_def dest: prefix_order.trans)

lemma tx_grows_trans: "tx_grows s s' \<Longrightarrow> tx_grows s' s'' \<Longrightarrow> tx_grows s s''"
  by (auto simp: tx_grows_def dest: prefix_order.trans)

lemma grows_trans: "grows w1 w2 \<Longrightarrow> grows w2 w3 \<Longrightarrow> grows w1 w3"
  unfolding grows_def
  by (auto intro: prefix_order.trans ss_grows_trans tx_grows_trans dest: order.strict_trans2)

lemma tx_grows_retx:
  "ReTXCount x < ReTXCount_max \<Longrightarrow> Timer x \<noteq> TNil \<Longrightarrow> tx_grows x (retx i x)"
  by (auto simp: tx_grows_def retx_def tx_ok_def final_ok_def timer_ok_def nat_add_distrib)

lemma grows_quiet: "quiet_rel grows"
proof
  show "grows w1 w3" if "grows w1 w2" "grows w2 w3" for w1 w2 w3
    using that by (rule grows_trans)
  show ss: "ss_safe f \<Longrightarrow> grows w (w\<lparr>w_ss := (w_ss w)(i := f (w_ss w i))\<rparr>)" for f w i
    by (auto simp: grows_def ss_safe_def ss_grows_def)
  show "send_safe f \<Longrightarrow> grows w (w\<lparr>w_ss := (w_ss w)(i := f (w_ss w i))\<rparr>)" for f w i
    by (intro ss send_safe_ss_safe)
  show "tx_safe g \<Longrightarrow> grows w (w\<lparr>w_tx := (w_tx w)(t := g (w_tx w t))\<rparr>)" for g w t
    by (auto simp: grows_def tx_safe_def)
qed (auto simp: grows_def ss_grows_def)

lemma grows_new_call: "call_rel grows_new j"
proof
  show "grows_new w1 w3" if "grows_new w1 w2" "grows_new w2 w3" for w1 w2 w3
    using that by (auto simp: grows_new_def intro: grows_trans)
  show ss: "ss_safe f \<Longrightarrow> grows_new w (w\<lparr>w_ss := (w_ss w)(i := f (w_ss w i))\<rparr>)" for f w i
    by (auto simp: grows_new_def grows_def ss_safe_def ss_grows_def)
  show "send_safe f \<Longrightarrow> grows_new w (w\<lparr>w_ss := (w_ss w)(i := f (w_ss w i))\<rparr>)" for f w i
    by (intro ss send_safe_ss_safe)
  show "tx_safe g \<Longrightarrow> grows_new w (w\<lparr>w_tx := (w_tx w)(t := g (w_tx w t))\<rparr>)" for g w t
    by (auto simp: grows_new_def grows_def tx_safe_def)
  show "ss_safe (\<lambda>s. f s\<lparr>CallID := CallID s\<rparr>) \<Longrightarrow>
    grows_new w (w\<lparr>w_ss := (w_ss w)(j := f (w_ss w j))\<rparr>)" for f w
    by (auto simp: grows_new_def grows_def ss_safe_def ss_grows_def)
qed (auto simp: grows_new_def grows_def ss_grows_def)

interpretation grow_new: call_rel grows_new j for j
  by (rule grows_new_call)

interpretation grow: world_rel grows "\<lambda>_. grows_new"
proof (intro world_rel.intro world_rel_axioms.intro grows_quiet grows_new_call)
  show "grows w (drop_session i w)" for w i
    by (auto simp: grows_def drop_session_def Let_def ss_grows_def)
  show "lm = resetCount (w_limiter w) \<or> lm = snd (AcceptNewCall (w_limiter w)) \<Longrightarrow>
      grows w (w\<lparr>w_limiter := lm\<rparr>)" for lm w
    by (auto simp: grows_def resetCount_def AcceptNewCall_def)
  show "ReTXCount (w_tx w t) < ReTXCount_max \<Longrightarrow> Timer (w_tx w t) \<noteq> TNil \<Longrightarrow>
      grows w (w\<lparr>w_tx := (w_tx w)(t := retx i (w_tx w t))\<rparr>)" for w t i
    using tx_grows_retx by (auto simp: grows_def)
  have fresh: "grows w w2" if "grows (with_ss s w) w2" for w s w2
  proof -
    have "grows w (with_ss s w)" by (auto simp: grows_def with_ss_def)
    with that show ?thesis by (blast intro: grows_trans)
  qed
  show "grows_new (with_ss s w) w2 \<Longrightarrow> grows w w2" for w s w2
    by (auto simp: grows_new_def intro: fresh)
  show "grows_new (with_ss s w) w2 \<Longrightarrow> grows w (with_key (w_nss w) w2)" for w s w2
    using fresh [of s w w2] by (auto simp: grows_new_def grows_def with_key_def)
  show "w_panic w \<Longrightarrow> grows_new w w2 \<Longrightarrow> w_panic w2 \<and> grows w w2" for w w2
    by (simp add: grows_new_def)
qed (auto simp: grows_def)

lemma grows_event: "grows w (snd (run_state (run_event ev) w))"
  using grow.keeps_run_event by (simp add: keeps_def)

section \<open>The invariant of the stores\<close>

text \<open>
  A key of the session map leads to a session that exists, has this Call-ID and is not
  disposed. A live session's media port is marked in the pool and no other live session has
  it. The disposal of a session closes its probing channel, and nothing else does. The
  transactions are consistent, the limiter is within its rate, every phone's agent and every
  route's pattern is there.
\<close>

definition keys_ok :: "world \<Rightarrow> bool" where
  "keys_ok w \<longleftrightarrow> cm_wf (w_Sessions w) \<and> (\<forall>k i. Load (w_Sessions w) k = Some i \<longrightarrow>
     i < w_nss w \<and> CallID (w_ss w i) = k \<and> \<not> IsDisposed (w_ss w i))"

definition holds_port :: "world \<Rightarrow> ss_id \<Rightarrow> int \<Rightarrow> bool" where
  "holds_port w i p \<longleftrightarrow> MediaConn (w_ss w i) = Some p \<and> \<not> IsDisposed (w_ss w i)"

definition ports_ok :: "world \<Rightarrow> bool" where
  "ports_ok w \<longleftrightarrow> pool_wf_on (w_pool w) {MediaStartPort..MediaEndPort} \<and>
     (\<forall>i p. holds_port w i p \<longrightarrow> map_of (w_pool w) p = Some True) \<and>
     (\<forall>i j p. holds_port w i p \<longrightarrow> holds_port w j p \<longrightarrow> i = j)"

definition limiter_ok :: "CallLimiter \<Rightarrow> bool" where
  "limiter_ok l \<longleftrightarrow> 0 \<le> callCount l \<and> (rate l \<noteq> - 1 \<longrightarrow> callCount l \<le> max 0 (rate l))"

definition world_inv :: "world \<Rightarrow> bool" where
  "world_inv w \<longleftrightarrow> keys_ok w \<and> ports_ok w \<and> (\<forall>i. probDone (w_ss w i) = IsDisposed (w_ss w i)) \<and>
     (\<forall>t. tx_ok (w_tx w t)) \<and> limiter_ok (w_limiter w) \<and> phones_wf (w_uas w) (w_phones w) \<and>
     list_all route_wf (w_routes w)"

definition inv_rel :: "world \<Rightarrow> world \<Rightarrow> bool" where
  "inv_rel w w' \<longleftrightarrow> (world_inv w \<longrightarrow> world_inv w')"

text \<open>While session \<open>j\<close> is set up no key leads to it.\<close>

definition setting_up :: "ss_id \<Rightarrow> world \<Rightarrow> bool" where
  "setting_up j w \<longleftrightarrow> world_inv w \<and>
     (w_panic w \<or> j < w_nss w \<and> \<not> IsDisposed (w_ss w j) \<and> (\<forall>k. Load (w_Sessions w) k \<noteq> Some j))"

definition new_rel :: "ss_id \<Rightarrow> world \<Rightarrow> world \<Rightarrow> bool" where
  "new_rel j w w' \<longleftrightarrow> (setting_up j w \<longrightarrow> setting_up j w') \<and> (w_panic w \<longrightarrow> w_panic w')"

lemmas world_inv_defs = world_inv_def keys_ok_def ports_ok_def holds_port_def

lemma inv_ss:
  assumes "ss_safe (\<lambda>s. (f s)\<lparr>CallID := CallID s\<rparr>)" "world_inv w"
    and "(\<forall>k. Load (w_Sessions w) k \<noteq> Some i) \<or> (\<forall>s. CallID (f s) = CallID s)"
  shows "world_inv (w\<lparr>w_ss := (w_ss w)(i := f (w_ss w i))\<rparr>)"
proof -
  let ?w = "w\<lparr>w_ss := (w_ss w)(i := f (w_ss w i))\<rparr>"
  have "holds_port ?w j = holds_port w j" for j
    using assms(1) by (auto simp: holds_port_def ss_safe_def fun_eq_iff)
  then have "ports_ok ?w" using assms(2) by (simp add: ports_ok_def world_inv_def)
  moreover have "keys_ok ?w" using assms by (auto simp: keys_ok_def world_inv_def ss_safe_def)
  ultimately show ?thesis using assms by (simp add: world_inv_def ss_safe_def)
qed

lemma inv_tx: "tx_safe g \<Longrightarrow> world_inv w \<Longrightarrow> world_inv (w\<lparr>w_tx := (w_tx w)(t := g (w_tx w t))\<rparr>)"
  unfolding world_inv_defs tx_safe_def tx_grows_def by simp

lemma inv_new_tx: "tx_ok x \<Longrightarrow> world_inv w \<Longrightarrow>
    world_inv (w\<lparr>w_tx := (w_tx w)(w_ntx w := x), w_ntx := Suc (w_ntx w)\<rparr>)"
  unfolding world_inv_defs by simp

lemma inv_reserve:
  assumes "ReserveSocket listen (w_pool w) = (p, pool)" "world_inv w"
  shows "world_inv (w\<lparr>w_pool := pool, w_ss := (w_ss w)(i := (w_ss w i)\<lparr>MediaConn := p\<rparr>)\<rparr>)"
proof (cases p)
  case None
  with assms have "pool = w_pool w" by (simp add: ReserveSocket_None)
  with None assms(2) show ?thesis unfolding world_inv_defs by auto
next
  case (Some q)
  from assms(2) have wf: "pool_wf_on (w_pool w) {MediaStartPort..MediaEndPort}"
    by (simp add: world_inv_def ports_ok_def)
  then have "go_map_wf (w_pool w)" by (simp add: pool_wf_on_def)
  note r = ReserveSocket_Some [OF assms(1) [unfolded Some] this]
  then have free: "\<not> holds_port w j q" for j
    using assms(2) by (auto simp: world_inv_def ports_ok_def)
  from r(1) have "q \<in> fst ` set (w_pool w)" by (force dest: map_of_SomeD)
  with wf r(3) have "pool_wf_on pool {MediaStartPort..MediaEndPort}"
    by (simp add: pool_wf_on_def fst_update)
  with free Some assms(2) r(3) show ?thesis
    unfolding world_inv_defs by (auto simp: update_conv')
qed

lemma inv_drop:
  assumes "\<not> IsDisposed (w_ss w i)" "world_inv w"
  shows "world_inv (drop_session i w)"
proof -
  let ?w = "drop_session i w"
  have ports: "ports_ok ?w"
  proof (cases "MediaConn (w_ss w i)")
    case None
    with assms(2) show ?thesis
      by (auto simp: world_inv_defs drop_session_def Let_def ReleaseSocket_def)
  next
    case (Some p)
    with assms have h: "holds_port w i p" "map_of (w_pool w) p = Some True"
      by (auto simp: world_inv_defs)
    then have "p \<in> fst ` set (w_pool w)" by (force dest: map_of_SomeD)
    with Some h assms(2) show ?thesis
      by (auto simp: world_inv_defs drop_session_def Let_def ReleaseSocket_def pool_wf_on_def fst_update
          update_conv')
  qed
  have "keys_ok ?w"
    using assms(2)
    by (auto simp: world_inv_defs drop_session_def Let_def cm.inv_remove cm.lookup_remove split: if_splits)
  with ports assms(2) show ?thesis
    by (simp add: world_inv_def drop_session_def Let_def)
qed

text \<open>Steps of a component that the invariant does not read.\<close>

lemma inv_frame:
  "world_inv (w\<lparr>w_panic := b\<rparr>) = world_inv w" "world_inv (w\<lparr>w_seed := n\<rparr>) = world_inv w"
  "world_inv (w\<lparr>w_msg := ms, w_nmsg := n\<rparr>) = world_inv w"
  "world_inv (w\<lparr>w_body := bs, w_nbody := n\<rparr>) = world_inv w"
  "world_inv (w\<lparr>w_out := ds\<rparr>) = world_inv w" "world_inv (w\<lparr>w_drops := xs, w_echo := es\<rparr>) = world_inv w"
  "world_inv (w\<lparr>w_panic := b, w_recovered := n\<rparr>) = world_inv w"
  by (simp_all add: world_inv_defs)

lemma ss_safe_call: "ss_safe f \<Longrightarrow> ss_safe (\<lambda>s. (f s)\<lparr>CallID := CallID s\<rparr>) \<and> (\<forall>s. CallID (f s) = CallID s)"
  by (simp add: ss_safe_def)

lemma inv_quiet: "quiet_rel inv_rel"
proof
  show ss: "ss_safe f \<Longrightarrow> inv_rel w (w\<lparr>w_ss := (w_ss w)(i := f (w_ss w i))\<rparr>)" for f w i
    using ss_safe_call [of f] by (simp add: inv_rel_def inv_ss)
  show "send_safe f \<Longrightarrow> inv_rel w (w\<lparr>w_ss := (w_ss w)(i := f (w_ss w i))\<rparr>)" for f w i
    by (intro ss send_safe_ss_safe)
qed (auto simp: inv_rel_def inv_frame inv_tx inv_new_tx inv_reserve)

lemma new_call: "call_rel (new_rel j) j"
proof
  show ss: "ss_safe f \<Longrightarrow> new_rel j w (w\<lparr>w_ss := (w_ss w)(i := f (w_ss w i))\<rparr>)" for f w i
    using ss_safe_call [of f] by (auto simp: new_rel_def setting_up_def inv_ss ss_safe_def)
  show "send_safe f \<Longrightarrow> new_rel j w (w\<lparr>w_ss := (w_ss w)(i := f (w_ss w i))\<rparr>)" for f w i
    by (intro ss send_safe_ss_safe)
  show "\<not> w_panic w \<Longrightarrow> ss_safe (\<lambda>s. f s\<lparr>CallID := CallID s\<rparr>) \<Longrightarrow>
    new_rel j w (w\<lparr>w_ss := (w_ss w)(j := f (w_ss w j))\<rparr>)" for f w
    by (auto simp: new_rel_def setting_up_def inv_ss) (simp add: ss_safe_def)
qed (auto simp: new_rel_def setting_up_def inv_frame inv_tx inv_new_tx inv_reserve)

interpretation new_leg: call_rel "new_rel j" j for j
  by (rule new_call)

lemma setting_up_start:
  assumes "fresh_ss s" "world_inv w"
  shows "setting_up (w_nss w) (with_ss s w)"
proof -
  have none: "Load (w_Sessions w) k \<noteq> Some (w_nss w)" for k
    using assms(2) by (auto simp: world_inv_def keys_ok_def)
  have "holds_port (with_ss s w) i p \<longleftrightarrow> i \<noteq> w_nss w \<and> holds_port w i p" for i p
    using assms(1) by (auto simp: holds_port_def with_ss_def fresh_ss_def)
  then have "ports_ok (with_ss s w)" using assms(2) by (auto simp: ports_ok_def world_inv_def with_ss_def)
  moreover have "keys_ok (with_ss s w)"
    using assms(2) none by (auto simp: keys_ok_def world_inv_def with_ss_def intro: less_SucI)
  ultimately have "world_inv (with_ss s w)"
    using assms by (auto simp: world_inv_def with_ss_def fresh_ss_def)
  then show ?thesis using assms(1) none by (simp add: setting_up_def with_ss_def fresh_ss_def)
qed

lemma inv_with_key: "setting_up j w \<Longrightarrow> \<not> w_panic w \<Longrightarrow> world_inv (with_key j w)"
  by (auto simp: setting_up_def with_key_def world_inv_defs cm.inv_store cm.lookup_store split: if_splits)

interpretation inv: world_rel inv_rel new_rel
proof (intro world_rel.intro world_rel_axioms.intro inv_quiet new_call)
  show "lm = resetCount (w_limiter w) \<or> lm = snd (AcceptNewCall (w_limiter w)) \<Longrightarrow>
      inv_rel w (w\<lparr>w_limiter := lm\<rparr>)" for lm w
    by (auto simp: inv_rel_def world_inv_defs limiter_ok_def resetCount_def AcceptNewCall_def)
  show "\<not> IsDisposed (w_ss w i) \<Longrightarrow> inv_rel w (drop_session i w)" for w i
    by (simp add: inv_rel_def inv_drop)
  show "ReTXCount (w_tx w t) < ReTXCount_max \<Longrightarrow> Timer (w_tx w t) \<noteq> TNil \<Longrightarrow>
      inv_rel w (w\<lparr>w_tx := (w_tx w)(t := retx i (w_tx w t))\<rparr>)" for w t i
    using tx_grows_retx [of "w_tx w t" i] by (auto simp: inv_rel_def world_inv_defs tx_grows_def)
  show "fresh_ss s \<Longrightarrow> new_rel (w_nss w) (with_ss s w) w2 \<Longrightarrow> inv_rel w w2" for s w w2
    using setting_up_start by (auto simp: inv_rel_def new_rel_def setting_up_def)
  show "fresh_ss s \<Longrightarrow> new_rel (w_nss w) (with_ss s w) w2 \<Longrightarrow> \<not> w_panic w2 \<Longrightarrow>
      inv_rel w (with_key (w_nss w) w2)" for s w w2
    using setting_up_start [of s w] inv_with_key by (auto simp: inv_rel_def new_rel_def)
  show "w_panic w \<Longrightarrow> new_rel j w w2 \<Longrightarrow> w_panic w2 \<and> inv_rel w w2" for w w2 j
    by (auto simp: inv_rel_def new_rel_def setting_up_def)
qed (auto simp: inv_rel_def inv_frame world_inv_defs)

lemma inv_event: "world_inv w \<Longrightarrow> world_inv (snd (run_state (run_event ev) w))"
  using inv.keeps_run_event by (simp add: keeps_def inv_rel_def)

section \<open>Reachable worlds\<close>

definition started_world :: "env \<Rightarrow> SipUdpUserAgent list \<Rightarrow> RoutingRecord list \<Rightarrow> string \<Rightarrow> bool
    \<Rightarrow> nat option \<Rightarrow> UDPAddr option \<Rightarrow> int \<Rightarrow> bool \<Rightarrow> world" where
  "started_world e us rs ip skip as px ind testing =
     (idle_world e)\<lparr>w_uas := us, w_routes := rs, w_ServerIPv4 := ip, w_SkipAS := skip, w_ASUserAgent := as,
       w_ProxyUdpServer := px, w_IndialogueProbingInterval := ind, w_sippTesting := testing\<rparr>"

lemma start_shape:
  assumes "StartServer e parse_ip ifaces listen rows asUdpskt ipv4 prt indint uproxy = Some w"
  obtains us rs ip skip as px ind testing where
    "w = started_world e us rs ip skip as px ind testing" "list_all route_wf rs"
proof
  show "w = started_world e (w_uas w) (w_routes w) (w_ServerIPv4 w) (w_SkipAS w) (w_ASUserAgent w)
      (w_ProxyUdpServer w) (w_IndialogueProbingInterval w) (w_sippTesting w)"
    using assms by (auto simp: StartServer_def Let_def started_world_def split: if_splits list.splits)
  show "list_all route_wf (w_routes w)" using assms
    by (auto simp: StartServer_def Let_def ReadConfig_wf idle_world_def split: if_splits list.splits)
qed

lemma started_inv:
  assumes "list_all route_wf rs"
  shows "world_inv (started_world e us rs ip skip as px ind testing)" (is "world_inv ?w")
proof -
  have keys: "keys_ok ?w" by (simp add: keys_ok_def idle_world_def started_world_def cm.inv_emp cm.lookup_emp)
  have "ports_ok ?w" using pool_inv_start
    by (simp add: ports_ok_def holds_port_def pool_inv_def idle_world_def started_world_def NewSS_def)
  moreover have "tx_ok zero_Transaction"
    by (simp add: tx_ok_def final_ok_def timer_ok_def zero_Transaction_def)
  moreover have "phones_wf us NewIPPhoneRepo"
    by (simp add: phones_wf_def phones.inv_emp phones.lookup_emp)
  ultimately show ?thesis using keys assms
    by (simp add: world_inv_def idle_world_def started_world_def NewSS_def limiter_ok_def NewCallLimiter_def
        RateLimit_def)
qed

lemma started_rate: "rate (w_limiter (started_world e us rs ip skip as px ind testing)) = RateLimit"
  "w_panic (started_world e us rs ip skip as px ind testing) = False"
  by (simp_all add: started_world_def idle_world_def NewCallLimiter_def)

lemma reachable_inv:
  assumes "world_reachable w"
  shows "world_inv w \<and> rate (w_limiter w) = RateLimit"
  using assms
proof induction
  case (started e parse_ip ifaces listen rows asUdpskt ipv4 prt indint uproxy w)
  then show ?case by (rule start_shape) (simp add: started_inv started_rate)
next
  case (stepped w w')
  from stepped(2) obtain ev where "w' = snd (run_state (run_event ev) w)" by cases
  with stepped(3) inv_event [of w ev] grows_event [of w ev] show ?case by (simp add: grows_def)
qed

section \<open>Events that cannot stop the program\<close>

definition calm :: "'a go \<Rightarrow> bool" where
  "calm m \<longleftrightarrow> (\<forall>w. \<not> w_panic w \<longrightarrow> \<not> w_panic (snd (run_state m w)))"

lemma calm_bind: "calm m \<Longrightarrow> (\<And>a. calm (f a)) \<Longrightarrow> calm (m \<bind> f)"
  by (auto simp: calm_def split: prod.split)

lemma calm_act: "(\<And>w. \<not> w_panic w \<Longrightarrow> \<not> w_panic (f w)) \<Longrightarrow> calm (act f)"
  by (simp add: calm_def)

lemma calm_simple: "calm (ret a)" "calm (asks f)" "calm (upd_ss i g)" "calm (new_msg m)" "calm (new_body b)"
  by (simp_all add: calm_def upd_ss_def new_msg_def new_body_def)

lemma calm_protect: "calm (protect m)"
  by (auto simp: calm_def protect_def split: prod.split)

lemma calm_session_of: "calm (session_of m)"
  by (auto simp: calm_def session_of_def split: prod.split)

lemma calm_process_message: "calm (process_message m mb src conn)"
  by (auto simp: process_message_def sipStack_def SetRemoteUDPnListenser_def Let_def split: option.split
      intro!: calm_bind calm_simple calm_protect calm_session_of)

lemma DropMe_calm:
  assumes "world_inv w" "\<not> w_panic w"
  shows "snd (run_state (DropMe i) w) = (if IsDisposed (w_ss w i) then w else drop_session i w)"
  using assms by (simp add: DropMe_def get_ss_def world_inv_def)

definition stays_up :: "event \<Rightarrow> bool" where
  "stays_up ev \<longleftrightarrow> (case ev of Receive _ _ _ _ \<Rightarrow> True | DropDue _ \<Rightarrow> True | EchoDue _ \<Rightarrow> True
     | LimiterTick \<Rightarrow> True | RefreshConfig _ \<Rightarrow> True | _ \<Rightarrow> False)"

lemma stays_up_event:
  assumes "world_inv w" "\<not> w_panic w" "stays_up ev"
  shows "\<not> w_panic (snd (run_state (run_event ev) w))"
proof (cases ev)
  case (Receive m mb src conn)
  with assms(2) calm_process_message show ?thesis by (simp add: run_event_def calm_def)
next
  case (DropDue n)
  let ?w = "w\<lparr>w_drops := remove_nth n (w_drops w)\<rparr>"
  have "world_inv ?w" using assms(1) by (simp add: world_inv_defs)
  then show ?thesis using DropDue assms(2) DropMe_calm [of ?w "w_drops w ! n"]
    by (simp add: run_event_def drop_session_def Let_def)
next
  case (EchoDue n)
  have "calm (run_event ev)"
    by (auto simp: EchoDue run_event_def finishEchoCall_def intro!: calm_bind calm_simple calm_act calm_protect)
  with assms(2) show ?thesis by (simp add: calm_def)
qed (use assms in \<open>simp_all add: stays_up_def run_event_def refreshConfig_def when_def\<close>)

lemma run_events_reachable:
  "world_reachable w \<Longrightarrow> \<not> w_panic w \<Longrightarrow> list_all stays_up evs \<Longrightarrow>
     world_reachable (run_events evs w) \<and> \<not> w_panic (run_events evs w)"
proof (induction evs arbitrary: w)
  case (Cons ev evs)
  let ?w = "snd (run_state (run_event ev) w)"
  have "world_reachable ?w" using Cons.prems world_step.event by (blast intro: world_reachable.stepped)
  moreover have "\<not> w_panic ?w" using Cons.prems stays_up_event reachable_inv by simp
  ultimately show ?case using Cons.IH [of ?w] Cons.prems by (simp add: run_events_def)
qed (simp add: run_events_def)

section \<open>A tick of a transaction\<close>

text \<open>A transaction's message is sent at most once.\<close>

definition sent_once :: "msg_id \<Rightarrow> world \<Rightarrow> world \<Rightarrow> bool" where
  "sent_once m w w' \<longleftrightarrow> (\<exists>ds. w_out w' = w_out w @ ds \<and> length ds \<le> 1 \<and> (\<forall>d \<in> set ds. dg_msg d = w_msg w' m))
     \<and> (w_panic w \<longrightarrow> w_out w' = w_out w)"

lemma sendmessage_once: "sent_once m w (snd (run_state (sendmessage i m a) w))"
  by (auto simp: sent_once_def sendmessage_def get_ss_def split: option.split)

lemma sent_once_after:
  "w_out v1 = w_out v \<Longrightarrow> w_panic v \<longrightarrow> w_panic v1 \<Longrightarrow> sent_once m v1 v2 \<Longrightarrow> sent_once m v v2"
  by (simp add: sent_once_def)

lemma Send_once:
  shows "\<exists>ds. w_out (snd (run_state (Send i t) w)) = w_out w @ ds \<and> length ds \<le> 1
    \<and> (\<forall>d \<in> set ds. \<exists>m. SentMessage (w_tx w t) = Some m \<and> dg_msg d = w_msg (snd (run_state (Send i t) w)) m)"
proof -
  let ?x = "w_tx w t"
  let ?prep = "\<lambda>m msg. if Bytes msg = [] then do {
        b \<leftarrow> get_body (Body msg); msg' \<leftarrow> deref msg (PrepareMessageBytes b msg); upd_msg m (\<lambda>_. msg') } else ret ()"
  let ?go = "\<lambda>m msg. do { s \<leftarrow> get_ss i;
     if IsResponse msg then sendmessage i m (case ViaUdpAddr ?x of Some a \<Rightarrow> Some a | None \<Rightarrow> remoteUDP s)
     else if \<not> UseRemoteURI ?x \<and> RemoteContactUDP s \<noteq> None then sendmessage i m (RemoteContactUDP s)
     else if EgressProxy s \<noteq> None then sendmessage i m (EgressProxy s)
     else sendmessage i m (remoteUDP s) }"
  let ?tail = "\<lambda>m. do { msg \<leftarrow> get_msg m; ?prep m msg; ?go m msg }"
  have prep: "w_out (snd (run_state (?prep m msg) v)) = w_out v \<and> (w_panic v \<longrightarrow> w_panic (snd (run_state (?prep m msg) v)))" for m msg v
    by (simp add: get_body_def deref_def panic_def upd_msg_def split: option.split)
  have go: "sent_once m v (snd (run_state (?go m msg) v))" for m msg v
    using sendmessage_once by (simp add: get_ss_def)
  have tail: "sent_once m v (snd (run_state (?tail m) v))" for m v
  proof -
    have "snd (run_state (get_msg m \<bind> (\<lambda>msg. P msg \<bind> (\<lambda>_. G msg))) v)
        = snd (run_state (G (w_msg v m)) (snd (run_state (P (w_msg v m)) v)))" for P :: "SipMessage \<Rightarrow> unit go" and G :: "SipMessage \<Rightarrow> unit go"
      by (simp add: get_msg_def split: prod.split)
    then have eq: "snd (run_state (?tail m) v) = snd (run_state (?go m (w_msg v m)) (snd (run_state (?prep m (w_msg v m)) v)))" .
    show ?thesis unfolding eq
      by (rule sent_once_after [OF conjunct1 [OF prep] conjunct2 [OF prep] go])
  qed
  show ?thesis
  proof (cases "SentMessage ?x")
    case None
    then have "snd (run_state (Send i t) w) = snd (run_state (?tail 0) (snd (run_state panic w)))"
      by (simp add: Send_def get_tx_def deref_def split: prod.split)
    moreover have "w_panic (snd (run_state panic w))" "w_out (snd (run_state panic w)) = w_out w" by (simp_all add: panic_def)
    ultimately show ?thesis using tail [of 0 "snd (run_state panic w)"] by (simp add: sent_once_def)
  next
    case (Some m)
    then have "snd (run_state (Send i t) w) = snd (run_state (?tail m) w)"
      by (simp add: Send_def get_tx_def deref_def)
    then show ?thesis using tail [of m w] Some by (simp add: sent_once_def)
  qed
qed

lemma tick_resends:
  assumes "Timer (w_tx w t) = TArmed i" "ReTXCount (w_tx w t) < ReTXCount_max" "\<not> w_panic w"
  defines "w' \<equiv> snd (run_state (run_event (TransTimer t)) w)"
  shows "\<exists>ds. w_out w' = w_out w @ ds \<and> length ds \<le> 1
      \<and> (\<forall>d \<in> set ds. \<exists>m. SentMessage (w_tx w t) = Some m \<and> dg_msg d = w_msg w' m)"
    and "w_panic w' \<or> w_tx w' t = retx i (w_tx w t)"
proof -
  let ?v = "snd (run_state (Send i t) w)"
  have same: "w_tx ?v t = w_tx w t" using Send_same_tx by (simp add: keeps_def same_tx_def)
  have w': "w' = (if w_panic ?v then ?v else ?v\<lparr>w_tx := (w_tx ?v)(t := retx i (w_tx ?v t))\<rparr>)"
    using assms(1,2) by (simp add: w'_def run_event_def transTimerHandler_def get_tx_def upd_tx_def retx_def [abs_def] split: prod.split)
  then have "w_out w' = w_out ?v" "w_msg w' = w_msg ?v" by simp_all
  with Send_once [of i t w] show "\<exists>ds. w_out w' = w_out w @ ds \<and> length ds \<le> 1
      \<and> (\<forall>d \<in> set ds. \<exists>m. SentMessage (w_tx w t) = Some m \<and> dg_msg d = w_msg w' m)" by simp
  show "w_panic w' \<or> w_tx w' t = retx i (w_tx w t)" using w' same by simp
qed

lemma tick_gives_up:
  assumes "Timer (w_tx w t) = TArmed i" "ReTXCount_max \<le> ReTXCount (w_tx w t)" "\<not> w_panic w"
  shows "snd (run_state (run_event (TransTimer t)) w)
    = snd (run_state (CheckPendingTransaction i t) (w\<lparr>w_tx := (w_tx w)(t := (w_tx w t)\<lparr>Timer := TNil\<rparr>)\<rparr>))"
  using assms by (simp add: run_event_def transTimerHandler_def get_tx_def upd_tx_def)

section \<open>The sample router\<close>

lemma sample_started: "world_reachable sample_router" "\<not> w_panic sample_router"
proof -
  let ?w = "StartServer sample_env Some [] (\<lambda>_ _. True) (Some [sample_row]) None ''10.0.0.1'' 5060 (- 1) []"
  have "?w = Some sample_router" by (simp add: sample_router_def StartServer_def StartListening_def Let_def)
  then show "world_reachable sample_router" by (rule world_reachable.started)
  from start_shape [OF \<open>?w = _\<close>] show "\<not> w_panic sample_router" by (metis started_rate(2))
qed

lemma sample_reachable: "world_reachable (run_events sample_call sample_router)"
  using run_events_reachable [OF sample_started, of sample_call]
  by (simp add: sample_call_def stays_up_def from_caller_def from_callee_def)

section \<open>Properties\<close>

text \<open>C1: In every world a run of the router reaches, whatever messages arrive and timers fire:
  a Call-ID of the session map leads to a session that exists, carries this very Call-ID and is
  not disposed; so no two Call-IDs share a session and a disposed session is never found.\<close>

theorem session_map_sound:
  assumes "world_reachable w"
  shows "(\<forall>k i. Load (w_Sessions w) k = Some i \<longrightarrow>
            i < w_nss w \<and> CallID (w_ss w i) = k \<and> \<not> IsDisposed (w_ss w i))
    \<and> (\<forall>k k' i. Load (w_Sessions w) k = Some i \<and> Load (w_Sessions w) k' = Some i \<longrightarrow> k = k')"
proof -
  have "keys_ok w" using reachable_inv [OF assms] by (simp add: world_inv_def)
  then show ?thesis unfolding keys_ok_def by metis
qed

theorem session_map_sound_witness:
  "\<nexists>k i. Load (w_Sessions (run_events sample_call sample_router)) k = Some i
     \<and> CallID (w_ss (run_events sample_call sample_router) i) \<noteq> k"
  using session_map_sound [OF sample_reachable] by simp

text \<open>C3: In every reachable world two sessions that are not disposed never hold the same media
  port, and a port that a live session holds is of the configured range and marked as used.\<close>

theorem live_ports_exclusive:
  assumes "world_reachable w"
  shows "\<forall>i p. MediaConn (w_ss w i) = Some p \<and> \<not> IsDisposed (w_ss w i) \<longrightarrow>
      p \<in> {MediaStartPort..MediaEndPort} \<and> map_of (w_pool w) p = Some True
      \<and> (\<forall>j. MediaConn (w_ss w j) = Some p \<and> j \<noteq> i \<longrightarrow> IsDisposed (w_ss w j))"
proof (intro allI impI)
  fix i p
  assume "MediaConn (w_ss w i) = Some p \<and> \<not> IsDisposed (w_ss w i)"
  then have h: "holds_port w i p" by (simp add: holds_port_def)
  have ok: "ports_ok w" using reachable_inv [OF assms] by (simp add: world_inv_def)
  with h have m: "map_of (w_pool w) p = Some True" by (simp add: ports_ok_def)
  then have "p \<in> fst ` set (w_pool w)" by (force dest: map_of_SomeD)
  moreover have "IsDisposed (w_ss w j)" if "MediaConn (w_ss w j) = Some p" "j \<noteq> i" for j
  proof (rule ccontr)
    assume "\<not> IsDisposed (w_ss w j)"
    with that have "holds_port w j p" by (simp add: holds_port_def)
    with ok h that show False unfolding ports_ok_def by metis
  qed
  ultimately show "p \<in> {MediaStartPort..MediaEndPort} \<and> map_of (w_pool w) p = Some True
      \<and> (\<forall>j. MediaConn (w_ss w j) = Some p \<and> j \<noteq> i \<longrightarrow> IsDisposed (w_ss w j))"
    using m ok by (simp add: ports_ok_def pool_wf_on_def)
qed

theorem live_ports_exclusive_witness:
  "\<nexists>i p. MediaConn (w_ss (run_events sample_call sample_router) i) = Some p
     \<and> \<not> IsDisposed (w_ss (run_events sample_call sample_router) i)
     \<and> p \<notin> {MediaStartPort..MediaEndPort}"
  using live_ports_exclusive [OF sample_reachable] by blast

text \<open>C2: In every reachable world every transaction is final exactly when a final response went
  through it, and while its timer is set it has counted from nought to five repetitions since the
  timer was started and waits 500 ms doubled at each of them. A tick of the timer of a running
  router below five sends at most one datagram, the transaction's own message, and, unless
  sending panics, counts it and doubles the wait; at five it sends nothing again: the timer is
  cleared and what is pending is given up. (A timer that was given up may be started again, by
  another PRACK of the caller for one, and then counts from nought.)\<close>

theorem transactions_consistent:
  assumes "world_reachable w"
  shows "(IsFinalized_tx (w_tx w t) \<longleftrightarrow> (\<exists>r \<in> set (Responses (w_tx w t)). 200 \<le> r))
    \<and> 0 \<le> ReTXCount (w_tx w t) \<and> ReTXCount (w_tx w t) \<le> ReTXCount_max
    \<and> (Timer (w_tx w t) = TNil \<or> TransTimeOut (w_tx w t) = T1Timer * 2 ^ nat (ReTXCount (w_tx w t)))
    \<and> (\<forall>i. Timer (w_tx w t) = TArmed i \<and> \<not> w_panic w \<longrightarrow>
         (let x = w_tx w t; w' = snd (run_state (run_event (TransTimer t)) w) in
          if ReTXCount x < ReTXCount_max
          then (\<exists>ds. w_out w' = w_out w @ ds \<and> length ds \<le> 1
                  \<and> (\<forall>d \<in> set ds. \<exists>m. SentMessage x = Some m \<and> dg_msg d = w_msg w' m))
            \<and> (w_panic w' \<or> w_tx w' t = x\<lparr>ReTXCount := ReTXCount x + 1, TransTimeOut := 2 * TransTimeOut x\<rparr>)
          else w' = snd (run_state (CheckPendingTransaction i t) (w\<lparr>w_tx := (w_tx w)(t := x\<lparr>Timer := TNil\<rparr>)\<rparr>))))"
proof -
  have "tx_ok (w_tx w t)" using reachable_inv [OF assms] by (simp add: world_inv_def)
  moreover have "retx i x = x\<lparr>ReTXCount := ReTXCount x + 1, TransTimeOut := 2 * TransTimeOut x\<rparr>"
    if "Timer x = TArmed i" for i and x :: Transaction
    using that by (cases x) (simp add: retx_def)
  ultimately show ?thesis using tick_resends [of w t] tick_gives_up [of w t]
    by (auto simp: tx_ok_def final_ok_def timer_ok_def list_ex_iff Let_def not_less)
qed

theorem transactions_consistent_witness:
  "ReTXCount (w_tx (run_events sample_call sample_router) 3) \<le> ReTXCount_max"
  using transactions_consistent [OF sample_reachable] by blast

text \<open>C16: Dropping a session in a reachable world never closes its probing channel twice: it
  cannot panic, its first time disposes the session, gives its media port back and takes its
  Call-ID out of the map, and every further time changes nothing. Other sessions stay.\<close>

theorem drop_disposes_once:
  assumes "world_reachable w" "\<not> w_panic w"
  shows "let w' = snd (run_state (DropMe i) w) in
    \<not> w_panic w' \<and> IsDisposed (w_ss w' i) \<and> (\<forall>k. Load (w_Sessions w') k \<noteq> Some i)
    \<and> (\<forall>j. j = i \<or> w_ss w' j = w_ss w j)
    \<and> snd (run_state (DropMe i) w') = w'
    \<and> (case MediaConn (w_ss w i) of None \<Rightarrow> w_pool w' = w_pool w
       | Some p \<Rightarrow> IsDisposed (w_ss w i) \<or> map_of (w_pool w') p = Some False)"
proof -
  have inv: "world_inv w" using reachable_inv [OF assms(1)] by simp
  let ?w' = "snd (run_state (DropMe i) w)"
  note d = DropMe_calm [OF inv assms(2), of i]
  have inv': "world_inv ?w'" using inv inv_drop d by simp
  have p': "\<not> w_panic ?w'" "IsDisposed (w_ss ?w' i)"
    using assms(2) d by (simp_all add: drop_session_def Let_def)
  moreover have "\<forall>k. Load (w_Sessions ?w') k \<noteq> Some i"
    using inv' p'(2) by (auto simp: world_inv_def keys_ok_def)
  moreover have "snd (run_state (DropMe i) ?w') = ?w'"
    using DropMe_calm [OF inv' p'(1), of i] p'(2) by simp
  moreover have "\<forall>j. j = i \<or> w_ss ?w' j = w_ss w j" using d by (simp add: drop_session_def Let_def)
  moreover have "case MediaConn (w_ss w i) of None \<Rightarrow> w_pool ?w' = w_pool w
       | Some p \<Rightarrow> IsDisposed (w_ss w i) \<or> map_of (w_pool ?w') p = Some False"
    using d inv by (auto simp: drop_session_def Let_def ReleaseSocket_def world_inv_defs update_conv'
        split: option.split)
  ultimately show ?thesis by (simp add: Let_def)
qed

theorem drop_disposes_once_witness:
  "IsDisposed (w_ss (snd (run_state (DropMe 0) sample_router)) 0)"
  using drop_disposes_once [OF sample_started, of 0] by (simp add: Let_def)

text \<open>C4: Once the parser has accepted a message it cannot stop the router, whatever it holds and
  in whatever reachable world: a panic while its session is found or it is handled is recovered.
  Nor can a due drop, an echo answer that is due, the tick of the limiter or a reload of the
  configuration. What can are the panics of the parser itself and of the media loops (the event
  \<open>Unrecovered\<close>), the timers of transactions and sessions and the probing: nothing recovers those.\<close>

theorem receive_never_stops:
  assumes "world_reachable w" "\<not> w_panic w"
    and "case ev of Receive _ _ _ _ \<Rightarrow> True | DropDue _ \<Rightarrow> True | EchoDue _ \<Rightarrow> True
       | LimiterTick \<Rightarrow> True | RefreshConfig _ \<Rightarrow> True | _ \<Rightarrow> False"
  shows "\<not> w_panic (snd (run_state (run_event ev) w))"
  using stays_up_event [of w ev] reachable_inv [OF assms(1)] assms(2,3) by (simp add: stays_up_def)

theorem receive_never_stops_witness:
  "\<not> w_panic (snd (run_state (run_event (from_caller (sample_request BYE ''x'' [] ''c'' ''1''))) sample_router))"
  using receive_never_stops [OF sample_started, of "from_caller (sample_request BYE ''x'' [] ''c'' ''1'')"]
  by (simp add: from_caller_def)

text \<open>C17: An event never takes anything back: what was sent stays sent, in order; no session
  changes its direction or leaves its disposed state or loses a transaction; no transaction
  changes its method or direction or loses a response, its finality or its acknowledgement.\<close>

theorem history_grows:
  assumes "world_step w w'"
  shows "prefix (w_out w) (w_out w')
    \<and> (\<forall>i < w_nss w. Direction_ss (w_ss w' i) = Direction_ss (w_ss w i)
         \<and> prefix (Transactions (w_ss w i)) (Transactions (w_ss w' i))
         \<and> (IsDisposed (w_ss w i) \<longrightarrow> IsDisposed (w_ss w' i)))
    \<and> (\<forall>t < w_ntx w. Method_tx (w_tx w' t) = Method_tx (w_tx w t)
         \<and> Direction_tx (w_tx w' t) = Direction_tx (w_tx w t)
         \<and> prefix (Responses (w_tx w t)) (Responses (w_tx w' t))
         \<and> (IsFinalized_tx (w_tx w t) \<longrightarrow> IsFinalized_tx (w_tx w' t))
         \<and> (IsACKed (w_tx w t) \<longrightarrow> IsACKed (w_tx w' t)))"
proof -
  from assms obtain ev where "w' = snd (run_state (run_event ev) w)" by cases
  with grows_event [of w ev] show ?thesis by (simp add: grows_def ss_grows_def tx_grows_def)
qed

theorem history_grows_witness:
  "prefix (w_out (run_events sample_call sample_router))
     (w_out (snd (run_state (run_event LimiterTick) (run_events sample_call sample_router))))"
proof -
  have "\<not> w_panic (run_events sample_call sample_router)"
    using run_events_reachable [OF sample_started, of sample_call]
    by (simp add: sample_call_def stays_up_def from_caller_def from_callee_def)
  from history_grows [OF world_step.event [OF this]] show ?thesis by blast
qed

text \<open>C23: The limiter of a running router is the one it was started with and never counts more
  than 1500 calls between two ticks.\<close>

theorem limiter_in_bounds:
  assumes "world_reachable w"
  shows "rate (w_limiter w) = 1500 \<and> 0 \<le> callCount (w_limiter w) \<and> callCount (w_limiter w) \<le> 1500
    \<and> (fst (AcceptNewCall (w_limiter w)) \<longleftrightarrow> callCount (w_limiter w) < 1500)"
  using reachable_inv [OF assms]
  by (auto simp: world_inv_def limiter_ok_def RateLimit_def AcceptNewCall_def)

theorem limiter_in_bounds_witness:
  "callCount (w_limiter (run_events sample_call sample_router)) \<le> 1500"
  using limiter_in_bounds [OF sample_reachable] by blast

text \<open>C24: In every reachable world the two lookups of the routing give only what can be used: the
  routing table, reloaded however often, never dereferences a missing pattern; a phone found
  under an extension is that extension's, and its agent, if it has one, is in the table of agents
  and has a socket. It need not have one: a phone whose address did not resolve has none.\<close>

theorem lookups_safe:
  assumes "world_reachable w"
  shows "Get_route (w_routes w) userpart \<noteq> None
    \<and> (case Get (w_phones w) ext of None \<Rightarrow> True
       | Some ph \<Rightarrow> Extension ph = ext \<and>
           (case UA ph of None \<Rightarrow> True
            | Some n \<Rightarrow> n < length (w_uas w) \<and> udpSkt (w_uas w ! n) \<noteq> None))"
  using reachable_inv [OF assms] Get_route_first [of "w_routes w" userpart]
  by (auto simp: world_inv_def phones_wf_def phone_wf_def split: option.split)

theorem lookups_safe_witness:
  "Get_route (w_routes (run_events sample_call sample_router)) ''200'' \<noteq> None"
  using lookups_safe [OF sample_reachable] by blast

end
