(* ===== verification/Answers.thy ===== *)
theory Answers
  imports Invariants
begin

text \<open>
  What a response does, exactly: weakest preconditions for the primitive effects, and from them
  the world after a response without a body has been sent in a transaction.
\<close>

section \<open>Weakest preconditions\<close>

definition wp :: "'a go \<Rightarrow> ('a \<Rightarrow> world \<Rightarrow> bool) \<Rightarrow> world \<Rightarrow> bool" where
  "wp m Q w \<longleftrightarrow> Q (fst (run_state m w)) (snd (run_state m w))"

lemma wp_bind [simp]: "wp (m \<bind> f) Q = wp m (\<lambda>a. wp (f a) Q)"
  by (rule ext) (simp add: wp_def split_beta)

lemma wp_ret [simp]: "wp (ret a) Q = Q a"
  by (rule ext) (simp add: wp_def)

lemma wp_asks [simp]: "wp (asks f) Q w = Q (f w) w"
  by (simp add: wp_def)

lemma wp_act [simp]: "\<not> w_panic w \<Longrightarrow> wp (act f) Q w = Q () (f w)"
  by (simp add: wp_def)

lemma wp_deref [simp]: "wp (deref d (Some x)) Q = Q x"
  by (simp add: deref_def)

lemma wp_reads [simp]: "wp (get_ss i) Q w = Q (w_ss w i) w" "wp (get_tx t) Q1 w = Q1 (w_tx w t) w"
  "wp (get_msg m) Q2 w = Q2 (w_msg w m) w" "wp (get_body b) Q3 w = Q3 (map_option (w_body w) b) w"
  by (simp_all add: get_ss_def get_tx_def get_msg_def get_body_def)

lemma wp_writes [simp]:
  assumes "\<not> w_panic w"
  shows "wp (upd_ss i f) Q w = Q () (w\<lparr>w_ss := (w_ss w)(i := f (w_ss w i))\<rparr>)"
    "wp (upd_tx t g) Q w = Q () (w\<lparr>w_tx := (w_tx w)(t := g (w_tx w t))\<rparr>)"
    "wp (upd_msg m h) Q w = Q () (w\<lparr>w_msg := (w_msg w)(m := h (w_msg w m))\<rparr>)"
    "wp (new_msg x) Q1 w = Q1 (w_nmsg w) (w\<lparr>w_msg := (w_msg w)(w_nmsg w := x), w_nmsg := Suc (w_nmsg w)\<rparr>)"
  using assms by (simp_all add: upd_ss_def upd_tx_def upd_msg_def new_msg_def)

lemma wp_outside [simp]:
  assumes "\<not> w_panic w"
  shows "wp next_seed Q w = Q (w_seed w) (w\<lparr>w_seed := Suc (w_seed w)\<rparr>)"
    "wp date_now Q1 w = Q1 (e_date (w_env w) (w_seed w)) (w\<lparr>w_seed := Suc (w_seed w)\<rparr>)"
    "wp NewTag Q1 w = Q1 (drop 24 (e_uuid (w_env w) (w_seed w))) (w\<lparr>w_seed := Suc (w_seed w)\<rparr>)"
  using assms by (simp_all add: next_seed_def date_now_def NewTag_def newUUID_def)

lemma wp_states [simp]: "wp (state_is st i) Q w = Q (ss_state (w_ss w i) = st) w"
  "wp (IsEstablished i) Q w = Q (ss_state (w_ss w i) = Established) w"
  "wp (IsBeingEstablished i) Q w = Q (ss_state (w_ss w i) = BeingEstablished) w"
  "\<not> w_panic w \<Longrightarrow> wp (SetState i st) Q1 w = Q1 () (w\<lparr>w_ss := (w_ss w)(i := (w_ss w i)\<lparr>ss_state := st\<rparr>)\<rparr>)"
  by (simp_all add: state_is_def IsEstablished_def IsBeingEstablished_def SetState_def)

lemma wp_mono: "wp m Q w \<Longrightarrow> (\<And>a w'. Q a w' \<Longrightarrow> Q' a w') \<Longrightarrow> wp m Q' w"
  by (simp add: wp_def)

lemma wp_conj: "wp m Q w \<Longrightarrow> keeps R m \<Longrightarrow> wp m (\<lambda>a w'. Q a w' \<and> R w w') w"
  by (simp add: wp_def keeps_def)

section \<open>What sending leaves alone\<close>

definition elsewhere :: "world \<Rightarrow> world" where
  "elsewhere w = w\<lparr>w_ss := (\<lambda>_. NewSS INBOUND), w_tx := (\<lambda>_. zero_Transaction), w_ntx := 0,
     w_msg := (\<lambda>_. zero_SipMessage), w_nmsg := 0, w_body := (\<lambda>_. NewBody), w_nbody := 0,
     w_seed := 0, w_out := [], w_panic := False\<rparr>"

definition sends :: "world \<Rightarrow> world \<Rightarrow> bool" where
  "sends w w' \<longleftrightarrow> elsewhere w' = elsewhere w \<and> prefix (w_out w) (w_out w') \<and> (w_panic w \<longrightarrow> w_panic w') \<and>
     (\<forall>i. core (w_ss w' i) = core (w_ss w i) \<and> prefix (Transactions (w_ss w i)) (Transactions (w_ss w' i)))"

interpretation sends: send_rel sends
proof
  show "sends w1 w3" if "sends w1 w2" "sends w2 w3" for w1 w2 w3
    using that by (simp add: sends_def) (meson prefix_order.trans)
qed (auto simp: sends_def elsewhere_def send_safe_def)

lemma sends_fields:
  assumes "sends w w'"
  shows "w_Sessions w' = w_Sessions w" "w_pool w' = w_pool w" "w_limiter w' = w_limiter w"
    "w_env w' = w_env w" "w_nss w' = w_nss w" "w_routes w' = w_routes w" "w_phones w' = w_phones w"
    "w_drops w' = w_drops w" "w_echo w' = w_echo w"
  using assms by (cases w, cases w', simp add: sends_def elsewhere_def)+

section \<open>Headers of an answer\<close>

definition protected_names :: "string list" where
  "protected_names = [''via'', ''from'', ''to'', ''cseq'', ''call-id'']"

definition plain_custom :: "SipHeaders \<Rightarrow> bool" where
  "plain_custom custom \<longleftrightarrow> list_all (\<lambda>(k, _). ASCIIToLower k \<notin> set protected_names) custom"

lemma values_AddValues:
  "header_values n (AddValues m vs h) = (if ASCIIToLower n = ASCIIToLower m then header_values n h @ vs
     else header_values n h)"
  by (simp add: header_values_eq AddValues_def Let_def update_conv' split: option.split)

lemma values_add_custom:
  "list_all (\<lambda>(k, _). ASCIIToLower k \<noteq> ASCIIToLower n) custom \<Longrightarrow>
     header_values n (add_custom custom h) = header_values n h"
proof (induction custom arbitrary: h)
  case (Cons kv custom)
  obtain k vs where kv: "kv = (k, vs)" by (cases kv)
  have "header_values n (foldl (\<lambda>h v. Add k v h) h vs) = header_values n h" for h
    using Cons.prems kv by (induction vs arbitrary: h kv) (auto simp: hm.get_add)
  then show ?case using Cons kv by (simp add: add_custom_def)
qed (simp add: add_custom_def)

lemma values_custom:
  "plain_custom custom \<Longrightarrow> ASCIIToLower n \<in> set protected_names \<Longrightarrow>
     header_values n (add_custom custom h) = header_values n h"
  by (rule values_add_custom) (auto simp: plain_custom_def list_all_iff)

lemma lower_names [simp]:
  "ASCIIToLower ''Via'' = ''via''" "ASCIIToLower ''From'' = ''from''" "ASCIIToLower ''To'' = ''to''"
  "ASCIIToLower ''CSeq'' = ''cseq''" "ASCIIToLower ''Call-ID'' = ''call-id''"
  "ASCIIToLower ''Contact'' = ''contact''" "ASCIIToLower ''Date'' = ''date''"
  "ASCIIToLower ''Expires'' = ''expires''" "ASCIIToLower ''Record-Route'' = ''record-route''"
  "ASCIIToLower ''Refer-Sub'' = ''refer-sub''" "ASCIIToLower ''Server'' = ''server''"
  "ASCIIToLower ''User-Agent'' = ''user-agent''" "ASCIIToLower ''Content-Type'' = ''content-type''"
  "ASCIIToLower ''Content-Length'' = ''content-length''" "ASCIIToLower ''MIME-Version'' = ''mime-version''"
  "ASCIIToLower ''Reason'' = ''reason''" "ASCIIToLower ''Warning'' = ''warning''"
  "ASCIIToLower ''Retry-After'' = ''retry-after''"
  by (simp_all add: ASCIIToLower_def)

lemmas header_ops = AddHeader_def SetHeader_def AddHeaderValues_def hm.get_add hm.get_put values_AddValues


section \<open>The headers of a response\<close>

text \<open>Building headers may only note a tag: in the session and in the \<open>To\<close> of the transaction.\<close>

definition noting :: "tx_id \<Rightarrow> world \<Rightarrow> world \<Rightarrow> bool" where
  "noting t w w' \<longleftrightarrow> (\<exists>S n x. w' = w\<lparr>w_seed := n, w_ss := S, w_tx := (w_tx w)(t := (w_tx w t)\<lparr>To := x\<rparr>)\<rparr> \<and>
     (\<forall>j. core (S j) = core (w_ss w j) \<and> Transactions (S j) = Transactions (w_ss w j)))"

lemma noting_seed: "noting t w (w\<lparr>w_seed := n\<rparr>)"
  unfolding noting_def
  by (rule exI [of _ "w_ss w"], rule exI [of _ n], rule exI [of _ "To (w_tx w t)"]) simp

lemma noting_trans:
  assumes "noting t w1 w2" "noting t w2 w3"
  shows "noting t w1 w3"
proof -
  from assms(1) obtain S n x where 1: "w2 = w1\<lparr>w_seed := n, w_ss := S, w_tx := (w_tx w1)(t := (w_tx w1 t)\<lparr>To := x\<rparr>)\<rparr>"
    "\<forall>j. core (S j) = core (w_ss w1 j) \<and> Transactions (S j) = Transactions (w_ss w1 j)"
    unfolding noting_def by blast
  from assms(2) obtain S' n' x' where 2: "w3 = w2\<lparr>w_seed := n', w_ss := S', w_tx := (w_tx w2)(t := (w_tx w2 t)\<lparr>To := x'\<rparr>)\<rparr>"
    "\<forall>j. core (S' j) = core (w_ss w2 j) \<and> Transactions (S' j) = Transactions (w_ss w2 j)"
    unfolding noting_def by blast
  from 1 2 show ?thesis unfolding noting_def
    by (intro exI [of _ S'] exI [of _ n'] exI [of _ x']) simp
qed

lemma wp_set_to_tag:
  assumes "\<not> w_panic w" "ContainsToTag h = Some tagged" "Value ''To'' h = Some to"
    and "\<And>h' w'. noting t w w' \<Longrightarrow> (\<forall>n. ASCIIToLower n \<noteq> ''to'' \<longrightarrow> header_values n h' = header_values n h) \<Longrightarrow>
       (tagged \<longrightarrow> h' = h) \<Longrightarrow> header_values ''To'' h' \<noteq> [] \<or> h' = h \<Longrightarrow> Q h' w'"
  shows "wp (set_to_tag i t sc h) Q w"
proof -
  have "noting t w w" using noting_seed [of t w "w_seed w"] by simp
  moreover have "noting t w (w\<lparr>w_seed := n, w_ss := (w_ss w)(i := (w_ss w i)\<lparr>ToTag := tg, ToHeader := th\<rparr>),
      w_tx := (w_tx w)(t := (w_tx w t)\<lparr>To := x\<rparr>)\<rparr>)" for n tg th x
    unfolding noting_def by (rule exI, rule exI [of _ n], rule exI [of _ x], rule conjI, rule refl) (simp add: core_def)
  ultimately show ?thesis using assms
    by (auto simp: set_to_tag_def ValueHeader_def SetHeader_def hm.get_put Let_def)
qed

definition first_value :: "string \<Rightarrow> SipHeaders \<Rightarrow> string" where
  "first_value n h = (case header_values n h of [] \<Rightarrow> [] | v # _ \<Rightarrow> v)"

text \<open>The headers of an answer to a request with headers \<open>rh\<close> in a dialogue with this Call-ID.\<close>

definition answer_headers :: "SipHeaders \<Rightarrow> string \<Rightarrow> SipHeaders \<Rightarrow> bool" where
  "answer_headers rh cid h \<longleftrightarrow> header_values ''Via'' h = header_values ''Via'' rh
     \<and> header_values ''From'' h = [first_value ''From'' rh] \<and> header_values ''CSeq'' h = [first_value ''CSeq'' rh]
     \<and> header_values ''Call-ID'' h = [cid]
     \<and> (Contains (ASCIIToLower (first_value ''To'' rh)) '';tag='' \<longrightarrow> header_values ''To'' h = [first_value ''To'' rh])"

lemma answer_headers_cong:
  assumes "answer_headers rh cid h" "\<And>n. ASCIIToLower n \<in> set protected_names \<Longrightarrow> header_values n h' = header_values n h"
  shows "answer_headers rh cid h'"
  using assms(1) assms(2) [of "''Via''"] assms(2) [of "''From''"] assms(2) [of "''CSeq''"]
    assms(2) [of "''Call-ID''"] assms(2) [of "''To''"]
  by (simp add: answer_headers_def protected_names_def)

lemma ValueHeader_first: "headers_wf h \<Longrightarrow> ValueHeader he h = Some (first_value (HeaderName he) h)"
  by (simp add: ValueHeader_def Value_eq first_value_def)

lemma header_values_To: "header_values ''To'' h = (case map_of h ''to'' of Some v \<Rightarrow> v | None \<Rightarrow> [])"
  by (simp add: header_values_eq)

lemma tag_of_To:
  assumes "header_values ''To'' h = [to]"
  shows "ContainsToTag h = Some (Contains (ASCIIToLower to) '';tag='')" "Value ''To'' h = Some to"
  using assms by (auto simp: header_values_To ContainsToTag_def Value_def Values_def split: option.splits)

lemma wp_createHeaders:
  assumes "\<not> w_panic w" "RequestMessage (w_tx w t) = Some r" "headers_wf (Headers (w_msg w r))"
    and "udpListenser (w_ss w i) \<noteq> None" "IsProvisional18x (rp_StatusCode rp) \<Longrightarrow> \<not> PRACKRequested rp \<and> LinkedPRACKST rp = None"
    and "plain_custom (rp_CustomHeaders rp)"
    and Q: "\<And>h w'. noting t w w' \<Longrightarrow> answer_headers (Headers (w_msg w r)) (CallID (w_ss w i)) h \<Longrightarrow> Q h w'"
  shows "wp (createHeadersForResponse i t rp) Q w"
proof -
  let ?rh = "Headers (w_msg w r)" and ?s = "w_ss w i"
  obtain a where a: "udpListenser ?s = Some a" using assms(4) by blast
  define h2 where "h2 = (let h1 = AddHeader Contact_hdr
      (if rp_ContactHeader rp = [] then GenerateContact a else rp_ContactHeader rp) (NewSHsPointer True) in
      if Method_tx (w_tx w t) = REGISTER \<and> first_value ''Expires'' ?rh \<noteq> [] then AddHeader Expires_hdr (first_value ''Expires'' ?rh) h1 else h1)"
  define h5 where "h5 date = AddHeader Date_hdr date (AddHeader CSeq_hdr (first_value ''CSeq'' ?rh)
      (AddHeader To_hdr (first_value ''To'' ?rh) (AddHeader From_hdr (first_value ''From'' ?rh)
        (AddHeaderValues Via_hdr (HeaderValues Via_hdr ?rh)
          (add_custom (rp_CustomHeaders rp) (AddHeader Call_ID_hdr (CallID ?s) h2))))))" for date
  have h2: "header_values n h2 = []" if "ASCIIToLower n \<in> set protected_names" for n
    using that by (auto simp: h2_def Let_def header_ops NewSHsPointer_def hm.get_emp protected_names_def)
  have vals: "header_values ''Via'' (h5 d) = header_values ''Via'' ?rh" "header_values ''From'' (h5 d) = [first_value ''From'' ?rh]"
    "header_values ''To'' (h5 d) = [first_value ''To'' ?rh]" "header_values ''CSeq'' (h5 d) = [first_value ''CSeq'' ?rh]"
    "header_values ''Call-ID'' (h5 d) = [CallID ?s]" for d
    using h2 assms(6)
    by (simp_all add: h5_def header_ops values_custom protected_names_def HeaderValues_def header_values_def [symmetric])
  then have ans: "answer_headers ?rh (CallID ?s) (h5 d)" for d by (simp add: answer_headers_def)
  define w1 where "w1 = w\<lparr>w_seed := Suc (w_seed w)\<rparr>"
  have w1: "noting t w w1" unfolding w1_def by (rule noting_seed)
  let ?d = "e_date (w_env w) (w_seed w)"
  have tag: "wp (set_to_tag i t (rp_StatusCode rp) (h5 ?d)) (\<lambda>h6 w2. Q (AddHeader Refer_Sub_hdr (first_value ''Refer-Sub'' ?rh)
      (AddHeaderValues Record_Route_hdr (RecordRoutes ?s) h6)) w2) w1"
  proof (rule wp_set_to_tag [OF _ tag_of_To [OF vals(3)]])
    show "\<not> w_panic w1" using assms(1) by (simp add: w1_def)
    fix h' w' assume n: "noting t w1 w'"
      "\<forall>n. ASCIIToLower n \<noteq> ''to'' \<longrightarrow> header_values n h' = header_values n (h5 ?d)"
      "Contains (ASCIIToLower (first_value ''To'' ?rh)) '';tag='' \<longrightarrow> h' = h5 ?d"
    then have "answer_headers ?rh (CallID ?s) h'" using vals
      by (auto simp: answer_headers_def)
    then have "answer_headers ?rh (CallID ?s) (AddHeader Refer_Sub_hdr (first_value ''Refer-Sub'' ?rh)
      (AddHeaderValues Record_Route_hdr (RecordRoutes ?s) h'))"
      by (rule answer_headers_cong) (auto simp: header_ops protected_names_def)
    with n(1) w1 show "Q (AddHeader Refer_Sub_hdr (first_value ''Refer-Sub'' ?rh)
      (AddHeaderValues Record_Route_hdr (RecordRoutes ?s) h')) w'" by (blast intro: Q noting_trans)
  qed
  have np: "\<not> (IsProvisional18x (rp_StatusCode rp) \<and> b \<and> c \<and> (PRACKRequested rp \<or> (\<exists>y. LinkedPRACKST rp = Some y)))" for b c
    using assms(5) by auto
  show ?thesis
    using assms(1,2) a tag Q [OF w1 ans]
    unfolding createHeadersForResponse_def Let_def
    by (cases "rp_ContactHeader rp = []"; cases "Method_tx (w_tx w t) = REGISTER"; cases "100 < rp_StatusCode rp";
        cases "first_value ''Expires'' ?rh = []")
       (simp_all add: ValueHeader_first [OF assms(3)] w1_def [symmetric] h5_def h2_def Let_def np)
qed

section \<open>Sending a response\<close>

lemma suppressed18x_other: "\<not> IsProvisional18x (rp_StatusCode rp) \<Longrightarrow> wp (suppressed18x i t rp b) Q = Q False"
  by (rule ext) (simp add: suppressed18x_def Let_def)

lemma ParseNPrepareSDP_None: "wp (ParseNPrepareSDP i None) Q = Q ()"
  by (rule ext) (simp add: ParseNPrepareSDP_def Let_def)

lemma PrepareMessageBytes_empty:
  "\<exists>m'. PrepareMessageBytes None m = Some m' \<and> Bytes m' \<noteq> [] \<and> sm_StartLine m' = sm_StartLine m \<and> MsgType m' = MsgType m
     \<and> (\<forall>n. ASCIIToLower n \<in> set protected_names \<longrightarrow> header_values n (Headers m') = header_values n (Headers m))"
proof -
  have "Int2Str (of_nat 0) = Some (dec_string 0)" using Int2Str_eq [of "0"] by simp
  then show ?thesis
    by (auto simp: PrepareMessageBytes_def body_bytes_def Let_def header_ops protected_names_def CRLF_def)
qed

text \<open>The transaction can be answered: what it answers is there and there is a way out.\<close>

definition answerable :: "world \<Rightarrow> ss_id \<Rightarrow> tx_id \<Rightarrow> msg_id \<Rightarrow> UDPAddr \<Rightarrow> bool" where
  "answerable w i t r a \<longleftrightarrow> \<not> w_panic w \<and> RequestMessage (w_tx w t) = Some r \<and> headers_wf (Headers (w_msg w r))
     \<and> udpListenser (w_ss w i) \<noteq> None
     \<and> (case ViaUdpAddr (w_tx w t) of Some b \<Rightarrow> Some b | None \<Rightarrow> remoteUDP (w_ss w i)) = Some a"

text \<open>The datagram of a response with this status to the request with headers \<open>rh\<close>.\<close>

definition is_answer :: "SipHeaders \<Rightarrow> string \<Rightarrow> int \<Rightarrow> UDPAddr \<Rightarrow> datagram \<Rightarrow> bool" where
  "is_answer rh cid sc a d \<longleftrightarrow> dg_to d = a \<and> IsResponse (dg_msg d) \<and> GetStatusCode (dg_msg d) = sc
     \<and> answer_headers rh cid (Headers (dg_msg d)) \<and> Bytes (dg_msg d) \<noteq> []"

definition answered_tx :: "int \<Rightarrow> msg_id \<Rightarrow> Transaction \<Rightarrow> Transaction \<Rightarrow> bool" where
  "answered_tx sc m x y \<longleftrightarrow> (\<exists>th tm n d. y = x\<lparr>Responses := Responses x @ [sc],
     IsFinalized_tx := IsFinalized_tx x \<or> 200 \<le> sc, To := th, SentMessage := Some m, ReTXCount := n, TransTimeOut := d, Timer := tm\<rparr>)"

definition answered :: "ss_id \<Rightarrow> tx_id \<Rightarrow> msg_id \<Rightarrow> UDPAddr \<Rightarrow> int \<Rightarrow> world \<Rightarrow> world \<Rightarrow> bool" where
  "answered i t r a sc w w' \<longleftrightarrow> sends w w' \<and> \<not> w_panic w'
     \<and> (\<exists>d. w_out w' = w_out w @ [d] \<and> is_answer (Headers (w_msg w r)) (CallID (w_ss w i)) sc a d)
     \<and> (\<forall>j. Transactions (w_ss w' j) = Transactions (w_ss w j)) \<and> w_ntx w' = w_ntx w
     \<and> answered_tx sc (w_nmsg w) (w_tx w t) (w_tx w' t) \<and> (\<forall>u. u \<noteq> t \<longrightarrow> w_tx w' u = w_tx w u)
     \<and> w_nmsg w' = Suc (w_nmsg w) \<and> (\<forall>j. j \<noteq> w_nmsg w \<longrightarrow> w_msg w' j = w_msg w j) \<and> w_body w' = w_body w"

lemma wp_Send_response:
  assumes "\<not> w_panic w" "SentMessage (w_tx w t) = Some m" "Bytes (w_msg w m) = []" "Body (w_msg w m) = None"
    and "IsResponse (w_msg w m)" "udpListenser (w_ss w i) \<noteq> None"
    and "(case ViaUdpAddr (w_tx w t) of Some b \<Rightarrow> Some b | None \<Rightarrow> remoteUDP (w_ss w i)) = Some a"
    and Q: "\<And>m'. PrepareMessageBytes None (w_msg w m) = Some m' \<Longrightarrow>
      Q () (w\<lparr>w_msg := (w_msg w)(m := m'), w_out := w_out w @ [\<lparr>dg_msg = m', dg_to = a\<rparr>]\<rparr>)"
  shows "wp (Send i t) Q w"
proof -
  obtain m' where m': "PrepareMessageBytes None (w_msg w m) = Some m'" using PrepareMessageBytes_empty by blast
  obtain l where "udpListenser (w_ss w i) = Some l" using assms(6) by blast
  with assms Q [OF m'] m' show ?thesis
    by (auto simp: Send_def sendmessage_def split: option.splits)
qed

text \<open>A timer that starts changes the three fields of the timer only.\<close>

definition timed :: "Transaction \<Rightarrow> Transaction \<Rightarrow> bool" where
  "timed x y \<longleftrightarrow> (\<exists>n d tm. y = x\<lparr>ReTXCount := n, TransTimeOut := d, Timer := tm\<rparr>)"

lemma timed_refl: "timed x x"
  unfolding timed_def
  by (rule exI [of _ "ReTXCount x"], rule exI [of _ "TransTimeOut x"], rule exI [of _ "Timer x"]) simp

lemma wp_start_timer:
  assumes "\<not> w_panic w" "\<And>y. timed (w_tx w t) y \<Longrightarrow> Q () (w\<lparr>w_tx := (w_tx w)(t := y)\<rparr>)"
  shows "wp (when b (StartTransTimer t i)) Q w"
proof -
  have "timed x (if Timer x = TNil then x\<lparr>ReTXCount := 0, TransTimeOut := T1Timer, Timer := TArmed i\<rparr> else x)" for x
    using timed_refl by (auto simp: timed_def)
  moreover have "Q () w" using assms(2) [OF timed_refl] by simp
  ultimately show ?thesis using assms by (auto simp: when_def StartTransTimer_def)
qed

lemma wp_SendSTMessage:
  assumes "\<And>b. wp (Send i t) (\<lambda>_. wp (when b (StartTransTimer t i)) Q) w"
  shows "wp (SendSTMessage i t) Q w"
  unfolding SendSTMessage_def Let_def wp_bind wp_reads wp_asks by (rule assms)

lemma wp_send_new:
  assumes "\<not> w_panic w" "Bytes msg = []" "Body msg = None" "IsResponse msg" "udpListenser (w_ss w i) \<noteq> None"
    and "(case ViaUdpAddr (w_tx w t) of Some b \<Rightarrow> Some b | None \<Rightarrow> remoteUDP (w_ss w i)) = Some a"
    and Q: "\<And>m' y. PrepareMessageBytes None msg = Some m' \<Longrightarrow> timed ((w_tx w t)\<lparr>SentMessage := Some (w_nmsg w)\<rparr>) y \<Longrightarrow>
      Q () (w\<lparr>w_msg := (w_msg w)(w_nmsg w := m'), w_nmsg := Suc (w_nmsg w), w_tx := (w_tx w)(t := y),
             w_out := w_out w @ [\<lparr>dg_msg = m', dg_to = a\<rparr>]\<rparr>)"
  shows "wp (do { m \<leftarrow> new_msg msg; ParseNPrepareSDP i None; upd_tx t (\<lambda>x. x\<lparr>SentMessage := Some m\<rparr>); SendSTMessage i t }) Q w"
proof -
  let ?m = "w_nmsg w"
  let ?w = "w\<lparr>w_msg := (w_msg w)(?m := msg), w_nmsg := Suc ?m, w_tx := (w_tx w)(t := (w_tx w t)\<lparr>SentMessage := Some ?m\<rparr>)\<rparr>"
  have "wp (SendSTMessage i t) Q ?w"
  proof (rule wp_SendSTMessage, rule wp_Send_response [where m = ?m and a = a])
    fix b m' assume m': "PrepareMessageBytes None (w_msg ?w ?m) = Some m'"
    show "wp (when b (StartTransTimer t i)) Q (?w\<lparr>w_msg := (w_msg ?w)(?m := m'), w_out := w_out ?w @ [\<lparr>dg_msg = m', dg_to = a\<rparr>]\<rparr>)"
    proof (rule wp_start_timer)
      fix y
      assume "timed (w_tx (?w\<lparr>w_msg := (w_msg ?w)(?m := m'), w_out := w_out ?w @ [\<lparr>dg_msg = m', dg_to = a\<rparr>]\<rparr>) t) y"
      with Q [of m' y] m' show "Q () ((?w\<lparr>w_msg := (w_msg ?w)(?m := m'), w_out := w_out ?w @ [\<lparr>dg_msg = m', dg_to = a\<rparr>]\<rparr>)
        \<lparr>w_tx := (w_tx (?w\<lparr>w_msg := (w_msg ?w)(?m := m'), w_out := w_out ?w @ [\<lparr>dg_msg = m', dg_to = a\<rparr>]\<rparr>))(t := y)\<rparr>)"
        by (cases w) simp
    qed (use assms(1) in simp)
  qed (use assms in \<open>auto split: option.splits\<close>)
  then show ?thesis using assms(1) by (simp add: ParseNPrepareSDP_None)
qed

lemma noting_fields:
  assumes "noting t w w'"
  shows "w_panic w' = w_panic w" "w_out w' = w_out w" "w_msg w' = w_msg w" "w_nmsg w' = w_nmsg w"
    "w_body w' = w_body w" "w_ntx w' = w_ntx w" "core (w_ss w' j) = core (w_ss w j)"
    "Transactions (w_ss w' j) = Transactions (w_ss w j)" "\<exists>x. w_tx w' = (w_tx w)(t := (w_tx w t)\<lparr>To := x\<rparr>)"
  using assms unfolding noting_def by auto

lemma response_is_answer:
  assumes "PrepareMessageBytes None ((NewResponseMessage sc ph)\<lparr>Headers := h, Body := None\<rparr>) = Some m'"
    and "answer_headers rh cid h" "100 \<le> sc" "sc \<le> 699"
  shows "is_answer rh cid sc a \<lparr>dg_msg = m', dg_to = a\<rparr>"
proof -
  let ?msg = "(NewResponseMessage sc ph)\<lparr>Headers := h, Body := None\<rparr>"
  have m': "Bytes m' \<noteq> []" "sm_StartLine m' = sm_StartLine ?msg" "MsgType m' = MsgType ?msg"
    "\<And>n. ASCIIToLower n \<in> set protected_names \<Longrightarrow> header_values n (Headers m') = header_values n h"
    using PrepareMessageBytes_empty [of ?msg] assms(1) by auto
  then show ?thesis using answer_headers_cong [OF assms(2) m'(4)] assms(3,4)
    by (simp add: is_answer_def IsResponse_def GetStatusCode_def NewResponseMessage_def Let_def)
qed

lemma send_response_answers:
  assumes "answerable w i t r a" "100 \<le> sc" "sc \<le> 699" "\<not> IsProvisional18x sc"
    and "rp_StatusCode rp = sc" "plain_custom (rp_CustomHeaders rp)"
  shows "wp (send_response i t rp None) (\<lambda>_. answered i t r a sc w) w"
proof -
  let ?x = "w_tx w t"
  let ?w1 = "w\<lparr>w_tx := (w_tx w)(t := ?x\<lparr>Responses := Responses ?x @ [sc], IsFinalized_tx := IsFinalized_tx ?x \<or> 200 \<le> sc\<rparr>)\<rparr>"
  let ?rh = "Headers (w_msg w r)" and ?cid = "CallID (w_ss w i)"
  note ok = assms(1) [unfolded answerable_def]
  have "wp (createHeadersForResponse i t rp) (\<lambda>h. wp (do {
        m \<leftarrow> new_msg ((NewResponseMessage sc (rp_ReasonPhrase rp))\<lparr>Headers := h, Body := None\<rparr>);
        ParseNPrepareSDP i None; upd_tx t (\<lambda>x. x\<lparr>SentMessage := Some m\<rparr>); SendSTMessage i t })
      (\<lambda>_ w'. sends w w' \<longrightarrow> answered i t r a sc w w')) ?w1"
  proof (rule wp_createHeaders [where r = r], goal_cases)
    case (7 h w2)
    note f = noting_fields [OF 7(1)]
    from f(9) obtain th where th: "w_tx w2 = (w_tx w)(t := ?x\<lparr>Responses := Responses ?x @ [sc],
        IsFinalized_tx := IsFinalized_tx ?x \<or> 200 \<le> sc, To := th\<rparr>)" by auto
    have s: "udpListenser (w_ss w2 i) = udpListenser (w_ss w i)" "remoteUDP (w_ss w2 i) = remoteUDP (w_ss w i)"
      using f(7) [of i, THEN core_fields(9)] f(7) [of i, THEN core_fields(10)] by simp_all
    have h: "answer_headers ?rh ?cid h" using 7(2) by simp
    show ?case
    proof (rule wp_send_new [where a = a], goal_cases)
      case (7 m' y)
      from response_is_answer [OF 7(1) h assms(2,3)] have "is_answer ?rh ?cid sc a \<lparr>dg_msg = m', dg_to = a\<rparr>" .
      moreover have "answered_tx sc (w_nmsg w) ?x y"
        using 7(2) th f(4) unfolding timed_def answered_tx_def by auto
      ultimately show ?case using ok f th by (auto simp: answered_def)
    qed (use ok s th in \<open>simp_all add: f NewResponseMessage_def zero_SipMessage_def IsResponse_def Let_def
      split: option.splits\<close>)
  qed (use ok assms in simp_all)
  then have "wp (send_response i t rp None) (\<lambda>_ w'. sends w w' \<longrightarrow> answered i t r a sc w w') w"
    using ok assms(4,5) unfolding send_response_def Let_def by (simp add: suppressed18x_other)
  from wp_conj [OF this sends.keeps_responses(4)] show ?thesis by (rule wp_mono) blast
qed

lemma SendCreatedResponse_answers:
  assumes "answerable w i t r a" "100 \<le> sc" "sc \<le> 699" "\<not> IsProvisional18x sc"
  shows "answered i t r a sc w (snd (run_state (SendCreatedResponse i (Some t) sc None) w))"
    "rp_StatusCode rp = sc \<Longrightarrow> plain_custom (rp_CustomHeaders rp) \<Longrightarrow>
      answered i t r a sc w (snd (run_state (SendCreatedResponseDetailed i (Some t) rp None) w))"
  using send_response_answers [OF assms, of "response_pack sc"] send_response_answers [OF assms, of rp]
  by (simp_all add: SendCreatedResponse_def SendCreatedResponseDetailed_def wp_def response_pack_def
      plain_custom_def NewSipHeaders_def)

text \<open>The headers that explain an answer are none of the protected ones.\<close>

lemma plain_explanation:
  assumes "NewSHQ850OrSIP q d ra = Some h"
  shows "plain_custom h"
proof -
  have add: "plain_custom h \<Longrightarrow> ASCIIToLower n \<notin> set protected_names \<Longrightarrow> plain_custom (Add n v h)" for n v h
    using set_update_subset [of "ASCIIToLower n"] unfolding plain_custom_def Add_def Let_def list_all_iff
    by (fastforce simp: ASCIIToLower_idem)
  have "plain_custom NewSipHeaders" by (simp add: plain_custom_def NewSipHeaders_def)
  with assms show ?thesis
    by (auto simp: NewSHQ850OrSIP_def Let_def AddHeader_def protected_names_def intro!: add split: if_splits)
qed

end
