(* ===== verification/Call_Flows.thy ===== *)
theory Call_Flows
  imports Answers
begin

text \<open>
  What the router does with the requests that end or refuse a call: which answer goes out, and
  in which state the two legs of the call are left.
\<close>

section \<open>Steps of the handlers\<close>

definition set_ss :: "ss_id \<Rightarrow> (SipSession \<Rightarrow> SipSession) \<Rightarrow> world \<Rightarrow> world" where
  "set_ss l f w = w\<lparr>w_ss := (w_ss w)(l := f (w_ss w l))\<rparr>"

lemma set_ss_fields [simp]:
  "w_ss (set_ss l f w) = (w_ss w)(l := f (w_ss w l))" "w_panic (set_ss l f w) = w_panic w"
  "w_tx (set_ss l f w) = w_tx w" "w_msg (set_ss l f w) = w_msg w" "w_out (set_ss l f w) = w_out w"
  "w_Sessions (set_ss l f w) = w_Sessions w" "w_pool (set_ss l f w) = w_pool w" "w_nmsg (set_ss l f w) = w_nmsg w"
  by (simp_all add: set_ss_def)

lemma wp_frame: "keeps R m \<Longrightarrow> (\<And>a w'. R w w' \<Longrightarrow> Q a w') \<Longrightarrow> wp m Q w"
  by (simp add: wp_def keeps_def)

lemma wp_answer:
  assumes "answerable w i t r a" "100 \<le> sc" "sc \<le> 699" "\<not> IsProvisional18x sc"
    and "\<And>w'. answered i t r a sc w w' \<Longrightarrow> Q () w'"
  shows "wp (SendCreatedResponse i (Some t) sc None) Q w"
  using SendCreatedResponse_answers(1) [OF assms(1-4)] assms(5) by (simp add: wp_def)

lemma wp_answer_detailed:
  assumes "answerable w i t r a" "100 \<le> rp_StatusCode rp" "rp_StatusCode rp \<le> 699"
    and "\<not> IsProvisional18x (rp_StatusCode rp)" "plain_custom (rp_CustomHeaders rp)"
    and "\<And>w'. answered i t r a (rp_StatusCode rp) w w' \<Longrightarrow> Q () w'"
  shows "wp (SendCreatedResponseDetailed i (Some t) rp None) Q w"
  using SendCreatedResponse_answers(2) [OF assms(1-4) refl assms(5)] assms(6) by (simp add: wp_def)

lemma answerable_set_ss:
  "(\<And>s. udpListenser (f s) = udpListenser s \<and> remoteUDP (f s) = remoteUDP s) \<Longrightarrow>
     answerable (set_ss l f w) i t r a = answerable w i t r a"
  by (cases "l = i") (auto simp: answerable_def split: option.splits)

lemma wp_SetState: "\<not> w_panic w \<Longrightarrow> wp (SetState i st) Q w = Q () (set_ss i (\<lambda>s. s\<lparr>ss_state := st\<rparr>) w)"
  by (simp add: set_ss_def)

lemma wp_DropMe:
  "\<not> w_panic w \<Longrightarrow> \<not> IsDisposed (w_ss w i) \<Longrightarrow> \<not> probDone (w_ss w i) \<Longrightarrow>
     wp (DropMe i) Q w = Q () (drop_session i w)"
  by (simp add: DropMe_def)

lemma drop_session_fields [simp]:
  "w_panic (drop_session i w) = w_panic w" "w_out (drop_session i w) = w_out w"
  "j \<noteq> i \<Longrightarrow> w_ss (drop_session i w) j = w_ss w j"
  "ss_state (w_ss (drop_session i w) j) = ss_state (w_ss w j)"
  "LinkedSession (w_ss (drop_session i w) j) = LinkedSession (w_ss w j)"
  "IsDisposed (w_ss (drop_session i w) i)"
  "w_Sessions (drop_session i w) = Delete_cm (CallID (w_ss w i)) (w_Sessions w)"
  by (simp_all add: drop_session_def Let_def)

lemma sends_state:
  assumes "sends w w'"
  shows "ss_state (w_ss w' j) = ss_state (w_ss w j)" "LinkedSession (w_ss w' j) = LinkedSession (w_ss w j)"
    "Direction_ss (w_ss w' j) = Direction_ss (w_ss w j)" "IsDisposed (w_ss w' j) = IsDisposed (w_ss w j)"
    "probDone (w_ss w' j) = probDone (w_ss w j)" "CallID (w_ss w' j) = CallID (w_ss w j)"
    "prefix (w_out w) (w_out w')"
  using assms core_fields [of "w_ss w' j" "w_ss w j"] by (auto simp: sends_def)

text \<open>Stopping the timers of a leg's transactions sends nothing.\<close>

definition stops :: "world \<Rightarrow> world \<Rightarrow> bool" where
  "stops w w' \<longleftrightarrow> sends w w' \<and> w_out w' = w_out w \<and> w_panic w' = w_panic w \<and> w_ss w' = w_ss w"

lemma stops_all: "stops w (snd (run_state (for_each StopTransTimer ts) w))"
proof (induction ts arbitrary: w)
  case Nil
  show ?case by (simp add: stops_def sends.R_refl)
next
  case (Cons t ts)
  have "stops w (snd (run_state (StopTransTimer t) w))"
    using sends.keeps_sends(4) by (simp add: stops_def keeps_def StopTransTimer_def upd_tx_def)
  with Cons [of "snd (run_state (StopTransTimer t) w)"] show ?case
    by (auto simp: stops_def split: prod.split intro: sends.R_trans)
qed

lemma wp_StopAll:
  assumes "\<And>w'. stops w w' \<Longrightarrow> Q () w'"
  shows "wp (StopAllOutTransactions l) Q w"
  using assms [OF stops_all] by (simp add: StopAllOutTransactions_def wp_def)

text \<open>A leg that is released or cancelled: its state is set before its request is made.\<close>

lemma wp_release_one:
  assumes "\<not> w_panic w"
    and "\<And>w'. ss_state (w_ss w l) = Established \<Longrightarrow> sends (set_ss l (\<lambda>s. s\<lparr>ss_state := st\<rparr>) w) w' \<Longrightarrow> Q True w'"
    and "ss_state (w_ss w l) \<noteq> Established \<Longrightarrow> Q False w"
  shows "wp (release_one l st d tr) Q w"
  using assms
  by (cases "ss_state (w_ss w l) = Established")
     (auto simp: release_one_def wp_SetState simp del: wp_states(4) intro!: wp_frame [OF sends.keeps_requests(3)])

definition cancelling :: "SipSession \<Rightarrow> SipSession" where
  "cancelling s = s\<lparr>no18xSTimer := stop_timer (no18xSTimer s), noAnsSTimer := stop_timer (noAnsSTimer s),
     ss_state := BeingCancelled\<rparr>"

lemma wp_CancelMe:
  assumes "\<not> w_panic w"
    and "\<And>w'. Direction_ss (w_ss w l) = OUTBOUND \<Longrightarrow> ss_state (w_ss w l) = BeingEstablished \<Longrightarrow>
        sends (set_ss l cancelling w) w' \<Longrightarrow> Q True w'"
    and "\<not> (Direction_ss (w_ss w l) = OUTBOUND \<and> ss_state (w_ss w l) = BeingEstablished) \<Longrightarrow> Q False w"
  shows "wp (CancelMe l q d) Q w"
proof (cases "Direction_ss (w_ss w l) = OUTBOUND \<and> ss_state (w_ss w l) = BeingEstablished")
  case True
  let ?w = "set_ss l cancelling w"
  have "wp (StopNoTimers l \<bind> (\<lambda>_. SetState l BeingCancelled)) Q' w = Q' () ?w" for Q'
    using assms(1) by (simp add: StopNoTimers_def StopTimer_def set_ss_def cancelling_def)
  moreover have "wp (do { (if q = - 1 \<or> d = [] then SendCreatedRequest l CANCEL None None
          else do {
            h \<leftarrow> deref NewSipHeaders (NewSHQ850OrSIP q d []);
            SendCreatedRequestDetailed l ((request_pack CANCEL)\<lparr>rq_CustomHeaders := h\<rparr>) None None
          });
         ret True}) Q ?w"
    unfolding wp_bind
    by (rule wp_frame [where R = sends]) (auto intro!: sends.keeps_base sends.keeps_requests assms(2) conjunct1 [OF True] conjunct2 [OF True])
  ultimately show ?thesis using True by (simp add: CancelMe_def)
qed (use assms(3) in \<open>auto simp: CancelMe_def\<close>)


section \<open>BYE\<close>

lemma removed_key: "Load (Delete_cm k c) k = None"
  by (simp add: Load_def Delete_cm_def delete_conv')

definition released_state :: "SipSession \<Rightarrow> SessionState" where
  "released_state s = (if ss_state s = Established then BeingCleared
     else if Direction_ss s = OUTBOUND \<and> ss_state s = BeingEstablished then BeingCancelled else ss_state s)"

lemma wp_release_or_cancel:
  assumes "\<not> w_panic w"
    and "\<And>a w'. prefix (w_out w) (w_out w') \<Longrightarrow> ss_state (w_ss w' l) = released_state (w_ss w l) \<Longrightarrow>
      (\<And>j. j \<noteq> l \<Longrightarrow> core (w_ss w' j) = core (w_ss w j)) \<Longrightarrow> w_Sessions w' = w_Sessions w \<Longrightarrow> Q a w'"
  shows "wp (do { r \<leftarrow> ReleaseMe l d tr; if r then ret x else do { _ \<leftarrow> CancelMe l q c; ret y } }) Q w"
proof -
  have sent: "Q a w'" if "sends (set_ss l f w) w'" "ss_state (f (w_ss w l)) = released_state (w_ss w l)" for f w' a
    using that sends_state [OF that(1)] sends_fields [OF that(1)]
    by (intro assms(2)) (auto simp: sends_def)
  show ?thesis unfolding wp_bind ReleaseMe_def
  proof (rule wp_release_one [OF assms(1)])
    fix w' assume "ss_state (w_ss w l) = Established" "sends (set_ss l (\<lambda>s. s\<lparr>ss_state := BeingCleared\<rparr>) w) w'"
    then show "wp (if True then ret x else do { _ \<leftarrow> CancelMe l q c; ret y }) Q w'"
      by (auto simp: released_state_def intro: sent)
  next
    assume n: "ss_state (w_ss w l) \<noteq> Established"
    have "wp (CancelMe l q c) (\<lambda>_. Q y) w"
      by (rule wp_CancelMe [OF assms(1)])
         (use n in \<open>auto simp: released_state_def cancelling_def intro: sent assms(2)\<close>)
    then show "wp (if False then ret x else do { _ \<leftarrow> CancelMe l q c; ret y }) Q w" by simp
  qed
qed

lemma wp_incompatible:
  assumes "answerable w i t r a" "\<And>w'. answered i t r a 400 w w' \<Longrightarrow> Q () w'"
  shows "wp (incompatible i t) Q w"
  unfolding incompatible_def
  by (rule wp_answer_detailed [OF assms(1)])
     (use assms(2) in \<open>simp_all add: response_pack_def IsProvisional18x_def plain_custom_def NewSipHeaders_def\<close>)

lemma answered_out: "answered i t r a sc w w' \<Longrightarrow>
    \<exists>d. w_out w' = w_out w @ [d] \<and> is_answer (Headers (w_msg w r)) (CallID (w_ss w i)) sc a d"
  by (simp add: answered_def)

lemma answered_sends: "answered i t r a sc w w' \<Longrightarrow> sends w w' \<and> \<not> w_panic w'"
  by (simp add: answered_def)

text \<open>The second part of a BYE or CANCEL: the other leg is released or cancelled.\<close>

lemma answer_then_prefix:
  assumes "answered i t r a sc w w1" "w_out w2 = w_out w1" "prefix (w_out w2) (w_out w3)"
  shows "\<exists>d rest. w_out w3 = w_out w @ d # rest \<and> is_answer (Headers (w_msg w r)) (CallID (w_ss w i)) sc a d"
  using answered_out [OF assms(1)] assms(2,3) by (auto simp: prefix_def)

lemma handle_BYE_established:
  fixes w
  assumes "answerable w i t r a" "ss_state (w_ss w i) = Established"
    and "\<not> IsDisposed (w_ss w i)" "\<not> probDone (w_ss w i)" "LinkedSession (w_ss w i) = Some l" "l \<noteq> i"
  defines "Q \<equiv> \<lambda>w'. (\<exists>d rest. w_out w' = w_out w @ d # rest
         \<and> is_answer (Headers (w_msg w r)) (CallID (w_ss w i)) 200 a d)
     \<and> ss_state (w_ss w' i) = Cleared \<and> IsDisposed (w_ss w' i) \<and> Load (w_Sessions w') (CallID (w_ss w i)) = None
     \<and> ss_state (w_ss w' l) = released_state (w_ss w l)"
  shows "wp (handle_BYE i t) (\<lambda>_. Q) w"
proof -
  let ?w = "set_ss i (\<lambda>s. s\<lparr>ss_state := Cleared\<rparr>) w"
  have p: "\<not> w_panic w" using assms(1) by (simp add: answerable_def)
  have ans: "answerable ?w i t r a" using assms(1) by (subst answerable_set_ss) simp_all
  have "wp (SendCreatedResponse i (Some t) status_OK None) (\<lambda>_. wp (do {
       DropMe i; s \<leftarrow> get_ss i;
       case LinkedSession s of None \<Rightarrow> ret ()
       | Some l \<Rightarrow> do { StopAllOutTransactions l; r \<leftarrow> ReleaseMe l ''Caller cleared the call'' (Some t);
           if r then ret () else do { _ \<leftarrow> CancelMe l 16 ''Caller cleared the call''; ret () } } }) (\<lambda>_. Q)) ?w"
  proof (rule wp_answer [OF ans])
    fix w1 assume a: "answered i t r a status_OK ?w w1"
    note s1 = sends_state [OF answered_sends [OF a, THEN conjunct1]]
    let ?w2 = "drop_session i w1"
    have w1: "\<not> w_panic w1" "\<not> IsDisposed (w_ss w1 i)" "\<not> probDone (w_ss w1 i)" "CallID (w_ss w1 i) = CallID (w_ss w i)"
      "LinkedSession (w_ss w1 i) = Some l" "ss_state (w_ss w1 i) = Cleared"
      using a assms(3-5) s1 by (simp_all add: answered_def)
    have l: "released_state (w_ss w1 l) = released_state (w_ss w l)"
      using s1(1,3) [of l] assms(6) by (simp add: released_state_def)
    have "wp (StopAllOutTransactions l) (\<lambda>_. wp (do { r \<leftarrow> ReleaseMe l ''Caller cleared the call'' (Some t);
           if r then ret () else do { _ \<leftarrow> CancelMe l 16 ''Caller cleared the call''; ret () } }) (\<lambda>_. Q)) ?w2"
    proof (rule wp_StopAll, rule wp_release_or_cancel)
      fix w3 assume s3: "stops ?w2 w3"
      then show "\<not> w_panic w3" using w1(1) by (simp add: stops_def)
      fix x and w' :: world
      assume w': "prefix (w_out w3) (w_out w')" "ss_state (w_ss w' l) = released_state (w_ss w3 l)"
        "\<And>j. j \<noteq> l \<Longrightarrow> core (w_ss w' j) = core (w_ss w3 j)" "w_Sessions w' = w_Sessions w3"
      have w3: "w_out w3 = w_out w1" "w_ss w3 = w_ss ?w2" "w_Sessions w3 = w_Sessions ?w2"
        using s3 sends_fields(1) [of ?w2 w3] by (simp_all add: stops_def)
      show "Q w'"
        using answer_then_prefix [OF a w3(1) w'(1)] core_fields(1,6) [OF w'(3) [OF assms(6) [symmetric]]]
          w'(2,4) w3 w1(4,6) l assms(6) removed_key
        by (simp add: Q_def)
    qed
    then show "wp (do { DropMe i; s \<leftarrow> get_ss i;
       case LinkedSession s of None \<Rightarrow> ret ()
       | Some l \<Rightarrow> do { StopAllOutTransactions l; r \<leftarrow> ReleaseMe l ''Caller cleared the call'' (Some t);
           if r then ret () else do { _ \<leftarrow> CancelMe l 16 ''Caller cleared the call''; ret () } } }) (\<lambda>_. Q) w1"
      using w1 by (simp add: wp_DropMe)
  qed (simp_all add: IsProvisional18x_def)
  then show ?thesis using assms(2) p by (simp add: handle_BYE_def wp_SetState del: wp_states(4))
qed

section \<open>CANCEL\<close>

lemma handle_CANCEL_pending:
  fixes w
  assumes "answerable w i t r a" "ss_state (w_ss w i) = BeingEstablished"
    and "LinkedSession (w_ss w i) = Some l" "l \<noteq> i"
  defines "Q \<equiv> \<lambda>w'. (\<exists>d rest. w_out w' = w_out w @ d # rest
         \<and> is_answer (Headers (w_msg w r)) (CallID (w_ss w i)) 200 a d)
     \<and> ss_state (w_ss w' i) = BeingCancelled \<and> ss_state (w_ss w' l) = released_state (w_ss w l)"
  shows "wp (handle_CANCEL i t) (\<lambda>_. Q) w"
proof -
  let ?w = "set_ss i (\<lambda>s. s\<lparr>ss_state := BeingCancelled\<rparr>) w"
  let ?fin = "\<lambda>fin. if fin then ret () else do {
         h \<leftarrow> deref NewSipHeaders (NewSHQ850OrSIP 487 [] []);
         SendCreatedResponseDetailed i None ((response_pack 487)\<lparr>rp_CustomHeaders := h\<rparr>) None }"
  let ?rel = "\<lambda>l. do { r \<leftarrow> ReleaseMe l ''Caller cleared the call'' None;
                   if r then ret True else do { _ \<leftarrow> CancelMe l (- 1) []; ret False } }"
  have p: "\<not> w_panic w" using assms(1) by (simp add: answerable_def)
  have ans: "answerable ?w i t r a" using assms(1) by (subst answerable_set_ss) simp_all
  have "wp (SendCreatedResponse i (Some t) 200 None) (\<lambda>_. wp (do { s \<leftarrow> get_ss i;
       fin \<leftarrow> (case LinkedSession s of None \<Rightarrow> ret False
             | Some l \<Rightarrow> do { StopAllOutTransactions l; ?rel l });
       ?fin fin }) (\<lambda>_. Q)) ?w"
  proof (rule wp_answer [OF ans])
    fix w1 assume a: "answered i t r a 200 ?w w1"
    note s1 = sends_state [OF answered_sends [OF a, THEN conjunct1]]
    have w1: "\<not> w_panic w1" "LinkedSession (w_ss w1 i) = Some l" "ss_state (w_ss w1 i) = BeingCancelled"
      using a assms(3) s1 by (simp_all add: answered_def)
    have l: "released_state (w_ss w1 l) = released_state (w_ss w l)"
      using s1(1,3) [of l] assms(4) by (simp add: released_state_def)
    have "wp (StopAllOutTransactions l) (\<lambda>_. wp (?rel l) (\<lambda>fin. wp (?fin fin) (\<lambda>_. Q))) w1"
    proof (rule wp_StopAll, rule wp_release_or_cancel)
      fix w3 assume s3: "stops w1 w3"
      then show "\<not> w_panic w3" using w1(1) by (simp add: stops_def)
      fix x and w4 :: world
      assume w4: "prefix (w_out w3) (w_out w4)" "ss_state (w_ss w4 l) = released_state (w_ss w3 l)"
        "\<And>j. j \<noteq> l \<Longrightarrow> core (w_ss w4 j) = core (w_ss w3 j)"
      have w3: "w_out w3 = w_out w1" "w_ss w3 = w_ss w1" using s3 by (simp_all add: stops_def)
      show "wp (?fin x) (\<lambda>_. Q) w4"
      proof (rule wp_frame [where R = sends])
        show "keeps sends (?fin x)" by (auto intro!: sends.keeps_base sends.keeps_responses)
        fix y w' assume "sends w4 w'"
        note s' = sends_state [OF this]
        have "prefix (w_out w3) (w_out w')" using w4(1) s'(7) by (rule prefix_order.trans)
        from answer_then_prefix [OF a w3(1) this] core_fields(1) [OF w4(3) [OF assms(4) [symmetric]]]
        show "Q w'" using w4(2) w3 w1(3) l assms(4) s'(1) by (simp add: Q_def)
      qed
    qed
    then show "wp (do { s \<leftarrow> get_ss i;
       fin \<leftarrow> (case LinkedSession s of None \<Rightarrow> ret False
             | Some l \<Rightarrow> do { StopAllOutTransactions l; ?rel l });
       ?fin fin }) (\<lambda>_. Q) w1"
      using w1(2) by simp
  qed (simp_all add: IsProvisional18x_def)
  then show ?thesis using assms(2) p by (simp add: handle_CANCEL_def wp_SetState del: wp_states(4))
qed


section \<open>ACK\<close>

lemma wp_FinalizeState: "\<not> w_panic w \<Longrightarrow> wp (FinalizeState i) Q w = Q () (set_ss i (\<lambda>s. s\<lparr>ss_state := FinalizeMe (ss_state s)\<rparr>) w)"
  by (simp add: FinalizeState_def set_ss_def)

definition supervised :: "int \<Rightarrow> ss_id \<Rightarrow> SipSession \<Rightarrow> SipSession" where
  "supervised p i s =
     (let s1 = (case RoutingData s of Some rd \<Rightarrow> if 0 < MaxCallDuration rd then s\<lparr>maxDurationTimer := TArmed i\<rparr> else s
                | None \<Rightarrow> s)
      in if 0 < p then s1\<lparr>probingTicker := TArmed i\<rparr> else s1)"

lemma set_ss_id: "f (w_ss w l) = w_ss w l \<Longrightarrow> set_ss l f w = w"
  by (simp add: set_ss_def)

lemma wp_supervise:
  assumes "\<not> w_panic w"
  shows "wp (do { StartMaxCallDuration i; StartInDialogueProbing i }) Q w
       = Q () (set_ss i (supervised (w_IndialogueProbingInterval w) i) w)"
  using assms
  by (simp add: StartMaxCallDuration_def StartInDialogueProbing_def when_def supervised_def set_ss_def Let_def
      split: option.splits)

lemma handle_ACK_INVITE:
  fixes w
  assumes "\<not> w_panic w" "Method_tx (w_tx w t) = INVITE" "\<not> IsDisposed (w_ss w i)" "\<not> probDone (w_ss w i)"
    and "LinkedSession (w_ss w i) = Some l" "l \<noteq> i"
  defines "Q \<equiv> \<lambda>w'. ss_state (w_ss w' i) = FinalizeMe (ss_state (w_ss w i))
     \<and> (if FinalizeMe (ss_state (w_ss w i)) = Established
        then \<not> IsDisposed (w_ss w' i) \<and> ss_state (w_ss w' l) = (if TransformEarlyToFinal (w_ss w l) then ss_state (w_ss w l)
               else FinalizeMe (ss_state (w_ss w l)))
        else IsDisposed (w_ss w' i) \<and> Load (w_Sessions w') (CallID (w_ss w i)) = None \<and> w_out w' = w_out w
             \<and> w_ss w' l = w_ss w l)"
  shows "wp (handle_ACK i t m) (\<lambda>_. Q) w"
proof -
  let ?w = "set_ss i (\<lambda>s. s\<lparr>ss_state := FinalizeMe (ss_state s)\<rparr>) w"
  let ?go = "\<lambda>l. do { ls \<leftarrow> get_ss l;
             when (\<not> TransformEarlyToFinal ls)
               (do { FinalizeState l; SendCreatedRequest l ACK None (Body m) }) }"
  have start: "wp (handle_ACK i t m) (\<lambda>_. Q) w = wp (do { e \<leftarrow> IsEstablished i;
       if \<not> e then DropMe i else do {
         StartMaxCallDuration i; StartInDialogueProbing i;
         s \<leftarrow> get_ss i;
         case LinkedSession s of None \<Rightarrow> ret () | Some l \<Rightarrow> ?go l } }) (\<lambda>_. Q) ?w"
    using assms(1,2) by (simp add: handle_ACK_def wp_FinalizeState)
  show ?thesis
  proof (cases "FinalizeMe (ss_state (w_ss w i)) = Established")
    case False
    have "wp (DropMe i) (\<lambda>_. Q) ?w"
      using assms(1,3,4) False assms(6) removed_key
      by (subst wp_DropMe) (simp_all add: Q_def del: FinalizeMe_eval)
    with False show ?thesis unfolding start by (simp del: FinalizeMe_eval)
  next
    case True
    let ?w1 = "set_ss i (supervised (w_IndialogueProbingInterval ?w) i) ?w"
    have sup: "ss_state (supervised p i s) = ss_state s" "LinkedSession (supervised p i s) = LinkedSession s"
      "IsDisposed (supervised p i s) = IsDisposed s" for p s
      by (simp_all add: supervised_def Let_def split: option.split)
    have "wp (?go l) (\<lambda>_. Q) ?w1"
    proof (cases "TransformEarlyToFinal (w_ss w l)")
      case True': True
      then show ?thesis using True assms(3,6) sup by (simp add: when_def Q_def del: FinalizeMe_eval)
    next
      case False
      let ?w2 = "set_ss l (\<lambda>s. s\<lparr>ss_state := FinalizeMe (ss_state s)\<rparr>) ?w1"
      have "wp (SendCreatedRequest l ACK None (Body m)) (\<lambda>_. Q) ?w2"
      proof (rule wp_frame [OF sends.keeps_requests(2)])
        fix w' assume "sends ?w2 w'"
        note s = sends_state [OF this]
        from s(1) [of i] s(4) [of i] s(1) [of l] show "Q w'"
          using True False assms(3,6) sup by (simp add: Q_def del: FinalizeMe_eval)
      qed
      then show ?thesis using False assms(1,6) by (simp add: when_def wp_FinalizeState del: FinalizeMe_eval)
    qed
    moreover have "wp (do { StartMaxCallDuration i; StartInDialogueProbing i }) Q' ?w = Q' () ?w1" for Q'
      using assms(1) by (intro wp_supervise) simp
    ultimately show ?thesis unfolding start using True assms(5) sup by (simp del: FinalizeMe_eval)
  qed
qed

section \<open>Refusals\<close>

lemma wp_reject:
  assumes "answerable w i t r a" "100 \<le> sc" "sc \<le> 699" "\<not> IsProvisional18x sc" "NewSHQ850OrSIP q d [] \<noteq> None"
    and "Direction_ss (w_ss w i) = INBOUND" "ss_state (w_ss w i) = BeingEstablished"
    and Q: "\<And>w'. answered i t r a sc (set_ss i (\<lambda>s. s\<lparr>ss_state := BeingFailed\<rparr>) w) w' \<Longrightarrow> Q () w'"
  shows "wp (reject i t sc q d) Q w"
proof -
  obtain h where h: "NewSHQ850OrSIP q d [] = Some h" using assms(5) by blast
  let ?w = "set_ss i (\<lambda>s. s\<lparr>ss_state := BeingFailed\<rparr>) w"
  have ans: "answerable ?w i t r a" using assms(1) by (subst answerable_set_ss) simp_all
  have "wp (SendCreatedResponseDetailed i (Some t) ((response_pack sc)\<lparr>rp_CustomHeaders := h\<rparr>) None) (\<lambda>_. Q ()) ?w"
    by (rule wp_answer_detailed [OF ans])
       (use assms(2-4) Q plain_explanation [OF h] in \<open>simp_all add: response_pack_def\<close>)
  then show ?thesis using assms(1,6,7) h
    by (simp add: reject_def RejectMe_def answerable_def wp_SetState del: wp_states(4))
qed

text \<open>The status that refuses an INVITE, by what is wrong with it.\<close>

fun refusal_status :: "NewSessionType \<Rightarrow> int option" where
  "refusal_status TooLowMaxForwards = Some 483"
| "refusal_status WithRequireHeader = Some 420"
| "refusal_status UnsupportedURIScheme = Some 416"
| "refusal_status UnsupportedBody = Some 415"
| "refusal_status ExceededCallRate = Some 503"
| "refusal_status _ = None"

lemma explanations [simp]:
  "\<exists>h. NewSHQ850OrSIP q850_NoRCProvided d [] = Some h" "\<exists>h. NewSHQ850OrSIP q850_NoCircuitChannelAvailable d [] = Some h"
  "\<exists>h. NewSHQ850OrSIP q850_UnallocatedNumber d [] = Some h"
  by (auto simp: NewSHQ850OrSIP_def Let_def Int2Str_eq)

lemma handle_refused_INVITE:
  assumes "answerable w i t r a" "refusal_status ty = Some sc"
    and "Direction_ss (w_ss w i) = INBOUND" "ss_state (w_ss w i) = BeingEstablished"
  shows "wp (handle_refused i t m ty)
     (\<lambda>b w'. b \<and> answered i t r a sc (set_ss i (\<lambda>s. s\<lparr>ss_state := BeingFailed\<rparr>) w) w') w"
  using assms
  by (cases ty) (auto simp: handle_refused_def IsProvisional18x_def intro!: wp_reject [OF assms(1)] split: if_splits)


section \<open>Numbers without a route\<close>

lemma wp_protect: "\<not> w_panic w \<Longrightarrow> wp m (\<lambda>a w'. \<not> w_panic w' \<and> Q () w') w \<Longrightarrow> wp (protect m) Q w"
  by (simp add: protect_def wp_def split_beta)

lemma RouteRequestInternal_unknown:
  assumes "answerable w i t r a" "Direction_ss (w_ss w i) = INBOUND" "ss_state (w_ss w i) = BeingEstablished"
    and "Get (w_phones w) (UserPart (sm_StartLine (w_msg w mid))) = None"
    and "Get_route (w_routes w) (UserPart (sm_StartLine (w_msg w mid))) = Some None"
  shows "wp (RouteRequestInternal i t mid) (\<lambda>_. answered i t r a 404
      (set_ss i (\<lambda>s. s\<lparr>RoutingData := None, ss_state := BeingFailed\<rparr>) w)) w"
proof -
  let ?w = "set_ss i (\<lambda>s. s\<lparr>RoutingData := None\<rparr>) w"
  have p: "\<not> w_panic w" using assms(1) by (simp add: answerable_def)
  have ans: "answerable ?w i t r a" using assms(1) by (subst answerable_set_ss) simp_all
  have eq: "set_ss i (\<lambda>s. s\<lparr>ss_state := BeingFailed\<rparr>) ?w = set_ss i (\<lambda>s. s\<lparr>RoutingData := None, ss_state := BeingFailed\<rparr>) w"
    by (simp add: set_ss_def)
  have "wp (reject i t status_NotFound q850_UnallocatedNumber ''No target found'')
    (\<lambda>_ w'. \<not> w_panic w' \<and> answered i t r a 404 (set_ss i (\<lambda>s. s\<lparr>RoutingData := None, ss_state := BeingFailed\<rparr>) w) w') ?w"
    by (rule wp_reject [OF ans])
       (use assms(2,3) eq in \<open>simp_all add: IsProvisional18x_def answered_def\<close>)
  then show ?thesis
    using assms(4,5) p unfolding RouteRequestInternal_def
    by (intro wp_protect) (simp_all add: Let_def set_ss_def)
qed

section \<open>Retransmissions of requests and responses\<close>

lemma wp_recover [simp]: "\<not> w_panic w \<Longrightarrow> wp recover Q w = Q () w"
  by (simp add: wp_def)

lemma wp_new_body:
  "\<not> w_panic w \<Longrightarrow> wp (new_body x) Q w
     = Q (w_nbody w) (w\<lparr>w_body := (w_body w)(w_nbody w := x), w_nbody := Suc (w_nbody w)\<rparr>)"
  by (simp add: new_body_def)

lemma process_duplicate:
  assumes "\<not> w_panic w" "Load (w_Sessions w) (sm_CallID m) = Some i" "IsRequest m" "GetStatusCode m = 0"
    and "GetMethod m = INVITE \<or> GetTransaction i m w \<noteq> None"
  shows "wp (process_message m mb src conn) (\<lambda>_ w'. \<not> w_panic w' \<and> w_out w' = w_out w \<and> w_tx w' = w_tx w
     \<and> w_Sessions w' = w_Sessions w \<and> w_nss w' = w_nss w \<and> w_pool w' = w_pool w
     \<and> w_ss w' = (w_ss w)(i := (w_ss w i)\<lparr>remoteUDP := Some src, udpListenser := Some conn\<rparr>)) w" (is "wp _ ?Q w")
proof -
  have tx: "GetTransaction i (m\<lparr>Body := b\<rparr>) w' = GetTransaction i m w" if "w_ss w' = w_ss w" "w_tx w' = w_tx w" for b w'
    using assms(3) that
    by (simp add: GetTransaction_def IsRequest_def find_tx_def txs_def GetMethod_def)
  have body: "IsRequest (m\<lparr>Body := b\<rparr>) = IsRequest m" "GetMethod (m\<lparr>Body := b\<rparr>) = GetMethod m"
    "GetStatusCode (m\<lparr>Body := b\<rparr>) = GetStatusCode m" for b
    by (simp_all add: IsRequest_def GetMethod_def GetStatusCode_def)
  have dup: "wp (session_of (m\<lparr>Body := b\<rparr>)) Q' w' = Q' (Some i, DuplicateMessage) w'"
    if "\<not> w_panic w'" "w_ss w' = w_ss w" "w_tx w' = w_tx w" "w_Sessions w' = w_Sessions w" for b w' Q'
    using assms(2,4,5) that tx [of w' b]
    by (auto simp: session_of_def sessionGetter_def IsDuplicateMessage_def body Let_def)
  have go: "wp (do { mid \<leftarrow> new_msg (m\<lparr>Body := b\<rparr>);
     (ss, newSesType) \<leftarrow> session_of (m\<lparr>Body := b\<rparr>);
     (case ss of Some i \<Rightarrow> SetRemoteUDPnListenser i (Some src) (Some conn) | None \<Rightarrow> ret ());
     sipStack mid ss newSesType }) ?Q w'"
    if "\<not> w_panic w'" "w_ss w' = w_ss w" "w_tx w' = w_tx w" "w_Sessions w' = w_Sessions w" "w_out w' = w_out w"
      "w_nss w' = w_nss w" "w_pool w' = w_pool w" for b w'
    using that by (simp add: dup SetRemoteUDPnListenser_def sipStack_def protect_def)
  show ?thesis
  proof (cases mb)
    case None
    then show ?thesis using go [of w None] assms(1) by (simp add: process_message_def Let_def)
  next
    case (Some x)
    then show ?thesis
      using go [of "w\<lparr>w_body := (w_body w)(w_nbody w := x), w_nbody := Suc (w_nbody w)\<rparr>" "Some (w_nbody w)"] assms(1)
      by (simp add: process_message_def wp_new_body Let_def)
  qed
qed


text \<open>The next hop of a message of a transaction, and a transaction that waits to send again.\<close>

definition next_hop :: "SipSession \<Rightarrow> Transaction \<Rightarrow> SipMessage \<Rightarrow> UDPAddr option" where
  "next_hop s x msg =
     (if IsResponse msg then (case ViaUdpAddr x of Some a \<Rightarrow> Some a | None \<Rightarrow> remoteUDP s)
      else if \<not> UseRemoteURI x \<and> RemoteContactUDP s \<noteq> None then RemoteContactUDP s
      else if EgressProxy s \<noteq> None then EgressProxy s
      else remoteUDP s)"

definition waiting :: "world \<Rightarrow> ss_id \<Rightarrow> tx_id \<Rightarrow> datagram \<Rightarrow> bool" where
  "waiting w i t d \<longleftrightarrow> \<not> w_panic w \<and> Timer (w_tx w t) = TArmed i \<and> udpListenser (w_ss w i) \<noteq> None
     \<and> (\<exists>m. SentMessage (w_tx w t) = Some m \<and> w_msg w m = dg_msg d \<and> Bytes (dg_msg d) \<noteq> []
            \<and> next_hop (w_ss w i) (w_tx w t) (dg_msg d) = Some (dg_to d))"

lemma wp_resend: "waiting w i t d \<Longrightarrow> wp (Send i t) Q w = Q () (w\<lparr>w_out := w_out w @ [d]\<rparr>)"
  by (cases d) (auto simp: waiting_def next_hop_def Send_def sendmessage_def split: if_splits)

lemma resend_step:
  assumes "waiting w i t d" "ReTXCount (w_tx w t) < ReTXCount_max"
  shows "snd (run_state (run_event (TransTimer t)) w)
      = w\<lparr>w_out := w_out w @ [d], w_tx := (w_tx w)(t := retx i (w_tx w t))\<rparr>" (is "_ = ?w")
    and "waiting (w\<lparr>w_out := w_out w @ [d], w_tx := (w_tx w)(t := retx i (w_tx w t))\<rparr>) i t d"
proof -
  have "wp (run_event (TransTimer t)) (\<lambda>_ w'. w' = ?w) w"
    using assms by (auto simp: run_event_def transTimerHandler_def waiting_def wp_resend [OF assms(1)] retx_def)
  then show "snd (run_state (run_event (TransTimer t)) w) = ?w" by (simp add: wp_def)
  show "waiting ?w i t d" using assms(1) by (auto simp: waiting_def retx_def next_hop_def)
qed

lemma resend_times:
  "waiting w i t d \<Longrightarrow> int n + ReTXCount (w_tx w t) \<le> ReTXCount_max \<Longrightarrow>
     (let w' = run_events (replicate n (TransTimer t)) w
      in w_out w' = w_out w @ replicate n d \<and> w_ss w' = w_ss w \<and> w_Sessions w' = w_Sessions w
         \<and> waiting w' i t d \<and> ReTXCount (w_tx w' t) = int n + ReTXCount (w_tx w t)
         \<and> Method_tx (w_tx w' t) = Method_tx (w_tx w t))"
proof (induction n arbitrary: w)
  case (Suc n)
  let ?w = "w\<lparr>w_out := w_out w @ [d], w_tx := (w_tx w)(t := retx i (w_tx w t))\<rparr>"
  have c: "ReTXCount (w_tx w t) < ReTXCount_max" using Suc.prems by simp
  have m: "run_events (replicate (Suc n) (TransTimer t)) w = run_events (replicate n (TransTimer t)) ?w"
    using resend_step(1) [OF Suc.prems(1) c] by (simp add: run_events_def)
  have "int n + ReTXCount (w_tx ?w t) \<le> ReTXCount_max" using Suc.prems by (simp add: retx_def)
  from Suc.IH [OF resend_step(2) [OF Suc.prems(1) c] this] show ?case
    unfolding m Let_def by (auto simp: retx_def)
qed (simp add: run_events_def)

lemma give_up:
  assumes "waiting w i t d" "ReTXCount (w_tx w t) = ReTXCount_max" "Method_tx (w_tx w t) \<in> {BYE, CANCEL}"
    and "\<not> IsDisposed (w_ss w i)" "\<not> probDone (w_ss w i)"
  shows "snd (run_state (run_event (TransTimer t)) w) =
    drop_session i (set_ss i (\<lambda>s. s\<lparr>ss_state := FinalizeMe (ss_state s)\<rparr>)
      (w\<lparr>w_tx := (w_tx w)(t := (w_tx w t)\<lparr>Timer := TNil\<rparr>)\<rparr>))"
proof -
  have "wp (run_event (TransTimer t)) (\<lambda>_ w'. w' =
     drop_session i (set_ss i (\<lambda>s. s\<lparr>ss_state := FinalizeMe (ss_state s)\<rparr>)
      (w\<lparr>w_tx := (w_tx w)(t := (w_tx w t)\<lparr>Timer := TNil\<rparr>)\<rparr>))) w"
    using assms by (auto simp: run_event_def transTimerHandler_def CheckPendingTransaction_def waiting_def
        wp_FinalizeState wp_DropMe simp del: FinalizeMe_eval)
  then show ?thesis by (simp add: wp_def)
qed


section \<open>A call in a given state\<close>

text \<open>
  Two linked legs: the caller's, number 0, with a request of this method waiting to be answered
  in transaction 0, and the callee's, number 1.
\<close>

definition asked :: "Method \<Rightarrow> SessionState \<Rightarrow> world" where
  "asked m st =
     (let w = sample_router; leg = (NewSS INBOUND)\<lparr>ss_state := st, udpListenser := Some (sample_addr ''10.0.0.1'')\<rparr>
      in w\<lparr>w_ss := (\<lambda>j. if j = 0 then leg\<lparr>CallID := ''c1'', LinkedSession := Some 1, Transactions := [0]\<rparr>
                    else leg\<lparr>CallID := ''c2'', LinkedSession := Some 0, Direction_ss := OUTBOUND,
                            remoteUDP := Some (sample_addr ''10.0.0.2'')\<rparr>),
         w_nss := 2,
         w_Sessions := Store ''c2'' 1 (Store ''c1'' 0 (w_Sessions w)),
         w_tx := (\<lambda>_. zero_Transaction\<lparr>Method_tx := m, RequestMessage := Some 0, CSeq := 2,
                        ViaBranch := ''z9hG4bKz'', ViaUdpAddr := Some (sample_addr ''10.0.0.3'')\<rparr>),
         w_ntx := 1,
         w_msg := (\<lambda>_. sample_request m ''z9hG4bKz'' ''9'' ''c1'' ''2''), w_nmsg := 1\<rparr>)"

lemma sample_headers_wf: "headers_wf (sample_headers m via frm to cid cs)"
  by (simp add: sample_headers_def AddHeader_def hm.inv_add hm.inv_emp)

lemma asked_session:
  "ss_state (w_ss (asked m st) 0) = st" "LinkedSession (w_ss (asked m st) 0) = Some 1"
  "Direction_ss (w_ss (asked m st) 0) = INBOUND" "\<not> IsDisposed (w_ss (asked m st) 0)"
  "\<not> probDone (w_ss (asked m st) 0)" "CallID (w_ss (asked m st) 0) = ''c1''"
  "ss_state (w_ss (asked m st) 1) = st" "Direction_ss (w_ss (asked m st) 1) = OUTBOUND"
  "Method_tx (w_tx (asked m st) 0) = m" "TransformEarlyToFinal (w_ss (asked m st) 1) = False"
  "Load (w_Sessions (asked m st)) ''c1'' = Some 0"
  by (simp_all add: asked_def NewSS_def Let_def Load_def Store_def update_conv')

lemma asked_answerable: "answerable (asked m st) 0 0 0 (sample_addr ''10.0.0.3'')"
  using sample_started(2) sample_headers_wf
  by (simp add: answerable_def asked_def sample_request_def NewSS_def Let_def)

section \<open>Properties\<close>

text \<open>C6: A response that the router sends in a transaction, with any status but an 18x and without a
  body, is exactly one datagram, to the sender of the request, with that status and with the
  Via headers, the From and the CSeq of the request and the Call-ID of the session; the
  transaction notes it and is final from 200 on; no session changes its state or its entry.\<close>

theorem response_answers_request:
  assumes "answerable w i t r a" "100 \<le> sc" "sc \<le> 699" "\<not> IsProvisional18x sc"
  shows "let w' = snd (run_state (SendCreatedResponse i (Some t) sc None) w); rh = Headers (w_msg w r) in
    \<not> w_panic w'
    \<and> (\<exists>d. w_out w' = w_out w @ [d] \<and> dg_to d = a \<and> IsResponse (dg_msg d) \<and> GetStatusCode (dg_msg d) = sc
         \<and> header_values ''Via'' (Headers (dg_msg d)) = header_values ''Via'' rh
         \<and> header_values ''From'' (Headers (dg_msg d)) = [first_value ''From'' rh]
         \<and> header_values ''CSeq'' (Headers (dg_msg d)) = [first_value ''CSeq'' rh]
         \<and> header_values ''Call-ID'' (Headers (dg_msg d)) = [CallID (w_ss w i)])
    \<and> Responses (w_tx w' t) = Responses (w_tx w t) @ [sc]
    \<and> (IsFinalized_tx (w_tx w' t) \<longleftrightarrow> IsFinalized_tx (w_tx w t) \<or> 200 \<le> sc)
    \<and> (\<forall>j. ss_state (w_ss w' j) = ss_state (w_ss w j)) \<and> w_Sessions w' = w_Sessions w"
proof -
  let ?w' = "snd (run_state (SendCreatedResponse i (Some t) sc None) w)"
  have a: "answered i t r a sc w ?w'" by (rule SendCreatedResponse_answers(1) [OF assms])
  then have s: "sends w ?w'" by (simp add: answered_def)
  show ?thesis
    using a sends_state(1) [OF s] sends_fields(1) [OF s]
    by (auto simp: answered_def is_answer_def answer_headers_def answered_tx_def Let_def)
qed

theorem response_answers_request_witness:
  "\<exists>d. w_out (snd (run_state (SendCreatedResponse 0 (Some 0) 200 None) (asked BYE Established)))
        = w_out (asked BYE Established) @ [d] \<and> GetStatusCode (dg_msg d) = 200"
  using response_answers_request [OF asked_answerable, of 200 BYE Established]
  by (auto simp: IsProvisional18x_def Let_def)

text \<open>C10: A CANCEL on a leg that is being established is answered with 200 before anything else goes
  out; the leg is being cancelled, and the other leg is released or cancelled like after a
  BYE. In any other state the CANCEL is answered with 400 and no leg changes its state.\<close>

theorem cancel_ends_setup:
  assumes "answerable w i t r a" "LinkedSession (w_ss w i) = Some l" "l \<noteq> i"
  shows "let w' = snd (run_state (handle_CANCEL i t) w); rh = Headers (w_msg w r); cid = CallID (w_ss w i) in
    if ss_state (w_ss w i) = BeingEstablished
    then (\<exists>d rest. w_out w' = w_out w @ d # rest \<and> is_answer rh cid 200 a d)
      \<and> ss_state (w_ss w' i) = BeingCancelled \<and> ss_state (w_ss w' l) = released_state (w_ss w l)
    else (\<exists>d. w_out w' = w_out w @ [d] \<and> is_answer rh cid 400 a d)
      \<and> (\<forall>j. ss_state (w_ss w' j) = ss_state (w_ss w j)) \<and> w_Sessions w' = w_Sessions w"
proof (cases "ss_state (w_ss w i) = BeingEstablished")
  case True
  then show ?thesis using handle_CANCEL_pending [OF assms(1) True assms(2,3)] by (simp add: wp_def Let_def)
next
  case False
  have "wp (incompatible i t) (\<lambda>_. answered i t r a 400 w) w" by (rule wp_incompatible [OF assms(1)])
  then have a: "answered i t r a 400 w (snd (run_state (handle_CANCEL i t) w))"
    using False by (simp add: handle_CANCEL_def wp_def IsBeingEstablished_def state_is_def)
  then show ?thesis
    using False answered_out [OF a] sends_state(1) sends_fields(1) answered_sends [OF a] by (simp add: Let_def)
qed

theorem cancel_ends_setup_witness:
  "ss_state (w_ss (snd (run_state (handle_CANCEL 0 0) (asked CANCEL BeingEstablished))) 1) = BeingCancelled"
  using cancel_ends_setup [OF asked_answerable asked_session(2), of CANCEL BeingEstablished]
  by (simp add: asked_session asked_session [unfolded One_nat_def] released_state_def Let_def)

text \<open>C11: The ACK of an INVITE settles the state of the leg. If the call is thereby established, the
  other leg's state is settled too, unless it waits to turn its early answer into a final one;
  otherwise the leg is disposed and no longer found, nothing is sent and the other leg is left
  alone.\<close>

theorem ack_settles_call:
  assumes "\<not> w_panic w" "Method_tx (w_tx w t) = INVITE" "\<not> IsDisposed (w_ss w i)" "\<not> probDone (w_ss w i)"
    and "LinkedSession (w_ss w i) = Some l" "l \<noteq> i"
  shows "let w' = snd (run_state (handle_ACK i t m) w); st = FinalizeMe (ss_state (w_ss w i)) in
    ss_state (w_ss w' i) = st
    \<and> (if st = Established
       then \<not> IsDisposed (w_ss w' i)
         \<and> ss_state (w_ss w' l) = (if TransformEarlyToFinal (w_ss w l) then ss_state (w_ss w l)
               else FinalizeMe (ss_state (w_ss w l)))
       else IsDisposed (w_ss w' i) \<and> Load (w_Sessions w') (CallID (w_ss w i)) = None \<and> w_out w' = w_out w
         \<and> w_ss w' l = w_ss w l)"
  using handle_ACK_INVITE [OF assms] by (simp add: wp_def Let_def del: FinalizeMe_eval)

theorem ack_settles_call_witness:
  "let w' = snd (run_state (handle_ACK 0 0 (sample_request ACK ''y'' ''9'' ''c1'' ''1'')) (asked INVITE BeingEstablished))
   in ss_state (w_ss w' 0) = Established \<and> ss_state (w_ss w' 1) = Established"
proof -
  have "\<not> w_panic (asked INVITE BeingEstablished)" using asked_answerable by (simp add: answerable_def)
  from ack_settles_call [OF this asked_session(9,4,5,2)] show ?thesis
    by (simp add: asked_session asked_session [unfolded One_nat_def] Let_def)
qed

text \<open>C14: An INVITE that is found wanting is refused with the status of its fault - 483 for too few
  hops, 420 for a Require header, 416 for its URI scheme, 415 for its body, 503 over the call
  rate -, in one datagram and with no second leg: the leg is being failed, and handling ends.\<close>

theorem wanting_invite_refused:
  assumes "answerable w i t r a" "refusal_status ty = Some sc"
    and "Direction_ss (w_ss w i) = INBOUND" "ss_state (w_ss w i) = BeingEstablished"
  shows "let (b, w') = run_state (handle_refused i t m ty) w in
    b \<and> \<not> w_panic w' \<and> w_nss w' = w_nss w \<and> ss_state (w_ss w' i) = BeingFailed
    \<and> (\<forall>j. j \<noteq> i \<longrightarrow> ss_state (w_ss w' j) = ss_state (w_ss w j))
    \<and> (\<exists>d. w_out w' = w_out w @ [d] \<and> is_answer (Headers (w_msg w r)) (CallID (w_ss w i)) sc a d)"
proof -
  let ?w' = "snd (run_state (handle_refused i t m ty) w)"
  have a: "fst (run_state (handle_refused i t m ty) w)"
    "answered i t r a sc (set_ss i (\<lambda>s. s\<lparr>ss_state := BeingFailed\<rparr>) w) ?w'"
    using handle_refused_INVITE [OF assms] by (simp_all add: wp_def)
  note s = answered_sends [OF a(2), THEN conjunct1]
  show ?thesis
    using a(1) answered_out [OF a(2)] answered_sends [OF a(2)] sends_state(1) [OF s] sends_fields(5) [OF s]
    by (simp add: split_beta Let_def set_ss_def)
qed

theorem wanting_invite_refused_witness:
  "ss_state (w_ss (snd (run_state (handle_refused 0 0 (sample_request INVITE ''z'' [] ''c1'' ''2'') TooLowMaxForwards)
      (asked INVITE BeingEstablished))) 0) = BeingFailed"
  using wanting_invite_refused [OF asked_answerable _ asked_session(3,1), of TooLowMaxForwards 483]
  by (simp add: split_beta Let_def)

text \<open>C13: A request that comes again - with the transaction it belongs to already there, or an INVITE
  under a known Call-ID - is absorbed: nothing is sent, no session or transaction is made,
  none changes but for the address the leg's peer was last heard from.\<close>

theorem duplicate_absorbed:
  assumes "\<not> w_panic w" "Load (w_Sessions w) (sm_CallID m) = Some i" "IsRequest m" "GetStatusCode m = 0"
    and "GetMethod m = INVITE \<or> GetTransaction i m w \<noteq> None"
  shows "let w' = snd (run_state (process_message m mb src conn) w) in
    \<not> w_panic w' \<and> w_out w' = w_out w \<and> w_tx w' = w_tx w \<and> w_Sessions w' = w_Sessions w
    \<and> w_nss w' = w_nss w \<and> w_pool w' = w_pool w
    \<and> w_ss w' = (w_ss w)(i := (w_ss w i)\<lparr>remoteUDP := Some src, udpListenser := Some conn\<rparr>)"
  using process_duplicate [OF assms] by (simp add: wp_def Let_def)

theorem duplicate_absorbed_witness:
  "w_out (snd (run_state (process_message (sample_request INVITE ''z9hG4bKz'' [] ''c1'' ''2'') None
      (sample_addr ''10.0.0.3'') (sample_addr ''10.0.0.1'')) (asked INVITE BeingEstablished)))
     = w_out (asked INVITE BeingEstablished)"
proof -
  have "\<not> w_panic (asked INVITE BeingEstablished)" using asked_answerable by (simp add: answerable_def)
  from duplicate_absorbed [OF this, where m = "sample_request INVITE ''z9hG4bKz'' [] ''c1'' ''2''"] show ?thesis
    by (simp add: asked_session sample_request_def NewRequestMessage_def IsRequest_def GetStatusCode_def GetMethod_def
        zero_StartLine_def Let_def)
qed

text \<open>C12: A BYE or CANCEL that is never answered: it is sent again at each of five ticks of its timer,
  the same bytes to the same address, and at the sixth tick the router gives up - it sends
  nothing more, settles the state of the leg, disposes it and takes it out of the session
  map.\<close>

theorem unanswered_request_gives_up:
  assumes "waiting w i t d" "ReTXCount (w_tx w t) = 0" "Method_tx (w_tx w t) \<in> {BYE, CANCEL}"
    and "\<not> IsDisposed (w_ss w i)" "\<not> probDone (w_ss w i)"
  shows "let w5 = run_events (replicate 5 (TransTimer t)) w; w6 = run_events (replicate 6 (TransTimer t)) w in
    w_out w5 = w_out w @ replicate 5 d \<and> w_ss w5 = w_ss w \<and> w_out w6 = w_out w5
    \<and> ss_state (w_ss w6 i) = FinalizeMe (ss_state (w_ss w i)) \<and> IsDisposed (w_ss w6 i)
    \<and> Load (w_Sessions w6) (CallID (w_ss w i)) = None \<and> \<not> w_panic w6"
proof -
  let ?w5 = "run_events (replicate 5 (TransTimer t)) w"
  have five: "w_out ?w5 = w_out w @ replicate 5 d" "w_ss ?w5 = w_ss w" "w_Sessions ?w5 = w_Sessions w"
    "waiting ?w5 i t d" "ReTXCount (w_tx ?w5 t) = ReTXCount_max" "Method_tx (w_tx ?w5 t) = Method_tx (w_tx w t)"
    using resend_times [OF assms(1), of 5] assms(2) by (simp_all add: Let_def)
  have "run_events (replicate 6 (TransTimer t)) w = snd (run_state (run_event (TransTimer t)) ?w5)"
    by (simp add: run_events_def eval_nat_numeral)
  also have "\<dots> = drop_session i (set_ss i (\<lambda>s. s\<lparr>ss_state := FinalizeMe (ss_state s)\<rparr>)
      (?w5\<lparr>w_tx := (w_tx ?w5)(t := (w_tx ?w5 t)\<lparr>Timer := TNil\<rparr>)\<rparr>))"
    by (rule give_up [OF five(4,5)]) (use assms(3-5) five(2,6) in simp_all)
  finally show ?thesis
    using five(1-4) removed_key by (simp add: Let_def waiting_def del: FinalizeMe_eval)
qed

definition sample_datagram :: datagram where
  "sample_datagram = \<lparr>dg_msg = (sample_request BYE ''z9hG4bKz'' ''9'' ''c2'' ''7'')\<lparr>Bytes := ''BYE''\<rparr>,
     dg_to = sample_addr ''10.0.0.2''\<rparr>"

text \<open>The callee's leg waits for the answer to its BYE.\<close>

definition releasing :: world where
  "releasing = (let w = asked BYE BeingCleared in
     w\<lparr>w_tx := (\<lambda>_. (w_tx w 0)\<lparr>Direction_tx := OUTBOUND, SentMessage := Some 0, Timer := TArmed 1, TransTimeOut := T1Timer\<rparr>),
       w_msg := (\<lambda>_. dg_msg sample_datagram)\<rparr>)"

theorem unanswered_request_gives_up_witness:
  "let w6 = run_events (replicate 6 (TransTimer 0)) releasing in
    length (w_out w6) = length (w_out releasing) + 5 \<and> IsDisposed (w_ss w6 1) \<and> ss_state (w_ss w6 1) = Cleared"
proof -
  have "\<not> w_panic (asked BYE BeingCleared)" using asked_answerable by (simp add: answerable_def)
  then have "waiting releasing 1 0 sample_datagram"
    by (simp add: waiting_def releasing_def sample_datagram_def next_hop_def asked_def NewSS_def zero_Transaction_def
        sample_request_def NewRequestMessage_def IsResponse_def Let_def)
  from unanswered_request_gives_up [OF this] show ?thesis
    by (simp add: releasing_def asked_def NewSS_def zero_Transaction_def Let_def)
qed

text \<open>C15: A call to a number that is no registered phone's and that no route matches is refused with
  404 in one datagram, the leg is being failed, and no second leg is made.\<close>

theorem unknown_number_refused:
  assumes "answerable w i t r a" "Direction_ss (w_ss w i) = INBOUND" "ss_state (w_ss w i) = BeingEstablished"
    and "Get (w_phones w) (UserPart (sm_StartLine (w_msg w mid))) = None"
    and "Get_route (w_routes w) (UserPart (sm_StartLine (w_msg w mid))) = Some None"
  shows "let w' = snd (run_state (RouteRequestInternal i t mid) w) in
    \<not> w_panic w' \<and> w_nss w' = w_nss w \<and> w_Sessions w' = w_Sessions w \<and> ss_state (w_ss w' i) = BeingFailed
    \<and> (\<exists>d. w_out w' = w_out w @ [d] \<and> is_answer (Headers (w_msg w r)) (CallID (w_ss w i)) 404 a d)"
proof -
  let ?w' = "snd (run_state (RouteRequestInternal i t mid) w)"
  have a: "answered i t r a 404 (set_ss i (\<lambda>s. s\<lparr>RoutingData := None, ss_state := BeingFailed\<rparr>) w) ?w'"
    using RouteRequestInternal_unknown [OF assms] by (simp add: wp_def)
  note s = answered_sends [OF a, THEN conjunct1]
  show ?thesis
    using answered_out [OF a] answered_sends [OF a] sends_state(1) [OF s] sends_fields(1,5) [OF s]
    by (simp add: Let_def set_ss_def)
qed

theorem unknown_number_refused_witness:
  "ss_state (w_ss (snd (run_state (RouteRequestInternal 0 0 0) ((asked INVITE BeingEstablished)\<lparr>w_routes := []\<rparr>))) 0)
     = BeingFailed"
proof -
  let ?w = "(asked INVITE BeingEstablished)\<lparr>w_routes := []\<rparr>"
  have "answerable ?w 0 0 0 (sample_addr ''10.0.0.3'')"
    using asked_answerable [of INVITE BeingEstablished] by (simp add: answerable_def split: option.splits)
  moreover have "Get (w_phones ?w) n = None" for n
    by (simp add: asked_def sample_router_def StartServer_def StartListening_def idle_world_def Let_def phones.lookup_emp)
  ultimately show ?thesis
    using unknown_number_refused [of ?w 0 0 0 "sample_addr ''10.0.0.3''" 0] asked_session(1,3)
    by (simp add: Let_def)
qed

end
