(* ===== verification/Sip_Bytes.thy ===== *)
theory Sip_Bytes
  imports Sip_Message
begin

text \<open>
  What \<open>PrepareMessageBytes\<close> of \<open>sip/message.go\<close> writes, line by line: which headers of a message
  get onto the wire, in which order, and that the length it states is the length of the body.
\<close>

section \<open>The lines of the headers\<close>

text \<open>What is written of a list of headers: a line for each value that is not empty.\<close>

definition written :: "(string \<times> string list) list \<Rightarrow> (string \<times> string) list" where
  "written hs = concat (map (\<lambda>(h, vs). map (Pair h) (filter (\<lambda>v. v \<noteq> []) vs)) hs)"

lemma write_headers_written: "write_headers hs = concat (map (\<lambda>(n, v). n @ '': '' @ v @ CRLF) (written hs))"
  by (induction hs) (auto simp: write_headers_def written_def header_line_def [abs_def] comp_def)

lemma written_Cons: "written ((h, vs) # hs) = map (Pair h) (filter (\<lambda>v. v \<noteq> []) vs) @ written hs"
  by (simp add: written_def)

lemma written_lookup:
  "distinct (map fst hs) \<Longrightarrow>
     map snd (filter (\<lambda>(n', v). n' = n) (written hs)) = (case map_of hs n of None \<Rightarrow> [] | Some vs \<Rightarrow> filter (\<lambda>v. v \<noteq> []) vs)"
proof (induction hs)
  case (Cons hvs hs)
  obtain h vs where "hvs = (h, vs)" by (cases hvs)
  moreover have "map_of hs h = None" using Cons.prems calculation by (simp add: map_of_eq_None_iff)
  ultimately show ?case using Cons by (auto simp: written_Cons comp_def filter_map split: option.split)
qed (simp add: written_def)

lemma update_append: "k \<notin> fst ` set al \<Longrightarrow> AList.update k v al = al @ [(k, v)]"
  by (induction al) auto

lemma foldl_update_new:
  "distinct (map fst acc @ map (f \<circ> fst) kvs) \<Longrightarrow>
     foldl (\<lambda>d (k, v). AList.update (f k) v d) acc kvs = acc @ map (\<lambda>(k, v). (f k, v)) kvs"
proof (induction kvs arbitrary: acc)
  case (Cons kv kvs)
  obtain k v where kv: "kv = (k, v)" by (cases kv)
  with Cons.prems have "f k \<notin> fst ` set acc" by auto
  then have "foldl (\<lambda>d (k, v). AList.update (f k) v d) acc (kv # kvs) = foldl (\<lambda>d (k, v). AList.update (f k) v d) (acc @ [(f k, v)]) kvs"
    by (simp add: kv update_append)
  also have "\<dots> = (acc @ [(f k, v)]) @ map (\<lambda>(k, v). (f k, v)) kvs" by (rule Cons.IH) (use Cons.prems kv in auto)
  finally show ?case by (simp add: kv)
qed simp

lemma wf_keys: "headers_wf h \<Longrightarrow> (k, v) \<in> set h \<Longrightarrow> ASCIIToLower k = k"
  by (auto simp: headers_wf_def)

lemma prefix_headers:
  assumes "headers_wf h"
  shows "ValuesWithHeaderPrefix p [] h = map (\<lambda>(k, v). (HeaderCase k, v)) (filter (\<lambda>(k, v). HasPrefix k (ASCIIToLower p)) h)"
    and "distinct (map fst (ValuesWithHeaderPrefix p [] h))"
proof -
  let ?f = "filter (\<lambda>(k, v). HasPrefix k (ASCIIToLower p)) h"
  have d: "distinct (map fst ?f)" using assms by (auto simp: headers_wf_def go_map_wf_def distinct_map_filter)
  have "inj_on HeaderCase (fst ` set ?f)"
    using wf_keys [OF assms] by (auto simp: inj_on_def HeaderCase_eq_iff)
  with d have d2: "distinct (map (HeaderCase \<circ> fst) ?f)" by (auto simp: distinct_map comp_inj_on)
  have eq: "filter (\<lambda>(k, v). HasPrefix k (ASCIIToLower p) \<and> k \<notin> set []) h = ?f" by simp
  show 1: "ValuesWithHeaderPrefix p [] h = map (\<lambda>(k, v). (HeaderCase k, v)) ?f"
    unfolding ValuesWithHeaderPrefix_def eq by (subst foldl_update_new) (use d2 in simp_all)
  show "distinct (map fst (ValuesWithHeaderPrefix p [] h))" unfolding 1 using d2 by (simp add: comp_def case_prod_unfold)
qed

lemma prefix_lookup:
  assumes "headers_wf h"
  shows "(case map_of (ValuesWithHeaderPrefix p [] h) n of None \<Rightarrow> [] | Some vs \<Rightarrow> vs)
    = (if HeaderCase n = n \<and> HasPrefix (ASCIIToLower n) (ASCIIToLower p) then header_values n h else [])"
proof -
  let ?V = "ValuesWithHeaderPrefix p [] h"
  note d = prefix_headers(2) [OF assms, of p]
  have mem: "(n, vs) \<in> set ?V \<longleftrightarrow> HeaderCase n = n \<and> HasPrefix (ASCIIToLower n) (ASCIIToLower p) \<and> (ASCIIToLower n, vs) \<in> set h" for vs
  proof
    assume "(n, vs) \<in> set ?V"
    then obtain k where "(k, vs) \<in> set h" "HasPrefix k (ASCIIToLower p)" "n = HeaderCase k"
      by (auto simp: prefix_headers(1) [OF assms])
    with wf_keys [OF assms] show "HeaderCase n = n \<and> HasPrefix (ASCIIToLower n) (ASCIIToLower p) \<and> (ASCIIToLower n, vs) \<in> set h"
      by (simp add: HeaderCase_eq_iff)
  next
    assume "HeaderCase n = n \<and> HasPrefix (ASCIIToLower n) (ASCIIToLower p) \<and> (ASCIIToLower n, vs) \<in> set h"
    moreover from this have "n = HeaderCase (ASCIIToLower n)" by (metis HeaderCase_eq_iff ASCIIToLower_idem)
    ultimately show "(n, vs) \<in> set ?V"
      by (auto simp: prefix_headers(1) [OF assms] intro!: image_eqI [of _ _ "(ASCIIToLower n, vs)"])
  qed
  have key: "map_of h k = Some vs \<longleftrightarrow> (k, vs) \<in> set h" for k vs
    using assms by (simp add: headers_wf_def go_map_wf_def)
  show ?thesis
  proof (cases "map_of ?V n")
    case None
    then have "(n, vs) \<notin> set ?V" for vs using d by (metis map_of_is_SomeI option.distinct(1))
    with None mem key show ?thesis by (auto simp: header_values_eq split: option.split)
  next
    case (Some vs)
    then have "(n, vs) \<in> set ?V" by (rule map_of_SomeD)
    then have "HeaderCase n = n \<and> HasPrefix (ASCIIToLower n) (ASCIIToLower p) \<and> map_of h (ASCIIToLower n) = Some vs"
      using mem key by simp
    with Some show ?thesis by (simp add: header_values_eq)
  qed
qed

lemma order_has_length:
  assumes "header_order m \<noteq> []"
  shows "distinct (header_order m)" "''Content-Length'' \<in> set (header_order m)"
proof -
  have "list_all (\<lambda>(k, hs). distinct hs \<and> ''Content-Length'' \<in> set hs) DicRequestHeaders" by code_simp
  then have r: "map_of DicRequestHeaders k = Some hs \<Longrightarrow> distinct hs \<and> ''Content-Length'' \<in> set hs" for k hs
    by (auto simp: list_all_iff dest!: map_of_SomeD)
  have "distinct ResponseHeaderCHs" "''Content-Length'' \<in> set ResponseHeaderCHs" by code_simp+
  moreover have "distinct (ResponseHeaderTail sc) \<and> set ResponseHeaderCHs \<inter> set (ResponseHeaderTail sc) = {}" for sc
    by (simp add: ResponseHeaderTail_def ResponseHeaderCHs_def)
  ultimately have "DicResponseHeaders sc = Some hs \<Longrightarrow> distinct hs \<and> ''Content-Length'' \<in> set hs" for sc hs
    unfolding DicResponseHeaders_def by (simp split: if_splits) (use distinct_append in force)
  with r assms have "distinct (header_order m) \<and> ''Content-Length'' \<in> set (header_order m)"
    by (auto simp: header_order_def split: if_splits option.splits)
  then show "distinct (header_order m)" "''Content-Length'' \<in> set (header_order m)" by simp_all
qed

text \<open>The headers that preparing a message sets.\<close>

definition content_names :: "string list" where
  "content_names = [''content-type'', ''content-length'', ''mime-version'']"

lemma content_header_names:
  "HeaderName Content_Length_hdr = ''Content-Length''" "HeaderName Content_Type_hdr = ''Content-Type''"
  "HeaderName MIME_Version_hdr = ''MIME-Version''"
  "ASCIIToLower ''Content-Length'' = ''content-length''" "ASCIIToLower ''Content-Type'' = ''content-type''"
  "ASCIIToLower ''MIME-Version'' = ''mime-version''"
  by code_simp+

lemma body_bytes_headers:
  assumes "fst (body_bytes b h) = h'"
  shows "headers_wf h \<Longrightarrow> headers_wf h'" "ASCIIToLower n \<notin> set content_names \<Longrightarrow> header_values n h' = header_values n h"
  using assms
  by (auto simp: body_bytes_def SetHeader_def hm.inv_put hm.get_put content_names_def content_header_names split: option.split list.split)

lemma prepare_bytes:
  assumes "length (snd (body_bytes b (Headers m))) < 10 ^ 10"
  shows "\<exists>m'. PrepareMessageBytes b m = Some m'
    \<and> Bytes m' = GetStartLine (if IsRequest m then REQUEST else RESPONSE) (sm_StartLine m)
        @ write_headers (map (\<lambda>n. (n, header_values n (Headers m'))) (header_order m))
        @ write_headers (ValuesWithHeaderPrefix ''P-'' [] (Headers m')) @ CRLF @ snd (body_bytes b (Headers m))
    \<and> header_values ''Content-Length'' (Headers m') = [dec_string (length (snd (body_bytes b (Headers m))))]
    \<and> (\<forall>n. ASCIIToLower n \<notin> set content_names \<longrightarrow> header_values n (Headers m') = header_values n (Headers m))
    \<and> (headers_wf (Headers m) \<longrightarrow> headers_wf (Headers m'))
    \<and> sm_StartLine m' = sm_StartLine m \<and> MsgType m' = MsgType m \<and> Body m' = Body m"
proof -
  let ?n = "length (snd (body_bytes b (Headers m)))"
  have "sint (of_nat ?n :: u64) = int ?n"
    using assms by (simp add: signed_take_bit_int_eq_self signed_of_nat)
  then have len: "Int2Str (of_nat ?n) = Some (dec_string ?n)"
    using assms by (subst Int2Str_eq) simp_all
  obtain h bytes where b: "body_bytes b (Headers m) = (h, bytes)" by (cases "body_bytes b (Headers m)")
  with body_bytes_headers [of b "Headers m" h] len show ?thesis
    by (auto simp: PrepareMessageBytes_def Let_def SetHeader_def hm.get_put hm.inv_put content_names_def content_header_names
        header_values_def [symmetric])
qed

section \<open>Property\<close>

text \<open>C32: The bytes of a message are its start line, a line for each value of its headers, an empty
  line and the body. First come the headers that the table lists for its method or status, in the
  order of the table and each with its values in their order, then those whose name begins with
  P-, each with its values in their order too; empty values are left out and no other line is
  written. When the table has the method or status, exactly one of the lines is a
  \<open>Content-Length\<close>, and it is the number of bytes of the body. Apart from it, the
  \<open>Content-Type\<close> and the \<open>MIME-Version\<close> the headers are those given. Preparing fails for no body
  of less than 10^10 bytes.\<close>

theorem PrepareMessageBytes_length:
  assumes "length (snd (body_bytes b (Headers m))) < 10 ^ 10" "headers_wf (Headers m)"
  shows "\<exists>m' ls ps. PrepareMessageBytes b m = Some m'
    \<and> Bytes m' = GetStartLine (if IsRequest m then REQUEST else RESPONSE) (sm_StartLine m)
        @ concat (map (\<lambda>(n, v). n @ '': '' @ v @ CRLF) (ls @ ps)) @ CRLF @ snd (body_bytes b (Headers m))
    \<and> ls = concat (map (\<lambda>n. map (Pair n) (filter (\<lambda>v. v \<noteq> []) (header_values n (Headers m')))) (header_order m))
    \<and> (\<forall>n. map snd (filter (\<lambda>(n', v). n' = n) ps)
         = (if HeaderCase n = n \<and> HasPrefix (ASCIIToLower n) ''p-''
            then filter (\<lambda>v. v \<noteq> []) (header_values n (Headers m')) else []))
    \<and> (header_order m \<noteq> [] \<longrightarrow> map snd (filter (\<lambda>(n', v). n' = ''Content-Length'') ls)
         = [dec_string (length (snd (body_bytes b (Headers m))))])
    \<and> (\<forall>n. ASCIIToLower n \<notin> {''content-type'', ''content-length'', ''mime-version''} \<longrightarrow>
         header_values n (Headers m') = header_values n (Headers m))
    \<and> sm_StartLine m' = sm_StartLine m \<and> Body m' = Body m"
proof -
  from prepare_bytes [OF assms(1)] assms(2) obtain m' where m': "PrepareMessageBytes b m = Some m'"
    "Bytes m' = GetStartLine (if IsRequest m then REQUEST else RESPONSE) (sm_StartLine m)
        @ write_headers (map (\<lambda>n. (n, header_values n (Headers m'))) (header_order m))
        @ write_headers (ValuesWithHeaderPrefix ''P-'' [] (Headers m')) @ CRLF @ snd (body_bytes b (Headers m))"
    "header_values ''Content-Length'' (Headers m') = [dec_string (length (snd (body_bytes b (Headers m))))]"
    "\<forall>n. ASCIIToLower n \<notin> set content_names \<longrightarrow> header_values n (Headers m') = header_values n (Headers m)"
    "headers_wf (Headers m')" "sm_StartLine m' = sm_StartLine m" "Body m' = Body m" by blast
  let ?L = "map (\<lambda>n. (n, header_values n (Headers m'))) (header_order m)" and ?P = "ValuesWithHeaderPrefix ''P-'' [] (Headers m')"
  have p: "ASCIIToLower ''P-'' = ''p-''" by code_simp
  have ls: "written ?L = concat (map (\<lambda>n. map (Pair n) (filter (\<lambda>v. v \<noteq> []) (header_values n (Headers m')))) (header_order m))"
    by (simp add: written_def comp_def)
  have ps: "map snd (filter (\<lambda>(n', v). n' = n) (written ?P))
      = (if HeaderCase n = n \<and> HasPrefix (ASCIIToLower n) ''p-'' then filter (\<lambda>v. v \<noteq> []) (header_values n (Headers m')) else [])" for n
    using written_lookup [OF prefix_headers(2) [OF m'(5), of "''P-''"], of n] prefix_lookup [OF m'(5), of "''P-''" n]
    by (auto simp: p split: option.splits if_splits)
  have cl: "map snd (filter (\<lambda>(n', v). n' = ''Content-Length'') (written ?L)) = [dec_string (length (snd (body_bytes b (Headers m))))]"
    if "header_order m \<noteq> []"
  proof -
    note o = order_has_length [OF that]
    then have "map_of ?L ''Content-Length'' = Some (header_values ''Content-Length'' (Headers m'))"
      by (simp add: map_of_map_restrict restrict_map_def)
    moreover have "dec_string k \<noteq> []" for k by (subst dec_string.simps) simp
    ultimately show ?thesis using written_lookup [of ?L "''Content-Length''"] o m'(3) by (simp add: comp_def)
  qed
  show ?thesis
    by (intro exI [of _ m'] exI [of _ "written ?L"] exI [of _ "written ?P"])
       (use m' ls ps cl in \<open>simp add: write_headers_written content_names_def\<close>)
qed

theorem PrepareMessageBytes_length_witness:
  "\<exists>m' ls ps. PrepareMessageBytes None (NewRequestMessage OPTIONS ''ping'') = Some m'
     \<and> Bytes m' = ''OPTIONS  SIP/2.0'' @ CRLF @ concat (map (\<lambda>(n, v). n @ '': '' @ v @ CRLF) (ls @ ps)) @ CRLF
     \<and> map snd (filter (\<lambda>(n', v). n' = ''Content-Length'') ls) = [''0'']"
proof -
  let ?m = "NewRequestMessage OPTIONS ''ping''"
  let ?start = "GetStartLine (if IsRequest ?m then REQUEST else RESPONSE) (sm_StartLine ?m)"
  have wf: "headers_wf (Headers ?m)" and body: "snd (body_bytes None (Headers ?m)) = []"
    by (simp_all add: NewRequestMessage_def zero_SipMessage_def hm.inv_emp body_bytes_def)
  have known: "header_order ?m \<noteq> []" "?start = ''OPTIONS  SIP/2.0'' @ CRLF" by code_simp+
  have "length (snd (body_bytes None (Headers ?m))) < 10 ^ 10" by (simp add: body)
  from PrepareMessageBytes_length [OF this wf] obtain m' ls ps where m': "PrepareMessageBytes None ?m = Some m'"
    "Bytes m' = ?start @ concat (map (\<lambda>(n, v). n @ '': '' @ v @ CRLF) (ls @ ps)) @ CRLF @ snd (body_bytes None (Headers ?m))"
    "header_order ?m \<noteq> [] \<longrightarrow> map snd (filter (\<lambda>(n', v). n' = ''Content-Length'') ls)
       = [dec_string (length (snd (body_bytes None (Headers ?m))))]"
    by (elim exE conjE) (rule that)
  show ?thesis
    by (intro exI [of _ m'] exI [of _ ls] exI [of _ ps]) (use m' in \<open>simp add: known body dec_string_0\<close>)
qed

end
