(* ===== verification/Routing_Flow.thy ===== *)
theory Routing_Flow
  imports Call_Flows Sip_Bytes
begin

text \<open>
  The way of a call through the router (\<open>RouteRequestInternal\<close>, \<open>CreateLinkedINVITE\<close> and what they
  call): what leaves it for the second leg when a route matches. The SDP of the INVITE is
  prepared by the SDP library, so the steps before the message is sent are shown to change
  nothing but the SDP of legs and bodies (\<open>prepared\<close>).
\<close>

section \<open>Preparing SDP only touches SDP\<close>

definition sdp_core :: "SipSession \<Rightarrow> SipSession" where
  "sdp_core s = s\<lparr>remoteMediaUdpAddr := None, SDPSession := None, SDPSessionID := 0, SDPSessionVersion := 0\<rparr>"

text \<open>The body is none, or one SDP part of a size that has a \<open>Content-Length\<close>.\<close>

definition short_body :: "MessageBody \<Rightarrow> bool" where
  "short_body mb \<longleftrightarrow> (\<exists>v. PartsContents mb = [(SDP, v)] \<and> length (cp_Bytes v) < 10 ^ 10)"

definition short_sdp :: "sdp_lib \<Rightarrow> bool" where
  "short_sdp lib \<longleftrightarrow> (\<forall>s. length (sdp_Bytes lib s) < 10 ^ 10)"

definition but_sdp :: "world \<Rightarrow> world" where
  "but_sdp w = w\<lparr>w_seed := 0, w_ss := (\<lambda>_. NewSS INBOUND), w_body := (\<lambda>_. NewBody)\<rparr>"

definition prepared :: "world \<Rightarrow> world \<Rightarrow> bool" where
  "prepared w w' \<longleftrightarrow> but_sdp w' = but_sdp w \<and> (\<forall>j. sdp_core (w_ss w' j) = sdp_core (w_ss w j)) \<and>
     (short_sdp (e_sdp (w_env w)) \<longrightarrow> (\<forall>b. short_body (w_body w b) \<longrightarrow> short_body (w_body w' b)))"

lemma sdp_core_fields:
  assumes "sdp_core s' = sdp_core s"
  shows "ss_state s' = ss_state s" "LinkedSession s' = LinkedSession s" "RoutingData s' = RoutingData s"
    "Direction_ss s' = Direction_ss s" "CallID s' = CallID s" "udpListenser s' = udpListenser s"
    "remoteUDP s' = remoteUDP s" "EgressProxy s' = EgressProxy s" "RemoteContactUDP s' = RemoteContactUDP s"
    "Transactions s' = Transactions s" "IsDisposed s' = IsDisposed s" "probDone s' = probDone s"
    "FromHeader s' = FromHeader s" "TransformEarlyToFinal s' = TransformEarlyToFinal s"
  using assms by (cases s, cases s', simp add: sdp_core_def)+

lemma prepared_fields:
  assumes "prepared w w'"
  shows "w_panic w' = w_panic w" "w_out w' = w_out w" "w_msg w' = w_msg w" "w_nmsg w' = w_nmsg w"
    "w_tx w' = w_tx w" "w_ntx w' = w_ntx w" "w_nss w' = w_nss w" "w_Sessions w' = w_Sessions w"
    "w_env w' = w_env w" "sdp_core (w_ss w' j) = sdp_core (w_ss w j)"
    "short_sdp (e_sdp (w_env w)) \<Longrightarrow> short_body (w_body w b) \<Longrightarrow> short_body (w_body w' b)"
  using assms by (cases w, cases w', simp add: prepared_def but_sdp_def)+

definition prepared_in :: "env \<Rightarrow> world \<Rightarrow> world \<Rightarrow> bool" where
  "prepared_in e w w' \<longleftrightarrow> (w_env w = e \<longrightarrow> prepared w w')"

interpretation preparing: calm_rel "prepared_in e"
proof
  show "prepared_in e w1 w3" if a: "prepared_in e w1 w2" "prepared_in e w2 w3" for w1 w2 w3
    using that prepared_fields(9) [of w1 w2] by (auto simp: prepared_in_def prepared_def)
qed (simp add: prepared_in_def prepared_def)

lemma prepared_ss: "(\<And>s. sdp_core (f s) = sdp_core s) \<Longrightarrow> keeps (prepared_in e) (upd_ss i f)"
  unfolding upd_ss_def by (intro preparing.keeps_act) (simp add: prepared_in_def prepared_def but_sdp_def)

lemma prepared_random: "keeps (prepared_in e) (random_num a b)"
  unfolding random_num_def next_seed_def
  by (intro preparing.keeps_bind preparing.keeps_calm preparing.keeps_act) (simp add: prepared_in_def prepared_def but_sdp_def)

lemma prepared_media: "keeps (prepared_in e) (SetRemoteMediaUdpAddr i a)"
  unfolding SetRemoteMediaUdpAddr_def
  by (intro preparing.keeps_calm prepared_ss) (simp add: sdp_core_def)

lemma prepared_body:
  "(\<And>y. short_sdp (e_sdp e) \<Longrightarrow> short_body y \<Longrightarrow> short_body (f y)) \<Longrightarrow> keeps (prepared_in e) (upd_body b f)"
  unfolding upd_body_def by (intro preparing.keeps_act) (simp add: prepared_in_def prepared_def but_sdp_def)

lemma prepared_env:
  assumes "\<And>e. keeps (prepared_in e) (F e)"
  shows "keeps (prepared_in e) (asks w_env \<bind> F)"
proof -
  have "prepared_in (w_env w) w (snd (run_state (F (w_env w)) w))" for w
    using assms [of "w_env w"] by (simp add: keeps_def)
  then show ?thesis by (auto simp: keeps_def prepared_in_def)
qed

lemma short_SDP_update:
  "short_sdp (e_sdp e) \<Longrightarrow> short_body y \<Longrightarrow>
     short_body (y\<lparr>SdpSession := s, PartsContents := AList.update SDP \<lparr>cp_Headers = h, cp_Bytes = sdp_Bytes (e_sdp e) n\<rparr> (PartsContents y)\<rparr>)"
  by (auto simp: short_body_def short_sdp_def)

lemma ParseNPrepareSDP_prepared: "keeps (prepared_in e) (ParseNPrepareSDP i b)"
  unfolding ParseNPrepareSDP_def Let_def
  by (rule prepared_env)
     (auto simp: sdp_core_def split: option.split
       intro!: preparing.keeps_bind preparing.keeps_calm prepared_ss prepared_random prepared_media prepared_body short_SDP_update)

lemma wp_ParseNPrepareSDP:
  assumes "\<And>w'. prepared w w' \<Longrightarrow> Q () w'"
  shows "wp (ParseNPrepareSDP i b) Q w"
  using ParseNPrepareSDP_prepared [of "w_env w" i b] assms by (simp add: wp_def keeps_def prepared_in_def)

lemma wp_random [simp]:
  "\<not> w_panic w \<Longrightarrow> wp (random_num a b) Q w = Q (RandomNum (e_rand (w_env w) (w_seed w)) a b) (w\<lparr>w_seed := Suc (w_seed w)\<rparr>)"
  by (simp add: random_num_def)

lemma wp_new_tx [simp]:
  "\<not> w_panic w \<Longrightarrow> wp (new_tx x) Q w = Q (w_ntx w) (w\<lparr>w_tx := (w_tx w)(w_ntx w := x), w_ntx := Suc (w_ntx w)\<rparr>)"
  by (simp add: new_tx_def)

lemma wp_new_ids [simp]:
  assumes "\<not> w_panic w"
  shows "wp NewCallID Q w = Q (e_uuid (w_env w) (w_seed w)) (w\<lparr>w_seed := Suc (w_seed w)\<rparr>)"
    "wp NewViaBranch Q w = Q (MagicCookie @ drop 24 (e_uuid (w_env w) (w_seed w))) (w\<lparr>w_seed := Suc (w_seed w)\<rparr>)"
    "wp NewKey Q w = Q (drop 24 (e_uuid (w_env w) (w_seed w))) (w\<lparr>w_seed := Suc (w_seed w)\<rparr>)"
  using assms by (simp_all add: NewCallID_def NewViaBranch_def NewKey_def newUUID_def)

lemma wp_addOutgoing_INVITE:
  assumes "\<not> w_panic w" "Direction_ss (w_ss w i) = OUTBOUND" "FwdCSeq (w_ss w i) = 0"
    and Q: "\<And>r k b n. Q (Some (w_ntx w)) (w\<lparr>w_seed := n,
        w_tx := (w_tx w)(w_ntx w := zero_Transaction\<lparr>Key := k, Direction_tx := OUTBOUND, Method_tx := INVITE,
          CSeq := r, LinkedTransaction := None, ViaBranch := b\<rparr>), w_ntx := Suc (w_ntx w),
        w_ss := (w_ss w)(i := (w_ss w i)\<lparr>FwdCSeq := r, Transactions := Transactions (w_ss w i) @ [w_ntx w]\<rparr>)\<rparr>)"
  shows "wp (addOutgoingRequest i INVITE None) Q w"
  using assms(1-3)
  by (simp add: addOutgoingRequest_def when_def NewSIPTransaction_CRL_def NewST_def AddTransaction_def) (rule Q)

section \<open>The headers of the second leg's INVITE\<close>

text \<open>The headers taken over by their prefix keep it.\<close>

lemma prefix_keys:
  "(k, vs) \<in> set (foldl (\<lambda>data (k, v). AList.update (HeaderCase k) v data) d kvs) \<Longrightarrow>
     (k, vs) \<in> set d \<or> (\<exists>k0 \<in> fst ` set kvs. k = HeaderCase k0)"
proof (induction kvs arbitrary: d)
  case (Cons kv kvs)
  obtain k0 v0 where kv: "kv = (k0, v0)" by (cases kv)
  with Cons.prems have "(k, vs) \<in> set (foldl (\<lambda>data (k, v). AList.update (HeaderCase k) v data) (AList.update (HeaderCase k0) v0 d) kvs)"
    by simp
  from Cons.IH [OF this] set_update_subset [of "HeaderCase k0" v0 d] kv show ?case by auto
qed simp

lemma values_custom_prefix:
  assumes "\<not> HasPrefix (ASCIIToLower n) (ASCIIToLower p)"
  shows "header_values n (add_custom (ValuesWithHeaderPrefix p [] lh) h) = header_values n h"
proof (rule values_add_custom, unfold list_all_iff, rule ballI, clarify)
  fix k vs assume "(k, vs) \<in> set (ValuesWithHeaderPrefix p [] lh)" "ASCIIToLower k = ASCIIToLower n"
  moreover from this(1) obtain k0 where "k = HeaderCase k0" "HasPrefix k0 (ASCIIToLower p)"
    unfolding ValuesWithHeaderPrefix_def by (auto dest!: prefix_keys)
  moreover from this(2) have "HasPrefix (ASCIIToLower k0) (ASCIIToLower p)"
    by (auto simp: HasPrefix_iff ASCIIToLower_def)
  ultimately show False using assms by simp
qed

definition proxied :: "SipHeaders \<Rightarrow> string \<Rightarrow> string \<Rightarrow> string \<Rightarrow> string \<Rightarrow> SipHeaders \<Rightarrow> bool" where
  "proxied lh cid fh th mf h \<longleftrightarrow> header_values ''Call-ID'' h = [cid] \<and> header_values ''From'' h = [fh]
     \<and> header_values ''To'' h = [th] \<and> header_values ''Max-Forwards'' h = [mf]
     \<and> header_values ''X-FromHeader'' h = [first_value ''From'' lh] \<and> header_values ''X-ToHeader'' h = [first_value ''To'' lh]"

lemma lower_more [simp]:
  "ASCIIToLower ''Max-Forwards'' = ''max-forwards''" "ASCIIToLower ''X-FromHeader'' = ''x-fromheader''"
  "ASCIIToLower ''X-ToHeader'' = ''x-toheader''" "ASCIIToLower ''P-'' = ''p-''"
  "ASCIIToLower ''Diversion'' = ''diversion''" "ASCIIToLower ''History-Info'' = ''history-info''"
  "ASCIIToLower ''Privacy'' = ''privacy''" "ASCIIToLower ''Route'' = ''route''"
  "ASCIIToLower ''Content-Disposition'' = ''content-disposition''" "ASCIIToLower ''Supported'' = ''supported''"
  "ASCIIToLower ''P-Asserted-Identity'' = ''p-asserted-identity''"
  by (simp_all add: ASCIIToLower_def)

lemma values_forward:
  "ASCIIToLower n \<noteq> ASCIIToLower (HeaderName he) \<Longrightarrow> header_values n (forward_header he lh h) = header_values n h"
  by (simp add: forward_header_def header_ops split: prod.split)

definition forwarded_line :: "RoutingRecord \<Rightarrow> UDPAddr \<Rightarrow> StartLine \<Rightarrow> StartLine \<Rightarrow> StartLine" where
  "forwarded_line rd remote lsl sl = BuildRURI (\<not> IsDB rd)
     (sl\<lparr>HostPart := UDPAddr_String remote, OriginalUP := OriginalUP lsl, UserParameters := UserParameters lsl,
        Password := Password lsl, UriParameters := UriParameters lsl, UriHeaders := UriHeaders lsl\<rparr>)"

lemma wp_proxify:
  assumes "\<not> w_panic w" "LinkedSession (w_ss w i) = Some l" "Transactions (w_ss w l) = t0 # ts"
    "RequestMessage (w_tx w t0) = Some lm" "lm \<noteq> m" "udpListenser (w_ss w i) = Some local"
    "remoteUDP (w_ss w i) = Some remote" "RoutingData (w_ss w i) = Some rd" "headers_wf (Headers (w_msg w lm))"
    "Int2Str (word_of_int (MaxFwds (w_msg w lm) - 1)) = Some mf" "\<not> ResetMF (w_tx w t)"
    and Q: "\<And>n tag fh th cid h. proxied (Headers (w_msg w lm)) cid fh th mf h \<Longrightarrow>
      Q () (w\<lparr>w_seed := n, w_ss := (w_ss w)(i := (w_ss w i)\<lparr>FromTag := tag, FromHeader := fh, ToHeader := th, CallID := cid\<rparr>),
        w_tx := (w_tx w)(t := (w_tx w t)\<lparr>From := fh, To := th, ResetMF := False\<rparr>),
        w_msg := (w_msg w)(m := (w_msg w m)\<lparr>
          sm_StartLine := forwarded_line rd remote (sm_StartLine (w_msg w lm)) (sm_StartLine (w_msg w m)),
          MaxFwds := MaxFwds (w_msg w lm) - 1, Headers := h\<rparr>)\<rparr>)"
  shows "wp (proxifyRequestHeaders i m t) Q w"
  using assms(1-11)
  by (simp add: proxifyRequestHeaders_def CurrentRequestMessage_def GetFirstTransaction_def txs_def Let_def from_header_def
     ValueHeader_first [OF assms(9)] forwarded_line_def [symmetric])
   (intro conjI impI Q; simp add: proxied_def header_ops values_forward values_custom_prefix HasPrefix_def split: option.split)

lemma wp_process_INVITE:
  assumes "\<not> w_panic w" "GetMethod (w_msg w m) = INVITE" "proxied lh cid fh th mf (Headers (w_msg w m))"
    and Q: "\<And>w1 w2 h. w1 = w\<lparr>w_seed := Suc (w_seed w), w_msg := (w_msg w)(m := (w_msg w m)\<lparr>Headers := h, Body := b\<rparr>)\<rparr> \<Longrightarrow>
      proxied lh cid fh th mf h \<Longrightarrow> prepared w1 w2 \<Longrightarrow>
      Q () (w2\<lparr>w_tx := (w_tx w)(t := (w_tx w t)\<lparr>RequestMessage := Some m, SentMessage := Some m\<rparr>),
        w_ss := (w_ss w2)(i := (w_ss w2 i)\<lparr>RemoteURI := RUri (sm_StartLine (w_msg w m)),
          RemoteContactURI := RUri (sm_StartLine (w_msg w m))\<rparr>)\<rparr>)"
  shows "wp (processRequestHeaders i t m (request_pack INVITE) b) Q w"
proof -
  obtain cs where cs: "Uint32ToStr (CSeq (w_tx w t)) = Some cs" using Uint32ToStr_eq by blast
  define h where "h = SetHeader CSeq_hdr (cs @ '' '' @ Method_String INVITE)
    (SetHeader Date_hdr (e_date (w_env w) (w_seed w)) (Headers (w_msg w m)))"
  have ph: "proxied lh cid fh th mf h" using assms(3) by (simp add: h_def proxied_def header_ops)
  let ?w1 = "w\<lparr>w_seed := Suc (w_seed w), w_msg := (w_msg w)(m := (w_msg w m)\<lparr>Headers := h, Body := b\<rparr>)\<rparr>"
  have "wp (ParseNPrepareSDP i b \<bind> (\<lambda>_. do {
      msg \<leftarrow> get_msg m; s \<leftarrow> get_ss i;
      (if GetMethod msg = INVITE then do {
        upd_tx t (\<lambda>y. y\<lparr>RequestMessage := Some m, SentMessage := Some m\<rparr>);
        upd_ss i (\<lambda>y. y\<lparr>RemoteURI := RUri (sm_StartLine msg), RemoteContactURI := RUri (sm_StartLine msg)\<rparr>)
      } else X msg s);
      when (GetMethod msg = PRACK \<and> \<not> IsPRACKSupported s) Y }) ) Q ?w1" for X Y
    unfolding wp_bind
  proof (rule wp_ParseNPrepareSDP)
    fix w2 assume p: "prepared ?w1 w2"
    note f = prepared_fields [OF p]
    have "GetMethod (w_msg w2 m) = INVITE" using assms(2) by (simp add: f GetMethod_def)
    then show "wp (get_msg m) (\<lambda>msg. wp (get_ss i) (\<lambda>s. wp (if GetMethod msg = INVITE then do {
        upd_tx t (\<lambda>y. y\<lparr>RequestMessage := Some m, SentMessage := Some m\<rparr>);
        upd_ss i (\<lambda>y. y\<lparr>RemoteURI := RUri (sm_StartLine msg), RemoteContactURI := RUri (sm_StartLine msg)\<rparr>)
      } else X msg s) (\<lambda>_. wp (when (GetMethod msg = PRACK \<and> \<not> IsPRACKSupported s) Y) Q))) w2"
      using Q [OF refl ph p] assms(1) by (simp add: f when_def)
  qed
  then show ?thesis
    using assms(1,2) cs unfolding processRequestHeaders_def
    by (simp add: request_pack_def add_custom_def NewSipHeaders_def h_def GetMethod_def)
qed

text \<open>What \<open>CreateLinkedINVITE\<close> makes for the leg \<open>i\<close> from the request \<open>lm\<close> of the other leg.\<close>

definition invited :: "world \<Rightarrow> ss_id \<Rightarrow> msg_id \<Rightarrow> string \<Rightarrow> body_id option \<Rightarrow> string \<Rightarrow> UDPAddr \<Rightarrow> RoutingRecord \<Rightarrow> world \<Rightarrow> bool" where
  "invited w i lm up b mf remote rd w' \<longleftrightarrow>
     \<not> w_panic w' \<and> w_out w' = w_out w \<and> w_nss w' = w_nss w \<and> w_Sessions w' = w_Sessions w \<and> w_env w' = w_env w
     \<and> (short_sdp (e_sdp (w_env w)) \<longrightarrow> (\<forall>n. short_body (w_body w n) \<longrightarrow> short_body (w_body w' n)))
     \<and> (\<forall>j. j \<noteq> i \<longrightarrow> sdp_core (w_ss w' j) = sdp_core (w_ss w j))
     \<and> (\<exists>x. w_tx w' (w_ntx w) = x \<and> Direction_tx x = OUTBOUND \<and> Method_tx x = INVITE \<and> Timer x = TNil
            \<and> \<not> UseRemoteURI x \<and> SentMessage x = Some (w_nmsg w) \<and> RequestMessage x = Some (w_nmsg w))
     \<and> (\<exists>r tag fh th cid u h sl.
          sdp_core (w_ss w' i) = sdp_core ((w_ss w i)\<lparr>FwdCSeq := r, Transactions := Transactions (w_ss w i) @ [w_ntx w],
            Mymode := Multimedia, FromTag := tag, FromHeader := fh, ToHeader := th, CallID := cid,
            RemoteURI := u, RemoteContactURI := u\<rparr>)
          \<and> sl = forwarded_line rd remote (sm_StartLine (w_msg w lm)) (sm_StartLine (NewRequestMessage INVITE up))
          \<and> w_msg w' (w_nmsg w) = (NewRequestMessage INVITE up)\<lparr>sm_StartLine := sl,
               MaxFwds := MaxFwds (w_msg w lm) - 1, Headers := h, Body := b\<rparr>
          \<and> proxied (Headers (w_msg w lm)) cid fh th mf h)"

lemma sdp_core_uri:
  "sdp_core a = sdp_core b \<Longrightarrow> sdp_core (a\<lparr>RemoteURI := u, RemoteContactURI := v\<rparr>) = sdp_core (b\<lparr>RemoteURI := u, RemoteContactURI := v\<rparr>)"
  by (cases a, cases b, simp add: sdp_core_def)

lemma forwarded_Method [simp]: "sl_Method (forwarded_line rd r lsl sl) = sl_Method sl"
  by (simp add: forwarded_line_def BuildRURI_def Let_def)

lemma wp_CreateLinkedINVITE:
  assumes "\<not> w_panic w" "Direction_ss (w_ss w i) = OUTBOUND" "FwdCSeq (w_ss w i) = 0"
    "LinkedSession (w_ss w i) = Some l" "l \<noteq> i" "Transactions (w_ss w l) = t0 # ts" "t0 \<noteq> w_ntx w"
    "RequestMessage (w_tx w t0) = Some lm" "lm \<noteq> w_nmsg w" "udpListenser (w_ss w i) = Some local"
    "remoteUDP (w_ss w i) = Some remote" "RoutingData (w_ss w i) = Some rd" "headers_wf (Headers (w_msg w lm))"
    "Int2Str (word_of_int (MaxFwds (w_msg w lm) - 1)) = Some mf"
    and Q: "\<And>w'. invited w i lm up b mf remote rd w' \<Longrightarrow> Q (w_ntx w, w_nmsg w) w'"
  shows "wp (CreateLinkedINVITE i up b) Q w"
  unfolding CreateLinkedINVITE_def wp_bind
proof (rule wp_addOutgoing_INVITE [OF assms(1-3)])
  fix r k n and br :: string
  let ?t = "w_ntx w" and ?m = "w_nmsg w"
  let ?w1 = "w\<lparr>w_seed := n, w_tx := (w_tx w)(?t := zero_Transaction\<lparr>Key := k, Direction_tx := OUTBOUND, Method_tx := INVITE,
        CSeq := r, LinkedTransaction := None, ViaBranch := br\<rparr>), w_ntx := Suc ?t,
      w_msg := (w_msg w)(?m := NewRequestMessage INVITE up\<lparr>Headers := NewSHsPointer True\<rparr>), w_nmsg := Suc ?m,
      w_ss := (w_ss w)(i := (w_ss w i)\<lparr>FwdCSeq := r, Transactions := Transactions (w_ss w i) @ [?t], Mymode := Multimedia\<rparr>)\<rparr>"
  have "wp (proxifyRequestHeaders i ?m ?t) (\<lambda>_. wp (processRequestHeaders i ?t ?m (request_pack INVITE) b) (\<lambda>_. Q (?t, ?m))) ?w1"
  proof (rule wp_proxify)
    show "LinkedSession (w_ss ?w1 i) = Some l" "Transactions (w_ss ?w1 l) = t0 # ts" "RequestMessage (w_tx ?w1 t0) = Some lm"
      "lm \<noteq> ?m" "udpListenser (w_ss ?w1 i) = Some local" "remoteUDP (w_ss ?w1 i) = Some remote"
      "RoutingData (w_ss ?w1 i) = Some rd" "headers_wf (Headers (w_msg ?w1 lm))"
      "Int2Str (word_of_int (MaxFwds (w_msg ?w1 lm) - 1)) = Some mf"
      using assms(4-14) by simp_all
  next
    fix n' tag fh th cid h
    assume "proxied (Headers (w_msg ?w1 lm)) cid fh th mf h"
    then have ph: "proxied (Headers (w_msg w lm)) cid fh th mf h" using assms(9) by simp
    show "wp (processRequestHeaders i ?t ?m (request_pack INVITE) b) (\<lambda>_. Q (?t, ?m)) (?w1\<lparr>w_seed := n',
        w_ss := (w_ss ?w1)(i := (w_ss ?w1 i)\<lparr>FromTag := tag, FromHeader := fh, ToHeader := th, CallID := cid\<rparr>),
        w_tx := (w_tx ?w1)(?t := (w_tx ?w1 ?t)\<lparr>From := fh, To := th, ResetMF := False\<rparr>),
        w_msg := (w_msg ?w1)(?m := (w_msg ?w1 ?m)\<lparr>
          sm_StartLine := forwarded_line rd remote (sm_StartLine (w_msg ?w1 lm)) (sm_StartLine (w_msg ?w1 ?m)),
          MaxFwds := MaxFwds (w_msg ?w1 lm) - 1, Headers := h\<rparr>)\<rparr>)" (is "wp _ _ ?w2")
    proof (rule wp_process_INVITE)
      show "proxied (Headers (w_msg w lm)) cid fh th mf (Headers (w_msg ?w2 ?m))" using ph by simp
      fix w3 w4 h'
      assume w3: "w3 = ?w2\<lparr>w_seed := Suc (w_seed ?w2), w_msg := (w_msg ?w2)(?m := (w_msg ?w2 ?m)\<lparr>Headers := h', Body := b\<rparr>)\<rparr>"
        and h': "proxied (Headers (w_msg w lm)) cid fh th mf h'" and p: "prepared w3 w4"
      note f = prepared_fields [OF p]
      show "Q (?t, ?m) (w4\<lparr>w_tx := (w_tx ?w2)(?t := (w_tx ?w2 ?t)\<lparr>RequestMessage := Some ?m, SentMessage := Some ?m\<rparr>),
        w_ss := (w_ss w4)(i := (w_ss w4 i)\<lparr>RemoteURI := RUri (sm_StartLine (w_msg ?w2 ?m)),
          RemoteContactURI := RUri (sm_StartLine (w_msg ?w2 ?m))\<rparr>)\<rparr>)" (is "Q _ ?w5")
      proof (rule Q)
        show "invited w i lm up b mf remote rd ?w5"
          unfolding invited_def
        proof (intro conjI)
          show "\<exists>r tag fh th cid u h sl.
            sdp_core (w_ss ?w5 i) = sdp_core ((w_ss w i)\<lparr>FwdCSeq := r, Transactions := Transactions (w_ss w i) @ [w_ntx w],
              Mymode := Multimedia, FromTag := tag, FromHeader := fh, ToHeader := th, CallID := cid,
              RemoteURI := u, RemoteContactURI := u\<rparr>)
            \<and> sl = forwarded_line rd remote (sm_StartLine (w_msg w lm)) (sm_StartLine (NewRequestMessage INVITE up))
            \<and> w_msg ?w5 (w_nmsg w) = (NewRequestMessage INVITE up)\<lparr>sm_StartLine := sl,
                 MaxFwds := MaxFwds (w_msg w lm) - 1, Headers := h, Body := b\<rparr>
            \<and> proxied (Headers (w_msg w lm)) cid fh th mf h"
            by (rule exI [of _ r], rule exI [of _ tag], rule exI [of _ fh], rule exI [of _ th], rule exI [of _ cid],
                rule exI [of _ "RUri (sm_StartLine (w_msg ?w2 ?m))"], rule exI [of _ h'], rule exI)
               (use h' sdp_core_uri [OF f(10)] assms(9) in \<open>simp add: f w3\<close>)
        qed (use assms(1) in \<open>simp_all add: f w3 zero_Transaction_def\<close>)
      qed
    qed (use assms(1) in \<open>simp_all add: GetMethod_def NewRequestMessage_def\<close>)
  qed (use assms(1) in \<open>simp_all add: zero_Transaction_def\<close>)
  then show "wp (deref 0 (Some ?t)) (\<lambda>t. wp (new_msg (NewRequestMessage INVITE up\<lparr>Headers := NewSHsPointer True\<rparr>))
     (\<lambda>m. wp (upd_ss i (Mymode_update (\<lambda>_. Multimedia))) (\<lambda>_. wp (proxifyRequestHeaders i m t) (\<lambda>_. wp (processRequestHeaders i t m (request_pack INVITE) b) (\<lambda>_. wp (ret (t, m)) Q)))))
     (w\<lparr>w_seed := n, w_tx := (w_tx w)(?t := zero_Transaction\<lparr>Key := k, Direction_tx := OUTBOUND, Method_tx := INVITE,
        CSeq := r, LinkedTransaction := None, ViaBranch := br\<rparr>), w_ntx := Suc ?t,
      w_ss := (w_ss w)(i := (w_ss w i)\<lparr>FwdCSeq := r, Transactions := Transactions (w_ss w i) @ [?t]\<rparr>)\<rparr>)"
    using assms(1) by (simp add: new_msg_def)
qed

section \<open>Sending it\<close>

lemma prepare_short:
  assumes "\<And>mb. b = Some mb \<Longrightarrow> short_body mb"
  shows "\<exists>m'. PrepareMessageBytes b m = Some m' \<and> Bytes m' \<noteq> [] \<and> sm_StartLine m' = sm_StartLine m \<and> MsgType m' = MsgType m
     \<and> Body m' = Body m \<and> (\<forall>n. ASCIIToLower n \<notin> set content_names \<longrightarrow> header_values n (Headers m') = header_values n (Headers m))"
proof -
  have "length (snd (body_bytes b (Headers m))) < 10 ^ 10"
    using assms by (cases b) (fastforce simp: body_bytes_def short_body_def)+
  from prepare_bytes [OF this] show ?thesis by (auto simp: CRLF_def)
qed

lemma prepare_request:
  assumes "proxied lh cid fh th mf (Headers m)" "\<And>mb. b = Some mb \<Longrightarrow> short_body mb"
  shows "\<exists>m'. PrepareMessageBytes b m = Some m' \<and> Bytes m' \<noteq> [] \<and> sm_StartLine m' = sm_StartLine m
     \<and> MsgType m' = MsgType m \<and> proxied lh cid fh th mf (Headers m')"
  using prepare_short [of b m] assms
  by (fastforce simp: proxied_def content_names_def)

lemma wp_launch:
  assumes "\<not> w_panic v" "ss_state (w_ss v i1) = BeingEstablished" "i1 \<noteq> i2" "SentMessage (w_tx v t) = Some m"
    "Timer (w_tx v t) = TNil" "Direction_tx (w_tx v t) = OUTBOUND" "Method_tx (w_tx v t) = INVITE"
    "\<not> UseRemoteURI (w_tx v t)" "Bytes (w_msg v m) = []" "MsgType (w_msg v m) = REQUEST" "udpListenser (w_ss v i2) = Some local"
    "RemoteContactUDP (w_ss v i2) = None" "remoteUDP (w_ss v i2) = Some remote"
    "PrepareMessageBytes (map_option (w_body v) (Body (w_msg v m))) (w_msg v m) = Some m'"
    and Q: "\<And>hop. hop = (case EgressProxy (w_ss v i2) of None \<Rightarrow> remote | Some p \<Rightarrow> p) \<Longrightarrow>
      Q () (v\<lparr>w_ss := (w_ss v)(i2 := (w_ss v i2)\<lparr>ss_state := BeingEstablished\<rparr>),
        w_Sessions := Store (CallID (w_ss v i2)) i2 (w_Sessions v), w_msg := (w_msg v)(m := m'),
        w_out := w_out v @ [\<lparr>dg_msg = m', dg_to = hop\<rparr>],
        w_tx := (w_tx v)(t := (w_tx v t)\<lparr>ReTXCount := 0, TransTimeOut := T1Timer, Timer := TArmed i2\<rparr>)\<rparr>)"
  shows "wp (launch i1 i2 t) Q v"
  using assms(1-14) Q
  by (cases "EgressProxy (w_ss v i2)"; cases "Body (w_msg v m)")
     (simp_all add: launch_def AddMe_def SendSTMessage_def Send_def sendmessage_def StartTransTimer_def get_body_def
       IsResponse_def when_def)

section \<open>A call that the routing table sends on\<close>

text \<open>
  The call of leg \<open>i\<close>, whose INVITE is the message \<open>mid\<close> of its first transaction \<open>t\<close>, can be sent
  on by the record \<open>rd\<close> to the number \<open>up\<close> at \<open>dst\<close>.
\<close>

definition routable :: "world \<Rightarrow> ss_id \<Rightarrow> tx_id \<Rightarrow> msg_id \<Rightarrow> RoutingRecord \<Rightarrow> string \<Rightarrow> UDPAddr \<Rightarrow> bool" where
  "routable w i t mid rd up dst \<longleftrightarrow>
     \<not> w_panic w \<and> i < w_nss w \<and> t < w_ntx w \<and> mid < w_nmsg w
     \<and> ss_state (w_ss w i) = BeingEstablished \<and> udpListenser (w_ss w i) \<noteq> None
     \<and> (case Transactions (w_ss w i) of [] \<Rightarrow> False | t0 # ts \<Rightarrow> t0 = t) \<and> RequestMessage (w_tx w t) = Some mid
     \<and> headers_wf (Headers (w_msg w mid)) \<and> 0 < MaxFwds (w_msg w mid) \<and> MaxFwds (w_msg w mid) \<le> 255
     \<and> short_sdp (e_sdp (w_env w)) \<and> (case Body (w_msg w mid) of None \<Rightarrow> True | Some b \<Rightarrow> short_body (w_body w b))
     \<and> Get (w_phones w) (UserPart (sm_StartLine (w_msg w mid))) = None
     \<and> Get_route (w_routes w) (UserPart (sm_StartLine (w_msg w mid))) = Some (Some (rd, up))
     \<and> (0 < No18xTimeout rd \<or> 0 < NoAnswerTimeout rd) \<and> \<not> SteerMedia rd \<and> OutCallFlow rd \<noteq> EchoResponder
     \<and> (OutCallFlow rd = TransformEarlyToFinal_flow \<longrightarrow> \<not> IsDelayedOfferCall (w_ss w i))
     \<and> (case RemoteUDPSocket rd of None \<Rightarrow> remoteUDP (w_ss w i)
        | Some k \<Rightarrow> if addr k = None then remoteUDP (w_ss w i) else addr k) = Some dst"

text \<open>
  A new leg is out for the leg \<open>i\<close>: after what was sent before, \<open>out\<close>, there is one INVITE, whose
  timer is started.
\<close>

definition sent_on :: "world \<Rightarrow> datagram list \<Rightarrow> ss_id \<Rightarrow> msg_id \<Rightarrow> RoutingRecord \<Rightarrow> string \<Rightarrow> UDPAddr \<Rightarrow> world \<Rightarrow> bool" where
  "sent_on w out i mid rd up dst w' \<longleftrightarrow>
     (let j = w_nss w; s = w_ss w' j; lsl = sm_StartLine (w_msg w mid) in
      \<not> w_panic w' \<and> w_nss w' = Suc j \<and> ss_state (w_ss w' i) = BeingEstablished \<and> LinkedSession (w_ss w' i) = Some j
      \<and> LinkedSession s = Some i \<and> Direction_ss s = OUTBOUND \<and> ss_state s = BeingEstablished \<and> RoutingData s = Some rd
      \<and> TransformEarlyToFinal s = (OutCallFlow rd = TransformEarlyToFinal_flow)
      \<and> w_Sessions w' = Store (CallID s) j (w_Sessions w)
      \<and> (\<exists>d m. w_out w' = out @ [d] \<and> dg_msg d = w_msg w' m
           \<and> dg_to d = (case w_ProxyUdpServer w of None \<Rightarrow> dst | Some p \<Rightarrow> p)
           \<and> IsRequest (dg_msg d) \<and> Bytes (dg_msg d) \<noteq> []
           \<and> sm_StartLine (dg_msg d) = forwarded_line rd dst lsl (sm_StartLine (NewRequestMessage INVITE up))
           \<and> proxied (Headers (w_msg w mid)) (CallID s) (FromHeader s) (ToHeader s)
               (dec_string (nat (MaxFwds (w_msg w mid) - 1))) (Headers (dg_msg d))
           \<and> (\<exists>u. Transactions s = [u] \<and> Timer (w_tx w' u) = TArmed j \<and> SentMessage (w_tx w' u) = Some m)))"

lemma sdp_core_more:
  "sdp_core s' = sdp_core s \<Longrightarrow> FromTag s' = FromTag s \<and> ToHeader s' = ToHeader s \<and> Mymode s' = Mymode s"
  by (cases s, cases s', simp add: sdp_core_def)

lemma short_Int2Str:
  assumes "0 < (n :: int)" "n \<le> 255"
  shows "Int2Str (word_of_int (n - 1)) = Some (dec_string (nat (n - 1)))"
proof -
  obtain k where k: "n - 1 = int k" "k < 255"
    using that [of "nat (n - 1)"] assms by simp
  have "sint (word_of_nat k :: u64) = int k" using k(2) by (simp add: signed_take_bit_int_eq_self signed_of_nat)
  then show ?thesis unfolding k(1) by (simp, subst Int2Str_eq) (use k(2) in simp_all)
qed

lemma NewRequest_type: "MsgType (NewRequestMessage md up) = REQUEST" "Bytes (NewRequestMessage md up) = []"
  by (simp_all add: NewRequestMessage_def zero_SipMessage_def)

text \<open>The two legs when the second is made.\<close>

definition linked_legs :: "world \<Rightarrow> ss_id \<Rightarrow> SipSession \<Rightarrow> SipSession \<Rightarrow> world" where
  "linked_legs w i s leg = w\<lparr>w_nss := Suc (w_nss w), w_ss := (w_ss w)(w_nss w := leg, i := s)\<rparr>"

lemma invited_launch:
  assumes r: "routable w i t mid rd up dst"
    and same: "\<not> w_panic w1" "w_out w1 = w_out w" "w_msg w1 = w_msg w" "w_nmsg w1 = w_nmsg w"
      "w_nss w1 = w_nss w" "w_Sessions w1 = w_Sessions w" "w_env w1 = w_env w" "w_body w1 = w_body w"
    and leg: "s = (w_ss w i)\<lparr>RoutingData := Some rd, LinkedSession := Some (w_nss w)\<rparr>"
      "LinkedSession leg = Some i" "Direction_ss leg = OUTBOUND" "RoutingData leg = Some rd"
      "EgressProxy leg = w_ProxyUdpServer w" "remoteUDP leg = Some dst" "udpListenser leg = Some lo"
      "RemoteContactUDP leg = None" "Transactions leg = []"
    and inv: "invited (linked_legs w1 i s leg) (w_nss w) mid up (Body (w_msg w mid)) (dec_string (nat (MaxFwds (w_msg w mid) - 1))) dst rd w3"
  shows "wp (launch i (w_nss w) (w_ntx w1)) (\<lambda>_. sent_on w (w_out w) i mid rd up dst)
     (w3\<lparr>w_ss := (w_ss w3)(w_nss w := (w_ss w3 (w_nss w))\<lparr>TransformEarlyToFinal := (OutCallFlow rd = TransformEarlyToFinal_flow)\<rparr>)\<rparr>)"
    (is "wp _ _ ?v")
proof -
  let ?j = "w_nss w" and ?m = "w_nmsg w" and ?b = "Body (w_msg w mid)"
  note R = r [unfolded routable_def]
  from inv obtain q tag fh th cid u h sl where
      c: "sdp_core (w_ss w3 ?j) = sdp_core (leg\<lparr>FwdCSeq := q, Transactions := [w_ntx w1],
            Mymode := Multimedia, FromTag := tag, FromHeader := fh, ToHeader := th, CallID := cid,
            RemoteURI := u, RemoteContactURI := u\<rparr>)"
    and sl: "sl = forwarded_line rd dst (sm_StartLine (w_msg w mid)) (sm_StartLine (NewRequestMessage INVITE up))"
    and m: "w_msg w3 ?m = (NewRequestMessage INVITE up)\<lparr>sm_StartLine := sl, MaxFwds := MaxFwds (w_msg w mid) - 1, Headers := h, Body := ?b\<rparr>"
    and h: "proxied (Headers (w_msg w mid)) cid fh th (dec_string (nat (MaxFwds (w_msg w mid) - 1))) h"
    using R same leg by (auto simp: invited_def linked_legs_def)
  have inv': "\<not> w_panic w3" "w_out w3 = w_out w" "w_nss w3 = Suc ?j" "w_Sessions w3 = w_Sessions w" "sdp_core (w_ss w3 i) = sdp_core s"
    "\<And>n. short_body (w_body w n) \<Longrightarrow> short_body (w_body w3 n)" and
    x: "Direction_tx (w_tx w3 (w_ntx w1)) = OUTBOUND" "Method_tx (w_tx w3 (w_ntx w1)) = INVITE" "Timer (w_tx w3 (w_ntx w1)) = TNil"
    "\<not> UseRemoteURI (w_tx w3 (w_ntx w1))" "SentMessage (w_tx w3 (w_ntx w1)) = Some ?m"
    using inv R same by (auto simp: invited_def linked_legs_def)
  have "short_body mb" if "map_option (w_body w3) ?b = Some mb" for mb
    using that R inv'(6) by (auto split: option.splits)
  with h obtain m' where m': "PrepareMessageBytes (map_option (w_body w3) ?b) (w_msg w3 ?m) = Some m'" "Bytes m' \<noteq> []"
      "sm_StartLine m' = sm_StartLine (w_msg w3 ?m)" "MsgType m' = MsgType (w_msg w3 ?m)"
      "proxied (Headers (w_msg w mid)) cid fh th (dec_string (nat (MaxFwds (w_msg w mid) - 1))) (Headers m')"
    using prepare_request [of "Headers (w_msg w mid)" cid fh th "dec_string (nat (MaxFwds (w_msg w mid) - 1))" "w_msg w3 ?m" "map_option (w_body w3) ?b"] m by auto
  have ij: "i \<noteq> ?j" using R by simp
  note f = sdp_core_fields [OF c] sdp_core_more [OF c] sdp_core_fields [OF inv'(5)]
  show ?thesis
  proof (rule wp_launch [where m = ?m and m' = m' and remote = dst and local = lo])
    fix hop assume hop: "hop = (case EgressProxy (w_ss ?v ?j) of None \<Rightarrow> dst | Some p \<Rightarrow> p)"
    show "sent_on w (w_out w) i mid rd up dst (?v\<lparr>w_ss := (w_ss ?v)(?j := (w_ss ?v ?j)\<lparr>ss_state := BeingEstablished\<rparr>),
        w_Sessions := Store (CallID (w_ss ?v ?j)) ?j (w_Sessions ?v), w_msg := (w_msg ?v)(?m := m'),
        w_out := w_out ?v @ [\<lparr>dg_msg = m', dg_to = hop\<rparr>],
        w_tx := (w_tx ?v)(w_ntx w1 := (w_tx ?v (w_ntx w1))\<lparr>ReTXCount := 0, TransTimeOut := T1Timer, Timer := TArmed ?j\<rparr>)\<rparr>)"
      using R hop inv' x m' ij sl m
      by (simp add: sent_on_def Let_def f leg IsRequest_def NewRequest_type)
  qed (use R inv' x m m' ij in \<open>simp_all add: f leg NewRequest_type\<close>)
qed
lemma wp_route_call:
  assumes r: "routable w i t mid rd up dst" and ss: "w_ss w1 = (w_ss w)(i := (w_ss w i)\<lparr>RoutingData := Some rd\<rparr>)"
    and same: "\<not> w_panic w1" "w_out w1 = w_out w" "w_msg w1 = w_msg w" "w_nmsg w1 = w_nmsg w" "w_tx w1 = w_tx w"
      "w_ntx w1 = w_ntx w" "w_nss w1 = w_nss w" "w_Sessions w1 = w_Sessions w" "w_env w1 = w_env w"
      "w_body w1 = w_body w" "w_ProxyUdpServer w1 = w_ProxyUdpServer w"
  shows "wp (route_call i t mid up) (\<lambda>_. sent_on w (w_out w) i mid rd up dst) w1"
proof -
  obtain ts where ts: "Transactions (w_ss w i) = t # ts" using r by (auto simp: routable_def split: list.splits)
  obtain lo where lo: "udpListenser (w_ss w i) = Some lo" using r by (auto simp: routable_def)
  note R = r [unfolded routable_def]
  let ?j = "w_nss w" and ?mf = "dec_string (nat (MaxFwds (w_msg w mid) - 1))"
  let ?leg = "(NewSS OUTBOUND)\<lparr>EgressProxy := w_ProxyUdpServer w, remoteUDP := Some dst,
      udpListenser := Some lo, RoutingData := Some rd, IsDelayedOfferCall := IsDelayedOfferCall (w_ss w i),
      IsPRACKSupported := (OutCallFlow rd = Transparent \<and> IsPRACKSupported (w_ss w i)), LinkedSession := Some i\<rparr>"
  let ?s = "(w_ss w i)\<lparr>RoutingData := Some rd, LinkedSession := Some ?j\<rparr>"
  let ?w2 = "linked_legs w1 i ?s ?leg"
  have mf: "Int2Str (word_of_int (MaxFwds (w_msg w mid) - 1)) = Some ?mf" using R by (intro short_Int2Str) simp_all
  have ij: "i \<noteq> ?j" "t \<noteq> w_ntx w" "mid \<noteq> w_nmsg w" using R by auto
  have rm: "RequestMessage (w_tx w t) = Some mid" "headers_wf (Headers (w_msg w mid))" using R by auto
  have "wp (CreateLinkedINVITE ?j up (Body (w_msg w mid))) (\<lambda>(t2, _). wp (upd_ss ?j
      (\<lambda>s. s\<lparr>TransformEarlyToFinal := (OutCallFlow rd = TransformEarlyToFinal_flow)\<rparr>)) (\<lambda>_. wp (launch i ?j t2)
        (\<lambda>_. sent_on w (w_out w) i mid rd up dst))) ?w2"
  proof (rule wp_CreateLinkedINVITE [where l = i])
    fix w3 assume inv: "invited ?w2 ?j mid up (Body (w_msg w mid)) ?mf dst rd w3"
    have "w_ntx ?w2 = w_ntx w1" by (simp add: linked_legs_def)
    moreover have "\<not> w_panic w3" using inv by (simp add: invited_def)
    ultimately show "(case (w_ntx ?w2, w_nmsg ?w2) of (t2, _) \<Rightarrow> wp (upd_ss ?j
      (\<lambda>s. s\<lparr>TransformEarlyToFinal := (OutCallFlow rd = TransformEarlyToFinal_flow)\<rparr>)) (\<lambda>_. wp (launch i ?j t2)
        (\<lambda>_. sent_on w (w_out w) i mid rd up dst))) w3"
      using invited_launch [OF r same(1-4,7-10) refl _ _ _ _ _ _ _ _ inv] by (simp add: NewSS_def)
  qed (use rm same ij ts mf in \<open>simp_all add: linked_legs_def NewSS_def ts\<close>)
  moreover have "(case RemoteUDPSocket rd of None \<Rightarrow> remoteUDP (w_ss w1 i)
      | Some k \<Rightarrow> if addr k = None then remoteUDP (w_ss w1 i) else addr k) = Some dst" "\<not> SteerMedia rd"
    using R by (auto simp: ss split: option.splits)
  ultimately show ?thesis
    using same ij lo unfolding route_call_def
    by (simp add: ss link_sessions_def new_ss_def linked_legs_def case_prod_unfold)
qed

lemma RouteRequestInternal_sends_on:
  assumes "routable w i t mid rd up dst"
  shows "sent_on w (w_out w) i mid rd up dst (snd (run_state (RouteRequestInternal i t mid) w))"
proof -
  let ?w1 = "w\<lparr>w_ss := (w_ss w)(i := (w_ss w i)\<lparr>RoutingData := Some rd\<rparr>)\<rparr>"
  note R = assms [unfolded routable_def]
  have *: "wp (route_call i t mid up) (\<lambda>_ w'. \<not> w_panic w' \<and> sent_on w (w_out w) i mid rd up dst w') ?w1"
    using wp_route_call [OF assms, of ?w1] R by (simp add: wp_def sent_on_def Let_def)
  have "wp (RouteRequestInternal i t mid) (\<lambda>_. sent_on w (w_out w) i mid rd up dst) w"
    unfolding RouteRequestInternal_def
    by (rule wp_protect) (use R * in \<open>auto simp: Let_def route_by_table_def get_body_def split: CallFlow.splits\<close>)
  then show ?thesis by (simp add: wp_def)
qed

lemma routable_after_answer:
  assumes "routable w i t mid rd up dst" "answered i t mid a sc w w1"
  shows "routable w1 i t mid rd up dst" "sent_on w1 out i mid rd up dst = sent_on w out i mid rd up dst"
proof -
  note R = assms(1) [unfolded routable_def] and A = assms(2) [unfolded answered_def]
  have s: "sends w w1" using A by simp
  note f = sends_fields [OF s] sends_state [OF s] core_fields [of "w_ss w1 i" "w_ss w i"]
  have c: "core (w_ss w1 i) = core (w_ss w i)" using s by (simp add: sends_def)
  have IsDelayed: "IsDelayedOfferCall (w_ss w1 i) = IsDelayedOfferCall (w_ss w i)"
    using c by (cases "w_ss w i", cases "w_ss w1 i", simp add: core_def)
  have b: "w_body w1 = w_body w" using A by simp
  have x: "RequestMessage (w_tx w1 t) = RequestMessage (w_tx w t)" using A by (auto simp: answered_tx_def)
  have pr: "w_ProxyUdpServer w1 = w_ProxyUdpServer w" using s by (cases w, cases w1, simp add: sends_def elsewhere_def)
  have m: "w_msg w1 mid = w_msg w mid" "mid < w_nmsg w1" using A R by auto
  show "routable w1 i t mid rd up dst"
    using R A unfolding routable_def m(1) x IsDelayed b core_fields(1,9,10) [OF c] sends_fields [OF s] by simp
  show "sent_on w1 out i mid rd up dst = sent_on w out i mid rd up dst"
    by (rule ext) (simp add: sent_on_def f m pr)
qed

lemma handle_INVITE_sends_on:
  assumes "routable w i t mid rd up dst" "answerable w i t mid a" "w_SkipAS w" "\<not> w_sippTesting w"
  shows "\<exists>d. is_answer (Headers (w_msg w mid)) (CallID (w_ss w i)) 100 a d
    \<and> sent_on w (w_out w @ [d]) i mid rd up dst (snd (run_state (handle_INVITE i t mid) w))"
proof -
  let ?Q = "\<lambda>w'. \<exists>d. is_answer (Headers (w_msg w mid)) (CallID (w_ss w i)) 100 a d \<and> sent_on w (w_out w @ [d]) i mid rd up dst w'"
  have "wp (SendCreatedResponse i (Some t) status_Trying None) (\<lambda>_. wp (do {
     testing \<leftarrow> asks w_sippTesting; skip \<leftarrow> asks w_SkipAS;
     if testing then do { SendCreatedResponse i (Some t) status_Ringing None; SendCreatedResponse i (Some t) status_OK None }
     else if skip then RouteRequestInternal i t mid
     else RouteRequestExternal i t mid }) (\<lambda>_. ?Q)) w"
  proof (rule wp_answer [OF assms(2)])
    fix w1 assume a: "answered i t mid a status_Trying w w1"
    have same: "w_SkipAS w1 = w_SkipAS w" "w_sippTesting w1 = w_sippTesting w"
      using answered_sends [OF a] by (cases w, cases w1, simp add: sends_def elsewhere_def)+
    obtain d where "w_out w1 = w_out w @ [d]" "is_answer (Headers (w_msg w mid)) (CallID (w_ss w i)) 100 a d"
      using a by (auto simp: answered_def)
    then show "wp (do {
     testing \<leftarrow> asks w_sippTesting; skip \<leftarrow> asks w_SkipAS;
     if testing then do { SendCreatedResponse i (Some t) status_Ringing None; SendCreatedResponse i (Some t) status_OK None }
     else if skip then RouteRequestInternal i t mid
     else RouteRequestExternal i t mid }) (\<lambda>_. ?Q) w1"
      using RouteRequestInternal_sends_on [OF routable_after_answer(1) [OF assms(1) a]] routable_after_answer(2) [OF assms(1) a] same assms(3,4)
      by (auto simp: wp_def)
  qed (simp_all add: IsProvisional18x_def)
  then have "wp (handle_INVITE i t mid) (\<lambda>_. ?Q) w" by (simp only: handle_INVITE_def wp_bind)
  then show ?thesis by (simp add: wp_def)
qed

text \<open>A record that sends numbers of digits to \<open>10.0.0.2\<close> with a 9 in front, and a caller on it.\<close>

definition sample_out :: RoutingRecord where
  "sample_out = zero_RoutingRecord\<lparr>InRegex := Some (Seq [Bol, Cap 1 (Plus (Cls False [(48, 57)])), Eol]),
     RemoteUDPSocket := Some \<lparr>addr = Some (sample_addr ''10.0.0.2''), hostOrIP = None, port = None\<rparr>,
     OutCallFlow := Transparent, OutRuriUserpart := ''9$1'', No18xTimeout := 30, NoAnswerTimeout := 60, IsDB := True\<rparr>"

definition sample_caller :: world where
  "sample_caller = (asked INVITE BeingEstablished)\<lparr>w_routes := [sample_out],
     w_env := sample_env\<lparr>e_sdp := sample_sdp\<lparr>sdp_Bytes := (\<lambda>_. ''v=0'')\<rparr>\<rparr>\<rparr>"

lemma sample_routed: "Get_route [sample_out] ''200'' = Some (Some (sample_out, ''9200''))"
  by code_simp

end
