(* ===== verification/Answer_Relay.thy ===== *)
theory Answer_Relay
  imports Routing_Flow
begin

text \<open>
  The way back: what the caller and the callee get when the second leg's INVITE is answered or
  refused (\<open>handle_response\<close> and what it calls).
\<close>

section \<open>Sending an answer with a body\<close>

text \<open>The answer to message \<open>r\<close> with status \<open>sc\<close> and body \<open>b\<close> went out, and nothing else did.\<close>

definition replied :: "ss_id \<Rightarrow> msg_id \<Rightarrow> UDPAddr \<Rightarrow> int \<Rightarrow> body_id option \<Rightarrow> world \<Rightarrow> world \<Rightarrow> bool" where
  "replied i r a sc b w w' \<longleftrightarrow> sends w w' \<and> \<not> w_panic w'
     \<and> (\<exists>d. w_out w' = w_out w @ [d] \<and> is_answer (Headers (w_msg w r)) (CallID (w_ss w i)) sc a d \<and> Body (dg_msg d) = b)"

lemma prepared_answer:
  assumes "PrepareMessageBytes mb ((NewResponseMessage sc ph)\<lparr>Headers := h, Body := b\<rparr>) = Some m'"
    and "\<And>x. mb = Some x \<Longrightarrow> short_body x" "answer_headers rh cid h" "100 \<le> sc" "sc \<le> 699"
  shows "is_answer rh cid sc a \<lparr>dg_msg = m', dg_to = a\<rparr>" "Body m' = b"
proof -
  let ?msg = "(NewResponseMessage sc ph)\<lparr>Headers := h, Body := b\<rparr>"
  have m': "Bytes m' \<noteq> []" "sm_StartLine m' = sm_StartLine ?msg" "MsgType m' = MsgType ?msg"
    "\<And>n. ASCIIToLower n \<in> set protected_names \<Longrightarrow> header_values n (Headers m') = header_values n h" "Body m' = b"
    using prepare_short [of mb ?msg] assms(1,2) by (auto simp: content_names_def protected_names_def)
  then show "is_answer rh cid sc a \<lparr>dg_msg = m', dg_to = a\<rparr>" "Body m' = b"
    using answer_headers_cong [OF assms(3) m'(4)] assms(4,5)
    by (simp_all add: is_answer_def IsResponse_def GetStatusCode_def NewResponseMessage_def Let_def)
qed

lemma wp_Send_reply:
  assumes "\<not> w_panic w" "SentMessage (w_tx w t) = Some m" "Bytes (w_msg w m) = []" "IsResponse (w_msg w m)"
    and "udpListenser (w_ss w i) \<noteq> None" "(case ViaUdpAddr (w_tx w t) of Some b \<Rightarrow> Some b | None \<Rightarrow> remoteUDP (w_ss w i)) = Some a"
    and "PrepareMessageBytes (map_option (w_body w) (Body (w_msg w m))) (w_msg w m) = Some m'"
    and Q: "Q () (w\<lparr>w_msg := (w_msg w)(m := m'), w_out := w_out w @ [\<lparr>dg_msg = m', dg_to = a\<rparr>]\<rparr>)"
  shows "wp (Send i t) Q w"
proof -
  obtain l where "udpListenser (w_ss w i) = Some l" using assms(5) by blast
  with assms show ?thesis
    by (cases "Body (w_msg w m)") (auto simp: Send_def sendmessage_def get_body_def split: option.splits)
qed

lemma send_reply:
  assumes "answerable w i t r a" "100 \<le> sc" "sc \<le> 699" "rp_StatusCode rp = sc" "plain_custom (rp_CustomHeaders rp)"
    and "IsProvisional18x sc \<Longrightarrow> \<not> PRACKRequested rp \<and> LinkedPRACKST rp = None \<and> ContainsSDP (map_option (w_body w) b)"
    and "short_sdp (e_sdp (w_env w))" "\<And>n. b = Some n \<Longrightarrow> short_body (w_body w n)"
  shows "wp (send_response i t rp b) (\<lambda>_. replied i r a sc b w) w"
proof -
  let ?x = "w_tx w t"
  let ?w1 = "w\<lparr>w_tx := (w_tx w)(t := ?x\<lparr>Responses := Responses ?x @ [sc], IsFinalized_tx := IsFinalized_tx ?x \<or> 200 \<le> sc\<rparr>)\<rparr>"
  let ?rh = "Headers (w_msg w r)" and ?cid = "CallID (w_ss w i)"
  note ok = assms(1) [unfolded answerable_def]
  have "wp (createHeadersForResponse i t rp) (\<lambda>h. wp (do {
        m \<leftarrow> new_msg ((NewResponseMessage sc (rp_ReasonPhrase rp))\<lparr>Headers := h, Body := b\<rparr>);
        ParseNPrepareSDP i b; upd_tx t (\<lambda>x. x\<lparr>SentMessage := Some m\<rparr>); SendSTMessage i t })
      (\<lambda>_ w'. sends w w' \<longrightarrow> replied i r a sc b w w')) ?w1"
  proof (rule wp_createHeaders [where r = r], goal_cases)
    case (7 h w2)
    note f = noting_fields [OF 7(1)]
    from f(9) obtain th where th: "w_tx w2 = (w_tx w)(t := ?x\<lparr>Responses := Responses ?x @ [sc],
        IsFinalized_tx := IsFinalized_tx ?x \<or> 200 \<le> sc, To := th\<rparr>)" by auto
    have h: "answer_headers ?rh ?cid h" using 7(2) by simp
    have env: "w_env w2 = w_env w" using 7(1) by (auto simp: noting_def)
    let ?msg = "(NewResponseMessage sc (rp_ReasonPhrase rp))\<lparr>Headers := h, Body := b\<rparr>" and ?m = "w_nmsg w2"
    let ?w3 = "w2\<lparr>w_msg := (w_msg w2)(?m := ?msg), w_nmsg := Suc ?m\<rparr>"
    have "wp (ParseNPrepareSDP i b) (\<lambda>_. wp (do { upd_tx t (\<lambda>x. x\<lparr>SentMessage := Some ?m\<rparr>); SendSTMessage i t })
      (\<lambda>_ w'. sends w w' \<longrightarrow> replied i r a sc b w w')) ?w3"
    proof (rule wp_ParseNPrepareSDP)
      fix w4 assume p: "prepared ?w3 w4"
      note g = prepared_fields [OF p]
      have s: "udpListenser (w_ss w4 i) = udpListenser (w_ss w i)" "remoteUDP (w_ss w4 i) = remoteUDP (w_ss w i)"
        using sdp_core_fields(6,7) [OF g(10) [of i]] f(7) [of i, THEN core_fields(9)] f(7) [of i, THEN core_fields(10)] by simp_all
      have sb: "short_body x" if "map_option (w_body w4) b = Some x" for x
        using that assms(7,8) g(11) env by (cases b) (auto simp: f)
      obtain m' where m': "PrepareMessageBytes (map_option (w_body w4) b) ?msg = Some m'"
        using prepare_short [OF sb] by blast
      let ?w5 = "w4\<lparr>w_tx := (w_tx w4)(t := (w_tx w4 t)\<lparr>SentMessage := Some ?m\<rparr>)\<rparr>"
      have "wp (SendSTMessage i t) (\<lambda>_ w'. sends w w' \<longrightarrow> replied i r a sc b w w') ?w5"
      proof (rule wp_SendSTMessage, rule wp_Send_reply [where m = ?m and a = a and m' = m'], goal_cases)
        case (8 c)
        let ?w6 = "?w5\<lparr>w_msg := (w_msg ?w5)(?m := m'), w_out := w_out ?w5 @ [\<lparr>dg_msg = m', dg_to = a\<rparr>]\<rparr>"
        have "is_answer ?rh ?cid sc a \<lparr>dg_msg = m', dg_to = a\<rparr>" "Body m' = b"
          using prepared_answer [OF m' sb h assms(2,3)] by simp_all
        then show ?case by (intro wp_start_timer) (simp_all add: replied_def g f ok)
      qed (use ok s th m' in \<open>simp_all add: g f NewResponseMessage_def zero_SipMessage_def IsResponse_def Let_def
        split: option.splits\<close>)
      then show "wp (do { upd_tx t (\<lambda>x. x\<lparr>SentMessage := Some ?m\<rparr>); SendSTMessage i t }) (\<lambda>_ w'. sends w w' \<longrightarrow> replied i r a sc b w w') w4"
        by (simp add: g f ok)
    qed
    then show ?case using ok by (simp add: new_msg_def f)
  qed (use ok assms in simp_all)
  then have "wp (send_response i t rp b) (\<lambda>_ w'. sends w w' \<longrightarrow> replied i r a sc b w w') w"
    using ok assms(4-6) unfolding send_response_def Let_def
    by (cases "IsProvisional18x sc") (simp_all add: suppressed18x_other, simp add: suppressed18x_def Let_def get_body_def)
  from wp_conj [OF this sends.keeps_responses(4)] show ?thesis by (rule wp_mono) blast
qed

lemma response_pack_plain: "(response_pack sc)\<lparr>LinkedPRACKST := None\<rparr> = response_pack sc"
  by (simp add: response_pack_def)

section \<open>The answer of the second leg\<close>

text \<open>The status that the caller gets for an answer with status \<open>sc\<close> of the second leg.\<close>

definition relayed_status :: "SipSession \<Rightarrow> int \<Rightarrow> int" where
  "relayed_status s sc = (if IsProvisional18x sc \<and> TransformEarlyToFinal s then 200 else sc)"

text \<open>
  The answer \<open>mid\<close> to the INVITE of leg \<open>i\<close> is one to be relayed to leg \<open>l\<close>, whose INVITE waits in
  transaction \<open>u\<close>: a 2xx, or an 18x with SDP that asks for no acknowledgement of its own.
\<close>

definition relayable :: "world \<Rightarrow> ss_id \<Rightarrow> tx_id \<Rightarrow> msg_id \<Rightarrow> ss_id \<Rightarrow> tx_id \<Rightarrow> msg_id \<Rightarrow> UDPAddr \<Rightarrow> bool" where
  "relayable w i t mid l u r a \<longleftrightarrow>
     Method_tx (w_tx w t) = INVITE \<and> LinkedSession (w_ss w i) = Some l \<and> l \<noteq> i
     \<and> ss_state (w_ss w i) = BeingEstablished \<and> \<not> received18xSDP (w_ss w i)
     \<and> GetLastUnACKedINV l INBOUND w = Some u \<and> answerable w l u r a
     \<and> short_sdp (e_sdp (w_env w)) \<and> (case Body (w_msg w mid) of None \<Rightarrow> True | Some n \<Rightarrow> short_body (w_body w n))
     \<and> (let m = w_msg w mid; sc = GetStatusCode m in 200 \<le> sc \<and> sc \<le> 299
        \<or> 180 \<le> sc \<and> sc \<le> 189 \<and> ss_state (w_ss w l) = BeingEstablished
          \<and> ContainsSDP (map_option (w_body w) (Body m)) \<and> IsOptionRequired ''100rel'' m = Some False)"

text \<open>What the relaying of an answer notes in the leg that it comes from.\<close>

definition answer_noted :: "int \<Rightarrow> SipSession \<Rightarrow> SipSession" where
  "answer_noted sc s =
     (let s1 = s\<lparr>no18xSTimer := stop_timer (no18xSTimer s)\<rparr>; s2 = s1\<lparr>noAnsSTimer := stop_timer (noAnsSTimer s)\<rparr> in
      if IsProvisional18x sc then (if TransformEarlyToFinal s then s1\<lparr>received18xSDP := True\<rparr> else s1)
      else if TransformEarlyToFinal s then s2\<lparr>TransformEarlyToFinal := False\<rparr> else s2)"

lemma answer_noted_fields:
  "ss_state (answer_noted sc s) = ss_state s" "udpListenser (answer_noted sc s) = udpListenser s"
  "remoteUDP (answer_noted sc s) = remoteUDP s" "LinkedSession (answer_noted sc s) = LinkedSession s"
  "Transactions (answer_noted sc s) = Transactions s"
  by (simp_all add: answer_noted_def Let_def)

lemma GetLastUnACKed_set_ss:
  "(\<And>s. Transactions (f s) = Transactions s) \<Longrightarrow> GetLastUnACKedINV l d (set_ss i f w) = GetLastUnACKedINV l d w"
  by (simp add: GetLastUnACKedINV_def txs_def)

lemma handle_response_relays:
  assumes "relayable w i t mid l u r a" and sc: "sc = GetStatusCode (w_msg w mid)"
  shows "wp (handle_response i t mid) (\<lambda>_. replied l r a (relayed_status (w_ss w i) sc) (Body (w_msg w mid))
     (set_ss i (answer_noted sc) w)) w"
proof -
  note R = assms(1) [unfolded relayable_def Let_def, folded sc]
  let ?w = "set_ss i (answer_noted sc) w" and ?sc = "relayed_status (w_ss w i) sc" and ?b = "Body (w_msg w mid)"
  have p: "\<not> w_panic w" using R by (simp add: answerable_def)
  have "answerable ?w l u r a" using R by (subst answerable_set_ss) (simp_all add: answer_noted_fields)
  then have "wp (send_response l u (response_pack ?sc) ?b) (\<lambda>_. replied l r a ?sc ?b ?w) ?w"
    by (rule send_reply) (use R in \<open>auto simp: relayed_status_def response_pack_def plain_custom_def NewSipHeaders_def
      set_ss_def IsProvisional18x_def\<close>)
  moreover have "GetLastUnACKedINV l INBOUND ?w = Some u"
    using R by (subst GetLastUnACKed_set_ss) (simp_all add: answer_noted_fields)
  ultimately have go: "wp (SendCreatedResponseDetailed l None (response_pack ?sc) ?b) (\<lambda>_. replied l r a ?sc ?b ?w) ?w"
    by (simp add: SendCreatedResponseDetailed_def)
  consider (pos) "200 \<le> sc" "sc \<le> 299" | (prov) "180 \<le> sc" "sc \<le> 189" using R by auto
  then show ?thesis
  proof cases
    case pos
    then have np: "\<not> IsProvisional18x sc" "?sc = sc" by (simp_all add: relayed_status_def IsProvisional18x_def)
    with go pos R p show ?thesis
      unfolding handle_response_def handle_2xx_def handle_2xx_INVITE_def
      by (cases "TransformEarlyToFinal (w_ss w i)") (simp_all add: sc [symmetric] StopNoTimers_def StopTimer_def set_ss_def answer_noted_def IsBeingEstablished_def
        SendCreatedResponse_def when_def Let_def)
  next
    case prov
    then have np: "IsProvisional18x sc" by (simp add: IsProvisional18x_def)
    with go prov R p show ?thesis
      unfolding handle_response_def handle_18x_def
      by (cases "TransformEarlyToFinal (w_ss w i)") (simp_all add: sc [symmetric] StopNoTimers_def StopTimer_def set_ss_def answer_noted_def IsBeingEstablished_def
        SendCreatedResponse_def when_def Let_def get_body_def relayed_status_def response_pack_plain)
  qed
qed

text \<open>The call of the sample caller when its second leg, number 1, has been answered.\<close>

definition sample_answered :: world where
  "sample_answered = sample_caller\<lparr>w_msg := (w_msg sample_caller)(1 := sample_answer 200)\<rparr>"

lemma sample_relayable: "relayable sample_answered 1 0 1 0 0 0 (sample_addr ''10.0.0.3'')"
proof -
  have "answerable sample_answered 0 0 0 (sample_addr ''10.0.0.3'')"
    using asked_answerable [of INVITE BeingEstablished]
    by (simp add: answerable_def sample_answered_def sample_caller_def split: option.splits)
  moreover have "GetLastUnACKedINV 0 INBOUND sample_answered = Some 0"
    by (simp add: GetLastUnACKedINV_def txs_def sample_answered_def sample_caller_def asked_def Let_def zero_Transaction_def NewSS_def Find_def)
  moreover have "GetStatusCode (w_msg sample_answered 1) = 200" "Body (w_msg sample_answered 1) = None"
    by (simp_all add: sample_answered_def sample_answer_def sample_response_def Let_def GetStatusCode_def NewResponseMessage_def zero_SipMessage_def)
  ultimately show ?thesis
    by (simp add: relayable_def)
      (simp add: sample_answered_def sample_caller_def asked_def Let_def NewSS_def short_sdp_def)
qed

section \<open>Acknowledging an answer\<close>

definition ack_hop :: "SipSession \<Rightarrow> Transaction \<Rightarrow> UDPAddr option" where
  "ack_hop s x = (if \<not> RequireSameViaBranch x \<and> RemoteContactUDP s \<noteq> None then RemoteContactUDP s
     else if EgressProxy s \<noteq> None then EgressProxy s else remoteUDP s)"

text \<open>The INVITE of leg \<open>i\<close> in transaction \<open>t\<close> can be acknowledged, to \<open>p\<close>.\<close>

definition ackable :: "world \<Rightarrow> ss_id \<Rightarrow> tx_id \<Rightarrow> UDPAddr \<Rightarrow> bool" where
  "ackable w i t p \<longleftrightarrow> \<not> w_panic w \<and> Direction_ss (w_ss w i) = OUTBOUND \<and> GetUnACKedINVorReINV i w = Some t
     \<and> t < w_ntx w \<and> udpListenser (w_ss w i) \<noteq> None \<and> ack_hop (w_ss w i) (w_tx w t) = Some p
     \<and> (\<exists>m. RequestMessage (w_tx w t) = Some m \<and> m < w_nmsg w \<and> 0 \<le> MaxFwds (w_msg w m) \<and> MaxFwds (w_msg w m) \<le> 254)"

text \<open>The datagram of an ACK in a dialogue, for an INVITE with this sequence number.\<close>

definition is_ack :: "string \<Rightarrow> u32 \<Rightarrow> UDPAddr \<Rightarrow> datagram \<Rightarrow> bool" where
  "is_ack cid cs p d \<longleftrightarrow> dg_to d = p \<and> IsRequest (dg_msg d) \<and> GetMethod (dg_msg d) = ACK \<and> Bytes (dg_msg d) \<noteq> []
     \<and> header_values ''Call-ID'' (Headers (dg_msg d)) = [cid]
     \<and> header_values ''CSeq'' (Headers (dg_msg d)) = [dec_string (unat cs) @ '' ACK'']"

definition acked :: "ss_id \<Rightarrow> tx_id \<Rightarrow> UDPAddr \<Rightarrow> world \<Rightarrow> world \<Rightarrow> bool" where
  "acked i t p w w' \<longleftrightarrow> \<not> w_panic w' \<and> w_ss w' = w_ss w
     \<and> (\<forall>u. u \<noteq> t \<and> u \<noteq> w_ntx w \<longrightarrow> w_tx w' u = w_tx w u) \<and> (\<forall>m. m \<noteq> w_nmsg w \<longrightarrow> w_msg w' m = w_msg w m)
     \<and> IsACKed (w_tx w' t) \<and> w_drops w' = w_drops w \<and> w_Sessions w' = w_Sessions w
     \<and> (\<exists>d. w_out w' = w_out w @ [d] \<and> is_ack (CallID (w_ss w i)) (CSeq (w_tx w t)) p d)"

lemma wp_Send_ACK:
  assumes "\<not> w_panic v" "SentMessage (w_tx v st) = Some m" "Bytes (w_msg v m) = []" "MsgType (w_msg v m) = REQUEST"
    "Body (w_msg v m) = None" "udpListenser (w_ss v i) \<noteq> None" "Direction_tx (w_tx v st) = OUTBOUND" "Method_tx (w_tx v st) = ACK"
    and hop: "(if \<not> UseRemoteURI (w_tx v st) \<and> RemoteContactUDP (w_ss v i) \<noteq> None then RemoteContactUDP (w_ss v i)
        else if EgressProxy (w_ss v i) \<noteq> None then EgressProxy (w_ss v i) else remoteUDP (w_ss v i)) = Some p"
    and Q: "\<And>m'. PrepareMessageBytes None (w_msg v m) = Some m' \<Longrightarrow>
      Q () (v\<lparr>w_msg := (w_msg v)(m := m'), w_out := w_out v @ [\<lparr>dg_msg = m', dg_to = p\<rparr>]\<rparr>)"
  shows "wp (SendSTMessage i st) Q v"
proof -
  obtain a where a: "udpListenser (w_ss v i) = Some a" using assms(6) by blast
  obtain m' where m': "PrepareMessageBytes None (w_msg v m) = Some m'" using PrepareMessageBytes_empty by blast
  from Q [OF m'] show ?thesis
    using assms(1-5,7,8) hop a m'
    by (auto simp: SendSTMessage_def Send_def sendmessage_def get_body_def IsResponse_def when_def Let_def split: if_splits)
qed

lemma wp_prepareACK:
  assumes "\<not> w_panic w" "udpListenser (w_ss w i) \<noteq> None" "LinkedTransaction (w_tx w st) = Some t" "\<not> ResetMF (w_tx w st)"
    "RequestMessage (w_tx w t) = Some m" "0 \<le> MaxFwds (w_msg w m)" "MaxFwds (w_msg w m) \<le> 254"
    and Q: "\<And>h u. header_values ''Call-ID'' h = [CallID (w_ss w i)] \<Longrightarrow>
      Q (sip\<lparr>sm_StartLine := (sm_StartLine sip)\<lparr>RUri := u\<rparr>, Headers := h\<rparr>) w"
  shows "wp (prepareRequestHeaders i st (request_pack ACK) sip) Q w"
proof -
  obtain a where a: "udpListenser (w_ss w i) = Some a" using assms(2) by blast
  have mf: "\<exists>s. Int2Str (word_of_int (MaxFwds (w_msg w m))) = Some s" "\<exists>s. Int2Str (word_of_int 70) = Some s"
    using short_Int2Str [of "MaxFwds (w_msg w m) + 1"] short_Int2Str [of 71] assms(6,7) by auto
  show ?thesis
    using assms(1,3-5) a mf unfolding prepareRequestHeaders_def Let_def
    by (cases "LinkedSession (w_ss w i)")
       (auto simp: request_pack_def intro!: Q, auto simp: header_ops)
qed

lemma pack_fields: "rq_Method (request_pack m) = m" "rq_IsProbing (request_pack m) = False"
  by (simp_all add: request_pack_def)

lemma same_branch: "RequireSameViaBranch (x\<lparr>IsACKed := b\<rparr>) = RequireSameViaBranch x"
  by (simp add: RequireSameViaBranch_def AnyResponse_def)

lemma wp_send_acked:
  assumes A: "ackable w i t p" and v: "v = w\<lparr>w_ntx := Suc (w_ntx w), w_nmsg := Suc (w_nmsg w), w_seed := n,
      w_msg := (w_msg w)(w_nmsg w := msg), w_tx := (w_tx w)(t := y, w_ntx w := z)\<rparr>"
    and msg: "Bytes msg = []" "MsgType msg = REQUEST" "GetMethod msg = ACK" "Body msg = None"
      "header_values ''Call-ID'' (Headers msg) = [CallID (w_ss w i)]"
      "header_values ''CSeq'' (Headers msg) = [dec_string (unat (CSeq (w_tx w t))) @ '' ACK'']"
    and z: "SentMessage z = Some (w_nmsg w)" "Direction_tx z = OUTBOUND" "Method_tx z = ACK"
      "UseRemoteURI z = RequireSameViaBranch (w_tx w t)" and y: "IsACKed y"
  shows "wp (SendSTMessage i (w_ntx w)) (\<lambda>_. acked i t p w) v"
proof (rule wp_Send_ACK [where m = "w_nmsg w" and p = p], goal_cases)
  case (10 m')
  have m': "sm_StartLine m' = sm_StartLine msg" "MsgType m' = MsgType msg" "Bytes m' \<noteq> []"
    "\<And>n. ASCIIToLower n \<in> set protected_names \<Longrightarrow> header_values n (Headers m') = header_values n (Headers msg)"
    using PrepareMessageBytes_empty [of msg] 10 by (auto simp: v)
  then show ?case using A msg y
    by (simp add: v acked_def ackable_def is_ack_def IsRequest_def GetMethod_def protected_names_def)
qed (use A msg z in \<open>auto simp: v ackable_def ack_hop_def split: if_splits\<close>)

lemma wp_ACK:
  assumes "ackable w i t p"
  shows "wp (SendCreatedRequest i ACK None None) (\<lambda>_. acked i t p w) w"
proof -
  note A = assms [unfolded ackable_def]
  let ?st = "w_ntx w" and ?m = "w_nmsg w" and ?x = "w_tx w t"
  have t: "t \<noteq> ?st" using A by simp
  obtain cs where cs: "Uint32ToStr (CSeq ?x) = Some cs" "cs = dec_string (unat (CSeq ?x))" using Uint32ToStr_eq by blast
  have go: "wp (do {
         msg \<leftarrow> prepareRequestHeaders i ?st (request_pack ACK) (NewRequestMessage ACK []);
         m \<leftarrow> new_msg msg;
         processRequestHeaders i ?st m (request_pack ACK) None;
         upd_tx ?st (\<lambda>x. x\<lparr>IsProbing := False, RequestMessage := Some m, SentMessage := Some m\<rparr>);
         SendSTMessage i ?st }) (\<lambda>_. acked i t p w)
      (w\<lparr>w_seed := n, w_ntx := Suc ?st, w_tx := (w_tx w)(?st := zero_Transaction\<lparr>Method_tx := ACK, Direction_tx := OUTBOUND, CSeq := CSeq ?x,
             LinkedTransaction := Some t, UseRemoteURI := RequireSameViaBranch ?x, ViaBranch := b\<rparr>,
             t := ?x\<lparr>IsACKed := True, ACKTransaction := Some ?st\<rparr>)\<rparr>)" for n b
  proof -
    let ?w1 = "w\<lparr>w_seed := n, w_ntx := Suc ?st, w_tx := (w_tx w)(?st := zero_Transaction\<lparr>Method_tx := ACK, Direction_tx := OUTBOUND, CSeq := CSeq ?x,
             LinkedTransaction := Some t, UseRemoteURI := RequireSameViaBranch ?x, ViaBranch := b\<rparr>,
             t := ?x\<lparr>IsACKed := True, ACKTransaction := Some ?st\<rparr>)\<rparr>"
    from A obtain im where im: "RequestMessage ?x = Some im" "0 \<le> MaxFwds (w_msg w im)" "MaxFwds (w_msg w im) \<le> 254" by auto
    have "wp (prepareRequestHeaders i ?st (request_pack ACK) (NewRequestMessage ACK [])) (\<lambda>msg. wp (do {
         m \<leftarrow> new_msg msg;
         processRequestHeaders i ?st m (request_pack ACK) None;
         upd_tx ?st (\<lambda>x. x\<lparr>IsProbing := False, RequestMessage := Some m, SentMessage := Some m\<rparr>);
         SendSTMessage i ?st }) (\<lambda>_. acked i t p w)) ?w1"
    proof (rule wp_prepareACK [where t = t and m = im])
      fix h u assume h: "header_values ''Call-ID'' h = [CallID (w_ss ?w1 i)]"
      show "wp (do {
         m \<leftarrow> new_msg ((NewRequestMessage ACK [])\<lparr>sm_StartLine := (sm_StartLine (NewRequestMessage ACK []))\<lparr>RUri := u\<rparr>, Headers := h\<rparr>);
         processRequestHeaders i ?st m (request_pack ACK) None;
         upd_tx ?st (\<lambda>x. x\<lparr>IsProbing := False, RequestMessage := Some m, SentMessage := Some m\<rparr>);
         SendSTMessage i ?st }) (\<lambda>_. acked i t p w) ?w1"
        using A t cs h
        by (simp add: new_msg_def processRequestHeaders_def ParseNPrepareSDP_None when_def
          request_pack_def add_custom_def NewSipHeaders_def GetMethod_def NewRequestMessage_def)
         (intro conjI impI; rule wp_send_acked [OF assms refl];
          simp add: zero_SipMessage_def zero_Transaction_def zero_StartLine_def header_ops GetMethod_def)
    qed (use A t im in \<open>simp_all add: zero_Transaction_def\<close>)
    then show ?thesis by simp
  qed
  show ?thesis
    using A t go [where n = "w_seed w" and b = "ViaBranch ?x"] go [where n = "Suc (w_seed w)" and b = "MagicCookie @ drop 24 (e_uuid (w_env w) (w_seed w))"]
    unfolding SendCreatedRequest_def SendCreatedRequestDetailed_def addOutgoingRequest_def
    by (auto simp: when_def pack_fields acknowledge_def CreateACKST_def Let_def same_branch)
qed
section \<open>A refusal by the second leg\<close>

text \<open>
  The answer \<open>mid\<close> refuses the INVITE of leg \<open>i\<close> in transaction \<open>t\<close>, which can be acknowledged to
  \<open>p\<close>, while leg \<open>l\<close>, of other transactions, still waits with its INVITE in transaction \<open>u\<close>.
\<close>

definition refused_leg :: "world \<Rightarrow> ss_id \<Rightarrow> tx_id \<Rightarrow> msg_id \<Rightarrow> UDPAddr \<Rightarrow> ss_id \<Rightarrow> tx_id \<Rightarrow> msg_id \<Rightarrow> UDPAddr \<Rightarrow> bool" where
  "refused_leg w i t mid p l u r a \<longleftrightarrow>
     Method_tx (w_tx w t) = INVITE \<and> LinkedSession (w_ss w i) = Some l \<and> l \<noteq> i
     \<and> ss_state (w_ss w i) = BeingEstablished \<and> \<not> TransformEarlyToFinal (w_ss w i) \<and> ackable w i t p
     \<and> 400 \<le> GetStatusCode (w_msg w mid) \<and> GetStatusCode (w_msg w mid) \<le> 699 \<and> headers_wf (Headers (w_msg w mid))
     \<and> GetLastUnACKedINV l INBOUND w = Some u \<and> answerable w l u r a \<and> r < w_nmsg w
     \<and> Direction_ss (w_ss w l) = INBOUND \<and> ss_state (w_ss w l) = BeingEstablished
     \<and> (\<forall>x \<in> set (Transactions (w_ss w l)). x < w_ntx w \<and> x \<noteq> t)"

lemma ackable_set_ss:
  assumes "\<And>s. Direction_ss (f s) = Direction_ss s \<and> Transactions (f s) = Transactions s \<and> udpListenser (f s) = udpListenser s
    \<and> RemoteContactUDP (f s) = RemoteContactUDP s \<and> EgressProxy (f s) = EgressProxy s \<and> remoteUDP (f s) = remoteUDP s"
  shows "ackable (set_ss i f w) i t p = ackable w i t p"
proof -
  have "GetUnACKedINVorReINV i (set_ss i f w) = GetUnACKedINVorReINV i w"
    using assms by (simp add: GetUnACKedINVorReINV_def find_tx_def txs_def)
  then show ?thesis using assms by (simp add: ackable_def ack_hop_def) (simp add: set_ss_def)
qed

lemma Find_in: "Find P xs = Some x \<Longrightarrow> x \<in> set xs"
  by (auto simp: Find_def find_Some_iff)

lemma wp_reroute:
  assumes "answerable w l u r a" "GetLastUnACKedINV l INBOUND w = Some u" "100 \<le> sc" "sc \<le> 699" "\<not> IsProvisional18x sc"
    and "Direction_ss (w_ss w l) = INBOUND" "ss_state (w_ss w l) = BeingEstablished" "rp_StatusCode rp = sc"
  shows "wp (RerouteRequest (Some l) rp)
     (\<lambda>_. answered l u r a sc (set_ss l (\<lambda>s. s\<lparr>LinkedSession := None, ss_state := BeingFailed\<rparr>) w)) w"
proof -
  let ?w = "set_ss l (\<lambda>s. s\<lparr>LinkedSession := None\<rparr>) w"
  have p: "\<not> w_panic w" using assms(1) by (simp add: answerable_def)
  have ans: "answerable ?w l u r a" using assms(1) by (subst answerable_set_ss) simp_all
  have q: "NewSHQ850OrSIP q850_NormalUnspecified d [] \<noteq> None" for d by (auto simp: NewSHQ850OrSIP_def Let_def Int2Str_eq)
  have eq: "set_ss l (\<lambda>s. s\<lparr>ss_state := BeingFailed\<rparr>) ?w = set_ss l (\<lambda>s. s\<lparr>LinkedSession := None, ss_state := BeingFailed\<rparr>) w"
    by (simp add: set_ss_def)
  have "wp (reject l u sc q850_NormalUnspecified (reroute_reason sc)) (\<lambda>_ w'. \<not> w_panic w' \<and>
      answered l u r a sc (set_ss l (\<lambda>s. s\<lparr>LinkedSession := None, ss_state := BeingFailed\<rparr>) w) w') ?w"
    by (rule wp_reject [OF ans assms(3-5) q]) (use assms(6,7) eq in \<open>simp_all add: answered_def\<close>)
  then show ?thesis
    unfolding RerouteRequest_def using assms(2,6-8) p
    by (intro wp_protect) (simp_all add: reject_def IsBeingEstablished_def set_ss_def del: wp_states(4))
qed

lemma status_Int2Str:
  assumes "100 \<le> (sc :: int)" "sc \<le> 699"
  shows "\<exists>s. Int2Str (word_of_int sc) = Some s"
proof -
  obtain k where k: "sc = int k" "k < 700" using that [of "nat sc"] assms by simp
  have "sint (word_of_nat k :: u64) = int k" using k(2) by (simp add: signed_take_bit_int_eq_self signed_of_nat)
  then show ?thesis unfolding k(1) by (simp, subst Int2Str_eq) (use k(2) in simp_all)
qed

lemma pack_SRW_status:
  "100 \<le> sc \<Longrightarrow> sc \<le> 699 \<Longrightarrow> \<exists>rp. NewResponsePackSRW sc warning reason = Some rp \<and> rp_StatusCode rp = sc"
  using status_Int2Str [of sc] by (auto simp: NewResponsePackSRW_def NewSHQ850OrSIP_def Let_def response_pack_def)

definition rejecting :: "SipSession \<Rightarrow> SipSession" where
  "rejecting s = s\<lparr>no18xSTimer := stop_timer (no18xSTimer s), noAnsSTimer := stop_timer (noAnsSTimer s), ss_state := Rejected\<rparr>"

lemma handle_refusal:
  assumes "refused_leg w i t mid p l u r a" and sc: "sc = GetStatusCode (w_msg w mid)"
  shows "wp (handle_response i t mid) (\<lambda>_ w'. \<exists>w1. acked i t p (set_ss i rejecting w) w1 \<and>
     answered l u r a sc (set_ss l (\<lambda>s. s\<lparr>LinkedSession := None, ss_state := BeingFailed\<rparr>) (w1\<lparr>w_drops := w_drops w1 @ [i]\<rparr>)) w') w"
    (is "wp _ ?Q w")
proof -
  note R = assms(1) [unfolded refused_leg_def, folded sc]
  let ?w = "set_ss i rejecting w"
  have p: "\<not> w_panic w" using R by (simp add: answerable_def)
  have "ackable ?w i t p" using R by (subst ackable_set_ss) (simp_all add: rejecting_def)
  then have ack: "wp (SendCreatedRequest i ACK None None) (\<lambda>_. acked i t p ?w) ?w" by (rule wp_ACK)
  have rest: "wp (do { DropMeTimed i; s1 \<leftarrow> get_ss i;
      if TransformEarlyToFinal s1 then X else do {
         reason \<leftarrow> deref [] (ValueHeader Reason_hdr (Headers (w_msg w mid)));
         rp \<leftarrow> pack_SRW (GetStatusCode (w_msg w mid)) ''Call failed or rejected'' reason;
         RerouteRequest (Some l) rp
       } }) ?Q w1" if w1: "acked i t p ?w w1" for w1 X
  proof -
    let ?w2 = "w1\<lparr>w_drops := w_drops w1 @ [i]\<rparr>"
    have u: "u \<in> set (Transactions (w_ss w l))" using R by (auto simp: GetLastUnACKedINV_def txs_def dest: Find_in)
    note W = w1 [unfolded acked_def]
    have l: "w_ss w1 l = w_ss w l" "w_ss w1 i = rejecting (w_ss w i)" using W R by (simp_all add: set_ss_def)
    have same: "w_tx w1 x = w_tx w x" if "x \<in> set (Transactions (w_ss w l))" for x
      using W R that by (auto simp: set_ss_def)
    have "answerable ?w2 l u r a" using R W l(1) same [OF u] by (auto simp: answerable_def set_ss_def split: option.splits)
    moreover have "GetLastUnACKedINV l INBOUND ?w2 = GetLastUnACKedINV l INBOUND w"
      unfolding GetLastUnACKedINV_def Find_def using same l(1) by (intro find_cong) (simp_all add: txs_def)
    moreover obtain rp where rp: "NewResponsePackSRW sc ''Call failed or rejected'' (first_value ''Reason'' (Headers (w_msg w mid))) = Some rp"
      "rp_StatusCode rp = sc" using pack_SRW_status [of sc] R by force
    ultimately have "wp (RerouteRequest (Some l) rp) (\<lambda>_. answered l u r a sc
        (set_ss l (\<lambda>s. s\<lparr>LinkedSession := None, ss_state := BeingFailed\<rparr>) ?w2)) ?w2"
      using R l(1) by (intro wp_reroute) (simp_all add: IsProvisional18x_def)
    then have "wp (RerouteRequest (Some l) rp) ?Q ?w2" by (rule wp_mono) (use w1 in blast)
    then show ?thesis
      using W R l(2) rp by (simp add: DropMeTimed_def ValueHeader_first pack_SRW_def rejecting_def sc [symmetric])
  qed
  have "wp (SendCreatedRequest i ACK None None) (\<lambda>_. wp (do { DropMeTimed i; s1 \<leftarrow> get_ss i;
      if TransformEarlyToFinal s1 then X else do {
         reason \<leftarrow> deref [] (ValueHeader Reason_hdr (Headers (w_msg w mid)));
         rp \<leftarrow> pack_SRW (GetStatusCode (w_msg w mid)) ''Call failed or rejected'' reason;
         RerouteRequest (Some l) rp
       } }) ?Q) ?w" for X
    by (rule wp_mono [OF ack]) (rule rest)
  moreover have "Direction_ss (w_ss w i) = OUTBOUND" using R by (simp add: ackable_def)
  ultimately show ?thesis
    using R p unfolding handle_response_def handle_failure_def handle_failed_INVITE_def Ack3xxTo6xx_def
    by (simp add: sc [symmetric] StopNoTimers_def StopTimer_def set_ss_def rejecting_def wp_SetState when_def Let_def)
qed

text \<open>The call of the sample caller when its second leg, number 1, has been refused as busy.\<close>

definition sample_busy :: world where
  "sample_busy = sample_caller\<lparr>w_ss := (w_ss sample_caller)(1 := (w_ss sample_caller 1)\<lparr>Transactions := [1]\<rparr>),
     w_tx := (w_tx sample_caller)(1 := zero_Transaction\<lparr>Method_tx := INVITE, Direction_tx := OUTBOUND, RequestMessage := Some 0,
       CSeq := 7, Responses := [486]\<rparr>), w_ntx := 2,
     w_msg := (w_msg sample_caller)(1 := sample_answer 486), w_nmsg := 2\<rparr>"

lemma sample_refused: "refused_leg sample_busy 1 1 1 (sample_addr ''10.0.0.2'') 0 0 0 (sample_addr ''10.0.0.3'')"
proof -
  have "answerable sample_busy 0 0 0 (sample_addr ''10.0.0.3'')"
    using asked_answerable [of INVITE BeingEstablished]
    by (simp add: answerable_def sample_busy_def sample_caller_def split: option.splits)
  moreover have "GetLastUnACKedINV 0 INBOUND sample_busy = Some 0" "GetUnACKedINVorReINV 1 sample_busy = Some 1"
    by (simp_all add: GetLastUnACKedINV_def GetUnACKedINVorReINV_def find_tx_def txs_def sample_busy_def sample_caller_def asked_def
      Let_def zero_Transaction_def NewSS_def Find_def RequiresACK_def)
  moreover have "GetStatusCode (w_msg sample_busy 1) = 486" "headers_wf (Headers (w_msg sample_busy 1))"
    by (simp_all add: sample_busy_def sample_answer_def sample_response_def Let_def GetStatusCode_def NewResponseMessage_def
      zero_SipMessage_def sample_headers_wf)
  moreover have "ack_hop (w_ss sample_busy 1) (w_tx sample_busy 1) = Some (sample_addr ''10.0.0.2'')"
    by (simp add: ack_hop_def sample_busy_def sample_caller_def asked_def Let_def NewSS_def)
  moreover have "\<not> w_panic sample_busy" using sample_started(2) by (simp add: sample_busy_def sample_caller_def asked_def Let_def)
  ultimately show ?thesis
    by (simp add: refused_leg_def ackable_def)
      (simp add: sample_busy_def sample_caller_def asked_def Let_def NewSS_def sample_request_def)
qed

section \<open>Answers that are only acknowledged\<close>

text \<open>
  A 2xx after an early answer has been turned into the final one, and a refusal of an INVITE that
  has been cancelled: the caller has its answer already.
\<close>

definition answered_early :: "world \<Rightarrow> ss_id \<Rightarrow> tx_id \<Rightarrow> msg_id \<Rightarrow> UDPAddr \<Rightarrow> bool" where
  "answered_early w i t mid p \<longleftrightarrow>
     Method_tx (w_tx w t) = INVITE \<and> LinkedSession (w_ss w i) \<noteq> None \<and> ackable w i t p
     \<and> ss_state (w_ss w i) = BeingEstablished \<and> TransformEarlyToFinal (w_ss w i) \<and> received18xSDP (w_ss w i)
     \<and> 200 \<le> GetStatusCode (w_msg w mid) \<and> GetStatusCode (w_msg w mid) \<le> 299"

definition cancelled_leg :: "world \<Rightarrow> ss_id \<Rightarrow> tx_id \<Rightarrow> msg_id \<Rightarrow> UDPAddr \<Rightarrow> bool" where
  "cancelled_leg w i t mid p \<longleftrightarrow>
     Method_tx (w_tx w t) = INVITE \<and> LinkedSession (w_ss w i) \<noteq> None \<and> ackable w i t p
     \<and> ss_state (w_ss w i) = BeingCancelled \<and> 400 \<le> GetStatusCode (w_msg w mid)"

lemma handle_answered_early:
  assumes "answered_early w i t mid p"
  shows "wp (handle_response i t mid) (\<lambda>_. acked i t p (set_ss i (\<lambda>s. s\<lparr>no18xSTimer := stop_timer (no18xSTimer s),
    noAnsSTimer := stop_timer (noAnsSTimer s), TransformEarlyToFinal := False, ss_state := Established\<rparr>) w)) w"
    (is "wp _ (\<lambda>_. acked i t p ?w) w")
proof -
  note A = assms [unfolded answered_early_def]
  have "ackable ?w i t p" using A by (subst ackable_set_ss) simp_all
  then have "wp (SendCreatedRequest i ACK None None) (\<lambda>_. acked i t p ?w) ?w" by (rule wp_ACK)
  moreover have "\<not> w_panic w" using A by (simp add: ackable_def)
  ultimately show ?thesis
    using A unfolding handle_response_def handle_2xx_def handle_2xx_INVITE_def
    by (auto simp: StopNoTimers_def StopTimer_def set_ss_def IsBeingEstablished_def when_def Let_def wp_FinalizeState)
qed

lemma handle_cancelled:
  assumes "cancelled_leg w i t mid p"
  shows "wp (handle_response i t mid) (\<lambda>_ w'. \<exists>w1. acked i t p (set_ss i (\<lambda>s. s\<lparr>ss_state := Cancelled\<rparr>) w) w1
    \<and> w' = w1\<lparr>w_drops := w_drops w1 @ [i]\<rparr>) w"
    (is "wp _ (\<lambda>_ w'. \<exists>w1. acked i t p ?w w1 \<and> _ w' w1) w")
proof -
  note A = assms [unfolded cancelled_leg_def]
  have "ackable ?w i t p" using A by (subst ackable_set_ss) simp_all
  then have ack: "wp (SendCreatedRequest i ACK None None) (\<lambda>_. acked i t p ?w) ?w" by (rule wp_ACK)
  have "wp (SendCreatedRequest i ACK None None) (\<lambda>_. wp (DropMeTimed i) (\<lambda>_ w'. \<exists>w1. acked i t p ?w w1
    \<and> w' = w1\<lparr>w_drops := w_drops w1 @ [i]\<rparr>)) ?w"
    by (rule wp_mono [OF ack]) (auto simp: DropMeTimed_def acked_def)
  moreover have "\<not> w_panic w" "Direction_ss (w_ss w i) = OUTBOUND" using A by (simp_all add: ackable_def)
  ultimately show ?thesis
    using A unfolding handle_response_def handle_failure_def handle_failed_INVITE_def Ack3xxTo6xxFinalize_def
    by (auto simp: set_ss_def when_def Let_def wp_FinalizeState)
qed

text \<open>The same leg when its early answer had been made final, and when its INVITE was cancelled.\<close>

definition sample_early :: world where
  "sample_early = sample_busy\<lparr>w_ss := (w_ss sample_busy)(1 := (w_ss sample_busy 1)\<lparr>TransformEarlyToFinal := True, received18xSDP := True\<rparr>),
     w_msg := (w_msg sample_busy)(1 := sample_answer 200)\<rparr>"

definition sample_cancelled :: world where
  "sample_cancelled = sample_busy\<lparr>w_ss := (w_ss sample_busy)(1 := (w_ss sample_busy 1)\<lparr>ss_state := BeingCancelled\<rparr>)\<rparr>"

lemma sample_acked_only:
  "answered_early sample_early 1 1 1 (sample_addr ''10.0.0.2'')"
  "cancelled_leg sample_cancelled 1 1 1 (sample_addr ''10.0.0.2'')"
proof -
  note R = sample_refused [unfolded refused_leg_def]
  have a: "ackable sample_busy 1 1 (sample_addr ''10.0.0.2'')" using R by simp
  have f: "set_ss 1 (\<lambda>s. s\<lparr>TransformEarlyToFinal := True, received18xSDP := True\<rparr>) sample_busy
      = sample_busy\<lparr>w_ss := (w_ss sample_busy)(1 := (w_ss sample_busy 1)\<lparr>TransformEarlyToFinal := True, received18xSDP := True\<rparr>)\<rparr>"
    "set_ss 1 (\<lambda>s. s\<lparr>ss_state := BeingCancelled\<rparr>) sample_busy = sample_cancelled"
    by (simp_all add: set_ss_def sample_cancelled_def)
  have m: "MaxFwds (sample_answer 200) = MaxFwds (sample_answer 486)"
    by (simp add: sample_answer_def sample_response_def NewResponseMessage_def Let_def)
  have "ackable (set_ss 1 (\<lambda>s. s\<lparr>TransformEarlyToFinal := True, received18xSDP := True\<rparr>) sample_busy) 1 1 (sample_addr ''10.0.0.2'')"
    using a by (subst ackable_set_ss) simp_all
  then have "ackable sample_early 1 1 (sample_addr ''10.0.0.2'')"
    unfolding f ackable_def ack_hop_def using m
    by (auto simp: sample_early_def GetUnACKedINVorReINV_def find_tx_def txs_def sample_busy_def)
  moreover have "ackable sample_cancelled 1 1 (sample_addr ''10.0.0.2'')"
    unfolding f(2) [symmetric] using a by (subst ackable_set_ss) simp_all
  moreover have "GetStatusCode (sample_answer 200) = 200" "GetStatusCode (w_msg sample_busy 1) = 486"
    by (simp_all add: sample_busy_def sample_answer_def sample_response_def Let_def GetStatusCode_def NewResponseMessage_def zero_SipMessage_def)
  ultimately show "answered_early sample_early 1 1 1 (sample_addr ''10.0.0.2'')"
    "cancelled_leg sample_cancelled 1 1 1 (sample_addr ''10.0.0.2'')"
    using R by (simp_all add: answered_early_def cancelled_leg_def sample_early_def) (simp_all add: sample_cancelled_def)
qed

section \<open>Properties\<close>

text \<open>C7: The INVITE of a linked second leg that is being established is answered. While no early
  answer has been made final, a 2xx - and an 18x with SDP and without 100rel, while the caller's
  leg is being established too - makes exactly one datagram go out, if the body is SDP or none
  and the SDP library prints less than ten billion bytes: an answer to the INVITE that the
  caller's leg waits with, to the caller, with that status and that body and with the Via
  headers, the From, the CSeq and the Call-ID of the caller's dialogue; when the route turns
  early media into an answer, an 18x reaches the caller as 200; no leg changes its state before
  the caller's ACK. Once an 18x has been turned into the final answer, a 2xx to an INVITE that can
  be acknowledged - the leg has its socket and a next hop, the INVITE at most 254 hops left - is
  only acknowledged: one ACK to the callee, in its dialogue, and that leg is established, no
  other leg changing its state.\<close>

theorem callee_answer_relayed:
  "let w' = snd (run_state (handle_response i t mid) w); m = w_msg w mid; sc = GetStatusCode m in
    (relayable w i t mid l u r a \<longrightarrow>
      \<not> w_panic w' \<and> w_Sessions w' = w_Sessions w \<and> (\<forall>j. ss_state (w_ss w' j) = ss_state (w_ss w j))
      \<and> (\<exists>d. w_out w' = w_out w @ [d] \<and> Body (dg_msg d) = Body m
         \<and> is_answer (Headers (w_msg w r)) (CallID (w_ss w l))
             (if 180 \<le> sc \<and> sc \<le> 189 \<and> TransformEarlyToFinal (w_ss w i) then 200 else sc) a d))
    \<and> (answered_early w i t mid p \<longrightarrow>
      \<not> w_panic w' \<and> w_Sessions w' = w_Sessions w
      \<and> (\<forall>j. ss_state (w_ss w' j) = (if j = i then Established else ss_state (w_ss w j)))
      \<and> (\<exists>d. w_out w' = w_out w @ [d] \<and> is_ack (CallID (w_ss w i)) (CSeq (w_tx w t)) p d))"
proof -
  let ?w' = "snd (run_state (handle_response i t mid) w)" and ?sc = "GetStatusCode (w_msg w mid)"
  have "?thesis" if "\<not> relayable w i t mid l u r a" "answered_early w i t mid p \<Longrightarrow> acked i t p
    (set_ss i (\<lambda>s. s\<lparr>no18xSTimer := stop_timer (no18xSTimer s), noAnsSTimer := stop_timer (noAnsSTimer s),
      TransformEarlyToFinal := False, ss_state := Established\<rparr>) w) ?w'"
    using that by (auto simp: Let_def acked_def set_ss_def)
  moreover have "?thesis" if R: "relayable w i t mid l u r a"
  proof -
    have r: "replied l r a (relayed_status (w_ss w i) ?sc) (Body (w_msg w mid)) (set_ss i (answer_noted ?sc) w) ?w'"
      using handle_response_relays [OF R refl] by (simp add: wp_def)
    then have s: "sends (set_ss i (answer_noted ?sc) w) ?w'" by (simp add: replied_def)
    have "\<not> answered_early w i t mid p" using R by (auto simp: relayable_def answered_early_def)
    then show ?thesis
      using r sends_state(1) [OF s] sends_fields(1) [OF s] R
      by (auto simp: replied_def relayed_status_def IsProvisional18x_def answer_noted_fields Let_def relayable_def)
  qed
  moreover have "answered_early w i t mid p \<Longrightarrow> acked i t p
    (set_ss i (\<lambda>s. s\<lparr>no18xSTimer := stop_timer (no18xSTimer s), noAnsSTimer := stop_timer (noAnsSTimer s),
      TransformEarlyToFinal := False, ss_state := Established\<rparr>) w) ?w'"
    using handle_answered_early [of w i t mid p] by (simp add: wp_def)
  ultimately show ?thesis by blast
qed

theorem callee_answer_relayed_witness:
  "(\<exists>d. w_out (snd (run_state (handle_response 1 0 1) sample_answered)) = w_out sample_answered @ [d]
     \<and> dg_to d = sample_addr ''10.0.0.3'' \<and> header_values ''Call-ID'' (Headers (dg_msg d)) = [''c1''])
   \<and> (\<exists>d. w_out (snd (run_state (handle_response 1 1 1) sample_early)) = w_out sample_early @ [d]
     \<and> dg_to d = sample_addr ''10.0.0.2'' \<and> GetMethod (dg_msg d) = ACK)"
proof -
  have "CallID (w_ss sample_answered 0) = ''c1''"
    by (simp add: sample_answered_def sample_caller_def asked_def Let_def)
  with callee_answer_relayed [of 1 0 1 sample_answered 0 0 0 "sample_addr ''10.0.0.3''"] sample_relayable
  have "\<exists>d. w_out (snd (run_state (handle_response 1 0 1) sample_answered)) = w_out sample_answered @ [d]
     \<and> dg_to d = sample_addr ''10.0.0.3'' \<and> header_values ''Call-ID'' (Headers (dg_msg d)) = [''c1'']"
    unfolding Let_def is_answer_def answer_headers_def by metis
  moreover from callee_answer_relayed [of 1 1 1 sample_early _ _ _ _ "sample_addr ''10.0.0.2''"] sample_acked_only(1)
  have "\<exists>d. w_out (snd (run_state (handle_response 1 1 1) sample_early)) = w_out sample_early @ [d]
     \<and> dg_to d = sample_addr ''10.0.0.2'' \<and> GetMethod (dg_msg d) = ACK"
    unfolding Let_def is_ack_def by metis
  ultimately show ?thesis ..
qed

text \<open>C8: The INVITE of a linked second leg, which can be acknowledged (its socket and next hop are
  known, at most 254 hops are left), is refused with 400 or above. While both legs are being
  established and the route does not turn early media into an answer, exactly two datagrams go
  out: the ACK to the callee, in the dialogue of the second leg, and the refusal with the same
  status to the caller, in answer to the INVITE that the caller's leg waits with; the second leg
  is rejected and due to be dropped, the caller's leg is being failed and no longer linked. When
  the leg is being cancelled instead, the refusal is only acknowledged: that ACK is the one datagram,
  the leg is cancelled and due to be dropped, and no other leg changes its state.\<close>

theorem callee_refusal_relayed:
  "let w' = snd (run_state (handle_response i t mid) w) in
    (refused_leg w i t mid p l u r a \<longrightarrow>
      \<not> w_panic w' \<and> w_drops w' = w_drops w @ [i] \<and> w_Sessions w' = w_Sessions w
      \<and> ss_state (w_ss w' i) = Rejected \<and> ss_state (w_ss w' l) = BeingFailed \<and> LinkedSession (w_ss w' l) = None
      \<and> (\<exists>d1 d2. w_out w' = w_out w @ [d1, d2] \<and> is_ack (CallID (w_ss w i)) (CSeq (w_tx w t)) p d1
         \<and> is_answer (Headers (w_msg w r)) (CallID (w_ss w l)) (GetStatusCode (w_msg w mid)) a d2))
    \<and> (cancelled_leg w i t mid p \<longrightarrow>
      \<not> w_panic w' \<and> w_drops w' = w_drops w @ [i] \<and> w_Sessions w' = w_Sessions w
      \<and> (\<forall>j. ss_state (w_ss w' j) = (if j = i then Cancelled else ss_state (w_ss w j)))
      \<and> (\<exists>d. w_out w' = w_out w @ [d] \<and> is_ack (CallID (w_ss w i)) (CSeq (w_tx w t)) p d))"
proof -
  let ?w' = "snd (run_state (handle_response i t mid) w)" and ?sc = "GetStatusCode (w_msg w mid)"
  let ?f = "\<lambda>s. s\<lparr>LinkedSession := None, ss_state := BeingFailed\<rparr>"
  have "?thesis" if "\<not> refused_leg w i t mid p l u r a" "cancelled_leg w i t mid p \<Longrightarrow> \<exists>w1. acked i t p
    (set_ss i (\<lambda>s. s\<lparr>ss_state := Cancelled\<rparr>) w) w1 \<and> ?w' = w1\<lparr>w_drops := w_drops w1 @ [i]\<rparr>"
    using that by (auto simp: Let_def acked_def set_ss_def)
  moreover have "?thesis" if R: "refused_leg w i t mid p l u r a"
  proof -
    from handle_refusal [OF R refl] obtain w1 where w1: "acked i t p (set_ss i rejecting w) w1"
      and a: "answered l u r a ?sc (set_ss l ?f (w1\<lparr>w_drops := w_drops w1 @ [i]\<rparr>)) ?w'" (is "answered _ _ _ _ _ ?w2 _")
      by (auto simp: wp_def)
    have s: "sends ?w2 ?w'" "\<not> w_panic ?w'" using answered_sends [OF a] by auto
    have "l \<noteq> i" "r \<noteq> w_nmsg w" "\<not> cancelled_leg w i t mid p" using R by (auto simp: refused_leg_def cancelled_leg_def)
    then show ?thesis
      using w1 sends_state(1,2) [OF s(1)] sends_fields(1,8) [OF s(1)] s(2) answered_out [OF a]
      by (auto simp: Let_def acked_def set_ss_def rejecting_def)
  qed
  moreover have "cancelled_leg w i t mid p \<Longrightarrow> \<exists>w1. acked i t p (set_ss i (\<lambda>s. s\<lparr>ss_state := Cancelled\<rparr>) w) w1
    \<and> ?w' = w1\<lparr>w_drops := w_drops w1 @ [i]\<rparr>"
    using handle_cancelled [of w i t mid p] by (simp add: wp_def)
  ultimately show ?thesis by blast
qed

theorem callee_refusal_relayed_witness:
  "ss_state (w_ss (snd (run_state (handle_response 1 1 1) sample_busy)) 0) = BeingFailed
   \<and> (\<exists>d1 d2. w_out (snd (run_state (handle_response 1 1 1) sample_busy)) = w_out sample_busy @ [d1, d2]
        \<and> dg_to d1 = sample_addr ''10.0.0.2'' \<and> dg_to d2 = sample_addr ''10.0.0.3'' \<and> GetStatusCode (dg_msg d2) = 486)
   \<and> (\<exists>d. w_out (snd (run_state (handle_response 1 1 1) sample_cancelled)) = w_out sample_cancelled @ [d]
        \<and> dg_to d = sample_addr ''10.0.0.2'' \<and> GetMethod (dg_msg d) = ACK)"
proof -
  have "GetStatusCode (w_msg sample_busy 1) = 486"
    by (simp add: sample_busy_def sample_answer_def sample_response_def Let_def GetStatusCode_def NewResponseMessage_def zero_SipMessage_def)
  with callee_refusal_relayed [of 1 1 1 sample_busy "sample_addr ''10.0.0.2''" 0 0 0 "sample_addr ''10.0.0.3''"] sample_refused
  have "ss_state (w_ss (snd (run_state (handle_response 1 1 1) sample_busy)) 0) = BeingFailed
   \<and> (\<exists>d1 d2. w_out (snd (run_state (handle_response 1 1 1) sample_busy)) = w_out sample_busy @ [d1, d2]
        \<and> dg_to d1 = sample_addr ''10.0.0.2'' \<and> dg_to d2 = sample_addr ''10.0.0.3'' \<and> GetStatusCode (dg_msg d2) = 486)"
    unfolding Let_def is_answer_def is_ack_def by metis
  moreover from callee_refusal_relayed [of 1 1 1 sample_cancelled "sample_addr ''10.0.0.2''"] sample_acked_only(2)
  have "\<exists>d. w_out (snd (run_state (handle_response 1 1 1) sample_cancelled)) = w_out sample_cancelled @ [d]
        \<and> dg_to d = sample_addr ''10.0.0.2'' \<and> GetMethod (dg_msg d) = ACK"
    unfolding Let_def is_ack_def by metis
  ultimately show ?thesis by blast
qed

end
