(* ===== verification/Call_Setup.thy ===== *)
theory Call_Setup
  imports Answer_Relay
begin

text \<open>
  A call from its first packet on: what the handling of a received INVITE, from the session map
  over the limiter and the transaction to the second leg, does to an idle Call-ID.
\<close>

section \<open>A new call\<close>

text \<open>An INVITE that starts a call and that nothing refuses before it is routed.\<close>

definition calling :: "world \<Rightarrow> SipMessage \<Rightarrow> MessageBody option \<Rightarrow> bool" where
  "calling w m mb \<longleftrightarrow> \<not> w_panic w \<and> IsRequest m \<and> GetMethod m = INVITE \<and> sm_ToTag m = [] \<and> headers_wf (Headers m)
     \<and> IsKnownRURIScheme m \<and> \<not> HeaderExists ''Require'' (Headers m) \<and> MinMaxFwds < MaxFwds m \<and> MaxFwds m \<le> 255
     \<and> (case mb of None \<Rightarrow> True | Some x \<Rightarrow> short_body x)
     \<and> Load (w_Sessions w) (sm_CallID m) = None \<and> fst (AcceptNewCall (w_limiter w))"

text \<open>The world when the INVITE of a new call is handed to its handler.\<close>

definition call_noted :: "world \<Rightarrow> SipMessage \<Rightarrow> MessageBody option \<Rightarrow> UDPAddr \<Rightarrow> UDPAddr \<Rightarrow> world \<Rightarrow> bool" where
  "call_noted w m mb src conn w0 \<longleftrightarrow>
     (let i = w_nss w; t = w_ntx w; mid = w_nmsg w; s = w_ss w0 i in
      \<not> w_panic w0 \<and> w_out w0 = w_out w \<and> w_nss w0 = Suc i \<and> w_ntx w0 = Suc t \<and> w_nmsg w0 = Suc mid
      \<and> w_env w0 = w_env w \<and> w_phones w0 = w_phones w \<and> w_routes w0 = w_routes w \<and> w_SkipAS w0 = w_SkipAS w
      \<and> w_sippTesting w0 = w_sippTesting w \<and> w_ProxyUdpServer w0 = w_ProxyUdpServer w
      \<and> w_Sessions w0 = Store (sm_CallID m) i (w_Sessions w)
      \<and> w_msg w0 mid = m\<lparr>Body := map_option (\<lambda>_. w_nbody w) mb\<rparr> \<and> (\<forall>x. mb = Some x \<longrightarrow> w_body w0 (w_nbody w) = x)
      \<and> RequestMessage (w_tx w0 t) = Some mid \<and> ViaUdpAddr (w_tx w0 t) = sm_ViaUdpAddr m
      \<and> Transactions s = [t] \<and> ss_state s = BeingEstablished \<and> remoteUDP s = Some src \<and> udpListenser s = Some conn
      \<and> IsDelayedOfferCall s = (\<not> ContainsSDP mb) \<and> CallID s = sm_CallID m)"

lemma wp_session_new:
  assumes "\<not> w_panic w" "Load (w_Sessions w) (sm_CallID m) = None" "\<not> IsResponse m" "GetMethod m = INVITE" "sm_ToTag m = []"
    "IsOptionSupported ''100rel'' m = Some pr" "IsKnownRURIScheme m" "\<not> WithUnknownBodyPart (map_option (w_body w) (Body m))"
    "\<not> HeaderExists ''Require'' (Headers m)" "MinMaxFwds < MaxFwds m" "fst (AcceptNewCall (w_limiter w))"
    and Q: "Q (Some (w_nss w), ValidRequest) (w\<lparr>w_nss := Suc (w_nss w), w_Sessions := Store (sm_CallID m) (w_nss w) (w_Sessions w),
        w_limiter := snd (AcceptNewCall (w_limiter w)), w_ss := (w_ss w)(w_nss w := (NewSIPSession m)\<lparr>Mymode := Multimedia,
          IsPRACKSupported := pr, IsDelayedOfferCall := \<not> ContainsSDP (map_option (w_body w) (Body m)), ss_state := BeingEstablished\<rparr>)\<rparr>)"
  shows "wp (session_of m) Q w"
  using assms
  by (simp add: session_of_def sessionGetter_def new_ss_def store_session_def new_session_type_def classify_INVITE_def
    get_body_def NewSIPSession_def NewSS_def IsPositive_def)

text \<open>What noting a message changes in a session without transactions.\<close>

definition noted_ss :: "tx_id \<Rightarrow> SipSession \<Rightarrow> SipSession \<Rightarrow> bool" where
  "noted_ss t s s' \<longleftrightarrow> Transactions s' = [t] \<and> ss_state s' = ss_state s \<and> remoteUDP s' = remoteUDP s
     \<and> udpListenser s' = udpListenser s \<and> IsDelayedOfferCall s' = IsDelayedOfferCall s \<and> CallID s' = CallID s"

lemma wp_contact:
  assumes "\<not> w_panic w"
    and "\<And>s :: SipSession. Transactions s = Transactions (w_ss w i) \<Longrightarrow> ss_state s = ss_state (w_ss w i) \<Longrightarrow> remoteUDP s = remoteUDP (w_ss w i) \<Longrightarrow>
      udpListenser s = udpListenser (w_ss w i) \<Longrightarrow> IsDelayedOfferCall s = IsDelayedOfferCall (w_ss w i) \<Longrightarrow>
      CallID s = CallID (w_ss w i) \<Longrightarrow> Direction_ss s = Direction_ss (w_ss w i) \<Longrightarrow> Q () (w\<lparr>w_ss := (w_ss w)(i := s)\<rparr>)"
  shows "wp (UpdateContactRecordRouteBody i m) Q w"
proof -
  have "Q () w" using assms(2) [of "w_ss w i"] by simp
  with assms show ?thesis by (auto simp: UpdateContactRecordRouteBody_def Let_def split: option.split)
qed

lemma wp_stack_new:
  assumes "\<not> w_panic v" "w_msg v mid = m" "IsRequest m" "GetMethod m = INVITE" "Transactions (w_ss v i) = []"
    "Direction_ss (w_ss v i) = INBOUND" "\<not> WithUnknownBodyPart (map_option (w_body v) (Body m))"
    and Q: "\<And>n x (s :: SipSession). noted_ss (w_ntx v) (w_ss v i) s \<Longrightarrow> RequestMessage x = Some mid \<Longrightarrow> ViaUdpAddr x = sm_ViaUdpAddr m \<Longrightarrow>
      wp (handle_INVITE i (w_ntx v) mid) (\<lambda>_ w'. \<not> w_panic w' \<and> Q () w')
        (v\<lparr>w_seed := n, w_ntx := Suc (w_ntx v), w_tx := (w_tx v)(w_ntx v := x), w_ss := (w_ss v)(i := s)\<rparr>)"
  shows "wp (sipStack mid (Some i) ValidRequest) Q v"
proof -
  have "wp (UpdateContactRecordRouteBody i m) (\<lambda>_. wp (addIncomingRequest i mid None) (\<lambda>tr. wp (case tr of
       None \<Rightarrow> do { none \<leftarrow> asks (HasNoTransactions i); when none (DropMe i) }
     | Some t \<Rightarrow> do {
         refused \<leftarrow> handle_refused i t m ValidRequest;
         if refused then ret ()
         else if IsRequest m then handle_request i t mid
         else handle_response i t mid
       }) (\<lambda>_ w'. \<not> w_panic w' \<and> Q () w'))) v"
  proof (rule wp_contact, fact)
    fix s :: SipSession assume s: "Transactions s = Transactions (w_ss v i)" "ss_state s = ss_state (w_ss v i)" "remoteUDP s = remoteUDP (w_ss v i)"
      "udpListenser s = udpListenser (w_ss v i)" "IsDelayedOfferCall s = IsDelayedOfferCall (w_ss v i)"
      "CallID s = CallID (w_ss v i)" "Direction_ss s = Direction_ss (w_ss v i)"
    have none: "find_tx P i (v\<lparr>w_ss := (w_ss v)(i := s)\<rparr>) = None" for P
      using s assms(5) by (simp add: find_tx_def txs_def Find_def)
    show "wp (addIncomingRequest i mid None) (\<lambda>tr. wp (case tr of
       None \<Rightarrow> do { none \<leftarrow> asks (HasNoTransactions i); when none (DropMe i) }
     | Some t \<Rightarrow> do {
         refused \<leftarrow> handle_refused i t m ValidRequest;
         if refused then ret ()
         else if IsRequest m then handle_request i t mid
         else handle_response i t mid
       }) (\<lambda>_ w'. \<not> w_panic w' \<and> Q () w')) (v\<lparr>w_ss := (w_ss v)(i := s)\<rparr>)"
      using assms(1-7) s Q [where s = "s\<lparr>ToTag := sm_ToTag m, FromHeader := sm_FromHeader m, ToHeader := sm_ToHeader m,
          FromTag := sm_FromTag m, Transactions := [w_ntx v]\<rparr>"]
      by (simp add: none noted_ss_def addIncomingRequest_def add_other_def IsDuplicateINVITE_def txs_def NewSIPTransaction_RT_def NewST_def
        AddTransaction_def handle_refused_def handle_request_def when_def get_body_def IsDialogueCreating_def zero_Transaction_def)
  qed
  then have "wp (stack_body mid i ValidRequest) (\<lambda>_ w'. \<not> w_panic w' \<and> Q () w') v"
    unfolding stack_body_def by (simp only: wp_bind wp_reads assms(2,3) if_True)
  then show ?thesis using assms(1) by (simp add: sipStack_def wp_protect)
qed

lemma wp_process_call:
  assumes c: "calling w m mb"
    and Q: "\<And>w0. call_noted w m mb src conn w0 \<Longrightarrow>
      wp (handle_INVITE (w_nss w) (w_ntx w) (w_nmsg w)) (\<lambda>_ w'. \<not> w_panic w' \<and> Q () w') w0"
  shows "wp (process_message m mb src conn) Q w"
proof -
  note C = c [unfolded calling_def]
  have m: "IsRequest (m\<lparr>Body := b\<rparr>)" "GetMethod (m\<lparr>Body := b\<rparr>) = INVITE" "\<not> IsResponse (m\<lparr>Body := b\<rparr>)"
    "IsKnownRURIScheme (m\<lparr>Body := b\<rparr>)" for b
    using C by (simp_all add: IsRequest_def IsResponse_def GetMethod_def IsKnownRURIScheme_def)
  obtain pr where pr: "IsOptionSupported ''100rel'' (m\<lparr>Body := b\<rparr>) = Some pr" for b
    using C by (simp add: IsOptionSupported_def ValueHeader_first Let_def)
  have unk: "\<not> WithUnknownBodyPart mb" using C by (auto simp: WithUnknownBodyPart_def short_body_def split: option.splits)
  let ?b = "map_option (\<lambda>_. w_nbody w) mb" and ?i = "w_nss w" and ?mid = "w_nmsg w"
  let ?m = "m\<lparr>Body := ?b\<rparr>"
  have run: "wp (do { mid \<leftarrow> new_msg ?m; (ss, newSesType) \<leftarrow> session_of ?m;
     (case ss of Some i \<Rightarrow> SetRemoteUDPnListenser i (Some src) (Some conn) | None \<Rightarrow> ret ());
     sipStack mid ss newSesType }) Q v"
    if v: "v = (case mb of None \<Rightarrow> w | Some x \<Rightarrow> w\<lparr>w_body := (w_body w)(w_nbody w := x), w_nbody := Suc (w_nbody w)\<rparr>)" for v
  proof -
    have V: "\<not> w_panic v" "w_nss v = ?i" "w_nmsg v = ?mid" "w_Sessions v = w_Sessions w" "w_limiter v = w_limiter w"
      "w_out v = w_out w" "w_ntx v = w_ntx w" "w_env v = w_env w" "w_phones v = w_phones w" "w_routes v = w_routes w"
      "w_SkipAS v = w_SkipAS w" "w_sippTesting v = w_sippTesting w" "w_ProxyUdpServer v = w_ProxyUdpServer w"
      "map_option (w_body v) ?b = mb" "\<forall>x. mb = Some x \<longrightarrow> w_body v (w_nbody w) = x"
      using C by (cases mb; simp add: v)+
    let ?v = "v\<lparr>w_msg := (w_msg v)(?mid := ?m), w_nmsg := Suc ?mid\<rparr>"
    have "wp (session_of ?m) (\<lambda>(ss, ty). wp (case ss of Some i \<Rightarrow> SetRemoteUDPnListenser i (Some src) (Some conn) | None \<Rightarrow> ret ())
        (\<lambda>_. wp (sipStack ?mid ss ty) Q)) ?v"
    proof (rule wp_session_new [where pr = pr], goal_cases)
      case 12
      let ?s = "(NewSIPSession ?m)\<lparr>Mymode := Multimedia, IsPRACKSupported := pr, IsDelayedOfferCall := \<not> ContainsSDP mb,
        ss_state := BeingEstablished, remoteUDP := Some src, udpListenser := Some conn\<rparr>"
      let ?v2 = "v\<lparr>w_msg := (w_msg v)(?mid := ?m), w_nmsg := Suc ?mid, w_nss := Suc ?i,
        w_Sessions := Store (sm_CallID m) ?i (w_Sessions w), w_limiter := snd (AcceptNewCall (w_limiter w)), w_ss := (w_ss v)(?i := ?s)\<rparr>"
      have "wp (sipStack ?mid (Some ?i) ValidRequest) Q ?v2"
      proof (rule wp_stack_new [where m = ?m])
        fix n and x :: Transaction and s :: SipSession
        assume n: "noted_ss (w_ntx ?v2) (w_ss ?v2 ?i) s" "RequestMessage x = Some ?mid" "ViaUdpAddr x = sm_ViaUdpAddr ?m"
        have "call_noted w m mb src conn (?v2\<lparr>w_seed := n, w_ntx := Suc (w_ntx ?v2),
            w_tx := (w_tx ?v2)(w_ntx ?v2 := x), w_ss := (w_ss ?v2)(?i := s)\<rparr>)"
          using n V by (simp add: call_noted_def noted_ss_def NewSIPSession_def Let_def)
        from Q [OF this] show "wp (handle_INVITE ?i (w_ntx ?v2) ?mid) (\<lambda>_ w'. \<not> w_panic w' \<and> Q () w')
          (?v2\<lparr>w_seed := n, w_ntx := Suc (w_ntx ?v2), w_tx := (w_tx ?v2)(w_ntx ?v2 := x), w_ss := (w_ss ?v2)(?i := s)\<rparr>)"
          by (simp add: V)
      qed (use V C m unk in \<open>simp_all add: NewSIPSession_def NewSS_def\<close>)
      then show ?case using V by (simp add: SetRemoteUDPnListenser_def)
    qed (use V C m pr unk in simp_all)
    then show ?thesis using V by (simp add: new_msg_def case_prod_unfold)
  qed
  show ?thesis
    using C run by (cases mb) (simp_all add: process_message_def wp_new_body Let_def)
qed

text \<open>The routing table sends the number that is called on by the record \<open>rd\<close>, as \<open>up\<close>, to \<open>dst\<close>.\<close>

definition sent_by_table :: "world \<Rightarrow> SipMessage \<Rightarrow> MessageBody option \<Rightarrow> UDPAddr \<Rightarrow> RoutingRecord \<Rightarrow> string \<Rightarrow> UDPAddr \<Rightarrow> bool" where
  "sent_by_table w m mb src rd up dst \<longleftrightarrow> w_SkipAS w \<and> \<not> w_sippTesting w \<and> short_sdp (e_sdp (w_env w))
     \<and> Get (w_phones w) (UserPart (sm_StartLine m)) = None
     \<and> Get_route (w_routes w) (UserPart (sm_StartLine m)) = Some (Some (rd, up))
     \<and> (0 < No18xTimeout rd \<or> 0 < NoAnswerTimeout rd) \<and> \<not> SteerMedia rd \<and> OutCallFlow rd \<noteq> EchoResponder
     \<and> (OutCallFlow rd = TransformEarlyToFinal_flow \<longrightarrow> ContainsSDP mb)
     \<and> dst = (case RemoteUDPSocket rd of None \<Rightarrow> src | Some k \<Rightarrow> (case addr k of None \<Rightarrow> src | Some a \<Rightarrow> a))"

lemma call_noted_routable:
  assumes "calling w m mb" "sent_by_table w m mb src rd up dst" "call_noted w m mb src conn w0"
  shows "routable w0 (w_nss w) (w_ntx w) (w_nmsg w) rd up dst"
    "answerable w0 (w_nss w) (w_ntx w) (w_nmsg w) (case sm_ViaUdpAddr m of Some a \<Rightarrow> a | None \<Rightarrow> src)"
proof -
  note N = assms(3) [unfolded call_noted_def Let_def]
  have b: "case map_option (\<lambda>_. w_nbody w) mb of None \<Rightarrow> True | Some b \<Rightarrow> short_body (w_body w0 b)"
    using assms(1) N by (cases mb) (simp_all add: calling_def)
  show "routable w0 (w_nss w) (w_ntx w) (w_nmsg w) rd up dst"
    using assms(1,2) N b by (auto simp: routable_def calling_def sent_by_table_def split: option.splits)
  show "answerable w0 (w_nss w) (w_ntx w) (w_nmsg w) (case sm_ViaUdpAddr m of Some a \<Rightarrow> a | None \<Rightarrow> src)"
    using assms(1) N by (auto simp: answerable_def calling_def split: option.splits)
qed

text \<open>An idle router that has only the sample route, and the sample call's INVITE.\<close>

definition sample_idle :: world where
  "sample_idle = sample_router\<lparr>w_routes := [sample_out],
     w_env := sample_env\<lparr>e_sdp := sample_sdp\<lparr>sdp_Bytes := (\<lambda>_. ''v=0'')\<rparr>\<rparr>\<rparr>"

definition sample_invite :: SipMessage where
  "sample_invite = sample_request INVITE ''z9hG4bKx'' [] ''c1'' ''1''"

lemmas sample_start = sample_idle_def sample_router_def StartServer_def StartListening_def idle_world_def

lemma sample_idle_fields:
  "w_SkipAS sample_idle" "\<not> w_sippTesting sample_idle" "w_ProxyUdpServer sample_idle = None" "w_routes sample_idle = [sample_out]"
  "w_Sessions sample_idle = NewConcurrentMapMutex" "w_limiter sample_idle = NewCallLimiter RateLimit" "\<not> w_panic sample_idle"
  "Get (w_phones sample_idle) n = None" "short_sdp (e_sdp (w_env sample_idle))"
  by (simp_all add: sample_start Let_def phones.lookup_emp short_sdp_def)

lemma sample_invite_fields:
  "UserPart (sm_StartLine sample_invite) = ''200''" "MaxFwds sample_invite = 70" "sm_CallID sample_invite = ''c1''"
  "sm_ViaUdpAddr sample_invite = Some (sample_addr ''10.0.0.3'')"
  by (simp_all add: sample_invite_def sample_request_def NewRequestMessage_def Let_def)

lemma sample_calling: "calling sample_idle sample_invite None"
proof -
  have "headers_wf (Headers sample_invite)"
    using sample_headers_wf by (simp add: sample_invite_def sample_request_def Let_def)
  moreover have "\<not> HeaderExists ''Require'' (Headers sample_invite)"
    by (simp add: sample_invite_def sample_request_def sample_headers_def HeaderExists_def Let_def AddHeader_def Add_def
      NewSipHeaders_def ASCIIToLower_def)
  moreover have "IsKnownRURIScheme sample_invite" "IsRequest sample_invite" "GetMethod sample_invite = INVITE" "sm_ToTag sample_invite = []"
    by (simp_all add: sample_invite_def sample_request_def NewRequestMessage_def Let_def IsRequest_def GetMethod_def IsKnownRURIScheme_def UriSchemes_def)
  moreover have "Load (w_Sessions sample_idle) ''c1'' = None" "fst (AcceptNewCall (w_limiter sample_idle))"
    by (simp_all add: sample_idle_fields Load_def NewConcurrentMapMutex_def AcceptNewCall_def NewCallLimiter_def RateLimit_def)
  ultimately show ?thesis by (simp add: calling_def sample_idle_fields(7) sample_invite_fields)
qed

lemma sample_sent: "sent_by_table sample_idle sample_invite None src sample_out ''9200'' (sample_addr ''10.0.0.2'')"
  by (simp add: sent_by_table_def sample_idle_fields sample_invite_fields sample_routed del: Get_route.simps)
    (simp add: sample_out_def zero_RoutingRecord_def)

section \<open>Property\<close>

text \<open>C5: An INVITE under a new Call-ID, without a To tag and with at most an SDP body, sets up a call
  when nothing refuses it - its URI scheme is known, it requires no extension, has more hops left
  than one and at most 255, the limiter accepts it - and when it is routed by the table: the
  router has no application server and is not testing, no phone is registered for the number, and
  the first usable route that matches sets one of its two timeouts, neither steers
  media nor answers as an echo, and turns early media final only with SDP in the INVITE (and the
  SDP library prints less than ten billion bytes). Then a session is made and stored under its
  Call-ID, the caller is told 100 Trying, and one INVITE leaves, to the address of the route (that
  of the caller where it has none) or to
  the outbound proxy, with the number the route makes of it, one hop less, the Call-ID, From and
  To of a leg of its own and the caller's From and To in extra headers. Both legs are being
  established and linked with each other, the new leg is stored under its own Call-ID, and the
  timer of its INVITE's transaction is started.\<close>

theorem received_call_goes_out:
  assumes "calling w m mb" "sent_by_table w m mb src rd up dst"
  shows "let w' = snd (run_state (process_message m mb src conn) w); i = w_nss w; j = Suc i; s = w_ss w' j in
    \<not> w_panic w' \<and> w_nss w' = Suc j
    \<and> w_Sessions w' = Store (CallID s) j (Store (sm_CallID m) i (w_Sessions w))
    \<and> ss_state (w_ss w' i) = BeingEstablished \<and> LinkedSession (w_ss w' i) = Some j
    \<and> ss_state s = BeingEstablished \<and> LinkedSession s = Some i \<and> Direction_ss s = OUTBOUND \<and> RoutingData s = Some rd
    \<and> (\<exists>d1 d2. w_out w' = w_out w @ [d1, d2]
         \<and> is_answer (Headers m) (sm_CallID m) 100 (case sm_ViaUdpAddr m of Some a \<Rightarrow> a | None \<Rightarrow> src) d1
         \<and> dg_to d2 = (case w_ProxyUdpServer w of None \<Rightarrow> dst | Some p \<Rightarrow> p) \<and> IsRequest (dg_msg d2)
         \<and> sm_StartLine (dg_msg d2) = forwarded_line rd dst (sm_StartLine m) (sm_StartLine (NewRequestMessage INVITE up))
         \<and> proxied (Headers m) (CallID s) (FromHeader s) (ToHeader s) (dec_string (nat (MaxFwds m - 1))) (Headers (dg_msg d2))
         \<and> (\<exists>u. Transactions s = [u] \<and> Timer (w_tx w' u) = TArmed j))"
proof -
  let ?P = "\<lambda>w'. \<exists>w0 d. call_noted w m mb src conn w0 \<and> is_answer (Headers m) (sm_CallID m) 100 (case sm_ViaUdpAddr m of Some a \<Rightarrow> a | None \<Rightarrow> src) d
      \<and> sent_on w0 (w_out w @ [d]) (w_nss w) (w_nmsg w) rd up dst w'"
  have "wp (process_message m mb src conn) (\<lambda>_. ?P) w"
  proof (rule wp_process_call [OF assms(1)])
    fix w0 assume n: "call_noted w m mb src conn w0"
    note N = n [unfolded call_noted_def Let_def]
    have "w_SkipAS w0" "\<not> w_sippTesting w0" using N assms(2) by (simp_all add: sent_by_table_def)
    from handle_INVITE_sends_on [OF call_noted_routable [OF assms n] this] obtain d where
        d: "is_answer (Headers (w_msg w0 (w_nmsg w))) (CallID (w_ss w0 (w_nss w))) 100 (case sm_ViaUdpAddr m of Some a \<Rightarrow> a | None \<Rightarrow> src) d"
      and s: "sent_on w0 (w_out w0 @ [d]) (w_nss w) (w_nmsg w) rd up dst (snd (run_state (handle_INVITE (w_nss w) (w_ntx w) (w_nmsg w)) w0))"
      by blast
    have eqs: "Headers (w_msg w0 (w_nmsg w)) = Headers m" "CallID (w_ss w0 (w_nss w)) = sm_CallID m" "w_out w0 = w_out w"
      using N by simp_all
    have "\<not> w_panic (snd (run_state (handle_INVITE (w_nss w) (w_ntx w) (w_nmsg w)) w0))" using s by (simp add: sent_on_def Let_def)
    with n d s show "wp (handle_INVITE (w_nss w) (w_ntx w) (w_nmsg w)) (\<lambda>_ w'. \<not> w_panic w' \<and> ?P w') w0"
      unfolding wp_def eqs by blast
  qed
  then obtain w0 d where n: "call_noted w m mb src conn w0"
    and d: "is_answer (Headers m) (sm_CallID m) 100 (case sm_ViaUdpAddr m of Some a \<Rightarrow> a | None \<Rightarrow> src) d"
    and s: "sent_on w0 (w_out w @ [d]) (w_nss w) (w_nmsg w) rd up dst (snd (run_state (process_message m mb src conn) w))"
    by (auto simp: wp_def)
  show ?thesis using n d s by (auto simp: call_noted_def sent_on_def Let_def)
qed

theorem received_call_goes_out_witness:
  "\<exists>d1 d2. w_out (snd (run_state (process_message sample_invite None (sample_addr ''10.0.0.3'') (sample_addr ''10.0.0.1'')) sample_idle))
       = w_out sample_idle @ [d1, d2]
     \<and> GetStatusCode (dg_msg d1) = 100 \<and> dg_to d1 = sample_addr ''10.0.0.3''
     \<and> dg_to d2 = sample_addr ''10.0.0.2'' \<and> UserPart (sm_StartLine (dg_msg d2)) = ''9200''
     \<and> header_values ''Max-Forwards'' (Headers (dg_msg d2)) = [''69'']"
proof -
  have "dec_string 69 = ''69''" by (simp add: dec_string.simps [of 69] dec_string.simps [of 6] digit_char_def char_of_def bit_0)
  then show ?thesis
    using received_call_goes_out [OF sample_calling sample_sent, of "sample_addr ''10.0.0.3''" "sample_addr ''10.0.0.1''"]
    by (auto simp: Let_def sample_idle_fields sample_invite_fields proxied_def is_answer_def forwarded_line_def BuildRURI_def
      NewRequestMessage_def)
qed

end
