(* ===== verification/Call_End.thy ===== *)
theory Call_End
  imports Call_Setup
begin

text \<open>
  The end of a call: what the handling of a received BYE does, from the finding of its session
  over the transactions it stops and the one it makes to the release of the other leg.
\<close>

section \<open>From the message to the handler\<close>

text \<open>
  A BYE that is the first of its transaction, for a leg that is linked with leg \<open>l\<close> and has no
  INVITE that was answered and not acknowledged.
\<close>

definition clearing :: "world \<Rightarrow> SipMessage \<Rightarrow> MessageBody option \<Rightarrow> ss_id \<Rightarrow> ss_id \<Rightarrow> bool" where
  "clearing w m mb i l \<longleftrightarrow> \<not> w_panic w \<and> Load (w_Sessions w) (sm_CallID m) = Some i
     \<and> IsRequest m \<and> GetMethod m = BYE \<and> GetStatusCode m = 0 \<and> headers_wf (Headers m) \<and> \<not> WithUnknownBodyPart mb
     \<and> GetTransaction i m w = None \<and> LinkedSession (w_ss w i) = Some l \<and> l \<noteq> i
     \<and> \<not> IsDisposed (w_ss w i) \<and> \<not> probDone (w_ss w i)
     \<and> (\<forall>t \<in> set (Transactions (w_ss w i)). Direction_tx (w_tx w t) = INBOUND \<and> Method_tx (w_tx w t) = INVITE
          \<and> IsFinalized_tx (w_tx w t) \<longrightarrow> IsACKed (w_tx w t))"

text \<open>Timers are all that stopping transactions changes.\<close>

definition retimed :: "(tx_id \<Rightarrow> Transaction) \<Rightarrow> (tx_id \<Rightarrow> Transaction) \<Rightarrow> bool" where
  "retimed T T' \<longleftrightarrow> (\<forall>t. \<exists>tm. T' t = (T t)\<lparr>Timer := tm\<rparr>)"

lemma retimed_refl: "retimed T T"
  unfolding retimed_def by (metis Transaction.surjective Transaction.update_convs(2))

lemma retimed_trans: "retimed T T' \<Longrightarrow> retimed T' T'' \<Longrightarrow> retimed T T''"
  unfolding retimed_def by (metis (no_types) Transaction.update_convs(2) Transaction.surjective)

lemma retimed_fields:
  "retimed T T' \<Longrightarrow> Direction_tx (T' t) = Direction_tx (T t) \<and> Method_tx (T' t) = Method_tx (T t)
     \<and> IsFinalized_tx (T' t) = IsFinalized_tx (T t) \<and> IsACKed (T' t) = IsACKed (T t)"
  by (auto simp: retimed_def elim!: allE [of _ t])

lemma wp_stop_timers:
  assumes "\<not> w_panic w" "\<And>T. retimed (w_tx w) T \<Longrightarrow> Q () (w\<lparr>w_tx := T\<rparr>)"
  shows "wp (for_each StopTransTimer ts) Q w"
  using assms
proof (induction ts arbitrary: w)
  case Nil
  then show ?case using retimed_refl [of "w_tx w"] by fastforce
next
  case (Cons t ts)
  let ?w = "w\<lparr>w_tx := (w_tx w)(t := (w_tx w t)\<lparr>Timer := stop_timer (Timer (w_tx w t))\<rparr>)\<rparr>"
  have "retimed (w_tx w) (w_tx ?w)"
    using retimed_refl [of "w_tx w"] by (auto simp: retimed_def)
  then have q: "Q () (?w\<lparr>w_tx := T\<rparr>)" if "retimed (w_tx ?w) T" for T
    using Cons.prems(2) [OF retimed_trans [OF _ that]] by simp
  have p: "\<not> w_panic ?w" using Cons.prems(1) by simp
  have "wp (for_each StopTransTimer ts) Q ?w" by (rule Cons.IH [OF p q])
  moreover have "wp (StopTransTimer t) Q' w = Q' () ?w" for Q' using Cons.prems(1) by (simp add: StopTransTimer_def)
  ultimately show ?case by simp
qed

lemma wp_bye_arrived:
  assumes "\<not> w_panic w"
    and "\<forall>t \<in> set (Transactions (w_ss w i)). Direction_tx (w_tx w t) = INBOUND \<and> Method_tx (w_tx w t) = INVITE
          \<and> IsFinalized_tx (w_tx w t) \<longrightarrow> IsACKed (w_tx w t)"
    and Q: "\<And>T. retimed (w_tx w) T \<Longrightarrow> Q () (w\<lparr>w_tx := T\<rparr>)"
  shows "wp (bye_arrived i) Q w"
proof -
  let ?rest = "do { ins \<leftarrow> asks (GetPendingIncomingTransactions i);
     for_each (\<lambda>t. do { x \<leftarrow> get_tx t;
         when (Method_tx x = INVITE \<and> IsFinalized_tx x \<and> \<not> IsACKed x)
           (do { StopTransTimer t; CheckPendingTransaction i t }) }) ins }"
  have skip: "wp (for_each (\<lambda>t. do { x \<leftarrow> get_tx t;
         when (Method_tx x = INVITE \<and> IsFinalized_tx x \<and> \<not> IsACKed x)
           (do { StopTransTimer t; CheckPendingTransaction i t }) }) ts) Q v = Q () v"
    if "\<forall>t \<in> set ts. Method_tx (w_tx v t) = INVITE \<and> IsFinalized_tx (w_tx v t) \<longrightarrow> IsACKed (w_tx v t)" for ts v
    using that by (induction ts) (auto simp: when_def)
  have "wp (for_each StopTransTimer ts) (\<lambda>_. wp ?rest Q) w" for ts
  proof (rule wp_stop_timers [OF assms(1)])
    fix T assume T: "retimed (w_tx w) T"
    have "\<forall>t \<in> set (GetPendingIncomingTransactions i (w\<lparr>w_tx := T\<rparr>)).
        Method_tx (T t) = INVITE \<and> IsFinalized_tx (T t) \<longrightarrow> IsACKed (T t)"
      using assms(2) retimed_fields [OF T] by (auto simp: GetPendingIncomingTransactions_def filter_tx_def txs_def)
    then show "wp ?rest Q (w\<lparr>w_tx := T\<rparr>)" using Q [OF T] by (simp add: skip)
  qed
  then show ?thesis by (simp add: bye_arrived_def)
qed

lemma wp_contact_core:
  assumes "\<not> w_panic w"
    and "\<And>s. core s = core (w_ss w i) \<Longrightarrow> Transactions s = Transactions (w_ss w i) \<Longrightarrow> Q () (w\<lparr>w_ss := (w_ss w)(i := s)\<rparr>)"
  shows "wp (UpdateContactRecordRouteBody i m) Q w"
proof -
  have "Q () w" using assms(2) [of "w_ss w i"] by simp
  with assms show ?thesis by (auto simp: UpdateContactRecordRouteBody_def Let_def core_def split: option.split)
qed

text \<open>A handler behind a deferred recovery: what holds of its end, whether it panicked or not.\<close>

lemma wp_protect_any:
  assumes "\<not> w_panic w" "wp m (\<lambda>_ w'. \<forall>p n. Q () (w'\<lparr>w_panic := p, w_recovered := n\<rparr>)) w"
  shows "wp (protect m) Q w"
proof -
  let ?v = "snd (run_state m w)"
  have a: "Q () (?v\<lparr>w_panic := p, w_recovered := n\<rparr>)" for p n using assms(2) by (simp add: wp_def)
  from a [of "w_recovered ?v" "w_panic ?v"] a [of "w_recovered ?v + 1" False] show ?thesis using assms(1) by (simp add: protect_def wp_def split_beta)
qed

text \<open>The world when the BYE is handed to its handler.\<close>

definition bye_noted :: "world \<Rightarrow> SipMessage \<Rightarrow> UDPAddr \<Rightarrow> UDPAddr \<Rightarrow> ss_id \<Rightarrow> world \<Rightarrow> bool" where
  "bye_noted w m src conn i v \<longleftrightarrow>
     answerable v i (w_ntx w) (w_nmsg w) (case sm_ViaUdpAddr m of Some a \<Rightarrow> a | None \<Rightarrow> src)
     \<and> core (w_ss v i) = core ((w_ss w i)\<lparr>remoteUDP := Some src, udpListenser := Some conn\<rparr>)
     \<and> (\<forall>j. j \<noteq> i \<longrightarrow> w_ss v j = w_ss w j) \<and> Headers (w_msg v (w_nmsg w)) = Headers m
     \<and> w_out v = w_out w \<and> w_Sessions v = w_Sessions w"

lemma wp_stack_bye:
  assumes "\<not> w_panic v" "w_msg v mid = m" "IsRequest m" "GetMethod m = BYE" "headers_wf (Headers m)"
    and "\<not> WithUnknownBodyPart (map_option (w_body v) (Body m))" "udpListenser (w_ss v i) = Some conn" "remoteUDP (w_ss v i) = Some src"
    and "\<forall>t \<in> set (Transactions (w_ss v i)). Direction_tx (w_tx v t) = INBOUND \<and> Method_tx (w_tx v t) = INVITE
          \<and> IsFinalized_tx (w_tx v t) \<longrightarrow> IsACKed (w_tx v t)"
    and Q: "\<And>v'. answerable v' i (w_ntx v) mid (case sm_ViaUdpAddr m of Some a \<Rightarrow> a | None \<Rightarrow> src) \<Longrightarrow>
      core (w_ss v' i) = core (w_ss v i) \<Longrightarrow> \<forall>j. j \<noteq> i \<longrightarrow> w_ss v' j = w_ss v j \<Longrightarrow> w_msg v' = w_msg v \<Longrightarrow>
      w_out v' = w_out v \<Longrightarrow> w_Sessions v' = w_Sessions v \<Longrightarrow>
      wp (handle_BYE i (w_ntx v)) (\<lambda>_ w'. \<forall>p n. Q () (w'\<lparr>w_panic := p, w_recovered := n\<rparr>)) v'"
  shows "wp (sipStack mid (Some i) ValidRequest) Q v"
proof -
  let ?Q = "\<lambda>_ w'. \<forall>p n. Q () (w'\<lparr>w_panic := p, w_recovered := n\<rparr>)"
  have "wp (UpdateContactRecordRouteBody i m) (\<lambda>_. wp (addIncomingRequest i mid None) (\<lambda>tr. wp (case tr of
       None \<Rightarrow> do { none \<leftarrow> asks (HasNoTransactions i); when none (DropMe i) }
     | Some t \<Rightarrow> do {
         refused \<leftarrow> handle_refused i t m ValidRequest;
         if refused then ret ()
         else if IsRequest m then handle_request i t mid
         else handle_response i t mid
       }) ?Q)) v"
  proof (rule wp_contact_core [OF assms(1)])
    fix s assume s: "core s = core (w_ss v i)" "Transactions s = Transactions (w_ss v i)"
    note c = core_fields [OF s(1)]
    let ?v = "v\<lparr>w_ss := (w_ss v)(i := s)\<rparr>"
    have go: "wp (add_other i mid None) (\<lambda>tr. wp (case tr of
       None \<Rightarrow> do { none \<leftarrow> asks (HasNoTransactions i); when none (DropMe i) }
     | Some t \<Rightarrow> do {
         refused \<leftarrow> handle_refused i t m ValidRequest;
         if refused then ret ()
         else if IsRequest m then handle_request i t mid
         else handle_response i t mid
       }) ?Q) (?v\<lparr>w_tx := T\<rparr>)" for T
      using assms(1-8) c s
      by (simp add: add_other_def NewSIPTransaction_RT_def NewST_def NewKey_def newUUID_def new_tx_def AddTransaction_def
          handle_refused_def handle_request_def when_def IsDialogueCreating_def)
         (rule Q; simp add: answerable_def core_def zero_Transaction_def split: option.split)
    have "wp (bye_arrived i) (\<lambda>_. wp (add_other i mid None) (\<lambda>tr. wp (case tr of
       None \<Rightarrow> do { none \<leftarrow> asks (HasNoTransactions i); when none (DropMe i) }
     | Some t \<Rightarrow> do {
         refused \<leftarrow> handle_refused i t m ValidRequest;
         if refused then ret ()
         else if IsRequest m then handle_request i t mid
         else handle_response i t mid
       }) ?Q)) ?v"
      by (rule wp_bye_arrived) (use assms(1,9) s(2) go in simp_all)
    then show "wp (addIncomingRequest i mid None) (\<lambda>tr. wp (case tr of
       None \<Rightarrow> do { none \<leftarrow> asks (HasNoTransactions i); when none (DropMe i) }
     | Some t \<Rightarrow> do {
         refused \<leftarrow> handle_refused i t m ValidRequest;
         if refused then ret ()
         else if IsRequest m then handle_request i t mid
         else handle_response i t mid
       }) ?Q) ?v"
      using assms(2,4) by (simp add: addIncomingRequest_def when_def)
  qed
  then have "wp (stack_body mid i ValidRequest) ?Q v"
    unfolding stack_body_def by (simp only: wp_bind wp_reads assms(2,3) if_True)
  then show ?thesis using assms(1) by (simp add: sipStack_def wp_protect_any)
qed

lemma wp_process_bye:
  assumes c: "clearing w m mb i l"
    and Q: "\<And>v. bye_noted w m src conn i v \<Longrightarrow>
      wp (handle_BYE i (w_ntx w)) (\<lambda>_ w'. \<forall>p n. Q () (w'\<lparr>w_panic := p, w_recovered := n\<rparr>)) v"
  shows "wp (process_message m mb src conn) Q w"
proof -
  note C = c [unfolded clearing_def]
  have body: "IsRequest (m\<lparr>Body := b\<rparr>)" "GetMethod (m\<lparr>Body := b\<rparr>) = BYE" "GetStatusCode (m\<lparr>Body := b\<rparr>) = 0" for b
    using C by (simp_all add: IsRequest_def GetMethod_def GetStatusCode_def)
  have tx: "GetTransaction i (m\<lparr>Body := b\<rparr>) v = None" if "w_ss v = w_ss w" "w_tx v = w_tx w" for b v
  proof -
    have "GetTransaction i (m\<lparr>Body := b\<rparr>) v = GetTransaction i m w"
      using that by (simp add: GetTransaction_def IsRequest_def find_tx_def txs_def GetMethod_def)
    then show ?thesis using C by simp
  qed
  have ses: "wp (session_of (m\<lparr>Body := b\<rparr>)) Q' v = Q' (Some i, ValidRequest) v"
    if "\<not> w_panic v" "w_ss v = w_ss w" "w_tx v = w_tx w" "w_Sessions v = w_Sessions w" for b v Q'
    using C that tx [of v b] by (simp add: session_of_def sessionGetter_def IsDuplicateMessage_def body Let_def)
  let ?s = "(w_ss w i)\<lparr>remoteUDP := Some src, udpListenser := Some conn\<rparr>"
  have go: "wp (do { mid \<leftarrow> new_msg (m\<lparr>Body := b\<rparr>);
     (ss, newSesType) \<leftarrow> session_of (m\<lparr>Body := b\<rparr>);
     (case ss of Some i \<Rightarrow> SetRemoteUDPnListenser i (Some src) (Some conn) | None \<Rightarrow> ret ());
     sipStack mid ss newSesType }) Q v"
    if v: "\<not> w_panic v" "w_ss v = w_ss w" "w_tx v = w_tx w" "w_Sessions v = w_Sessions w" "w_out v = w_out w"
      "w_ntx v = w_ntx w" "w_nmsg v = w_nmsg w" "map_option (w_body v) b = mb" for b v
  proof -
    let ?v = "v\<lparr>w_msg := (w_msg v)(w_nmsg w := m\<lparr>Body := b\<rparr>), w_nmsg := Suc (w_nmsg w), w_ss := (w_ss w)(i := ?s)\<rparr>"
    have "wp (sipStack (w_nmsg w) (Some i) ValidRequest) Q ?v"
    proof (rule wp_stack_bye [where m = "m\<lparr>Body := b\<rparr>" and conn = conn and src = src])
      fix v' assume "answerable v' i (w_ntx ?v) (w_nmsg w) (case sm_ViaUdpAddr (m\<lparr>Body := b\<rparr>) of Some a \<Rightarrow> a | None \<Rightarrow> src)"
        "core (w_ss v' i) = core (w_ss ?v i)" "\<forall>j. j \<noteq> i \<longrightarrow> w_ss v' j = w_ss ?v j" "w_msg v' = w_msg ?v"
        "w_out v' = w_out ?v" "w_Sessions v' = w_Sessions ?v"
      then have "bye_noted w m src conn i v'" using v by (simp add: bye_noted_def)
      from Q [OF this] v(6)
      show "wp (handle_BYE i (w_ntx ?v)) (\<lambda>_ w'. \<forall>p n. Q () (w'\<lparr>w_panic := p, w_recovered := n\<rparr>)) v'" by simp
    qed (use v C body in simp_all)
    then show ?thesis using v by (simp add: ses SetRemoteUDPnListenser_def)
  qed
  show ?thesis
  proof (cases mb)
    case None
    then show ?thesis using go [of w None] C by (simp add: process_message_def Let_def)
  next
    case (Some x)
    then show ?thesis
      using go [of "w\<lparr>w_body := (w_body w)(w_nbody w := x), w_nbody := Suc (w_nbody w)\<rparr>" "Some (w_nbody w)"] C
      by (simp add: process_message_def wp_new_body Let_def)
  qed
qed

section \<open>A call is ended\<close>

text \<open>What a BYE is answered, and what becomes of the legs.\<close>

definition call_cleared :: "world \<Rightarrow> SipHeaders \<Rightarrow> UDPAddr \<Rightarrow> ss_id \<Rightarrow> ss_id \<Rightarrow> world \<Rightarrow> bool" where
  "call_cleared w rh a i l w' \<longleftrightarrow> (let cid = CallID (w_ss w i) in
    if ss_state (w_ss w i) = Established
    then (\<exists>d rest. w_out w' = w_out w @ d # rest \<and> is_answer rh cid 200 a d)
      \<and> ss_state (w_ss w' i) = Cleared \<and> IsDisposed (w_ss w' i) \<and> Load (w_Sessions w') cid = None
      \<and> ss_state (w_ss w' l) =
          (if ss_state (w_ss w l) = Established then BeingCleared
           else if Direction_ss (w_ss w l) = OUTBOUND \<and> ss_state (w_ss w l) = BeingEstablished then BeingCancelled
           else ss_state (w_ss w l))
    else (\<exists>d. w_out w' = w_out w @ [d] \<and> is_answer rh cid 400 a d)
      \<and> (\<forall>j. ss_state (w_ss w' j) = ss_state (w_ss w j)) \<and> w_Sessions w' = w_Sessions w)"

lemma wp_BYE_cleared:
  assumes "answerable v i t r a" "\<not> IsDisposed (w_ss v i)" "\<not> probDone (w_ss v i)"
    and "LinkedSession (w_ss v i) = Some l" "l \<noteq> i"
  shows "wp (handle_BYE i t) (\<lambda>_. call_cleared v (Headers (w_msg v r)) a i l) v"
proof (cases "ss_state (w_ss v i) = Established")
  case True
  then show ?thesis using handle_BYE_established [OF assms(1) True assms(2-5)]
    by (auto simp: wp_def released_state_def call_cleared_def Let_def)
next
  case False
  have "wp (incompatible i t) (\<lambda>_. answered i t r a 400 v) v" by (rule wp_incompatible [OF assms(1)])
  then have a: "answered i t r a 400 v (snd (run_state (handle_BYE i t) v))"
    using False by (simp add: handle_BYE_def wp_def IsEstablished_def state_is_def)
  then show ?thesis
    using False answered_out [OF a] sends_state(1) sends_fields(1) answered_sends [OF a]
    by (simp add: call_cleared_def wp_def Let_def)
qed

text \<open>C9: A BYE that arrives for a linked leg, as the first message of its transaction and with no
  body of an unknown kind, while every INVITE from that leg's side that has been answered is
  acknowledged (otherwise the leg is given up before the BYE is looked at): if the leg is
  established, the BYE is answered with 200 before anything else goes out, the leg is cleared,
  disposed and no longer found under its Call-ID, and the other leg is being cleared when it was
  established, being cancelled when it was an outbound one still being established. In any other
  state the BYE is answered with 400 as the only datagram and no leg changes its state. The answer
  goes to the address of the BYE's Via, or where it came from, and nothing panics unrecovered.\<close>

theorem bye_clears_call:
  assumes "clearing w m mb i l"
  shows "let w' = snd (run_state (process_message m mb src conn) w);
      a = (case sm_ViaUdpAddr m of Some a \<Rightarrow> a | None \<Rightarrow> src) in
    \<not> w_panic w' \<and> call_cleared w (Headers m) a i l w'"
proof -
  have "wp (process_message m mb src conn) (\<lambda>_. call_cleared w (Headers m)
      (case sm_ViaUdpAddr m of Some a \<Rightarrow> a | None \<Rightarrow> src) i l) w" (is "wp _ (\<lambda>_. ?C) w")
  proof (rule wp_process_bye [OF assms])
    fix v assume v: "bye_noted w m src conn i v"
    note f = core_fields [OF v [unfolded bye_noted_def, THEN conjunct2, THEN conjunct1]]
    have "wp (handle_BYE i (w_ntx w)) (\<lambda>_. call_cleared v (Headers (w_msg v (w_nmsg w)))
      (case sm_ViaUdpAddr m of Some a \<Rightarrow> a | None \<Rightarrow> src) i l) v"
      by (rule wp_BYE_cleared) (use v f assms in \<open>simp_all add: bye_noted_def clearing_def\<close>)
    moreover have "?C (w'\<lparr>w_panic := p, w_recovered := n\<rparr>)"
      if "call_cleared v (Headers (w_msg v (w_nmsg w))) (case sm_ViaUdpAddr m of Some a \<Rightarrow> a | None \<Rightarrow> src) i l w'" for w' p n
    proof -
      have "w_ss v l = w_ss w l" "\<And>j. ss_state (w_ss v j) = ss_state (w_ss w j)"
        using v assms f by (auto simp: bye_noted_def clearing_def)
      then show ?thesis using that v f(1,5)
        by (cases "ss_state (w_ss w i) = Established") (simp_all add: call_cleared_def bye_noted_def Let_def)
    qed
    ultimately show "wp (handle_BYE i (w_ntx w)) (\<lambda>_ w'. \<forall>p n. ?C (w'\<lparr>w_panic := p, w_recovered := n\<rparr>)) v"
      by (elim wp_mono) blast
  qed
  moreover have "\<not> w_panic (snd (run_state (process_message m mb src conn) w))"
    using assms calm_process_message by (simp add: calm_def clearing_def)
  ultimately show ?thesis by (simp add: wp_def Let_def)
qed

theorem bye_clears_call_witness:
  "let w = asked OPTIONS Established; m = sample_request BYE ''z9hG4bKq'' ''9'' ''c1'' ''3'';
       w' = snd (run_state (process_message m None (sample_addr ''10.0.0.3'') (sample_addr ''10.0.0.1'')) w)
   in ss_state (w_ss w' 0) = Cleared \<and> ss_state (w_ss w' 1) = BeingCleared \<and> Load (w_Sessions w') ''c1'' = None"
proof -
  have c: "clearing (asked OPTIONS Established) (sample_request BYE ''z9hG4bKq'' ''9'' ''c1'' ''3'') None 0 1"
    using asked_session asked_answerable [of OPTIONS Established] sample_headers_wf
    by (simp add: clearing_def answerable_def sample_request_def IsRequest_def GetMethod_def GetStatusCode_def WithUnknownBodyPart_def NewRequestMessage_def
       zero_StartLine_def asked_def GetTransaction_def find_tx_def txs_def Find_def Let_def NewSS_def)
  from bye_clears_call [OF c, of "sample_addr ''10.0.0.3''" "sample_addr ''10.0.0.1''"] show ?thesis
    by (simp add: call_cleared_def asked_session asked_session [unfolded One_nat_def] Let_def)
qed

end
