(* ===== verification/Channels.thy ===== *)
theory Channels
  imports Main "HOL-Library.Sublist"
begin

text \<open>
  Go's buffered channels, which connect the goroutine that reads the socket with the workers and
  the calls with the writer of the call records. A channel holds at most its capacity; a sender
  to a full channel and a receiver of an empty one wait, which is \<open>None\<close>. The interface that both
  users provide is the locale \<open>channel\<close>; what it gives is that a channel neither loses, nor
  doubles, nor reorders what passes through it.
\<close>

definition chan_send :: "nat \<Rightarrow> 'a \<Rightarrow> 'a list \<Rightarrow> 'a list option" where
  "chan_send n x q = (if length q < n then Some (q @ [x]) else None)"

definition chan_recv :: "'a list \<Rightarrow> ('a \<times> 'a list) option" where
  "chan_recv q = (case q of [] \<Rightarrow> None | x # q' \<Rightarrow> Some (x, q'))"

text \<open>
  What the goroutines do around a channel, in the order in which it happens: one sends, one
  receives, or one does something that leaves the channel alone. \<open>chan_run\<close> is such a run, if no
  step of it has to wait, with what was received.
\<close>

datatype ('a, 'o) chan_op = Put 'a | Take | Other 'o

fun puts :: "('a, 'o) chan_op list \<Rightarrow> 'a list" where
  "puts [] = []"
| "puts (Put x # ops) = x # puts ops"
| "puts (Take # ops) = puts ops"
| "puts (Other y # ops) = puts ops"

fun takes :: "('a, 'o) chan_op list \<Rightarrow> nat" where
  "takes [] = 0"
| "takes (Put x # ops) = takes ops"
| "takes (Take # ops) = Suc (takes ops)"
| "takes (Other y # ops) = takes ops"

fun chan_run ::
    "('a \<Rightarrow> 's \<Rightarrow> 's option) \<Rightarrow> ('s \<Rightarrow> ('a \<times> 's) option) \<Rightarrow> ('o \<Rightarrow> 's \<Rightarrow> 's)
      \<Rightarrow> ('a, 'o) chan_op list \<Rightarrow> 's \<Rightarrow> ('a list \<times> 's) option" where
  "chan_run send recv oth [] s = Some ([], s)"
| "chan_run send recv oth (Put x # ops) s = Option.bind (send x s) (chan_run send recv oth ops)"
| "chan_run send recv oth (Take # ops) s =
     Option.bind (recv s) (\<lambda>(x, s'). map_option (map_prod (Cons x) id) (chan_run send recv oth ops s'))"
| "chan_run send recv oth (Other y # ops) s = chan_run send recv oth ops (oth y s)"

lemma puts_append [simp]: "puts (ops @ ops') = puts ops @ puts ops'"
  by (induction ops rule: puts.induct) simp_all

lemma takes_append [simp]: "takes (ops @ ops') = takes ops + takes ops'"
  by (induction ops rule: takes.induct) simp_all

locale channel =
  fixes send :: "'a \<Rightarrow> 's \<Rightarrow> 's option"
    and recv :: "'s \<Rightarrow> ('a \<times> 's) option"
    and oth :: "'o \<Rightarrow> 's \<Rightarrow> 's"
    and held :: "'s \<Rightarrow> 'a list"
    and room :: nat
  assumes send_waits: "room \<le> length (held s) \<Longrightarrow> send x s = None"
    and send_held: "send x s = Some s' \<Longrightarrow> held s' = held s @ [x]"
    and recv_held: "recv s = Some (x, s') \<Longrightarrow> held s = x # held s'"
    and oth_held: "held (oth y s) = held s"
begin

lemma recv_empty: "held s = [] \<Longrightarrow> recv s = None"
  using recv_held [of s] by (cases "recv s") auto

text \<open>What was held and what was sent is what was received and what is held, in this order.\<close>

lemma run_fifo:
  "chan_run send recv oth ops s = Some (got, s') \<Longrightarrow>
     held s @ puts ops = got @ held s' \<and> length got = takes ops"
proof (induction ops arbitrary: s got rule: puts.induct)
  case (2 x ops)
  from "2.prems" obtain s1 where "send x s = Some s1" "chan_run send recv oth ops s1 = Some (got, s')"
    by (auto simp: bind_eq_Some_conv)
  with "2.IH" [of s1 got] send_held show ?case by fastforce
next
  case (3 ops)
  from "3.prems" obtain x s1 g where "recv s = Some (x, s1)" "chan_run send recv oth ops s1 = Some (g, s')"
    "got = x # g" by (auto simp: bind_eq_Some_conv)
  with "3.IH" [of s1 g] recv_held show ?case by fastforce
next
  case (4 y ops)
  then show ?case using oth_held [of y s] "4.IH" [of "oth y s" got] by simp
qed simp

lemma run_received: "chan_run send recv oth ops s = Some (got, s') \<Longrightarrow> got = take (takes ops) (held s @ puts ops)"
  using run_fifo by fastforce

lemma run_room:
  "chan_run send recv oth ops s = Some (got, s') \<Longrightarrow> length (held s) \<le> room \<Longrightarrow> length (held s') \<le> room"
proof (induction ops arbitrary: s got rule: puts.induct)
  case (2 x ops)
  from "2.prems"(1) obtain s1 where s1: "send x s = Some s1" "chan_run send recv oth ops s1 = Some (got, s')"
    by (auto simp: bind_eq_Some_conv)
  then have "length (held s) < room" using send_waits [of s x] by (cases "room \<le> length (held s)") auto
  with "2.IH" [OF s1(2)] send_held [OF s1(1)] show ?case by simp
next
  case (3 ops)
  from "3.prems"(1) obtain x s1 g where s1: "recv s = Some (x, s1)" "chan_run send recv oth ops s1 = Some (g, s')"
    by (auto simp: bind_eq_Some_conv)
  with "3.IH" [OF s1(2)] recv_held [OF s1(1)] "3.prems"(2) show ?case by simp
qed (auto simp: oth_held)

text \<open>No more is received than was there, and a run can be cut anywhere.\<close>

lemma run_balance: "chan_run send recv oth ops s = Some (got, s') \<Longrightarrow> takes ops \<le> length (held s) + length (puts ops)"
  using run_fifo by (metis le_add1 length_append)

end

end
