(* ===== verification/Sip_Parser.thy ===== *)
theory Sip_Parser
  imports Sip_Message
begin

text \<open>
  \<open>processPDU\<close> of \<open>sip/stack.go\<close>: a datagram, or what is left of it, is read into a message, its
  body and the rest. A result is an error, nothing (Go's three nils) or the message. A panic is
  \<open>None\<close>. The code means to recover from it, but its deferred closure calls \<open>LogCallStack\<close>, and
  \<open>recover\<close> works only in a function that is itself deferred: there it returns nil, and as no
  caller recovers either, the panic ends the process.
\<close>

section \<open>Slices\<close>

text \<open>
  \<open>s[a:]\<close> and \<open>s[a:b]\<close> panic when their bounds are out of order or out of the string. A sum of
  two Go integers wraps.
\<close>

definition slice_from :: "int \<Rightarrow> string \<Rightarrow> string option" where
  "slice_from a s = (if 0 \<le> a \<and> a \<le> int (length s) then Some (drop (nat a) s) else None)"

definition slice_to :: "int \<Rightarrow> int \<Rightarrow> string \<Rightarrow> string option" where
  "slice_to a b s =
     (if 0 \<le> a \<and> a \<le> b \<and> b \<le> int (length s) then Some (take (nat (b - a)) (drop (nat a) s)) else None)"

definition go_int :: "int \<Rightarrow> int" where
  "go_int n = sint (word_of_int n :: u64)"

definition CRLFCRLF :: string where "CRLFCRLF = CRLF @ CRLF"

section \<open>The start line\<close>

datatype pdu_error =
    InvalidMethod | InvalidCode | InvalidMessage | InvalidCSeq | MissingHeader | DuplicateCSeq
  | DuplicateContentLength | BadContentLength | InvalidBody

definition pars_of :: "string \<Rightarrow> (string \<times> string) list" where
  "pars_of s = (case ExtractParameters s False of None \<Rightarrow> [] | Some ps \<Rightarrow> ps)"

definition parse_request_uri :: "StartLine \<Rightarrow> StartLine" where
  "parse_request_uri sl =
     (case RMatch (RUri sl) INVITERURI_fp of
        _ # m1 # m2 # m3 # m4 # m5 # m6 # m7 # _ \<Rightarrow>
          sl\<lparr>UriScheme := ASCIIToLower m1, OriginalUP := m2, UserPart := DropVisualSeparators m2,
             UserParameters := pars_of m3, Password := m4, HostPart := m5,
             UriParameters := pars_of m6, UriHeaders := m7\<rparr>
      | _ \<Rightarrow> sl)"

definition parse_startline :: "string \<Rightarrow> pdu_error + MessageType \<times> StartLine" where
  "parse_startline line =
     (case RMatch line RequestStartLinePattern_fp of
        _ # m1 # m2 # _ \<Rightarrow>
          (let md = MethodFromName (ASCIIToUpper m1) in
           if md = UNKNOWN then Inl InvalidMethod
           else let sl = zero_StartLine\<lparr>sl_Method := md, RUri := m2\<rparr>
                in Inr (REQUEST, if md = INVITE then parse_request_uri sl else sl))
      | _ \<Rightarrow>
          (case RMatch line ResponseStartLinePattern_fp of
             _ # _ # m2 # m3 # m4 # _ \<Rightarrow>
               (let code = sint (Str2Int m2 :: u64) in
                if code < 100 \<or> 699 < code then Inl InvalidCode
                else Inr (RESPONSE, zero_StartLine\<lparr>StatusCode := code, ReasonPhrase := m3,
                            UriParameters := ParseParameters m4\<rparr>))
           | _ \<Rightarrow> Inl InvalidMessage))"

section \<open>The headers\<close>

record parse_state =
  ps_sl :: StartLine
  ps_msg :: SipMessage
  ps_map :: SipHeaders
  ps_via :: bool

definition header_of_line :: "string \<Rightarrow> (string \<times> string) option" where
  "header_of_line line =
     (case FindStringSubmatch (DicFieldRegExp FullHeader_fp) line of
        _ # m1 # m2 # _ \<Rightarrow> Some (m1, m2)
      | _ \<Rightarrow> None)"

definition tag_of :: "string \<Rightarrow> string option" where
  "tag_of v = (case FindStringSubmatch (DicFieldRegExp Tag_fp) v of _ # t # _ \<Rightarrow> Some t | _ \<Rightarrow> None)"

definition take_to :: "string \<Rightarrow> parse_state \<Rightarrow> parse_state" where
  "take_to value p =
     (let p1 = (case tag_of value of
                  Some t \<Rightarrow>
                    if t \<noteq> [] then
                      p\<lparr>ps_msg := (ps_msg p)\<lparr>sm_ToTag := t\<rparr>,
                        ps_sl := (ps_sl p)\<lparr>sl_Method := (if sl_Method (ps_sl p) = INVITE then ReINVITE
                                                       else sl_Method (ps_sl p))\<rparr>\<rparr>
                    else p
                | None \<Rightarrow> p)
      in p1\<lparr>ps_msg := (ps_msg p1)\<lparr>sm_ToHeader := value\<rparr>\<rparr>)"

definition take_max_forwards :: "string \<Rightarrow> SipMessage \<Rightarrow> SipMessage" where
  "take_max_forwards value m =
     (case Str2IntCheck value of
        (maxf, ok) \<Rightarrow>
          if \<not> ok \<or> 255 < sint (maxf :: u64) then m else m\<lparr>MaxFwds := sint maxf\<rparr>)"

definition take_cseq :: "string \<Rightarrow> parse_state \<Rightarrow> pdu_error + parse_state" where
  "take_cseq value p =
     (case FindStringSubmatch (DicFieldRegExp CSeqHeader_fp) value of
        _ # c1 # c2 # _ \<Rightarrow>
          if StatusCode (ps_sl p) = 0 \<and> Method_String (sl_Method (ps_sl p)) \<noteq> ASCIIToUpper c2
          then Inl InvalidCSeq
          else Inr (p\<lparr>ps_msg := (ps_msg p)\<lparr>CSeqNum := Str2Uint c1, CSeqMethod := MethodFromName c2\<rparr>\<rparr>)
      | _ \<Rightarrow> Inl InvalidCSeq)"

text \<open>Only the first Via is read, also when it has no branch.\<close>

definition take_via :: "(string \<Rightarrow> UDPAddr option) \<Rightarrow> string \<Rightarrow> parse_state \<Rightarrow> parse_state" where
  "take_via resolve value p =
     (if ps_via p then p else
      let p1 = p\<lparr>ps_via := True\<rparr> in
      case FindStringSubmatch (DicFieldRegExp ViaBranchPattern_fp) value of
        _ # branch # _ \<Rightarrow>
          (let m1 = (case FindStringSubmatch (DicFieldRegExp ViaIPv4Socket_fp) value of
                       _ # _ # s2 # s3 # _ \<Rightarrow>
                         (ps_msg p1)\<lparr>sm_ViaUdpAddr := BuildUdpAddr resolve (s2 @ '':'' @ s3) SipPort\<rparr>
                     | _ \<Rightarrow> ps_msg p1)
           in p1\<lparr>ps_msg := m1\<lparr>sm_ViaBranch := branch\<rparr>\<rparr>)
      | _ \<Rightarrow> p1)"

definition set_msg :: "(SipMessage \<Rightarrow> SipMessage) \<Rightarrow> parse_state \<Rightarrow> parse_state" where
  "set_msg f p = p\<lparr>ps_msg := f (ps_msg p)\<rparr>"

definition take_header ::
    "(string \<Rightarrow> UDPAddr option) \<Rightarrow> string \<Rightarrow> string \<Rightarrow> parse_state \<Rightarrow> pdu_error + parse_state" where
  "take_header resolve headerLC value p =
     (if headerLC = LowerCaseString From_hdr then
        Inr (set_msg (\<lambda>m. (case tag_of value of Some t \<Rightarrow> m\<lparr>sm_FromTag := t\<rparr> | None \<Rightarrow> m)\<lparr>sm_FromHeader := value\<rparr>) p)
      else if headerLC = LowerCaseString To_hdr then Inr (take_to value p)
      else if headerLC = LowerCaseString P_Asserted_Identity_hdr then
        Inr (set_msg (\<lambda>m. m\<lparr>PAIHeaders := PAIHeaders m @ [value]\<rparr>) p)
      else if headerLC = LowerCaseString Diversion_hdr then
        Inr (set_msg (\<lambda>m. m\<lparr>DivHeaders := DivHeaders m @ [value]\<rparr>) p)
      else if headerLC = LowerCaseString Call_ID_hdr then Inr (set_msg (\<lambda>m. m\<lparr>sm_CallID := value\<rparr>) p)
      else if headerLC = LowerCaseString Max_Forwards_hdr then Inr (set_msg (take_max_forwards value) p)
      else if headerLC = LowerCaseString Contact_hdr then
        Inr (set_msg (\<lambda>m. case FindStringSubmatch (DicFieldRegExp URIFull_fp) value of
                            _ # u # _ \<Rightarrow> m\<lparr>RCURI := u\<rparr> | _ \<Rightarrow> m) p)
      else if headerLC = LowerCaseString CSeq_hdr then take_cseq value p
      else if headerLC = LowerCaseString Via_hdr then Inr (take_via resolve value p)
      else Inr p)"

text \<open>The lines up to the first empty one; a line that is no header is skipped.\<close>

fun parse_headers ::
    "(string \<Rightarrow> UDPAddr option) \<Rightarrow> string list \<Rightarrow> parse_state \<Rightarrow> pdu_error + parse_state" where
  "parse_headers resolve [] p = Inr p"
| "parse_headers resolve (line # lines) p =
     (if line = [] then Inr p
      else case header_of_line line of
        None \<Rightarrow> parse_headers resolve lines p
      | Some (name, value) \<Rightarrow>
          (let headerLC = ASCIIToLower name in
           case take_header resolve headerLC value p of
             Inl e \<Rightarrow> Inl e
           | Inr p1 \<Rightarrow> parse_headers resolve lines (p1\<lparr>ps_map := Add headerLC value (ps_map p1)\<rparr>)))"

section \<open>The body\<close>

fun part_lines :: "string list \<Rightarrow> SipHeaders \<times> BodyType \<Rightarrow> SipHeaders \<times> BodyType" where
  "part_lines [] acc = acc"
| "part_lines (ln # lns) (h, bt) =
     (case header_of_line ln of
        None \<Rightarrow> part_lines lns (h, bt)
      | Some (name, value) \<Rightarrow>
          part_lines lns (Add name value h,
                          if HeaderEquals Content_Type_hdr name then GetBodyType value else bt))"

type_synonym parts = "(BodyType \<times> ContentPart) list"

text \<open>
  One round of the loop over the parts: the text after the boundary up to the next boundary.
  The round ends the loop, panics, or gives the parts with one more and the text from the
  next boundary on.
\<close>

definition parse_part :: "string \<Rightarrow> nat \<Rightarrow> parts \<Rightarrow> string \<Rightarrow> (parts \<times> string) option" where
  "parse_part mark at parts payload =
     do {
       p1 \<leftarrow> slice_from (int (at + length mark + 2)) payload;
       idx \<leftarrow> IndexOf p1 CRLFCRLF;
       idxEnd \<leftarrow> IndexOf p1 mark;
       let (h, bt) = part_lines (Split (take idx p1) CRLF) (NewSipHeaders, None_body);
       parts' \<leftarrow> (if bt = None_body \<or> bt = Unknown then Some parts
                  else do {
                    bytes \<leftarrow> slice_to (int idx + 4) (int idxEnd - 2) p1;
                    Some (AList.update bt \<lparr>cp_Headers = h, cp_Bytes = bytes\<rparr> parts)
                  });
       Some (parts', drop idxEnd p1)
     }"

lemma parse_part_shorter:
  assumes "parse_part mark at parts payload = Some (parts', rest)"
  shows "length rest < length payload"
proof -
  from assms obtain p1 n where "slice_from (int (at + length mark + 2)) payload = Some p1" "rest = drop n p1"
    by (auto simp: parse_part_def bind_eq_Some_conv split_def Let_def)
  moreover from this have "length p1 < length payload" by (auto simp: slice_from_def split: if_splits)
  ultimately show ?thesis by simp
qed

function parse_parts :: "string \<Rightarrow> parts \<Rightarrow> string \<Rightarrow> (parts \<times> string) option" where
  "parse_parts boundary parts payload =
     (let mark = ''--'' @ boundary in
      case IndexOf payload mark of
        None \<Rightarrow> Some (parts, payload)
      | Some i \<Rightarrow>
          if payload = mark @ ''--'' @ CRLF then Some (parts, payload)
          else case parse_part mark i parts payload of
            None \<Rightarrow> None
          | Some (parts', rest) \<Rightarrow> parse_parts boundary parts' rest)"
  by pat_completeness auto

termination
  by (relation "measure (\<lambda>(b, ps, s). length s)") (auto dest: parse_part_shorter)

declare parse_parts.simps [simp del]

type_synonym pdu_result = "pdu_error + (SipMessage \<times> MessageBody option \<times> string) option"

definition parse_body ::
    "SipMessage \<Rightarrow> string \<Rightarrow> int \<Rightarrow> int \<Rightarrow> pdu_result option" where
  "parse_body m payload start len =
     (if len = 0 then do { rest \<leftarrow> slice_from start payload; Some (Inr (Some (m, None, rest))) }
      else if int (length payload) < go_int (start + len) then Some (Inl BadContentLength)
      else case ValuesHeader Content_Type_hdr (Headers m) of
        (False, _) \<Rightarrow> Some (Inl InvalidBody)
      | (True, []) \<Rightarrow> None
      | (True, v # _) \<Rightarrow>
          (case ExtractParameters v True of
             None \<Rightarrow> Some (Inl InvalidBody)
           | Some sections \<Rightarrow>
               (let get = (\<lambda>k. case map_of sections k of Some x \<Rightarrow> x | None \<Rightarrow> []);
                    cntntType = ASCIIToLower (get ''!headerValue'')
                in if \<not> Contains cntntType ''multipart'' then do {
                     parts \<leftarrow> (let bt = GetBodyType cntntType in
                       if bt = Unknown then Some []
                       else do {
                         bytes \<leftarrow> slice_to start (go_int (start + len)) payload;
                         Some [(bt, \<lparr>cp_Headers = NewSipHeaders, cp_Bytes = bytes\<rparr>)]
                       });
                     rest \<leftarrow> slice_from (go_int (start + len)) payload;
                     Some (Inr (Some (m, Some (NewBody\<lparr>PartsContents := parts\<rparr>), rest)))
                   } else do {
                     p0 \<leftarrow> slice_from start payload;
                     (parts, rest) \<leftarrow> parse_parts (get ''boundary'') [] p0;
                     Some (Inr (Some (m, Some (NewBody\<lparr>PartsContents := parts\<rparr>), rest)))
                   })))"

section \<open>The message\<close>

text \<open>The length of the body: the first \<open>Content-Length\<close>, or what is left of the datagram.\<close>

definition body_length :: "int \<Rightarrow> SipHeaders \<Rightarrow> (int \<times> SipHeaders) option" where
  "body_length left h =
     (case ValuesHeader Content_Length_hdr h of
        (True, []) \<Rightarrow> None
      | (True, v # _) \<Rightarrow> Some (sint (Str2Int v :: u64), h)
      | (False, _) \<Rightarrow>
          if fst (ValuesHeader Content_Type_hdr h)
          then map_option (\<lambda>s. (left, AddHeader Content_Length_hdr s h)) (Int2Str (word_of_int left))
          else Some (left, AddHeader Content_Length_hdr ''0'' h))"

definition header_error :: "StartLine \<Rightarrow> SipHeaders \<Rightarrow> pdu_error option" where
  "header_error sl h =
     (if fst (AnyMandatoryHeadersMissing (sl_Method sl) h) then Some MissingHeader
      else if 1 < HeaderCount ''CSeq'' h then Some DuplicateCSeq
      else if 1 < HeaderCount ''Content-Length'' h then Some DuplicateContentLength
      else None)"

definition processPDU :: "(string \<Rightarrow> UDPAddr option) \<Rightarrow> string \<Rightarrow> pdu_result option" where
  "processPDU resolve payload =
     (case IndexOf payload CRLFCRLF of
        None \<Rightarrow> Some (Inr None)
      | Some dbl \<Rightarrow>
          (let msglines = Split (take dbl payload) CRLF in
           case parse_startline (hd msglines) of
             Inl e \<Rightarrow> Some (Inl e)
           | Inr (msgType, sl) \<Rightarrow>
               (case parse_headers resolve (tl msglines)
                       \<lparr>ps_sl = sl, ps_msg = zero_SipMessage\<lparr>MsgType := msgType\<rparr>, ps_map = NewSHsPointer False,
                        ps_via = False\<rparr> of
                  Inl e \<Rightarrow> Some (Inl e)
                | Inr p \<Rightarrow>
                    (case header_error (ps_sl p) (ps_map p) of
                       Some e \<Rightarrow> Some (Inl e)
                     | None \<Rightarrow>
                         (let start = int dbl + 4; left = int (length payload) - start in
                          do {
                            (len, h) \<leftarrow> body_length left (ps_map p);
                            parse_body ((ps_msg p)\<lparr>sm_StartLine := ps_sl p, ContentLength := left, Headers := h\<rparr>)
                              payload start len
                          })))))"

end
