(* ===== verification/Packet_Loop.thy ===== *)
theory Packet_Loop
  imports Invariants Sip_Parser
begin

text \<open>
  \<open>processPacket\<close> of \<open>sip/init.go\<close>: a worker reads messages out of one datagram until nothing
  is left of it or the parser gives no message. The loop need not end, so it is a partial
  function: a worker that never comes back is \<open>None\<close>. A panic of the parser is recovered nowhere
  and ends the process: the flag of the world is set and stays set.
\<close>

partial_function (option) packet_loop ::
    "string \<Rightarrow> UDPAddr \<Rightarrow> UDPAddr \<Rightarrow> world \<Rightarrow> world option" where
  "packet_loop pdu src conn w =
     (if pdu = [] then Some w
      else case processPDU (e_resolve (w_env w)) pdu of
        None \<Rightarrow> Some (snd (run_state panic w))
      | Some (Inl _) \<Rightarrow> Some w
      | Some (Inr None) \<Rightarrow> Some w
      | Some (Inr (Some (m, mb, rest))) \<Rightarrow>
          packet_loop rest src conn (snd (run_state (process_message m mb src conn) w)))"

text \<open>
  What a datagram is to the parser, which is called again on what it left over: the messages it
  holds, in their order, and whether the parser panics after them. A datagram that the parser
  never gets through is nothing.
\<close>

inductive holds ::
    "(string \<Rightarrow> UDPAddr option) \<Rightarrow> string \<Rightarrow> (SipMessage \<times> MessageBody option) list \<Rightarrow> bool \<Rightarrow> bool"
    for resolve where
  nothing_left: "holds resolve [] [] False"
| refused: "pdu \<noteq> [] \<Longrightarrow> processPDU resolve pdu = Some (Inl e) \<Longrightarrow> holds resolve pdu [] False"
| no_message: "pdu \<noteq> [] \<Longrightarrow> processPDU resolve pdu = Some (Inr None) \<Longrightarrow> holds resolve pdu [] False"
| panics: "pdu \<noteq> [] \<Longrightarrow> processPDU resolve pdu = None \<Longrightarrow> holds resolve pdu [] True"
| message: "pdu \<noteq> [] \<Longrightarrow> processPDU resolve pdu = Some (Inr (Some (m, mb, rest))) \<Longrightarrow>
    holds resolve rest ms crash \<Longrightarrow> holds resolve pdu ((m, mb) # ms) crash"

declare holds.intros [intro]

inductive_cases holds_elim: "holds resolve pdu ms crash"

text \<open>The events of a datagram from \<open>src\<close> with these messages.\<close>

definition datagram_events ::
    "(SipMessage \<times> MessageBody option) list \<Rightarrow> bool \<Rightarrow> UDPAddr \<Rightarrow> UDPAddr \<Rightarrow> event list" where
  "datagram_events ms crash src conn =
     map (\<lambda>(m, mb). Receive m mb src conn) ms @ (if crash then [Unrecovered] else [])"

section \<open>What is left of the datagram\<close>

lemma slice_from_drop: "slice_from a s = Some t \<longleftrightarrow> 0 \<le> a \<and> a \<le> int (length s) \<and> t = drop (nat a) s"
  by (auto simp: slice_from_def)

lemma parse_part_suffix:
  "parse_part mark i parts payload = Some (parts', rest) \<Longrightarrow> \<exists>n. rest = drop n payload"
  by (auto simp: parse_part_def bind_eq_Some_conv split_def Let_def slice_from_drop)

lemma parse_parts_suffix:
  "parse_parts boundary parts payload = Some (parts', rest) \<Longrightarrow> \<exists>n. rest = drop n payload"
proof (induction boundary parts payload rule: parse_parts.induct)
  case (1 boundary parts payload)
  let ?mark = "''--'' @ boundary"
  show ?case
  proof (cases "IndexOf payload ?mark")
    case None
    with "1.prems" have "rest = drop 0 payload" by (subst (asm) parse_parts.simps) simp
    then show ?thesis ..
  next
    case (Some i)
    show ?thesis
    proof (cases "payload = ?mark @ ''--'' @ CRLF")
      case True
      with "1.prems" Some have "rest = drop 0 payload" by (subst (asm) parse_parts.simps) simp
      then show ?thesis ..
    next
      case False
      with "1.prems" Some obtain ps r where p: "parse_part ?mark i parts payload = Some (ps, r)"
        "parse_parts boundary ps r = Some (parts', rest)"
        by (subst (asm) parse_parts.simps) (auto split: option.splits)
      from "1.IH" [OF refl Some False p(1) refl p(2)] parse_part_suffix [OF p(1)]
      show ?thesis by (metis drop_drop)
    qed
  qed
qed

text \<open>The length a message claims for its body.\<close>

definition claimed_length :: "SipMessage \<Rightarrow> int" where
  "claimed_length m =
     (case ValuesHeader Content_Length_hdr (Headers m) of
        (_, v # _) \<Rightarrow> sint (Str2Int v :: u64)
      | _ \<Rightarrow> 0)"

lemma go_int_cases:
  assumes "0 \<le> n" "n < 2 ^ 64"
  shows "go_int n = n \<or> go_int n < 0"
proof (cases "n < 2 ^ 63")
  case True
  with assms have "(n + 2 ^ 63) mod 2 ^ 64 = n + 2 ^ 63" by (intro mod_pos_pos_trivial) simp_all
  then show ?thesis by (simp add: go_int_def int_word_sint)
next
  case False
  have "(n + 2 ^ 63) mod 2 ^ 64 < 2 ^ 63"
  proof -
    have "(n + 2 ^ 63) mod 2 ^ 64 = (n + 2 ^ 63 - 2 ^ 64) mod 2 ^ 64"
      by (rule minus_mod_self2 [symmetric])
    also have "\<dots> = n + 2 ^ 63 - 2 ^ 64" using False assms by (intro mod_pos_pos_trivial) simp_all
    finally show ?thesis using assms by simp
  qed
  then show ?thesis by (simp add: go_int_def int_word_sint)
qed

lemma parse_body_rest:
  assumes "parse_body m payload start len = Some (Inr (Some (m', mb, rest)))"
  shows "m' = m \<and> ((\<exists>n. rest = drop (n + nat start) payload) \<or>
     0 \<le> go_int (start + len) \<and> rest = drop (nat (go_int (start + len))) payload)"
proof (cases "len = 0")
  case True
  with assms have "m' = m" "rest = drop (0 + nat start) payload"
    by (auto simp: parse_body_def bind_eq_Some_conv slice_from_drop)
  then show ?thesis by blast
next
  case False
  with assms obtain v sections where h: "\<not> int (length payload) < go_int (start + len)"
    "ValuesHeader Content_Type_hdr (Headers m) = (True, v)" "v \<noteq> []"
    "ExtractParameters (hd v) True = Some sections"
    by (auto simp: parse_body_def split: if_splits prod.splits bool.splits list.splits option.splits)
  moreover have "\<exists>n. r = drop (n + nat start) payload"
    if "parse_parts b [] (drop (nat start) payload) = Some (ps, r)" for b ps r
    using parse_parts_suffix [OF that] by simp
  ultimately show ?thesis using assms False
    by (cases v) (auto simp: parse_body_def Let_def bind_eq_Some_conv slice_from_drop split: if_splits)
qed

text \<open>What a successful parse went through.\<close>

lemma processPDU_SomeE:
  assumes "processPDU resolve payload = Some (Inr (Some (m, mb, rest)))"
  obtains dbl msgType sl p len where
    "IndexOf payload CRLFCRLF = Some dbl"
    "parse_startline (hd (Split (take dbl payload) CRLF)) = Inr (msgType, sl)"
    "parse_headers resolve (tl (Split (take dbl payload) CRLF))
       \<lparr>ps_sl = sl, ps_msg = zero_SipMessage\<lparr>MsgType := msgType\<rparr>, ps_map = NewSHsPointer False,
        ps_via = False\<rparr> = Inr p"
    "header_error (ps_sl p) (ps_map p) = None"
    "body_length (int (length payload) - (int dbl + 4)) (ps_map p) = Some (len, Headers m)"
    "m = (ps_msg p)\<lparr>sm_StartLine := ps_sl p, ContentLength := int (length payload) - (int dbl + 4),
           Headers := Headers m\<rparr>"
    "parse_body m payload (int dbl + 4) len = Some (Inr (Some (m, mb, rest)))"
proof -
  from assms obtain dbl msgType sl p len h where *:
    "IndexOf payload CRLFCRLF = Some dbl"
    "parse_startline (hd (Split (take dbl payload) CRLF)) = Inr (msgType, sl)"
    "parse_headers resolve (tl (Split (take dbl payload) CRLF))
       \<lparr>ps_sl = sl, ps_msg = zero_SipMessage\<lparr>MsgType := msgType\<rparr>, ps_map = NewSHsPointer False,
        ps_via = False\<rparr> = Inr p"
    "header_error (ps_sl p) (ps_map p) = None"
    "body_length (int (length payload) - (int dbl + 4)) (ps_map p) = Some (len, h)"
    "parse_body ((ps_msg p)\<lparr>sm_StartLine := ps_sl p, ContentLength := int (length payload) - (int dbl + 4),
           Headers := h\<rparr>) payload (int dbl + 4) len = Some (Inr (Some (m, mb, rest)))"
    by (auto simp: processPDU_def Let_def bind_eq_Some_conv split: option.splits sum.splits prod.splits)
  from parse_body_rest [OF *(6)] have "m = (ps_msg p)\<lparr>sm_StartLine := ps_sl p,
      ContentLength := int (length payload) - (int dbl + 4), Headers := h\<rparr>" by simp
  with * that show thesis by simp
qed

lemma processPDU_rest:
  assumes "processPDU resolve payload = Some (Inr (Some (m, mb, rest)))"
  shows "\<exists>n. rest = drop n payload"
  using assms by (rule processPDU_SomeE) (metis parse_body_rest)

lemma processPDU_shorter:
  assumes "processPDU resolve payload = Some (Inr (Some (m, mb, rest)))"
    and "int (length payload) < 2 ^ 63" "0 \<le> claimed_length m"
  shows "length rest < length payload"
  using assms(1)
proof (rule processPDU_SomeE)
  fix dbl msgType sl p len
  assume dbl: "IndexOf payload CRLFCRLF = Some dbl"
    and len: "body_length (int (length payload) - (int dbl + 4)) (ps_map p) = Some (len, Headers m)"
    and body: "parse_body m payload (int dbl + 4) len = Some (Inr (Some (m, mb, rest)))"
  from IndexOf_bound [OF dbl] have d: "dbl + 4 \<le> length payload" by (simp add: CRLFCRLF_def CRLF_def)
  have l: "0 \<le> len \<and> len < 2 ^ 63"
  proof (cases "fst (ValuesHeader Content_Length_hdr (ps_map p))")
    case True
    with len have "Headers m = ps_map p" "len = claimed_length m"
      by (auto simp: body_length_def claimed_length_def split: prod.splits bool.splits list.splits)
    with assms(3) show ?thesis using sint_lt [of "word_of_int len :: u64"]
      by (auto simp: claimed_length_def split: prod.splits list.splits intro: sint_lt [where 'a = 64, simplified])
  next
    case False
    with len have "len = int (length payload) - (int dbl + 4)"
      by (auto simp: body_length_def split: prod.splits bool.splits list.splits if_splits)
    with d assms(2) show ?thesis by simp
  qed
  have e: "go_int (int dbl + 4 + len) = int dbl + 4 + len \<or> go_int (int dbl + 4 + len) < 0"
    using l d assms(2) by (intro go_int_cases) simp_all
  from parse_body_rest [OF body] show ?thesis
  proof (elim conjE disjE exE)
    fix n assume "rest = drop (n + nat (int dbl + 4)) payload"
    then show ?thesis using d by simp
  next
    assume "0 \<le> go_int (int dbl + 4 + len)" "rest = drop (nat (go_int (int dbl + 4 + len))) payload"
    with e have "rest = drop (nat (int dbl + 4 + len)) payload" by auto
    moreover have "0 < nat (int dbl + 4 + len)" "0 < length payload" using l d by auto
    ultimately show ?thesis by (simp only: length_drop)
  qed
qed

section \<open>The message of a successful parse\<close>

text \<open>What every header line keeps.\<close>

definition parse_inv :: "MessageType \<Rightarrow> StartLine \<Rightarrow> parse_state \<Rightarrow> bool" where
  "parse_inv mt sl p \<longleftrightarrow> headers_wf (ps_map p) \<and> MsgType (ps_msg p) = mt \<and> MaxFwds (ps_msg p) \<le> 255 \<and>
     StatusCode (ps_sl p) = StatusCode sl \<and>
     (if sl_Method sl = INVITE
      then sl_Method (ps_sl p) = (if sm_ToTag (ps_msg p) = [] then INVITE else ReINVITE)
      else sl_Method (ps_sl p) = sl_Method sl)"

lemma set_msg_inv:
  assumes "\<And>m. MsgType (f m) = MsgType m \<and> (MaxFwds m \<le> 255 \<longrightarrow> MaxFwds (f m) \<le> 255) \<and> sm_ToTag (f m) = sm_ToTag m"
  shows "parse_inv mt sl p \<Longrightarrow> parse_inv mt sl (set_msg f p)"
  using assms by (simp add: parse_inv_def set_msg_def)

lemma take_to_inv: "parse_inv mt sl p \<Longrightarrow> parse_inv mt sl (take_to v p)"
  by (cases "tag_of v") (auto simp: parse_inv_def take_to_def Let_def split: if_splits)

lemma take_cseq_inv: "take_cseq v p = Inr p' \<Longrightarrow> parse_inv mt sl p \<Longrightarrow> parse_inv mt sl p'"
  by (auto simp: take_cseq_def parse_inv_def split: if_splits list.splits)

lemma take_via_inv: "parse_inv mt sl p \<Longrightarrow> parse_inv mt sl (take_via resolve v p)"
  by (simp add: take_via_def parse_inv_def Let_def split: list.split)

lemma take_header_inv:
  assumes "take_header resolve h v p = Inr p'" "parse_inv mt sl p"
  shows "parse_inv mt sl p'"
proof -
  note p = assms(2)
  have mf: "parse_inv mt sl (set_msg (take_max_forwards v) p)"
    by (rule set_msg_inv [OF _ p]) (auto simp: take_max_forwards_def split: prod.split)
  have frm: "parse_inv mt sl (set_msg (\<lambda>m. (case tag_of v of Some t \<Rightarrow> m\<lparr>sm_FromTag := t\<rparr> | None \<Rightarrow> m)\<lparr>sm_FromHeader := v\<rparr>) p)"
    by (rule set_msg_inv [OF _ p]) (simp split: option.split)
  have con: "parse_inv mt sl (set_msg (\<lambda>m. case FindStringSubmatch (DicFieldRegExp URIFull_fp) v of
      _ # u # _ \<Rightarrow> m\<lparr>RCURI := u\<rparr> | _ \<Rightarrow> m) p)"
    by (rule set_msg_inv [OF _ p]) (simp split: list.split)
  have rest: "parse_inv mt sl (set_msg (\<lambda>m. m\<lparr>PAIHeaders := PAIHeaders m @ [v]\<rparr>) p)"
    "parse_inv mt sl (set_msg (\<lambda>m. m\<lparr>DivHeaders := DivHeaders m @ [v]\<rparr>) p)"
    "parse_inv mt sl (set_msg (\<lambda>m. m\<lparr>sm_CallID := v\<rparr>) p)"
    by (rule set_msg_inv [OF _ p]; simp)+
  show ?thesis
    using assms(1) p mf frm con rest take_to_inv [OF p] take_via_inv [OF p] take_cseq_inv [OF _ p]
    unfolding take_header_def by (force split: if_split_asm)
qed

lemma parse_headers_inv:
  "parse_headers resolve lines p = Inr p' \<Longrightarrow> parse_inv mt sl p \<Longrightarrow> parse_inv mt sl p'"
proof (induction resolve lines p rule: parse_headers.induct)
  case (2 resolve line lines p)
  show ?case
  proof (cases "line = []")
    case False
    show ?thesis
    proof (cases "header_of_line line")
      case None
      with 2 False show ?thesis by simp
    next
      case (Some nv)
      obtain name v where nv: "nv = (name, v)" by (cases nv)
      with "2.prems"(1) Some False obtain q where
        q: "take_header resolve (ASCIIToLower name) v p = Inr q"
           "parse_headers resolve lines (q\<lparr>ps_map := Add (ASCIIToLower name) v (ps_map q)\<rparr>) = Inr p'"
        by (auto simp: Let_def split: sum.splits)
      have "parse_inv mt sl (q\<lparr>ps_map := Add (ASCIIToLower name) v (ps_map q)\<rparr>)"
        using take_header_inv [OF q(1) "2.prems"(2)] by (simp add: parse_inv_def hm.inv_add)
      with "2.IH"(2) [OF False Some nv [symmetric] refl q] show ?thesis by blast
    qed
  qed (use 2 in simp)
qed simp

lemma parse_startline_cases:
  assumes "parse_startline line = Inr (mt, sl)"
  shows "mt = REQUEST \<and> StatusCode sl = 0 \<and> sl_Method sl \<noteq> UNKNOWN \<and> sl_Method sl \<noteq> ReINVITE
    \<or> mt = RESPONSE \<and> 100 \<le> StatusCode sl \<and> StatusCode sl \<le> 699 \<and> sl_Method sl = UNKNOWN"
proof -
  have uri: "StatusCode (parse_request_uri s) = StatusCode s \<and> sl_Method (parse_request_uri s) = sl_Method s" for s
    by (simp add: parse_request_uri_def split: list.split)
  show ?thesis using assms uri MethodFromName_not_ReINVITE
    by (auto simp: parse_startline_def Let_def zero_StartLine_def split: list.splits if_splits)
qed

lemma body_length_headers:
  assumes "body_length left h = Some (len, h')" "headers_wf h" "HeaderCount ''Content-Length'' h \<le> 1"
  shows "headers_wf h' \<and> HeaderCount ''Content-Length'' h' = 1
    \<and> (\<forall>n. HeaderExists n h \<longrightarrow> HeaderExists n h') \<and> HeaderCount ''CSeq'' h' = HeaderCount ''CSeq'' h"
proof -
  let ?k = "ASCIIToLower ''Content-Length''"
  have k: "HeaderName Content_Length_hdr = ''Content-Length''" by code_simp
  have c: "?k \<noteq> ASCIIToLower ''CSeq''" by code_simp
  have pos: "HeaderExists n h \<Longrightarrow> 0 < HeaderCount n h" for n
    using assms(2) by (cases "map_of h (ASCIIToLower n)")
      (auto simp: HeaderExists_def HeaderCount_def headers_wf_def dest!: map_of_SomeD)
  consider "h' = h" "HeaderExists ''Content-Length'' h"
    | v where "h' = Add ''Content-Length'' v h" "\<not> HeaderExists ''Content-Length'' h"
    using assms(1)
    by (auto simp: body_length_def ValuesHeader_def AddHeader_def k Values_def HeaderExists_def
        split: option.splits if_splits list.splits)
  then show ?thesis
  proof cases
    case 1
    with pos [of "''Content-Length''"] assms(2,3) show ?thesis by simp
  next
    case (2 v)
    have "headers_wf h'" using 2 assms(2) by (simp add: hm.inv_add)
    moreover have "HeaderCount n h' = HeaderCount n h + (if ASCIIToLower n = ?k then 1 else 0)" for n
      using 2 by (auto simp: HeaderCount_def Add_def Let_def update_conv' HeaderExists_def split: option.split)
    moreover have "HeaderExists n h \<Longrightarrow> HeaderExists n h'" for n
      using 2 by (simp add: HeaderExists_def Add_def Let_def update_conv')
    moreover have "HeaderCount ''Content-Length'' h = 0"
      using 2 by (simp add: HeaderCount_def HeaderExists_def)
    ultimately show ?thesis using c by simp
  qed
qed

section \<open>The loop\<close>

lemma process_message_env: "w_env (snd (run_state (process_message m mb src conn) w)) = w_env w"
  using grow.keeps_stack(4) by (simp add: keeps_def grows_def)

text \<open>The messages of a datagram, and whether the parser panics, are determined by its bytes.\<close>

lemma holds_determ: "holds resolve pdu ms c \<Longrightarrow> holds resolve pdu ms' c' \<Longrightarrow> ms' = ms \<and> c' = c"
proof (induction arbitrary: ms' c' rule: holds.induct)
  case (message pdu m mb rest ms crash)
  from message.prems show ?case
    by (rule holds_elim) (simp_all add: message.hyps(1,2), blast dest: message.IH)
qed (erule holds_elim; simp)+

text \<open>The loop handles what the datagram holds, and comes back when that is finite.\<close>

lemma run_datagram:
  "run_events (datagram_events ((m, mb) # ms) c src conn) w
     = run_events (datagram_events ms c src conn) (snd (run_state (process_message m mb src conn) w))"
  "run_events (datagram_events [] False src conn) w = w"
  "run_events (datagram_events [] True src conn) w = snd (run_state panic w)"
  by (simp_all add: datagram_events_def run_events_def run_event_def)

lemma packet_loop_holds:
  assumes "packet_loop pdu src conn w = Some w'"
  shows "\<exists>ms c. holds (e_resolve (w_env w)) pdu ms c \<and> w' = run_events (datagram_events ms c src conn) w"
proof (induction rule: packet_loop.raw_induct [OF _ assms])
  case (1 packet_loop pdu src conn w w')
  let ?r = "e_resolve (w_env w)"
  consider (Nil) "pdu = []" | (None) "pdu \<noteq> []" "processPDU ?r pdu = None"
    | (Err) e where "pdu \<noteq> []" "processPDU ?r pdu = Some (Inl e)" | (No) "pdu \<noteq> []" "processPDU ?r pdu = Some (Inr None)"
    | (Msg) m mb rest where "pdu \<noteq> []" "processPDU ?r pdu = Some (Inr (Some (m, mb, rest)))"
    by (cases "processPDU ?r pdu") (force split: sum.splits, metis obj_sumE option.exhaust prod_cases3)
  then show ?case
  proof cases
    case Msg
    with 1(2) have "packet_loop rest src conn (snd (run_state (process_message m mb src conn) w)) = Some w'" by simp
    from 1(1) [OF this] obtain ms c where "holds ?r rest ms c"
      "w' = run_events (datagram_events ms c src conn) (snd (run_state (process_message m mb src conn) w))"
      by (auto simp: process_message_env)
    with Msg show ?thesis by (intro exI [of _ "(m, mb) # ms"] exI [of _ c]) (auto simp: run_datagram)
  qed (use 1(2) in \<open>auto 0 3 simp: run_datagram intro!: exI [of _ "[]"]\<close>)
qed

lemma holds_packet_loop:
  "holds resolve pdu ms c \<Longrightarrow> e_resolve (w_env w) = resolve \<Longrightarrow>
     packet_loop pdu src conn w = Some (run_events (datagram_events ms c src conn) w)"
proof (induction arbitrary: w rule: holds.induct)
  case (message pdu m mb rest ms crash)
  then show ?case by (subst packet_loop.simps) (simp add: run_datagram process_message_env)
qed (subst packet_loop.simps; simp add: run_datagram)+

text \<open>When no message claims a negative length, every message leaves a shorter rest.\<close>

lemma datagram_holds:
  assumes "\<And>n m mb rest. processPDU resolve (drop n pdu) = Some (Inr (Some (m, mb, rest))) \<Longrightarrow>
      0 \<le> claimed_length m" "int (length pdu) < 2 ^ 63"
  shows "\<exists>ms c. holds resolve pdu ms c \<and> length ms \<le> length pdu"
  using assms
proof (induction "length pdu" arbitrary: pdu rule: less_induct)
  case less
  show ?case
  proof (cases "\<exists>m mb rest. pdu \<noteq> [] \<and> processPDU resolve pdu = Some (Inr (Some (m, mb, rest)))")
    case False
    have "holds resolve pdu [] (pdu \<noteq> [] \<and> processPDU resolve pdu = None)"
    proof (cases "processPDU resolve pdu")
      case (Some r)
      then consider "pdu = []" | e where "r = Inl e" | "r = Inr None" using False by (cases r) (auto, metis option.exhaust prod_cases3)
      then show ?thesis using Some by cases (cases "pdu = []"; auto)+
    qed (cases "pdu = []"; auto)
    then show ?thesis by (metis le0 list.size(3))
  next
    case True
    then obtain m mb rest where m: "pdu \<noteq> []" "processPDU resolve pdu = Some (Inr (Some (m, mb, rest)))" by blast
    have s: "length rest < length pdu"
      using processPDU_shorter [OF m(2) less.prems(2)] less.prems(1) [of 0] m(2) by simp
    from processPDU_rest [OF m(2)] obtain k where k: "rest = drop k pdu" ..
    have "\<exists>ms c. holds resolve rest ms c \<and> length ms \<le> length rest"
      by (rule less.hyps [OF s]) (use less.prems k s in \<open>auto simp: drop_drop\<close>)
    then obtain ms c where "holds resolve rest ms c" "length ms \<le> length rest" by blast
    with m s show ?thesis by (intro exI [of _ "(m, mb) # ms"] exI [of _ c]) auto
  qed
qed

text \<open>A datagram takes a running router to a reachable world; only the parser's panic stops it.\<close>

lemma datagram_reachable:
  assumes "world_reachable w" "\<not> w_panic w"
  shows "world_reachable (run_events (datagram_events ms c src conn) w)
    \<and> (w_panic (run_events (datagram_events ms c src conn) w) \<longleftrightarrow> c)"
proof -
  let ?evs = "map (\<lambda>(m, mb). Receive m mb src conn) ms"
  have "list_all stays_up ?evs" by (auto simp: list_all_iff stays_up_def)
  from run_events_reachable [OF assms this] have v: "world_reachable (run_events ?evs w)" "\<not> w_panic (run_events ?evs w)"
    by simp_all
  have "w_panic (snd (run_state (run_event Unrecovered) (run_events ?evs w)))" using v(2) by (simp add: run_event_def panic_def)
  moreover have "world_reachable (snd (run_state (run_event Unrecovered) (run_events ?evs w)))"
    using v by (intro world_reachable.stepped [OF v(1)] world_step.event)
  moreover have "run_events (?evs @ [Unrecovered]) w = snd (run_state (run_event Unrecovered) (run_events ?evs w))"
    by (simp add: run_events_def)
  ultimately show ?thesis using v by (simp add: datagram_events_def)
qed

lemma packet_loop_never:
  assumes "processPDU resolve pdu = Some (Inr (Some (m, mb, pdu)))" "pdu \<noteq> []"
  shows "e_resolve (w_env w) = resolve \<Longrightarrow> packet_loop pdu src conn w = None"
proof -
  have "p = pdu \<longrightarrow> e_resolve (w_env w) \<noteq> resolve" if "packet_loop p s c w = Some w'" for p s c w w'
  proof (induction rule: packet_loop.raw_induct [OF _ that])
    case (1 packet_loop p s c w w')
    show ?case
    proof (intro impI notI)
      assume *: "p = pdu" "e_resolve (w_env w) = resolve"
      with 1(2) assms have "packet_loop p s c (snd (run_state (process_message m mb s c) w)) = Some w'"
        by simp
      from 1(1) [OF this] * show False by (simp add: process_message_env)
    qed
  qed
  then show "e_resolve (w_env w) = resolve \<Longrightarrow> packet_loop pdu src conn w = None"
    by (metis not_Some_eq)
qed

section \<open>A datagram that is never finished\<close>

text \<open>
  The body is of an unknown type and claims a negative length that takes the parser back to
  the start of the datagram.
\<close>

definition stuck_lines :: "string list" where
  "stuck_lines =
     [''INFO a:a SIP/2.0'', ''Via:a'', ''From:b'', ''To:a'', ''Call-ID:x'', ''CSeq:1 INFO'',
      ''Content-Type:x'', ''Content-Length:-102'']"

definition stuck_pdu :: string where
  "stuck_pdu = Join stuck_lines CRLF @ CRLFCRLF"

lemma stuck_split: "IndexOf stuck_pdu CRLFCRLF = Some 98" "length stuck_pdu = 102"
  "Split (take 98 stuck_pdu) CRLF = stuck_lines"
  by code_simp+

lemma stuck_start: "parse_startline ''INFO a:a SIP/2.0''
    = Inr (REQUEST, zero_StartLine\<lparr>sl_Method := INFO, RUri := ''a:a''\<rparr>)"
  by code_simp

lemma stuck_header_lines:
  "header_of_line ''Via:a'' = Some (''Via'', ''a'')" "header_of_line ''From:b'' = Some (''From'', ''b'')"
  "header_of_line ''To:a'' = Some (''To'', ''a'')" "header_of_line ''Call-ID:x'' = Some (''Call-ID'', ''x'')"
  "header_of_line ''CSeq:1 INFO'' = Some (''CSeq'', ''1 INFO'')"
  "header_of_line ''Content-Type:x'' = Some (''Content-Type'', ''x'')"
  "header_of_line ''Content-Length:-102'' = Some (''Content-Length'', ''-102'')"
  by code_simp+

lemma stuck_names_1:
  "LowerCaseString From_hdr = ''from''" "LowerCaseString To_hdr = ''to''" "LowerCaseString Via_hdr = ''via''"
  by code_simp+

lemma stuck_names_2:
  "LowerCaseString P_Asserted_Identity_hdr = ''p-asserted-identity''"
  "LowerCaseString Diversion_hdr = ''diversion''" "LowerCaseString Call_ID_hdr = ''call-id''"
  by code_simp+

lemma stuck_names_3:
  "LowerCaseString Max_Forwards_hdr = ''max-forwards''" "LowerCaseString Contact_hdr = ''contact''"
  "LowerCaseString CSeq_hdr = ''cseq''"
  by code_simp+

lemma stuck_names_4: "HeaderName Content_Length_hdr = ''Content-Length''" "HeaderName Content_Type_hdr = ''Content-Type''"
  by code_simp+

lemmas stuck_names = stuck_names_1 stuck_names_2 stuck_names_3 stuck_names_4

lemma stuck_lower:
  "ASCIIToLower ''Via'' = ''via''" "ASCIIToLower ''From'' = ''from''" "ASCIIToLower ''To'' = ''to''"
  "ASCIIToLower ''Call-ID'' = ''call-id''" "ASCIIToLower ''CSeq'' = ''cseq''"
  "ASCIIToLower ''Content-Type'' = ''content-type''" "ASCIIToLower ''Content-Length'' = ''content-length''"
  by code_simp+

lemma stuck_values:
  "tag_of ''a'' = None" "tag_of ''b'' = None"
  "FindStringSubmatch (DicFieldRegExp ViaBranchPattern_fp) ''a'' = []"
  "FindStringSubmatch (DicFieldRegExp CSeqHeader_fp) ''1 INFO'' = [''1 INFO'', ''1'', ''INFO'']"
  "Method_String INFO = ''INFO''" "ASCIIToUpper ''INFO'' = ''INFO''" "sint (Str2Int ''-102'' :: u64) = - 102"
  "ExtractParameters ''x'' True = Some [(''!headerValue'', ''x'')]" "Contains (ASCIIToLower ''x'') ''multipart'' = False"
  "GetBodyType (ASCIIToLower ''x'') = Unknown" "go_int 0 = 0"
  by code_simp+

definition stuck_map :: SipHeaders where
  "stuck_map = fold (\<lambda>(k, v). Add k v) [(''via'', ''a''), (''from'', ''b''), (''to'', ''a''), (''call-id'', ''x''),
     (''cseq'', ''1 INFO''), (''content-type'', ''x''), (''content-length'', ''-102'')] []"

lemma stuck_map_facts:
  "fst (AnyMandatoryHeadersMissing INFO stuck_map) = False" "HeaderCount ''CSeq'' stuck_map = 1"
  "HeaderCount ''Content-Length'' stuck_map = 1" "ValuesHeader Content_Length_hdr stuck_map = (True, [''-102''])"
  "ValuesHeader Content_Type_hdr stuck_map = (True, [''x''])" "NewSHsPointer False = []"
  by code_simp+

lemma stuck_parse: "\<exists>m mb. processPDU resolve stuck_pdu = Some (Inr (Some (m, mb, stuck_pdu)))"
proof -
  have "\<exists>p. parse_headers resolve (tl stuck_lines)
       \<lparr>ps_sl = zero_StartLine\<lparr>sl_Method := INFO, RUri := ''a:a''\<rparr>, ps_msg = zero_SipMessage\<lparr>MsgType := REQUEST\<rparr>,
        ps_map = NewSHsPointer False, ps_via = False\<rparr> = Inr p \<and> ps_map p = stuck_map \<and> sl_Method (ps_sl p) = INFO"
    by (simp add: stuck_lines_def stuck_header_lines stuck_lower take_header_def stuck_names stuck_values
        take_to_def take_cseq_def take_via_def set_msg_def stuck_map_def stuck_map_facts zero_StartLine_def Let_def)
  then obtain p where p: "parse_headers resolve (tl stuck_lines)
       \<lparr>ps_sl = zero_StartLine\<lparr>sl_Method := INFO, RUri := ''a:a''\<rparr>, ps_msg = zero_SipMessage\<lparr>MsgType := REQUEST\<rparr>,
        ps_map = NewSHsPointer False, ps_via = False\<rparr> = Inr p" "ps_map p = stuck_map" "sl_Method (ps_sl p) = INFO"
    by blast
  have "header_error (ps_sl p) (ps_map p) = None" using p by (simp add: header_error_def stuck_map_facts)
  moreover have "body_length left stuck_map = Some (- 102, stuck_map)" for left
    by (simp add: body_length_def stuck_map_facts stuck_values)
  moreover have "hd stuck_lines = ''INFO a:a SIP/2.0''" by (simp add: stuck_lines_def)
  ultimately show ?thesis using p
    by (auto simp: processPDU_def stuck_split stuck_start parse_body_def stuck_map_facts
        stuck_values slice_from_def Let_def)
qed

text \<open>
  A datagram of two messages: the first is well formed, the second one's body is of several
  parts, but ends in its first boundary.
\<close>

definition fatal_lines :: "string list" where
  "fatal_lines =
     [''INFO a:a SIP/2.0'', ''Via:a'', ''From:b'', ''To:a'', ''Call-ID:x'', ''CSeq:1 INFO'']"

definition broken_pdu :: string where
  "broken_pdu = Join (fatal_lines @ [''Content-Type:multipart/mixed;boundary=b'', ''Content-Length:3'']) CRLF
     @ CRLFCRLF @ ''--b''"

definition fatal_pdu :: string where
  "fatal_pdu = Join (fatal_lines @ [''Content-Length:0'']) CRLF @ CRLFCRLF @ broken_pdu"

lemma fatal_split:
  "IndexOf fatal_pdu CRLFCRLF = Some 79" "Split (take 79 fatal_pdu) CRLF = fatal_lines @ [''Content-Length:0'']"
  "length fatal_pdu = 210" "drop 83 fatal_pdu = broken_pdu"
  "IndexOf broken_pdu CRLFCRLF = Some 120" "length broken_pdu = 127"
  "Split (take 120 broken_pdu) CRLF = fatal_lines @ [''Content-Type:multipart/mixed;boundary=b'', ''Content-Length:3'']"
  by code_simp+

lemma fatal_values:
  "header_of_line ''Content-Type:multipart/mixed;boundary=b'' = Some (''Content-Type'', ''multipart/mixed;boundary=b'')"
  "header_of_line ''Content-Length:3'' = Some (''Content-Length'', ''3'')"
  "header_of_line ''Content-Length:0'' = Some (''Content-Length'', ''0'')"
  "sint (Str2Int ''3'' :: u64) = 3" "sint (Str2Int ''0'' :: u64) = 0"
  "ExtractParameters ''multipart/mixed;boundary=b'' True = Some [(''!headerValue'', ''multipart/mixed''), (''boundary'', ''b'')]"
  "Contains (ASCIIToLower ''multipart/mixed'') ''multipart'' = True"
  by code_simp+

definition common_map :: SipHeaders where
  "common_map = fold (\<lambda>(k, v). Add k v) [(''via'', ''a''), (''from'', ''b''), (''to'', ''a''), (''call-id'', ''x''),
     (''cseq'', ''1 INFO'')] []"

definition fatal_map :: SipHeaders where
  "fatal_map = Add ''content-length'' ''0'' common_map"

definition broken_map :: SipHeaders where
  "broken_map = fold (\<lambda>(k, v). Add k v) [(''content-type'', ''multipart/mixed;boundary=b''), (''content-length'', ''3'')] common_map"

lemma fatal_map_facts:
  "fst (AnyMandatoryHeadersMissing INFO fatal_map) = False" "HeaderCount ''CSeq'' fatal_map = 1"
  "HeaderCount ''Content-Length'' fatal_map = 1" "ValuesHeader Content_Length_hdr fatal_map = (True, [''0''])"
  "fst (AnyMandatoryHeadersMissing INFO broken_map) = False" "HeaderCount ''CSeq'' broken_map = 1"
  "HeaderCount ''Content-Length'' broken_map = 1" "ValuesHeader Content_Length_hdr broken_map = (True, [''3''])"
  "ValuesHeader Content_Type_hdr broken_map = (True, [''multipart/mixed;boundary=b''])"
  by code_simp+

lemma fatal_headers:
  "\<exists>p. parse_headers resolve (tl fatal_lines @ [''Content-Length:0''])
       \<lparr>ps_sl = zero_StartLine\<lparr>sl_Method := INFO, RUri := ''a:a''\<rparr>, ps_msg = zero_SipMessage\<lparr>MsgType := REQUEST\<rparr>,
        ps_map = NewSHsPointer False, ps_via = False\<rparr> = Inr p \<and> ps_map p = fatal_map \<and> sl_Method (ps_sl p) = INFO"
  "\<exists>p. parse_headers resolve (tl fatal_lines @ [''Content-Type:multipart/mixed;boundary=b'', ''Content-Length:3''])
       \<lparr>ps_sl = zero_StartLine\<lparr>sl_Method := INFO, RUri := ''a:a''\<rparr>, ps_msg = zero_SipMessage\<lparr>MsgType := REQUEST\<rparr>,
        ps_map = NewSHsPointer False, ps_via = False\<rparr> = Inr p \<and> ps_map p = broken_map \<and> sl_Method (ps_sl p) = INFO"
  by (simp_all add: fatal_lines_def stuck_header_lines fatal_values stuck_lower take_header_def stuck_names stuck_values
        take_to_def take_cseq_def take_via_def set_msg_def common_map_def fatal_map_def broken_map_def stuck_map_facts zero_StartLine_def Let_def)

lemma broken_parts: "parse_parts ''b'' [] ''--b'' = None"
  by code_simp

lemma fatal_parse:
  "\<exists>m. processPDU resolve fatal_pdu = Some (Inr (Some (m, None, broken_pdu)))" "processPDU resolve broken_pdu = None"
proof -
  have hd: "hd fatal_lines = ''INFO a:a SIP/2.0''" "fatal_lines \<noteq> []" by (simp_all add: fatal_lines_def)
  obtain p where p: "parse_headers resolve (tl fatal_lines @ [''Content-Length:0''])
       \<lparr>ps_sl = zero_StartLine\<lparr>sl_Method := INFO, RUri := ''a:a''\<rparr>, ps_msg = zero_SipMessage\<lparr>MsgType := REQUEST\<rparr>,
        ps_map = NewSHsPointer False, ps_via = False\<rparr> = Inr p" "ps_map p = fatal_map" "sl_Method (ps_sl p) = INFO"
    using fatal_headers(1) by blast
  have "header_error (ps_sl p) (ps_map p) = None" using p by (simp add: header_error_def fatal_map_facts)
  moreover have "body_length left fatal_map = Some (0, fatal_map)" for left
    by (simp add: body_length_def fatal_map_facts fatal_values)
  ultimately show "\<exists>m. processPDU resolve fatal_pdu = Some (Inr (Some (m, None, broken_pdu)))" using p hd
    by (auto simp: processPDU_def fatal_split stuck_start parse_body_def slice_from_def Let_def)
  obtain q where q: "parse_headers resolve (tl fatal_lines @ [''Content-Type:multipart/mixed;boundary=b'', ''Content-Length:3''])
       \<lparr>ps_sl = zero_StartLine\<lparr>sl_Method := INFO, RUri := ''a:a''\<rparr>, ps_msg = zero_SipMessage\<lparr>MsgType := REQUEST\<rparr>,
        ps_map = NewSHsPointer False, ps_via = False\<rparr> = Inr q" "ps_map q = broken_map" "sl_Method (ps_sl q) = INFO"
    using fatal_headers(2) by blast
  have "header_error (ps_sl q) (ps_map q) = None" using q by (simp add: header_error_def fatal_map_facts)
  moreover have "body_length left broken_map = Some (3, broken_map)" for left
    by (simp add: body_length_def fatal_map_facts fatal_values)
  moreover have "drop 124 broken_pdu = ''--b''" "go_int 127 = 127" by code_simp+
  ultimately show "processPDU resolve broken_pdu = None" using q hd broken_parts
    by (simp add: processPDU_def fatal_split stuck_start parse_body_def slice_from_def fatal_map_facts fatal_values Let_def)
qed

lemma fatal_holds: "\<exists>m. holds resolve fatal_pdu [(m, None)] True"
proof -
  have "fatal_pdu \<noteq> []" "broken_pdu \<noteq> []" using fatal_split(3,6) by auto
  with fatal_parse [of resolve] show ?thesis by blast
qed

lemma hello_no_message: "processPDU resolve (drop n ''hello'') = Some (Inr None)"
proof -
  have "n = 0 \<or> n = 1 \<or> n = 2 \<or> n = 3 \<or> n = 4 \<or> 5 \<le> n" by arith
  then have "IndexOf (drop n ''hello'') CRLFCRLF = None" by (auto simp: CRLFCRLF_def CRLF_def HasPrefix_def)
  then show ?thesis by (simp add: processPDU_def)
qed

section \<open>Properties\<close>

text \<open>C20: A datagram whose messages, at whatever place they start, claim no negative body length
  is worked through: it holds at most as many messages as bytes, and the loop of the worker
  comes to its end having handled each of them - or having died with the process in a panic of
  the parser after them.\<close>

theorem packet_loop_terminates:
  assumes "\<forall>n m mb rest. processPDU (e_resolve (w_env w)) (drop n pdu) = Some (Inr (Some (m, mb, rest))) \<longrightarrow>
      0 \<le> claimed_length m"
    and "length pdu \<le> 4096"
  shows "\<exists>ms crash. holds (e_resolve (w_env w)) pdu ms crash \<and> length ms \<le> length pdu
    \<and> packet_loop pdu src conn w = Some (run_events (datagram_events ms crash src conn) w)"
proof -
  have "\<exists>ms c. holds (e_resolve (w_env w)) pdu ms c \<and> length ms \<le> length pdu"
    by (rule datagram_holds) (use assms in auto)
  then show ?thesis using holds_packet_loop [OF _ refl] by blast
qed

theorem packet_loop_terminates_witness:
  "packet_loop ''hello'' (sample_addr ''a'') (sample_addr ''b'') sample_router = Some sample_router"
proof -
  have h: "holds r ''hello'' [] False" for r using hello_no_message [of r 0] by auto
  obtain ms crash where "holds (e_resolve (w_env sample_router)) ''hello'' ms crash"
    "packet_loop ''hello'' (sample_addr ''a'') (sample_addr ''b'') sample_router
       = Some (run_events (datagram_events ms crash (sample_addr ''a'') (sample_addr ''b'')) sample_router)"
    using packet_loop_terminates [of sample_router "''hello''" "sample_addr ''a''" "sample_addr ''b''"]
    by (auto simp: hello_no_message simp del: holds.simps)
  moreover from holds_determ [OF h this(1)] have "ms = []" "crash = False" by simp_all
  ultimately show ?thesis by (simp add: run_datagram)
qed

text \<open>C21: A datagram that the parser gives back whole after a message is never finished: the
  worker that got it handles the same message over and over. There is such a datagram, of 102
  bytes, with a negative \<open>Content-Length\<close>.\<close>

theorem packet_loop_stuck:
  assumes "processPDU (e_resolve (w_env w)) pdu = Some (Inr (Some (m, mb, pdu)))" "pdu \<noteq> []"
  shows "packet_loop pdu src conn w = None"
  using packet_loop_never [OF assms] by blast

theorem packet_loop_stuck_witness:
  "packet_loop stuck_pdu (sample_addr ''a'') (sample_addr ''b'') sample_router = None \<and> length stuck_pdu = 102"
proof -
  obtain m mb where "processPDU (e_resolve (w_env sample_router)) stuck_pdu = Some (Inr (Some (m, mb, stuck_pdu)))"
    using stuck_parse by blast
  moreover have "stuck_pdu \<noteq> []" using stuck_split(2) by force
  ultimately show ?thesis using packet_loop_stuck stuck_split(2) by blast
qed

text \<open>C22: What the parser accepts is well formed: the mandatory headers are there, with one
  \<open>CSeq\<close> and one \<open>Content-Length\<close>; no header is without a value, so reading one never panics;
  a request has a known method, an INVITE with a To tag being a re-INVITE; a response has a code
  from 100 to 699; \<open>Max-Forwards\<close> is at most 255; the rest is the end of the datagram.\<close>

theorem parsed_message_wellformed:
  assumes "processPDU resolve payload = Some (Inr (Some (m, mb, rest)))"
  shows "list_all (\<lambda>n. HeaderExists n (Headers m)) MandatoryHeaders
    \<and> HeaderCount ''CSeq'' (Headers m) = 1 \<and> HeaderCount ''Content-Length'' (Headers m) = 1
    \<and> (\<forall>n. Value n (Headers m) \<noteq> None)
    \<and> (if IsRequest m
       then GetMethod m \<noteq> UNKNOWN \<and> GetStatusCode m = 0 \<and> (GetMethod m = INVITE \<longrightarrow> sm_ToTag m = [])
       else IsResponse m \<and> GetMethod m = UNKNOWN \<and> GetStatusCode m \<in> {100..699})
    \<and> MaxFwds m \<le> 255 \<and> (\<exists>n. rest = drop n payload)"
  using assms
proof (rule processPDU_SomeE)
  fix dbl mt sl p len
  assume sl: "parse_startline (hd (Split (take dbl payload) CRLF)) = Inr (mt, sl)"
    and p: "parse_headers resolve (tl (Split (take dbl payload) CRLF))
       \<lparr>ps_sl = sl, ps_msg = zero_SipMessage\<lparr>MsgType := mt\<rparr>, ps_map = NewSHsPointer False, ps_via = False\<rparr> = Inr p"
    and err: "header_error (ps_sl p) (ps_map p) = None"
    and len: "body_length (int (length payload) - (int dbl + 4)) (ps_map p) = Some (len, Headers m)"
    and m: "m = (ps_msg p)\<lparr>sm_StartLine := ps_sl p, ContentLength := int (length payload) - (int dbl + 4),
           Headers := Headers m\<rparr>"
  have inv: "parse_inv mt sl p"
    by (rule parse_headers_inv [OF p])
       (simp add: parse_inv_def zero_SipMessage_def NewSHsPointer_def hm.inv_emp [unfolded NewSipHeaders_def] NewSipHeaders_def)
  define h where "h = Headers m"
  have fields: "MsgType m = mt" "sm_StartLine m = ps_sl p" "MaxFwds m \<le> 255" "sm_ToTag m = sm_ToTag (ps_msg p)"
    using inv unfolding m [folded h_def] by (simp_all add: parse_inv_def)
  have cnt: "HeaderCount ''CSeq'' (ps_map p) \<le> 1" "HeaderCount ''Content-Length'' (ps_map p) \<le> 1"
    "\<And>n. n \<in> set MandatoryHeaders \<Longrightarrow> HeaderExists n (ps_map p)"
    using err by (auto simp: header_error_def AnyMandatoryHeadersMissing_def find_None_set split: if_splits option.splits)
  have wf: "headers_wf (ps_map p)" using inv by (simp add: parse_inv_def)
  note hs = body_length_headers [OF len wf cnt(2)]
  have cseq: "HeaderExists ''CSeq'' (ps_map p)" by (rule cnt(3)) code_simp
  then have "0 < HeaderCount ''CSeq'' (ps_map p)" using wf
    by (cases "map_of (ps_map p) (ASCIIToLower ''CSeq'')")
      (auto simp: HeaderExists_def HeaderCount_def headers_wf_def dest!: map_of_SomeD)
  with cnt(1) hs have c: "HeaderCount ''CSeq'' (Headers m) = 1" by simp
  have man: "list_all (\<lambda>n. HeaderExists n (Headers m)) MandatoryHeaders"
    using cnt(3) hs by (auto simp: list_all_iff)
  have val: "Value n (Headers m) \<noteq> None" for n
    using hs by (simp add: Value_eq split: list.split)
  have start: "if IsRequest m
       then GetMethod m \<noteq> UNKNOWN \<and> GetStatusCode m = 0 \<and> (GetMethod m = INVITE \<longrightarrow> sm_ToTag m = [])
       else IsResponse m \<and> GetMethod m = UNKNOWN \<and> GetStatusCode m \<in> {100..699}"
    using parse_startline_cases [OF sl] inv fields
    by (auto simp: IsRequest_def IsResponse_def GetMethod_def GetStatusCode_def parse_inv_def split: if_splits)
  show ?thesis using man c hs val start fields(3) processPDU_rest [OF assms] by blast
qed

theorem parsed_message_wellformed_witness:
  "\<exists>m mb rest. processPDU (\<lambda>_. None) stuck_pdu = Some (Inr (Some (m, mb, rest))) \<and> MaxFwds m \<le> 255
    \<and> HeaderCount ''CSeq'' (Headers m) = 1"
proof -
  obtain m mb where "processPDU (\<lambda>_. None) stuck_pdu = Some (Inr (Some (m, mb, stuck_pdu)))" using stuck_parse by blast
  with parsed_message_wellformed [OF this] show ?thesis by blast
qed

text \<open>C19: What a worker does with a datagram is to handle the messages that the parser reads out of
  it, called again on what it left over: these messages and no others, each once and in the
  order of the datagram, until nothing is left, the parser gives none, or it panics. In a
  running router none of the messages can stop it, but the panic of the parser does, for nothing
  recovers it. There is a datagram that is handled and then stops the router.\<close>

theorem packet_is_messages:
  assumes "packet_loop pdu src conn w = Some w'" "world_reachable w" "\<not> w_panic w"
  shows "\<exists>ms crash. holds (e_resolve (w_env w)) pdu ms crash
    \<and> (\<forall>ms' crash'. holds (e_resolve (w_env w)) pdu ms' crash' \<longrightarrow> ms' = ms \<and> crash' = crash)
    \<and> w' = run_events (map (\<lambda>(m, mb). Receive m mb src conn) ms @ (if crash then [Unrecovered] else [])) w
    \<and> world_reachable w' \<and> (w_panic w' \<longleftrightarrow> crash)"
proof -
  from packet_loop_holds [OF assms(1)] obtain ms crash where
    h: "holds (e_resolve (w_env w)) pdu ms crash" and w': "w' = run_events (datagram_events ms crash src conn) w" by blast
  from datagram_reachable [OF assms(2,3)] have "world_reachable w' \<and> (w_panic w' \<longleftrightarrow> crash)" by (simp add: w')
  with h w' holds_determ [OF h] show ?thesis unfolding datagram_events_def by blast
qed

theorem packet_is_messages_witness:
  "\<exists>w' m. packet_loop fatal_pdu (sample_addr ''a'') (sample_addr ''b'') sample_router = Some w' \<and> w_panic w'
     \<and> holds (e_resolve (w_env sample_router)) fatal_pdu [(m, None)] True"
proof -
  obtain m where h: "holds (e_resolve (w_env sample_router)) fatal_pdu [(m, None)] True" using fatal_holds by blast
  from packet_is_messages [OF holds_packet_loop [OF h refl] sample_started] holds_packet_loop [OF h refl] h
  show ?thesis using holds_determ [OF h] by blast
qed

end
