(* ===== verification/Workers.thy ===== *)
theory Workers
  imports Channels Packet_Loop
begin

text \<open>
  The goroutines of \<open>sip/init.go\<close> between the socket and the stack: \<open>udpLoopWorkers\<close> reads
  datagrams into pooled buffers and puts them into the packet queue, and each \<open>worker\<close> takes a
  packet and hands it to \<open>processPacket\<close>. A packet is handled as one step; what two workers do to
  the same session at once is not modelled. None of the goroutines recovers from a panic: once
  one has panicked the process is gone, and no goroutine takes a step any more.
\<close>

definition QueueSize :: nat where "QueueSize = 2500"
definition PduBufferSize :: nat where "PduBufferSize = 4096"

record Packet =
  sourceAddr :: UDPAddr
  buffer :: string
  bytesCount :: nat

text \<open>
  \<open>ReadFromUDP\<close> fills the front of a buffer of the pool, which holds what an earlier packet left
  in it, and drops what does not fit.
\<close>

definition read_packet :: "string \<Rightarrow> string \<Rightarrow> UDPAddr \<Rightarrow> Packet" where
  "read_packet old dgram src =
     (let n = min (length dgram) (length old)
      in \<lparr>sourceAddr = src, buffer = take n dgram @ drop n old, bytesCount = n\<rparr>)"

definition processPacket :: "Packet \<Rightarrow> UDPAddr \<Rightarrow> world \<Rightarrow> world option" where
  "processPacket p conn w = packet_loop (take (bytesCount p) (buffer p)) (sourceAddr p) conn w"

record router =
  packetQueue :: "Packet list"
  rt_world :: world

definition udpLoopWorkers :: "Packet \<Rightarrow> router \<Rightarrow> router option" where
  "udpLoopWorkers p r =
     (if w_panic (rt_world r) then None
      else map_option (\<lambda>q. r\<lparr>packetQueue := q\<rparr>) (chan_send QueueSize p (packetQueue r)))"

definition worker :: "UDPAddr \<Rightarrow> router \<Rightarrow> (Packet \<times> router) option" where
  "worker conn r =
     (if w_panic (rt_world r) then None
      else do {
        (p, q) \<leftarrow> chan_recv (packetQueue r);
        w \<leftarrow> processPacket p conn (rt_world r);
        Some (p, r\<lparr>packetQueue := q, rt_world := w\<rparr>)
      })"

text \<open>The events that are not messages and happen meanwhile.\<close>

definition other_event :: "event \<Rightarrow> router \<Rightarrow> router" where
  "other_event ev r =
     (if w_panic (rt_world r) then r else r\<lparr>rt_world := snd (run_state (run_event ev) (rt_world r))\<rparr>)"

abbreviation router_run ::
    "UDPAddr \<Rightarrow> (Packet, event) chan_op list \<Rightarrow> router \<Rightarrow> (Packet list \<times> router) option" where
  "router_run conn \<equiv> chan_run udpLoopWorkers (worker conn) other_event"

text \<open>A reader that starts from an empty queue, as \<open>startWorkers\<close> leaves it.\<close>

definition startWorkers :: "world \<Rightarrow> router" where
  "startWorkers w = \<lparr>packetQueue = [], rt_world = w\<rparr>"

section \<open>Lemmas\<close>

interpretation packets: channel udpLoopWorkers "worker conn" other_event packetQueue QueueSize
  by unfold_locales
    (auto simp: udpLoopWorkers_def worker_def other_event_def chan_send_def chan_recv_def
      bind_eq_Some_conv split: if_splits list.splits)

text \<open>What an earlier packet left in the buffer is never read.\<close>

lemma processPacket_read:
  "length old = PduBufferSize \<Longrightarrow>
     processPacket (read_packet old dgram src) conn w = packet_loop (take PduBufferSize dgram) src conn w"
  by (simp add: processPacket_def read_packet_def Let_def min_def)

text \<open>What a packet holds for the parser, and what its handling makes of the world.\<close>

abbreviation fatal :: "world \<Rightarrow> Packet \<Rightarrow> bool" where
  "fatal w p \<equiv> (\<exists>ms. holds (e_resolve (w_env w)) (take (bytesCount p) (buffer p)) ms True)"

lemma processPacket_reachable:
  assumes "processPacket p conn w = Some w'" "world_reachable w" "\<not> w_panic w"
  shows "world_reachable w' \<and> (w_panic w' \<longleftrightarrow> fatal w p) \<and> w_env w' = w_env w"
proof -
  from packet_loop_holds [OF assms(1) [unfolded processPacket_def]] obtain ms c where
    h: "holds (e_resolve (w_env w)) (take (bytesCount p) (buffer p)) ms c"
    and w': "w' = run_events (datagram_events ms c (sourceAddr p) conn) w" by blast
  have "w_env (run_events evs w) = w_env w" for evs
    using grows_event by (induction evs arbitrary: w) (simp_all add: run_events_def grows_def)
  with h w' datagram_reachable [OF assms(2,3)] show ?thesis by (auto dest: holds_determ)
qed

text \<open>
  A run of a router that was up: its world is reachable, and it is still up if and only if no
  packet that was handled was fatal.
\<close>

lemma router_run_reachable:
  assumes "router_run conn ops r = Some (got, r')" "world_reachable (rt_world r)" "w_env (rt_world r) = e"
    "w_panic (rt_world r) \<longleftrightarrow> d" "\<And>ev. Other ev \<in> set ops \<Longrightarrow> stays_up ev"
  shows "world_reachable (rt_world r')
    \<and> (w_panic (rt_world r') \<longleftrightarrow> d \<or> (\<exists>p \<in> set got. \<exists>ms. holds (e_resolve e) (take (bytesCount p) (buffer p)) ms True))"
  using assms
proof (induction ops arbitrary: r got d rule: puts.induct)
  case (2 p ops)
  from "2.prems"(1) obtain r1 where "udpLoopWorkers p r = Some r1" "router_run conn ops r1 = Some (got, r')"
    by (auto simp: bind_eq_Some_conv)
  moreover from this have "rt_world r1 = rt_world r" by (auto simp: udpLoopWorkers_def split: if_splits)
  ultimately show ?case using "2.IH" [of r1 got d] "2.prems"(2-5) by simp
next
  case (3 ops)
  from "3.prems"(1) obtain p r1 g where w: "worker conn r = Some (p, r1)" and g: "router_run conn ops r1 = Some (g, r')"
    and got: "got = p # g" by (auto simp: bind_eq_Some_conv)
  from w have up: "\<not> w_panic (rt_world r)" and h: "processPacket p conn (rt_world r) = Some (rt_world r1)"
    by (auto simp: worker_def bind_eq_Some_conv split: if_splits)
  from processPacket_reachable [OF h "3.prems"(2) up] "3.IH" [OF g, of "w_panic (rt_world r1)"] "3.prems"(3-5) up got
  show ?case by auto
next
  case (4 ev ops)
  let ?r = "other_event ev r"
  have up: "stays_up ev" using "4.prems"(5) by simp
  have "world_reachable (rt_world ?r) \<and> w_env (rt_world ?r) = e \<and> (w_panic (rt_world ?r) \<longleftrightarrow> d)"
  proof (cases "w_panic (rt_world r)")
    case False
    with up "4.prems"(2-4) grows_event [of "rt_world r" ev] stays_up_event [of "rt_world r" ev] reachable_inv
    show ?thesis
      by (auto simp: other_event_def grows_def intro: world_reachable.stepped world_step.event)
  qed (use "4.prems"(2-4) in \<open>simp add: other_event_def\<close>)
  then show ?case using "4.IH" [of ?r got d] "4.prems"(1,5) by simp
qed simp

section \<open>Property\<close>

text \<open>C18: Whatever datagrams arrive and however their reading, the workers, the due drops and echo
  answers, the ticks of the limiter and the reloads follow one another: the packets the workers
  took are the packets read so far, each once and in the order of their arrival, the rest of
  them wait in the queue, which never holds more than 2500; the state is one reachable from the
  start-up; and the process is gone if and only if one of the packets taken is one on whose text
  the parser panics, after which no goroutine takes a step.\<close>

theorem workers_in_order:
  assumes "router_run conn ops (startWorkers w) = Some (got, r)"
    and "world_reachable w" "\<not> w_panic w" "\<And>ev. Other ev \<in> set ops \<Longrightarrow> stays_up ev"
  shows "puts ops = got @ packetQueue r \<and> length got = takes ops \<and> length (packetQueue r) \<le> 2500
    \<and> world_reachable (rt_world r)
    \<and> (w_panic (rt_world r) \<longleftrightarrow>
         (\<exists>p \<in> set got. \<exists>ms. holds (e_resolve (w_env w)) (take (bytesCount p) (buffer p)) ms True))"
  using router_run_reachable [OF assms(1) _ refl refl assms(4)] assms(2,3)
    packets.run_fifo [OF assms(1)] packets.run_room [OF assms(1)] by (simp add: startWorkers_def QueueSize_def)

theorem workers_in_order_witness:
  "\<exists>p r. router_run (sample_addr ''b'') [Put p, Other LimiterTick, Take] (startWorkers sample_router) = Some ([p], r)
    \<and> packetQueue r = [] \<and> world_reachable (rt_world r) \<and> w_panic (rt_world r)"
proof -
  let ?p = "read_packet (replicate PduBufferSize (CHR ''x'')) fatal_pdu (sample_addr ''a'')"
  let ?w = "snd (run_state (run_event LimiterTick) sample_router)"
  let ?ops = "[Put ?p, Other LimiterTick, Take]"
  have t: "take (bytesCount ?p) (buffer ?p) = fatal_pdu"
    by (simp add: read_packet_def PduBufferSize_def fatal_split Let_def)
  obtain m where h: "holds (e_resolve (w_env ?w)) fatal_pdu [(m, None)] True" using fatal_holds by blast
  then obtain v where v: "processPacket ?p (sample_addr ''b'') ?w = Some v"
    using holds_packet_loop [OF h refl] by (simp only: processPacket_def t)
  have "\<not> w_panic ?w" using sample_started by (simp add: run_event_def)
  then have r: "router_run (sample_addr ''b'') ?ops (startWorkers sample_router)
      = Some ([?p], \<lparr>packetQueue = [], rt_world = v\<rparr>)"
    using v sample_started(2)
    by (simp add: startWorkers_def udpLoopWorkers_def worker_def other_event_def chan_send_def chan_recv_def QueueSize_def)
  from workers_in_order [OF r sample_started] show ?thesis
    using r fatal_holds [of "e_resolve (w_env sample_router)"] t by (intro exI [of _ ?p]) (auto simp: stays_up_def)
qed

end
