(* ===== verification/Media_Relay.thy ===== *)
theory Media_Relay
  imports Packet_Loop
begin

text \<open>
  The goroutines of \<open>sip/routing.go\<close> that move media packets between the two sides of a call:
  \<open>HandleNSteerMedia\<close> sends what arrives at a session's media port to the peer of the linked
  session, \<open>HandleEchoResponderMedia\<close> sends it back. What the port reads is a list of events,
  each with the world at that moment, since the stack runs meanwhile.
\<close>

definition RTPMaxSize :: nat where "RTPMaxSize = 1500"

datatype media_read = Got string UDPAddr | ReadError

record media_event =
  me_world :: world
  me_read :: media_read
  me_write_ok :: bool

text \<open>A packet sent: from the port of which session, to whom, and its bytes.\<close>

type_synonym media_out = "ss_id \<times> UDPAddr \<times> string"

text \<open>What a read into the buffer gives: more than it holds is lost.\<close>

definition media_bytes :: "string \<Rightarrow> string" where
  "media_bytes s = take RTPMaxSize s"

text \<open>
  \<open>None\<close> is the panic of the type assertion on an address that was never stored.
\<close>

definition RemoteMediaUdpAddr :: "ss_id \<Rightarrow> world \<Rightarrow> UDPAddr option" where
  "RemoteMediaUdpAddr i w = remoteMediaUdpAddr (w_ss w i)"

definition steer :: "ss_id \<Rightarrow> world \<Rightarrow> string \<Rightarrow> media_out list option" where
  "steer i w s =
     (case LinkedSession (w_ss w i) of
        None \<Rightarrow> Some []
      | Some j \<Rightarrow>
          if MediaConn (w_ss w j) = None then Some []
          else map_option (\<lambda>a. [(j, a, media_bytes s)]) (RemoteMediaUdpAddr j w))"

text \<open>
  The loop: the packets sent, and whether it ended in a panic. A port that is not there, or a
  read that fails because the port was closed, ends it. Its deferred closure means to start it
  again after a panic, but asks \<open>LogCallStack\<close> whether there was one, and \<open>recover\<close>, which works
  only in a function that is itself deferred, returns nil there: the goroutine, and the process
  with it, ends (the event \<open>Unrecovered\<close> of the router).
\<close>

fun HandleNSteerMedia :: "ss_id \<Rightarrow> media_event list \<Rightarrow> media_out list \<times> bool" where
  "HandleNSteerMedia i [] = ([], False)"
| "HandleNSteerMedia i (ev # evs) =
     (if MediaConn (w_ss (me_world ev) i) = None then ([], False)
      else case me_read ev of
        ReadError \<Rightarrow> ([], False)
      | Got s _ \<Rightarrow>
          (case steer i (me_world ev) s of
             None \<Rightarrow> ([], True)
           | Some out \<Rightarrow> apfst ((@) out) (HandleNSteerMedia i evs)))"

text \<open>The echo: silence while the caller holds; a failed write ends it. Nothing in it panics.\<close>

fun HandleEchoResponderMedia :: "ss_id \<Rightarrow> media_event list \<Rightarrow> media_out list \<times> bool" where
  "HandleEchoResponderMedia i [] = ([], False)"
| "HandleEchoResponderMedia i (ev # evs) =
     (if MediaConn (w_ss (me_world ev) i) = None then ([], False)
      else case me_read ev of
        ReadError \<Rightarrow> ([], False)
      | Got s a \<Rightarrow>
          if isHeld (w_ss (me_world ev) i) then HandleEchoResponderMedia i evs
          else if me_write_ok ev then apfst ((@) [(i, a, media_bytes s)]) (HandleEchoResponderMedia i evs)
          else ([], False))"

text \<open>
  The variant with pooled buffers, which nothing calls: each packet gets a goroutine of its own,
  which has no recover. The result is the goroutines' packets in the order of their reads, and
  \<open>None\<close> a panic, which stops the router.
\<close>

fun HandleNSteerMediaWithPool :: "ss_id \<Rightarrow> media_event list \<Rightarrow> media_out list option" where
  "HandleNSteerMediaWithPool i [] = Some []"
| "HandleNSteerMediaWithPool i (ev # evs) =
     (if MediaConn (w_ss (me_world ev) i) = None then Some []
      else case me_read ev of
        ReadError \<Rightarrow> Some []
      | Got s _ \<Rightarrow>
          Option.bind (steer i (me_world ev) s)
            (\<lambda>out. map_option ((@) out) (HandleNSteerMediaWithPool i evs)))"

section \<open>The interface of a media loop\<close>

text \<open>
  Both loops go over the packets up to the one that ends them and do with each packet what does
  not depend on the others: send something, or nothing, or panic, which ends them too.
\<close>

definition reads :: "ss_id \<Rightarrow> media_event \<Rightarrow> bool" where
  "reads i ev \<longleftrightarrow> MediaConn (w_ss (me_world ev) i) \<noteq> None \<and> me_read ev \<noteq> ReadError"

locale media_loop =
  fixes run :: "ss_id \<Rightarrow> media_event list \<Rightarrow> media_out list \<times> bool"
    and goes_on :: "ss_id \<Rightarrow> media_event \<Rightarrow> bool"
    and sends :: "ss_id \<Rightarrow> media_event \<Rightarrow> media_out list option"
  assumes run_Nil: "run i [] = ([], False)"
    and run_stop: "\<not> goes_on i ev \<Longrightarrow> run i (ev # evs) = ([], False)"
    and run_sends: "goes_on i ev \<Longrightarrow> sends i ev = Some out \<Longrightarrow> run i (ev # evs) = apfst ((@) out) (run i evs)"
    and run_panics: "goes_on i ev \<Longrightarrow> sends i ev = None \<Longrightarrow> run i (ev # evs) = ([], True)"
begin

text \<open>
  The packets handled are those before the end; each is sent, in order. The first one of them
  that cannot be handled is the panic.
\<close>

lemma run_eq:
  "run i evs =
     (concat (map (\<lambda>ev. the (sends i ev)) (takeWhile (\<lambda>ev. goes_on i ev \<and> sends i ev \<noteq> None) evs)),
      \<exists>ev \<in> set (takeWhile (goes_on i) evs). sends i ev = None)"
proof (induction evs)
  case (Cons ev evs)
  then show ?case
    by (cases "goes_on i ev"; cases "sends i ev") (simp_all add: run_stop run_sends run_panics)
qed (simp add: run_Nil)

lemma run_sent:
  assumes "x \<in> set (fst (run i evs))"
  obtains ev out where "ev \<in> set (takeWhile (goes_on i) evs)" "sends i ev = Some out" "x \<in> set out"
proof -
  from assms obtain ev where ev: "ev \<in> set (takeWhile (\<lambda>ev. goes_on i ev \<and> sends i ev \<noteq> None) evs)" "x \<in> set (the (sends i ev))"
    by (auto simp: run_eq)
  have "set (takeWhile (\<lambda>ev. goes_on i ev \<and> sends i ev \<noteq> None) evs) \<subseteq> set (takeWhile (goes_on i) evs)"
    by (induction evs) auto
  with ev set_takeWhileD [OF ev(1)] that show thesis by auto
qed

lemma run_prefix: "prefix (fst (run i evs)) (fst (run i (evs @ evs')))"
proof (induction evs)
  case (Cons ev evs)
  then show ?case
    by (cases "goes_on i ev"; cases "sends i ev") (simp_all add: run_stop run_sends run_panics)
qed (simp add: run_Nil)

end


definition echo_goes_on :: "ss_id \<Rightarrow> media_event \<Rightarrow> bool" where
  "echo_goes_on i ev \<longleftrightarrow> reads i ev \<and> (isHeld (w_ss (me_world ev) i) \<or> me_write_ok ev)"

definition echo_sends :: "ss_id \<Rightarrow> media_event \<Rightarrow> media_out list option" where
  "echo_sends i ev =
     (case me_read ev of
        Got s a \<Rightarrow> Some (if isHeld (w_ss (me_world ev) i) then [] else [(i, a, media_bytes s)])
      | ReadError \<Rightarrow> Some [])"

lemma apfst_append_Nil: "apfst ((@) []) p = p"
  by (cases p) simp


interpretation echoing: media_loop HandleEchoResponderMedia echo_goes_on echo_sends
  by unfold_locales
    (auto simp: reads_def echo_goes_on_def echo_sends_def apfst_append_Nil split: media_read.splits if_splits)

section \<open>Lemmas\<close>

lemma echo_never_panics: "\<not> snd (HandleEchoResponderMedia i evs)"
  by (simp add: echoing.run_eq echo_sends_def split: media_read.split)

text \<open>The variant with the pool meets the same panic, and sends the same where there is none.\<close>

lemma with_pool_equal:
  "\<not> snd (HandleNSteerMedia i evs) \<Longrightarrow> HandleNSteerMediaWithPool i evs = Some (fst (HandleNSteerMedia i evs))"
  by (induction i evs rule: HandleNSteerMedia.induct) (auto split: media_read.splits option.splits if_splits)

lemma with_pool_panics: "snd (HandleNSteerMedia i evs) \<Longrightarrow> HandleNSteerMediaWithPool i evs = None"
  by (induction i evs rule: HandleNSteerMedia.induct) (auto split: media_read.splits option.splits if_splits)




lemma echoing_back:
  assumes "x \<in> set (fst (HandleEchoResponderMedia i evs))"
  shows "\<exists>ev bytes src. ev \<in> set evs \<and> me_read ev = Got bytes src \<and> \<not> isHeld (w_ss (me_world ev) i)
    \<and> x = (i, src, media_bytes bytes)"
proof -
  from assms obtain ev out where ev: "ev \<in> set (takeWhile (echo_goes_on i) evs)" "echo_sends i ev = Some out" "x \<in> set out"
    by (rule echoing.run_sent)
  then obtain bytes src where "me_read ev = Got bytes src" "\<not> isHeld (w_ss (me_world ev) i)"
    "x = (i, src, media_bytes bytes)"
    by (auto simp: echo_sends_def split: media_read.splits if_splits)
  with set_takeWhileD [OF ev(1)] show ?thesis by blast
qed

section \<open>Property\<close>




end
