(* ===== verification/Service.thy ===== *)
theory Service
  imports Packet_Loop
begin

text \<open>
  What is around the stack: the log lines and the telephone-event tables of
  \<open>global/enums.go\<close> and \<open>global/variables.go\<close>, the configuration that \<open>main.go\<close> reads from the
  environment and hands to \<open>StartServer\<close>, the gauges of \<open>prometheus/metrics.go\<close> and the
  answers of the web server \<open>webserver/api.go\<close>. The HTTP server, the JSON encoder and the
  metrics registry are libraries: parameters where a result depends on them.
\<close>

section \<open>Log lines\<close>

datatype LogLevel = LLInformation | LLWarning | LLError

definition loglevels :: "string list" where
  "loglevels = [''Information'', ''Warning'', ''Error'']"

fun LogLevel_index :: "LogLevel \<Rightarrow> nat" where
  "LogLevel_index LLInformation = 0"
| "LogLevel_index LLWarning = 1"
| "LogLevel_index LLError = 2"

definition LogLevel_String :: "LogLevel \<Rightarrow> string" where
  "LogLevel_String ll = loglevels ! LogLevel_index ll"

datatype LogTitle =
    LTAll | LTAnswerMachine | LTBadSIPMessage | LTChatMessage | LTConfigFiles | LTConfiguration |
    LTConnectivity | LTContactCenter | LTCustomCommand | LTCustomCommandResult | LTDTMF |
    LTEmailNotification | LTExternalData | LTFileUpload | LTWebserver | LTIPCollection |
    LTLicense | LTLogInOut | LTMediaCapability | LTMediaStack | LTNAT | LTPESQScore |
    LTResourceLimitation | LTRTDGrabber | LTSecurity | LTSDPStack | LTSIPStack | LTSNMP |
    LTStirShaken | LTStressTester | LTSystem | LTTLSStack | LTTTS | LTUnhandledCritical |
    LTUnspecified | LTWebSocketData | LTNone

definition LogTitle_all :: "LogTitle list" where
  "LogTitle_all =
    [LTAll, LTAnswerMachine, LTBadSIPMessage, LTChatMessage, LTConfigFiles, LTConfiguration,
     LTConnectivity, LTContactCenter, LTCustomCommand, LTCustomCommandResult, LTDTMF,
     LTEmailNotification, LTExternalData, LTFileUpload, LTWebserver, LTIPCollection, LTLicense,
     LTLogInOut, LTMediaCapability, LTMediaStack, LTNAT, LTPESQScore, LTResourceLimitation,
     LTRTDGrabber, LTSecurity, LTSDPStack, LTSIPStack, LTSNMP, LTStirShaken, LTStressTester,
     LTSystem, LTTLSStack, LTTTS, LTUnhandledCritical, LTUnspecified, LTWebSocketData, LTNone]"

definition logtitles :: "string list" where
  "logtitles =
    [''All'', ''AnswerMachine'', ''BadSIPMessage'', ''ChatMessage'', ''ConfigFiles'',
     ''Configuration'', ''Connectivity'', ''ContactCenter'', ''CustomCommand'',
     ''CustomCommandResult'', ''DTMF'', ''EmailNotification'', ''ExternalData'', ''FileUpload'',
     ''Webserver'', ''IPCollection'', ''License'', ''LogInOut'', ''MediaCapability'',
     ''MediaStack'', ''NAT'', ''PESQScore'', ''ResourceLimitation'', ''RTDGrabber'', ''Security'',
     ''SDPStack'', ''SIPStack'', ''SNMP'', ''StirShaken'', ''StressTester'', ''System'',
     ''TLSStack'', ''TTS'', ''UnhandledCritical'', ''Unspecified'', ''WebSocketData'', ''None'']"

text \<open>The constants count from 0, but \<open>LTNone\<close> is -1: its name is an index out of range.\<close>

definition LogTitle_value :: "LogTitle \<Rightarrow> int" where
  "LogTitle_value lt = (if lt = LTNone then - 1 else int (the (List.find (\<lambda>n. LogTitle_all ! n = lt) [0..<36])))"

definition LogTitle_String :: "LogTitle \<Rightarrow> string option" where
  "LogTitle_String lt =
     (let n = LogTitle_value lt
      in if 0 \<le> n \<and> n < int (length logtitles) then Some (logtitles ! nat n) else None)"

definition LogHandler :: "LogLevel \<Rightarrow> LogTitle \<Rightarrow> string \<Rightarrow> string option" where
  "LogHandler ll lt msg =
     map_option (\<lambda>t. [CHR 9] @ LogLevel_String ll @ [CHR 9] @ t @ [CHR 9] @ msg @ [CHR 10]) (LogTitle_String lt)"

text \<open>The calls of the two functions for warnings and errors are commented out in their bodies.\<close>

definition LogInfo :: "LogTitle \<Rightarrow> string \<Rightarrow> string option" where
  "LogInfo lt msg = LogHandler LLInformation lt msg"

definition LogWarning :: "LogTitle \<Rightarrow> string \<Rightarrow> string option" where "LogWarning lt msg = Some []"
definition LogError :: "LogTitle \<Rightarrow> string \<Rightarrow> string option" where "LogError lt msg = Some []"

datatype CSModes = CallRecording | CallSummary | CallTracing

fun CSModes_String :: "CSModes \<Rightarrow> string" where
  "CSModes_String CallRecording = ''CallRecording''"
| "CSModes_String CallSummary = ''CallSummary''"
| "CSModes_String CallTracing = ''CallTracing''"

section \<open>Telephone events\<close>

definition CharNumNameDic :: "(string \<times> string) list" where
  "CharNumNameDic =
     [(''0'', ''Zero''), (''1'', ''One''), (''2'', ''Two''), (''3'', ''Three''), (''4'', ''Four''),
      (''5'', ''Five''), (''6'', ''Six''), (''7'', ''Seven''), (''8'', ''Eight''), (''9'', ''Nine'')]"

definition DicDTMFEvent :: "(nat \<times> string) list" where
  "DicDTMFEvent =
     [(0, ''DTMF 0''), (1, ''DTMF 1''), (2, ''DTMF 2''), (3, ''DTMF 3''), (4, ''DTMF 4''), (5, ''DTMF 5''),
      (6, ''DTMF 6''), (7, ''DTMF 7''), (8, ''DTMF 8''), (9, ''DTMF 9''), (10, ''DTMF *''), (11, ''DTMF #''),
      (12, ''DTMF A''), (13, ''DTMF B''), (14, ''DTMF C''), (15, ''DTMF D''), (16, ''DTMF Flash'')]"

definition DicDTMFSignal :: "(string \<times> nat) list" where
  "DicDTMFSignal =
     [(''0'', 0), (''1'', 1), (''2'', 2), (''3'', 3), (''4'', 4), (''5'', 5), (''6'', 6), (''7'', 7),
      (''8'', 8), (''9'', 9), (''*'', 10), (''#'', 11), (''A'', 12), (''B'', 13), (''C'', 14), (''D'', 15),
      (''Flash'', 16)]"

text \<open>A signal's number has the event of that signal, and every event is some signal's.\<close>

lemma DTMF_agree:
  "list_all (\<lambda>(s, n). map_of DicDTMFEvent n = Some (''DTMF '' @ s)) DicDTMFSignal"
  "set (map fst DicDTMFEvent) = set (map snd DicDTMFSignal)" "distinct (map snd DicDTMFSignal)"
  by code_simp+

section \<open>The configuration\<close>

text \<open>
  The environment variables, each with a value or absent. \<open>None\<close> is the exit of the program: an
  address of the application server that does not resolve, or no own address and no wish to
  find one.
\<close>

type_synonym env_vars = "string \<Rightarrow> string option"

definition Getenv :: "env_vars \<Rightarrow> string \<Rightarrow> string" where
  "Getenv v k = (case v k of Some s \<Rightarrow> s | None \<Rightarrow> [])"

record server_args =
  sa_udpskt :: "UdpSocket option"
  sa_ipv4 :: string
  sa_sipuport :: int
  sa_kaInter :: int
  sa_httpport :: int
  sa_indiagInter :: int
  sa_proxyserver :: string

definition checkArgs :: "(string \<Rightarrow> UDPAddr option) \<Rightarrow> env_vars \<Rightarrow> server_args option" where
  "checkArgs resolve v =
     do {
       udpskt \<leftarrow> (case v ''as_sip_udp'' of
                    None \<Rightarrow> Some None
                  | Some siplyr \<Rightarrow>
                      (case BuildUdpSocket resolve siplyr SipPort of Inl _ \<Rightarrow> None | Inr skt \<Rightarrow> Some (Some skt)));
       (if v ''server_ipv4'' = None \<and> v ''auto_server_ipv4'' = None then None else Some ());
       let (kaInter, ok) = Str2IntDefaultMinMax (Getenv v ''ka_interval'') (of_int OodProbingSec) 5 9999999;
       Some \<lparr>sa_udpskt = udpskt, sa_ipv4 = Getenv v ''server_ipv4'',
         sa_sipuport = sint (fst (Str2IntDefaultMinMax (Getenv v ''sip_udp_port'') 5060 5000 6000) :: u64),
         sa_kaInter = (if ok then sint (kaInter :: u64) else OodProbingSec),
         sa_httpport = sint (fst (Str2IntDefaultMinMax (Getenv v ''http_port'') 8080 80 9080) :: u64),
         sa_indiagInter = (case v ''indialogue_interval'' of
                             Some s \<Rightarrow> sint (Str2Int s :: u64) | None \<Rightarrow> - 1),
         sa_proxyserver = Getenv v ''proxy_udp_server''\<rparr>
     }"

text \<open>The router that \<open>main\<close> starts under an environment.\<close>

definition main_start ::
    "env \<Rightarrow> (string \<Rightarrow> string option) \<Rightarrow> interface list \<Rightarrow> (string \<Rightarrow> int \<Rightarrow> bool) \<Rightarrow> config_row list option
       \<Rightarrow> env_vars \<Rightarrow> (world \<times> server_args) option" where
  "main_start e parse_ip ifaces listen rows v =
     do {
       a \<leftarrow> checkArgs (e_resolve e) v;
       w \<leftarrow> StartServer e parse_ip ifaces listen rows (sa_udpskt a) (sa_ipv4 a) (sa_sipuport a) (sa_indiagInter a)
              (sa_proxyserver a);
       Some (w, a)
     }"

abbreviation (input) EntityName :: string where "EntityName \<equiv> ''MT-Tools''"

definition greeting :: "string option" where
  "greeting = LogInfo LTSystem (''Welcome to '' @ B2BUANameVersion @ '' - Product of '' @ ASCIIPascal EntityName @ '' 2025'')"

definition ratelimitStringer :: "int \<Rightarrow> string" where
  "ratelimitStringer rt =
     (if rt = - 1 then ''Unlimited CAPS'' else if rt = 0 then ''No Calls Allowed!'' else fmt_d rt @ '' CAPS'')"

text \<open>Whatever the environment holds, the ports and the interval are in their ranges.\<close>

lemma DefaultMinMax_bounds:
  assumes "sint minl \<le> sint d" "sint d \<le> sint maxl"
  shows "sint minl \<le> sint (fst (Str2IntDefaultMinMax s d minl maxl))
    \<and> sint (fst (Str2IntDefaultMinMax s d minl maxl)) \<le> sint maxl"
  using assms by (auto simp: Str2IntDefaultMinMax_def split: prod.split)

lemma checkArgs_bounds:
  assumes "checkArgs resolve v = Some a"
  shows "sa_sipuport a \<in> {5000..6000}" "sa_httpport a \<in> {80..9080}" "sa_kaInter a \<in> {5..9999999}"
  using assms DefaultMinMax_bounds [of "5000 :: u64" 5060 6000 "Getenv v ''sip_udp_port''"]
    DefaultMinMax_bounds [of "80 :: u64" 8080 9080 "Getenv v ''http_port''"]
    DefaultMinMax_bounds [of "5 :: u64" 60 9999999 "Getenv v ''ka_interval''"]
  by (auto simp: checkArgs_def bind_eq_Some_conv Let_def split_beta split: if_splits)

lemma main_start_reachable: "main_start e parse_ip ifaces listen rows v = Some (w, a) \<Longrightarrow> world_reachable w"
  by (auto simp: main_start_def bind_eq_Some_conv intro: world_reachable.started)

section \<open>Metrics\<close>

text \<open>
  The collectors are registered in the registry in this order; a gauge is known by its
  namespace, the product name without its version, and its name.
\<close>

datatype collector = GoCollector | ProcessCollector string | Gauge string string string

record Metrics =
  Registry :: "collector list"
  ConSessions_gauge :: collector
  Caps_gauge :: collector

definition NewMetrics :: "string \<Rightarrow> Metrics" where
  "NewMetrics ua0 =
     (let ua = hd (Split ua0 ''/'');
          caps = Gauge ua ''CallAttemptsPerSecond'' ''Shows current CAPS'';
          concurrentSessions = Gauge ua ''ConcurrentSessions'' ''Shows concurrent sessions active''
      in \<lparr>Registry = [GoCollector, ProcessCollector ua, caps, concurrentSessions],
          ConSessions_gauge = concurrentSessions, Caps_gauge = caps\<rparr>)"

lemma NewMetrics_product: "Caps_gauge (NewMetrics B2BUANameVersion) = Gauge ''SRGo'' ''CallAttemptsPerSecond'' ''Shows current CAPS''"
  by code_simp

section \<open>The web server\<close>

datatype handler = serveHome_h | serveSession_h | servePhone_h | serveStats_h | serveConfig_h | refreshConfig_h | metrics_h

text \<open>The patterns of the multiplexer: method, path and handler.\<close>

definition wireAPIPathHandlers :: "(string \<times> string \<times> handler) list" where
  "wireAPIPathHandlers =
     [(''GET'', ''/api/v1/session'', serveSession_h), (''GET'', ''/api/v1/phone'', servePhone_h),
      (''GET'', ''/api/v1/stats'', serveStats_h), (''GET'', ''/api/v1/config'', serveConfig_h),
      (''PATCH'', ''/api/v1/config'', refreshConfig_h), (''GET'', ''/metrics'', metrics_h),
      (''GET'', ''/'', serveHome_h)]"

record response =
  resp_status :: int
  resp_type :: string
  resp_body :: string

definition serveHome :: response where
  "serveHome = \<lparr>resp_status = 200, resp_type = [], resp_body = ''<h1>'' @ B2BUANameVersion @ '' API Webserver</h1>'' @ [CHR 10]\<rparr>"

text \<open>The sessions in the order in which the map is walked, which Go leaves open.\<close>

definition serveSession :: "(string list \<Rightarrow> string) \<Rightarrow> world \<Rightarrow> response" where
  "serveSession marshal w =
     \<lparr>resp_status = 200, resp_type = ''application/text'',
      resp_body = marshal (Summaries (\<lambda>i. SipSession_String (w_ss w i)) (w_Sessions w))\<rparr>"

definition BToMB :: "u64 \<Rightarrow> u64" where
  "BToMB b = b div 1000 div 1000"

record runtime_stats =
  rt_NumCPU :: int
  rt_NumGoroutine :: int
  rt_Alloc :: u64
  rt_Sys :: u64
  rt_NumGC :: u32

record stats =
  CPUCount :: int
  GoRoutinesCount :: int
  Alloc :: u64
  System :: u64
  GCCycles :: u32
  WaitGroupLength :: int
  SessionsCount :: int

definition serveStats :: "(stats \<Rightarrow> string) \<Rightarrow> runtime_stats \<Rightarrow> world \<Rightarrow> response" where
  "serveStats marshal rt w =
     \<lparr>resp_status = 200, resp_type = ''application/json'',
      resp_body = marshal \<lparr>CPUCount = rt_NumCPU rt, GoRoutinesCount = rt_NumGoroutine rt, Alloc = BToMB (rt_Alloc rt),
        System = BToMB (rt_Sys rt), GCCycles = rt_NumGC rt, WaitGroupLength = rt_NumCPU rt + 3,
        SessionsCount = int (Count (w_Sessions w))\<rparr>\<rparr>"

definition servePhone :: "(IPPhone list \<Rightarrow> string) \<Rightarrow> world \<Rightarrow> response" where
  "servePhone marshal w = \<lparr>resp_status = 200, resp_type = ''application/json'', resp_body = marshal (All (w_phones w))\<rparr>"

text \<open>With an application server there is no engine: its lock is behind a nil pointer, \<open>None\<close>.\<close>

definition serveConfig :: "(RoutingRecord list \<Rightarrow> string option) \<Rightarrow> world \<Rightarrow> response option" where
  "serveConfig marshal w =
     (if w_SkipAS w
      then Some (case marshal (w_routes w) of
             None \<Rightarrow> \<lparr>resp_status = 500, resp_type = ''text/plain; charset=utf-8'',
                      resp_body = ''Failed to marshal routing data'' @ [CHR 10]\<rparr>
           | Some d \<Rightarrow> \<lparr>resp_status = 200, resp_type = ''application/json'', resp_body = d\<rparr>)
      else None)"

text \<open>The number of sessions that the web server shows is at most the number ever made.\<close>

lemma SessionsCount_bound:
  assumes "world_reachable w"
  shows "Count (w_Sessions w) \<le> w_nss w"
proof -
  let ?m = "cm_map (w_Sessions w)"
  have k: "keys_ok w" using reachable_inv [OF assms] by (simp add: world_inv_def)
  then have dist: "distinct (map fst ?m)" by (simp add: keys_ok_def cm_wf_def go_map_wf_def)
  have key: "i < w_nss w \<and> CallID (w_ss w i) = ky" if "(ky, i) \<in> set ?m" for ky i
    using k that dist by (auto simp: keys_ok_def Load_def)
  have "inj_on snd (set ?m)"
  proof (rule inj_onI)
    fix x y assume *: "x \<in> set ?m" "y \<in> set ?m" "snd x = snd y"
    then have "(fst x, snd x) \<in> set ?m" "(fst y, snd x) \<in> set ?m" by (metis prod.collapse)+
    then have "fst x = fst y" using key by metis
    then show "x = y" using * by (simp add: prod_eq_iff)
  qed
  moreover have "snd ` set ?m \<subseteq> {..<w_nss w}" using key by auto
  ultimately have "card (set ?m) \<le> w_nss w" using card_inj_on_le [of snd "set ?m" "{..<w_nss w}"] by simp
  moreover have "card (set ?m) = length ?m" using dist by (simp add: distinct_map distinct_card)
  ultimately show ?thesis by (simp add: Count_def)
qed

end
