(* ===== verification/Call_Records.thy ===== *)
theory Call_Records
  imports Channels Params
begin

text \<open>
  The call records of \<open>cdr/fields.go\<close> and \<open>cdr/cdr.go\<close>: a call fills an instance, a map from
  fields to texts, and flushes it into a channel; the writer goroutine takes the maps from the
  channel and writes one line for each. An instance is flushed by reference, so the store of the
  maps is explicit. The clock's text, the renaming and the opening of the file come from outside.
\<close>

section \<open>The fields\<close>

type_synonym Field = string

definition getAllFields :: "Field list" where
  "getAllFields =
     [''callId'', ''callerNumber'', ''calledNumber'', ''translatedCallerNumber'', ''translatedCalledNumber'',
      ''callStartTime'', ''callEndTime'', ''durationSeconds'', ''callStatus'', ''callDirection'',
      ''callerLocation'', ''calleeLocation'', ''callerIp'', ''calleeIp'', ''codecUsed'', ''networkProvider'',
      ''cost'', ''currency'', ''callType'', ''callRecordingUrl'', ''terminationCause'', ''redirectionStatus'',
      ''roamingStatus'']"

definition Field_String :: "Field \<Rightarrow> string" where "Field_String f = f"

definition CastStringSlice :: "('a \<Rightarrow> string) \<Rightarrow> 'a list \<Rightarrow> string list" where
  "CastStringSlice str input = map str input"

definition stringfields :: "string list" where
  "stringfields = CastStringSlice Field_String getAllFields"

section \<open>Files\<close>

text \<open>
  \<open>mtime\<close> is the time stamp of a file left by an earlier run, if there is one. The result is the
  name the old file gets, if it could be renamed, and whether there is a file to write to.
\<close>

definition CDRFilename :: string where "CDRFilename = ''cdrs_current.txt''"

definition prepareCdrFiles :: "string option \<Rightarrow> (string \<Rightarrow> bool) \<Rightarrow> bool \<Rightarrow> string option \<times> bool" where
  "prepareCdrFiles mtime can_rename can_open =
     (case mtime of
        None \<Rightarrow> (None, can_open)
      | Some modtm \<Rightarrow>
          let (a, b, ok) = Cut CDRFilename ''current'';
              target = (if ok then a @ modtm @ b else CDRFilename)
          in if can_rename target then (Some target, can_open) else (None, False))"

section \<open>Records and their writer\<close>

record cdr =
  cdr_data :: "(Field \<rightharpoonup> string) list"
  cdr_pipe :: "nat list"
  cdr_lines :: "string list"

definition CdrBufferSize :: nat where "CdrBufferSize = 512"

text \<open>A started writer has written the names of the fields.\<close>

definition cdr_start :: cdr where
  "cdr_start = \<lparr>cdr_data = [], cdr_pipe = [], cdr_lines = [Join stringfields '';'']\<rparr>"

definition New_cdr :: "cdr \<Rightarrow> nat \<times> cdr" where
  "New_cdr c = (length (cdr_data c), c\<lparr>cdr_data := cdr_data c @ [Map.empty]\<rparr>)"

definition Set_cdr :: "nat \<Rightarrow> Field \<Rightarrow> string \<Rightarrow> cdr \<Rightarrow> cdr" where
  "Set_cdr i f v c = c\<lparr>cdr_data := (cdr_data c)[i := (cdr_data c ! i)(f \<mapsto> v)]\<rparr>"

definition Flush :: "nat \<Rightarrow> cdr \<Rightarrow> cdr option" where
  "Flush i c = map_option (\<lambda>q. c\<lparr>cdr_pipe := q\<rparr>) (chan_send CdrBufferSize i (cdr_pipe c))"

text \<open>A field that was not set is the empty text; the last separator is cut off.\<close>

definition cdr_line :: "(Field \<rightharpoonup> string) \<Rightarrow> string" where
  "cdr_line m = butlast (concat (map (\<lambda>f. (case m f of Some v \<Rightarrow> v | None \<Rightarrow> []) @ '';'') getAllFields))"

definition writeCDRs :: "cdr \<Rightarrow> (nat \<times> cdr) option" where
  "writeCDRs c =
     map_option (\<lambda>(i, q). (i, c\<lparr>cdr_pipe := q, cdr_lines := cdr_lines c @ [cdr_line (cdr_data c ! i)]\<rparr>))
       (chan_recv (cdr_pipe c))"

text \<open>What a call does besides: make an instance, or set a field of one.\<close>

fun fill :: "(nat \<times> Field \<times> string) option \<Rightarrow> cdr \<Rightarrow> cdr" where
  "fill None c = snd (New_cdr c)"
| "fill (Some (i, f, v)) c = Set_cdr i f v c"

interpretation records: channel Flush writeCDRs fill cdr_pipe CdrBufferSize
proof unfold_locales
  show "cdr_pipe (fill y s) = cdr_pipe s" for y s
    by (cases "(y, s)" rule: fill.cases) (simp_all add: New_cdr_def Set_cdr_def)
qed (auto simp: Flush_def writeCDRs_def chan_send_def chan_recv_def split: if_splits list.splits)

section \<open>Lemmas\<close>

lemma all_fields: "length getAllFields = 23" "distinct getAllFields"
  by (simp_all add: getAllFields_def)

lemma Join_butlast: "xs \<noteq> [] \<Longrightarrow> butlast (concat (map (\<lambda>x. x @ [c]) xs)) = Join xs [c]"
  by (induction xs rule: induct_list012) (simp_all add: butlast_append)

lemma cdr_line_Join:
  "cdr_line m = Join (map (\<lambda>f. case m f of Some v \<Rightarrow> v | None \<Rightarrow> []) getAllFields) '';''"
  using Join_butlast [of "map (\<lambda>f. case m f of Some v \<Rightarrow> v | None \<Rightarrow> []) getAllFields" "CHR '';''"]
  by (simp add: cdr_line_def comp_def getAllFields_def del: concat.simps)

text \<open>The old file is renamed away and never written over.\<close>

lemma prepare_renames:
  "prepareCdrFiles (Some modtm) ren True = (if ren (''cdrs_'' @ modtm @ ''.txt'') then (Some (''cdrs_'' @ modtm @ ''.txt''), True) else (None, False))"
proof -
  have "Cut CDRFilename ''current'' = (''cdrs_'', ''.txt'', True)" by code_simp
  then show ?thesis by (simp add: prepareCdrFiles_def Let_def)
qed

text \<open>How many lines there are, and what is written for a record that nobody touches any more.\<close>

lemma fill_lines: "cdr_lines (fill y c) = cdr_lines c"
  by (cases "(y, c)" rule: fill.cases) (simp_all add: New_cdr_def Set_cdr_def)

lemma run_lines:
  "chan_run Flush writeCDRs fill ops c = Some (got, c') \<Longrightarrow>
     \<exists>new. cdr_lines c' = cdr_lines c @ new \<and> length new = length got"
proof (induction ops arbitrary: c got rule: puts.induct)
  case (2 i ops)
  then obtain c1 where "Flush i c = Some c1" "chan_run Flush writeCDRs fill ops c1 = Some (got, c')"
    by (auto simp: bind_eq_Some_conv)
  with "2.IH" show ?case by (fastforce simp: Flush_def)
next
  case (3 ops)
  then obtain i c1 g where "writeCDRs c = Some (i, c1)" "chan_run Flush writeCDRs fill ops c1 = Some (g, c')"
    "got = i # g" by (auto simp: bind_eq_Some_conv)
  with "3.IH" show ?case by (fastforce simp: writeCDRs_def)
next
  case (4 y ops)
  then show ?case using "4.IH" [of "fill y c" got] by (simp add: fill_lines)
qed simp

text \<open>
  The writer writes one line for each record it takes, in the order in which the records were
  flushed, and at most 512 records wait; but a record waits as a reference: what a call sets
  after the flush and before the line is written is in the line.
\<close>

lemma call_records_in_order:
  assumes "chan_run Flush writeCDRs fill ops cdr_start = Some (got, c)"
  shows "puts ops = got @ cdr_pipe c" "length (cdr_pipe c) \<le> 512" "length (cdr_lines c) = 1 + length got"
  using records.run_fifo [OF assms] records.run_room [OF assms] run_lines [OF assms]
  by (auto simp: cdr_start_def CdrBufferSize_def)

lemma flushed_record_changes:
  "map_option (\<lambda>(_, c). last (cdr_lines c))
     (chan_run Flush writeCDRs fill
       [Other None, Other (Some (0, ''callId'', ''c1'')), Put 0, Other (Some (0, ''callId'', ''c2'')), Take] cdr_start)
   = Some (''c2'' @ replicate 22 (CHR '';''))"
  by code_simp

section \<open>Property\<close>

text \<open>A call record is written as one line that reads back: cut at its semicolons the line has
  23 columns, the n-th the value the record has for the n-th field or nothing, provided no value
  holds a semicolon; a value that does is not escaped and shifts the columns after it.\<close>

theorem call_record_round_trip:
  assumes "\<And>f v. m f = Some v \<Longrightarrow> CHR '';'' \<notin> set v"
  shows "length (Split (cdr_line m) '';'') = 23
    \<and> (\<forall>n < 23. Split (cdr_line m) '';'' ! n = (case m (getAllFields ! n) of Some v \<Rightarrow> v | None \<Rightarrow> []))"
proof -
  have "Split (cdr_line m) '';'' = map (\<lambda>f. case m f of Some v \<Rightarrow> v | None \<Rightarrow> []) getAllFields"
    unfolding cdr_line_Join by (rule Split_Join) (use assms in \<open>auto simp: getAllFields_def split: option.splits\<close>)
  then show ?thesis by (simp add: all_fields)
qed

theorem call_record_round_trip_witness:
  "length (Split (cdr_line [''callId'' \<mapsto> ''c1'', ''cost'' \<mapsto> ''5'']) '';'') = 23
    \<and> Split (cdr_line [''callId'' \<mapsto> ''c1'', ''cost'' \<mapsto> ''5'']) '';'' ! 16 = ''5''"
proof -
  let ?m = "[''callId'' \<mapsto> ''c1'', ''cost'' \<mapsto> ''5''] :: Field \<rightharpoonup> string"
  have nosep: "CHR '';'' \<notin> set v" if "?m f = Some v" for f v using that by (auto split: if_splits)
  have "length (Split (cdr_line ?m) '';'') = 23
    \<and> (\<forall>n < 23. Split (cdr_line ?m) '';'' ! n = (case ?m (getAllFields ! n) of Some v \<Rightarrow> v | None \<Rightarrow> []))"
    by (rule call_record_round_trip) (rule nosep)
  then have *: "length (Split (cdr_line ?m) '';'') = 23"
    "\<forall>n < 23. Split (cdr_line ?m) '';'' ! n = (case ?m (getAllFields ! n) of Some v \<Rightarrow> v | None \<Rightarrow> [])"
    by blast+
  have "getAllFields ! 16 = ''cost''" by (simp add: getAllFields_def)
  with * show ?thesis by simp
qed

end
