(* ===== verification/Helpers.thy ===== *)
theory Helpers
  imports Packet_Loop
begin

text \<open>
  The helpers and accessors that the modelled handlers do not need: conversions of
  \<open>global/support.go\<close>, the outside number translation, and the readers, writers and texts of the
  sessions, user agents, phones and the routing engine. The lemmas say how they relate to the
  operations of the other theories.
\<close>

section \<open>Bytes and collections\<close>

text \<open>The loops that write a slice in place, position by position.\<close>

definition ASCIIToLowerInPlace :: "string \<Rightarrow> string" where
  "ASCIIToLowerInPlace s = foldl (\<lambda>t i. t[i := lower_byte (t ! i)]) s [0..<length s]"

definition Map_go :: "'b \<Rightarrow> ('a \<Rightarrow> 'b) \<Rightarrow> 'a list \<Rightarrow> 'b list" where
  "Map_go zero mapper xs = foldl (\<lambda>o1 (i, x). o1[i := mapper x]) (replicate (length xs) zero) (enumerate 0 xs)"

definition Filter_go :: "('a \<Rightarrow> bool) \<Rightarrow> 'a list \<Rightarrow> 'a list" where
  "Filter_go p items = foldl (\<lambda>result x. if p x then result @ [x] else result) [] items"

definition FirstValue :: "'k \<Rightarrow> 'v \<Rightarrow> ('k \<times> 'v) list \<Rightarrow> 'v" where
  "FirstValue zk zv m = snd (FirstKeyValue zk zv m)"

definition GetNextIndex :: "string \<Rightarrow> string \<Rightarrow> int" where
  "GetNextIndex pdu mark = (case IndexOf pdu mark of Some i \<Rightarrow> int i | None \<Rightarrow> - 1)"

definition StringToBytes :: "string \<Rightarrow> string" where "StringToBytes input = input"

definition hexdigits :: string where "hexdigits = ''0123456789abcdef''"

definition BytesToHexString :: "string \<Rightarrow> string" where
  "BytesToHexString data = concat (map (\<lambda>c. [hexdigits ! (byte_of c div 16), hexdigits ! (byte_of c mod 16)]) data)"

definition StringToHexString :: "string \<Rightarrow> string" where
  "StringToHexString input = BytesToHexString (StringToBytes input)"

text \<open>The standard encoding of bytes with 64 digits: three bytes make four digits.\<close>

definition base64digit :: "nat \<Rightarrow> char" where
  "base64digit n = (''ABCDEFGHIJKLMNOPQRSTUVWXYZabcdefghijklmnopqrstuvwxyz0123456789+/'') ! (n mod 64)"

fun BytesToBase64String :: "string \<Rightarrow> string" where
  "BytesToBase64String [] = []"
| "BytesToBase64String [a] = (let n = byte_of a * 65536 in [base64digit (n div 262144), base64digit (n div 4096)] @ ''=='')"
| "BytesToBase64String [a, b] = (let n = byte_of a * 65536 + byte_of b * 256 in
     [base64digit (n div 262144), base64digit (n div 4096), base64digit (n div 64)] @ ''='')"
| "BytesToBase64String (a # b # c # cs) = (let n = byte_of a * 65536 + byte_of b * 256 + byte_of c in
     [base64digit (n div 262144), base64digit (n div 4096), base64digit (n div 64), base64digit n] @ BytesToBase64String cs)"

definition Any_go :: "('a \<Rightarrow> bool) \<Rightarrow> 'a list \<Rightarrow> bool" where
  "Any_go predicate items \<longleftrightarrow> list_ex predicate items"

definition InternalMap :: "SipHeaders \<Rightarrow> SipHeaders" where "InternalMap headers = headers"

text \<open>The layouts of the time library.\<close>

primrec DicTFs :: "timeFormat \<Rightarrow> string" where
  "DicTFs Signaling_tf = ''Mon, 02 Jan 2006 15:04:05 GMT''"
| "DicTFs Tracing_tf = ''02-Jan-2006 15:04:05.000 GMT''"
| "DicTFs Version_tf = ''Monday 2-Jan-2006 15:04:05 GMT''"
| "DicTFs DateOnly_tf = ''2-Jan-2006 GMT''"
| "DicTFs TimeOnly_tf = ''15:04''"
| "DicTFs DateTimeOnly_tf = ''2-Jan-2006 15:04 GMT''"
| "DicTFs Session_tf = ''15:04:05 2-Jan-2006 GMT''"
| "DicTFs HTML_tf = ''2006-01-02T15:04:05Z''"
| "DicTFs DateTimeLocal_tf = ''2006-01-02T15:04''"
| "DicTFs JsonDateTime_tf = ''2006-01-02T15:04:05Z''"
| "DicTFs JsonDateTimeMS_tf = ''2006-01-02T15:04:05.000Z''"
| "DicTFs HTMLDateOnly_tf = ''2006-01-02''"
| "DicTFs SimpleDT_tf = ''2006-01-02 15:04:05''"
| "DicTFs CDRTimestamp_tf = ''20060102_150405''"

lemma base64_length: "length (BytesToBase64String s) = 4 * ((length s + 2) div 3)"
  by (induction s rule: BytesToBase64String.induct) (simp_all add: Let_def, presburger)

text \<open>The hash is a library function.\<close>

definition HashSDPBytes :: "(string \<Rightarrow> string) \<Rightarrow> string \<Rightarrow> string" where
  "HashSDPBytes sha256 data = BytesToHexString (sha256 data)"

definition GetAbsolutePath :: "string option \<Rightarrow> string \<Rightarrow> string option" where
  "GetAbsolutePath wd relativePath = map_option (\<lambda>d. d @ ''/'' @ relativePath) wd"

lemma byte_of_div_mod: "byte_of c div 16 < 16" "byte_of c mod 16 < 16"
  by (simp_all add: byte_of_def less_mult_imp_div_less)

lemma in_place_prefix:
  "n \<le> length s \<Longrightarrow>
     foldl (\<lambda>t i. t[i := lower_byte (t ! i)]) s [0..<n] = map lower_byte (take n s) @ drop n s"
proof (induction n)
  case (Suc n)
  then have "(map lower_byte (take n s) @ drop n s) ! n = s ! n" by (simp add: nth_append)
  with Suc show ?case
    by (simp add: list_update_append take_Suc_conv_app_nth Cons_nth_drop_Suc [symmetric])
qed simp

lemma ASCIIToLowerInPlace_eq: "ASCIIToLowerInPlace s = ASCIIToLower s"
  using in_place_prefix [of "length s" s] by (simp add: ASCIIToLowerInPlace_def ASCIIToLower_def)

lemma Map_go_prefix:
  "length xs \<le> length o1 \<Longrightarrow> foldl (\<lambda>o1 (i, x). o1[i := f x]) (ys @ o1) (enumerate (length ys) xs)
     = ys @ map f xs @ drop (length xs) o1"
proof (induction xs arbitrary: ys o1)
  case (Cons x xs)
  then obtain z zs where "o1 = z # zs" by (cases o1) auto
  with Cons.IH [of zs "ys @ [f x]"] Cons.prems show ?case by simp
qed simp

lemma Map_go_eq: "Map_go zero f xs = map f xs"
  using Map_go_prefix [of xs "replicate (length xs) zero" f "[]"] by (simp add: Map_go_def)

lemma Filter_go_eq: "Filter_go p xs = filter p xs"
proof -
  have "foldl (\<lambda>result x. if p x then result @ [x] else result) ys xs = ys @ filter p xs" for ys
    by (induction xs arbitrary: ys) simp_all
  from this [of "[]"] show ?thesis by (simp add: Filter_go_def)
qed

lemma hexdigits_inj: "i < 16 \<Longrightarrow> j < 16 \<Longrightarrow> hexdigits ! i = hexdigits ! j \<longleftrightarrow> i = j"
  by (rule nth_eq_iff_index_eq) (simp_all add: hexdigits_def)

lemma BytesToHexString_inj: "BytesToHexString s = BytesToHexString t \<longleftrightarrow> s = t"
proof (induction s arbitrary: t)
  case Nil
  then show ?case by (cases t) (simp_all add: BytesToHexString_def)
next
  case (Cons c s)
  show ?case
  proof (cases t)
    case (Cons d t')
    have "byte_of c = byte_of d \<longleftrightarrow> byte_of c div 16 = byte_of d div 16 \<and> byte_of c mod 16 = byte_of d mod 16"
      by (metis div_mult_mod_eq)
    moreover have "byte_of c = byte_of d \<longleftrightarrow> c = d" by (simp add: byte_of_def)
    ultimately show ?thesis using Cons.IH [of t'] Cons
      by (simp add: BytesToHexString_def hexdigits_inj byte_of_div_mod)
  qed (simp add: BytesToHexString_def)
qed

section \<open>Number translation by an outside pattern\<close>

text \<open>Compiling a pattern's text is the library's; \<open>None\<close> is a text that does not compile.\<close>

definition TranslateResult :: "string list \<Rightarrow> string \<Rightarrow> string" where
  "TranslateResult matches trns = expand matches trns"

definition TranslateExternal :: "(string \<Rightarrow> re option) \<Rightarrow> string \<Rightarrow> string \<Rightarrow> string \<Rightarrow> string \<times> bool" where
  "TranslateExternal compile input rgxstring trns =
     (case compile rgxstring of
        None \<Rightarrow> ([], False)
      | Some rgx \<Rightarrow>
          (case FindStringSubmatch rgx input of
             [] \<Rightarrow> ([], False)
           | g # gs \<Rightarrow> (TranslateResult (g # gs) trns, True)))"

definition DropOptionTag :: "(string \<Rightarrow> re option) \<Rightarrow> string \<Rightarrow> string \<Rightarrow> string" where
  "DropOptionTag compile input optionTag =
     (case compile (''(^'' @ [CHR 92] @ ''s*'' @ optionTag @ [CHR 92] @ ''s*,?'' @ [CHR 92] @ ''s*|''
         @ [CHR 92] @ ''s*,'' @ [CHR 92] @ ''s*'' @ optionTag @ '')'') of
        None \<Rightarrow> input
      | Some rgx \<Rightarrow> ReplaceAllString rgx input [])"

text \<open>The outside translation accepts more than the pattern of a route: it also takes a match
  whose translation is empty.\<close>

lemma TranslateExternal_Pattern:
  assumes "compile rgxstring = Some rgx" "snd (TranslatePattern input rgx trns)"
  shows "TranslateExternal compile input rgxstring trns = TranslatePattern input rgx trns"
  using assms by (auto simp: TranslateExternal_def TranslatePattern_def TranslateResult_def Let_def split: list.splits)

lemma TranslateExternal_empty:
  assumes "compile rgxstring = Some rgx" "TranslateExternal compile input rgxstring trns = (t, True)"
    "\<not> snd (TranslatePattern input rgx trns)"
  shows "t = [] \<and> trns \<noteq> []"
  using assms
  by (cases "FindStringSubmatch rgx input") (auto simp: TranslateExternal_def TranslatePattern_def TranslateResult_def expand.simps [of _ "[]"])

section \<open>Sockets, user agents, phones\<close>

definition GetUDPAddrFromConn :: "UDPAddr \<Rightarrow> UDPAddr" where "GetUDPAddrFromConn conn = conn"
definition GetUDPortFromConn :: "UDPAddr \<Rightarrow> int" where "GetUDPortFromConn conn = Port conn"
definition GetUDPIPPortFromConn :: "UDPAddr \<Rightarrow> string \<times> int" where "GetUDPIPPortFromConn conn = (IP conn, Port conn)"

definition UDPAddr_of_socket :: "UdpSocket \<Rightarrow> UDPAddr option" where "UDPAddr_of_socket us = addr us"

definition IsAlive :: "SipUdpUserAgent \<Rightarrow> bool" where "IsAlive ua = isAlive ua"
definition GetUDPSocket :: "SipUdpUserAgent \<Rightarrow> UdpSocket option" where "GetUDPSocket ua = udpSkt ua"

definition fmt_t :: "bool \<Rightarrow> string" where "fmt_t b = (if b then ''true'' else ''false'')"

text \<open>\<open>None\<close> is the panic of an agent whose socket is missing.\<close>

definition SipUdpUserAgent_String :: "SipUdpUserAgent \<Rightarrow> string option" where
  "SipUdpUserAgent_String ua =
     map_option (\<lambda>us. ''UDPAddr: '' @ UdpSocket_String us @ '', IsAlive: '' @ fmt_t (isAlive ua)) (udpSkt ua)"

definition IPPhone_String :: "SipUdpUserAgent list \<Rightarrow> IPPhone \<Rightarrow> string option" where
  "IPPhone_String uas p =
     (let s = ''Extension: '' @ Extension p @ '', RURI: '' @ RURI p @ '', IsRegistered: '' @ fmt_t (IsRegistered p)
      in case UA p of
           None \<Rightarrow> Some s
         | Some u \<Rightarrow> map_option (\<lambda>t. s @ '', '' @ t) (SipUdpUserAgent_String (uas ! u)))"

definition SetUA :: "nat option \<Rightarrow> IPPhone \<Rightarrow> IPPhone" where "SetUA ua p = p\<lparr>UA := ua\<rparr>"
definition GetUA :: "IPPhone \<Rightarrow> nat option" where "GetUA p = UA p"

section \<open>The routing engine\<close>

definition NewRoutingEngine :: "RoutingRecord list" where "NewRoutingEngine = []"

definition MarshalJSON :: "(RoutingRecord list \<Rightarrow> string) \<Rightarrow> RoutingRecord list \<Rightarrow> string" where
  "MarshalJSON marshal routings = marshal routings"

section \<open>Sessions\<close>

definition RemoteUDP :: "ss_id \<Rightarrow> UDPAddr option go" where "RemoteUDP i = asks (\<lambda>w. remoteUDP (w_ss w i))"
definition SetRemoteUDP :: "ss_id \<Rightarrow> UDPAddr option \<Rightarrow> unit go" where
  "SetRemoteUDP i rmt = upd_ss i (\<lambda>s. s\<lparr>remoteUDP := rmt\<rparr>)"
definition UDPListenser :: "ss_id \<Rightarrow> UDPAddr option go" where "UDPListenser i = asks (\<lambda>w. udpListenser (w_ss w i))"
definition SetUDPListenser :: "ss_id \<Rightarrow> UDPAddr option \<Rightarrow> unit go" where
  "SetUDPListenser i cn = upd_ss i (\<lambda>s. s\<lparr>udpListenser := cn\<rparr>)"
definition SetReceived18xSDP :: "ss_id \<Rightarrow> unit go" where
  "SetReceived18xSDP i = upd_ss i (\<lambda>s. s\<lparr>received18xSDP := True\<rparr>)"
definition Received18xSDP :: "ss_id \<Rightarrow> bool go" where "Received18xSDP i = asks (\<lambda>w. received18xSDP (w_ss w i))"
definition GetState :: "ss_id \<Rightarrow> SessionState go" where "GetState i = asks (\<lambda>w. ss_state (w_ss w i))"
definition IsLinked :: "ss_id \<Rightarrow> bool go" where "IsLinked i = asks (\<lambda>w. LinkedSession (w_ss w i) \<noteq> None)"

definition ExceedCondition :: "ss_id \<Rightarrow> bool go" where
  "ExceedCondition i = do {
     s \<leftarrow> get_ss i;
     if Direction_ss s = INBOUND then do {
       l \<leftarrow> asks w_limiter;
       act (\<lambda>w. w\<lparr>w_limiter := snd (AcceptNewCall l)\<rparr>);
       ret (\<not> fst (AcceptNewCall l))
     } else ret False
   }"

lemma store_then_exceed:
  "store_session callID i = do { act (\<lambda>w. w\<lparr>w_Sessions := Store callID i (w_Sessions w)\<rparr>); ExceedCondition i }"
  by (simp add: store_session_def ExceedCondition_def)

definition GetLastUnACKedInvSYNC :: "ss_id \<Rightarrow> Direction \<Rightarrow> tx_id option go" where
  "GetLastUnACKedInvSYNC i dir = asks (GetLastUnACKedINV i dir)"

lemma SetRemoteUDPnListenser_both:
  "SetRemoteUDPnListenser i rmt cn = do { SetRemoteUDP i rmt; SetUDPListenser i cn }"
  by (simp add: SetRemoteUDPnListenser_def SetRemoteUDP_def SetUDPListenser_def upd_ss_def act_def bind_def
      fun_eq_iff State_Monad.bind_def)

end
