(* ===== verification/Spec2Isabelle.thy ===== *)
theory Spec2Isabelle
  imports Load_Share Call_End Workers Media_Relay Service Call_Records Helpers
begin

text \<open>
  Verification of the Session Router, a SIP back-to-back user agent in Go: it receives INVITEs over
  UDP, chooses a destination by its routing table, its registered phones or an external
  application server, makes a second call leg there and relays what the two sides say.

  \<^bold>\<open>The program.\<close> One goroutine reads datagrams into a channel (\<open>udpLoopWorkers\<close>), workers take them
  out and read SIP messages (\<open>processPacket\<close>, \<open>processPDU\<close>), find or make the session of a message
  (\<open>sessionGetter\<close>) and run the stack (\<open>sipStack\<close>), which notes the message in a transaction, answers
  it, routes a new call (\<open>RouteRequestInternal\<close>, \<open>RouteRequestExternal\<close>) and passes requests and
  responses of a call on to the linked session. Timers send messages again, give up, end calls
  without an answer, probe and drop. Sessions are in a map by Call-ID; a rate limiter, a pool of
  media ports, the registered phones, the routing table and the gauges are shared by all of it.
  Media packets are moved by goroutines of their own; a web server shows and reloads the state;
  call records are lines that a writer goroutine appends to a file.

  \<^bold>\<open>The theories and the code.\<close>
  \<^item> \<open>SR_Prelude\<close>, \<open>Go_Lib\<close>: machine types, lemma collections, association lists; what is used of
    Go's \<open>strings\<close>, \<open>bytes\<close> and \<open>utf8\<close>.
  \<^item> \<open>Enums\<close>: \<open>global/enums.go\<close>, the tables of \<open>global/variables.go\<close>, \<open>sip/status\<close>, \<open>q850\<close>, \<open>sip/mode\<close>,
    \<open>numtype\<close>. \<open>Support\<close>, \<open>Params\<close>, \<open>Regex\<close>, \<open>Net_Addr\<close>, \<open>Load_Share\<close>, \<open>Helpers\<close>: \<open>global/support.go\<close>,
    \<open>global/types.go\<close>, \<open>global/loadshare.go\<close>, the patterns of \<open>global/variables.go\<close> as terms of a
    backtracking matcher.
  \<^item> \<open>Session_State\<close>, \<open>Stores\<close>, \<open>Limiter_Pool\<close>, \<open>Routing_DB\<close>: \<open>sip/state\<close>, \<open>sip/syncMapMutex.go\<close>, \<open>phone\<close>,
    \<open>cl\<close>, \<open>sip/mediapool.go\<close>, \<open>sip/routingdata.go\<close>.
  \<^item> \<open>Sip_Headers\<close>, \<open>Sip_Message\<close>, \<open>Sip_Bytes\<close>, \<open>Sip_Parser\<close>: \<open>sip/headers.go\<close>, \<open>sip/startline.go\<close>, \<open>sip/body.go\<close>,
    \<open>sip/message.go\<close>, \<open>processPDU\<close> of \<open>sip/stack.go\<close>.
  \<^item> \<open>World\<close>, \<open>Sip_Transaction\<close>, \<open>Sip_Session\<close>, \<open>Sip_Responses\<close>, \<open>Sip_Requests\<close>, \<open>Session_Ops\<close>,
    \<open>Routing_Ops\<close>, \<open>Sip_Stack\<close>, \<open>Start_Up\<close>: the state and the handlers, that is \<open>sip/transaction.go\<close>,
    \<open>sip/session.go\<close>, \<open>sip/sessionHelper.go\<close>, \<open>sip/sessionResponses.go\<close>, \<open>sip/sessionRequests.go\<close>,
    \<open>sip/routing.go\<close>, \<open>sip/stack.go\<close>, \<open>StartServer\<close> of \<open>sip/init.go\<close>, \<open>guid\<close>.
  \<^item> \<open>Packet_Loop\<close>, \<open>Channels\<close>, \<open>Workers\<close>: \<open>processPacket\<close> and the goroutines of \<open>sip/init.go\<close>.
    \<open>Media_Relay\<close>: those of \<open>sip/routing.go\<close>. \<open>Call_Records\<close>: \<open>cdr\<close>. \<open>Service\<close>: \<open>main.go\<close>, \<open>webserver\<close>,
    \<open>prometheus\<close>, logs and telephone events.
  \<^item> \<open>Frames\<close>, \<open>Invariants\<close>, \<open>Answers\<close>, \<open>Call_Flows\<close>, \<open>Routing_Flow\<close>, \<open>Answer_Relay\<close>, \<open>Call_Setup\<close>,
    \<open>Call_End\<close>: lemmas about the handlers, and \<open>Sample\<close>, a concrete router and call to apply them to.

  \<^bold>\<open>The state.\<close> Sessions, transactions, messages and bodies are Go objects shared by pointer: the
  record \<open>world\<close> has a store for each kind, from numbers to records, with the next free number, so
  that aliasing is that of the code. The record also has the session map, limiter, phones, ports,
  routes, the datagrams sent (\<open>w_out\<close>), what is due later and the panic flag. A handler is a
  computation of \<open>State_Monad\<close> over the world. A panic, a nil pointer or an index out of range
  among them, sets the flag, after which nothing happens until a deferred recovery clears it
  (\<open>protect\<close>). Errors are \<open>option\<close> or sum values; sized integers are words.

  \<^bold>\<open>Panics.\<close> \<open>LogCallStack\<close> calls \<open>recover\<close>, which stops a panic only in a function that is itself
  deferred. It is deferred itself in \<open>sessionGetter\<close>, \<open>sipStack\<close> and the three routing functions
  \<open>RouteRequestExternal\<close>, \<open>RouteRequestInternal\<close> and \<open>RerouteRequest\<close>; there \<open>protect\<close> and \<open>session_of\<close>
  model it. In \<open>processPDU\<close>, \<open>HandleNSteerMedia\<close> and \<open>HandleEchoResponderMedia\<close> a deferred closure
  calls it, in vain: a panic there ends the process, as one in a timer's or the prober's goroutine
  does. Then the panic flag stays set (\<open>packet_loop\<close>, the event \<open>Unrecovered\<close>), no later event
  does anything and the workers stop (\<open>udpLoopWorkers\<close>, \<open>worker\<close>).

  \<^bold>\<open>The environment\<close> (record \<open>env\<close>) is a parameter: name service, SDP library, UUIDs, random
  numbers, dates, which binds succeed, the pattern compiler. Each is a function, of the number of
  the request where the answer may differ from one to the next. Nothing is assumed of them but
  what a property names: that the SDP library prints fewer than 10^10 bytes (\<open>short_sdp\<close>), where
  a body has to be sent.

  \<^bold>\<open>The lemmas.\<close>
  \<^item> \<open>Frames\<close> proves once, in locales, that every handler respects a relation between worlds that
    the primitive effects respect. \<open>Invariants\<close> interprets them: the histories only grow, and the
    invariant of the stores (session map and disposal agree, transactions are final exactly with a
    final response, live sessions hold different ports, tables are well formed) holds in every
    world that a started router reaches by any events (\<open>world_reachable\<close>).
  \<^item> \<open>Answers\<close> computes weakest preconditions and shows what a response is; \<open>Call_Flows\<close> has the
    handlers of BYE, CANCEL, ACK, refusals, duplicates and retransmissions; \<open>Call_Setup\<close>, over
    \<open>Routing_Flow\<close>, follows a received INVITE to the second leg's; \<open>Answer_Relay\<close> the answer or the
    refusal back; \<open>Call_End\<close> a received BYE to the release of both legs. \<open>Packet_Loop\<close> ties what is
    handled to the messages that a datagram holds for the parser (\<open>holds\<close>).
  \<^item> The interfaces are locales with the model's definitions as interpretations: \<open>header_map\<close>
    (headers as a map), \<open>kv_store\<close> (session map and phones), \<open>channel\<close> (packet queue and call
    records), \<open>media_loop\<close> (steering and echo), and those of \<open>Frames\<close>.
  \<^item> The other theories have the properties of one component: round trips of numbers and
    parameters, the template semantics of number translation, the first matching route, the
    limiter's rate, the pool's exclusiveness, the fairness of load sharing.

  \<^bold>\<open>Recursion.\<close> Only \<open>packet_loop\<close> is partial (\<open>partial_function (option)\<close>), since the code's loop may
  not end: it is proved to return when every message declares no negative length (and with how many
  messages at most), and an input on which it does not is exhibited. Everything else is total: the regular-expression matcher is
  structural in the pattern, with the length of the text bounding each repetition; the loops over
  a datagram's text recurse on what is left.

  \<^bold>\<open>Not modelled.\<close> Goroutines inside a handler: a packet, a timer or a tick is one step, so the locks
  of sessions and transactions do not appear, nor races between two workers on one call; a worker is one
  step of a datagram after the other. The two seconds that the echo responder sleeps are a later
  event (\<open>EchoDue\<close>), where the code blocks its worker. \<open>PrepareMessageBytes\<close> is the function without
  the order in which Go's map gives the P- headers. A body
  part of the code aliases the pooled packet buffer, here it is a copy. What the libraries do is a
  parameter: JSON, HTTP, Prometheus, the compiling of patterns, SDP, UUIDs, sockets and files.
  Progress printing is left out. \<open>_abnf/abnf.go\<close> is excluded by its build tag.
\<close>

end
